(* ===== verification/Prelude.thy ===== *)
theory Prelude
  imports Main "HOL-Library.Word"
begin

text \<open>
  The vocabulary every other theory of the development uses: C computations that may run into
  undefined behaviour, character buffers of a fixed size, the string routines of the C library and
  of GLib the sources call, decimal printing and reading, and generic facts on lists.

  A C function that cannot go wrong becomes a plain HOL function. A function whose execution can
  leave the C language (a write past a buffer, a null pointer read as a string, an aborted
  assertion, a second free) returns \<open>ub + 'a\<close>: \<open>Inl\<close> names what went wrong, \<open>Inr\<close> is the value.
\<close>

named_theorems cres_simps \<open>laws of sequencing C computations\<close>
named_theorems cstr_simps \<open>characterisation of the C string routines\<close>

subsection \<open>C computations with undefined behaviour\<close>

datatype ub =
    Buffer_Overflow   \<comment> \<open>a write past the end of an array\<close>
  | Out_Of_Bounds     \<comment> \<open>a read outside an array\<close>
  | Null_Deref        \<comment> \<open>a null pointer used as a string or object\<close>
  | Uninit_Read       \<comment> \<open>an indeterminate value is used\<close>
  | Double_Free       \<comment> \<open>an object released that is not (or no longer) allocated\<close>
  | Use_After_Free    \<comment> \<open>an object used after its release\<close>
  | Bad_Shift         \<comment> \<open>a shift by at least the width of the operand\<close>
  | Int_Overflow      \<comment> \<open>signed arithmetic out of range\<close>
  | Bad_Format        \<comment> \<open>a format directive with no argument of its type\<close>
  | Assert_Fail       \<comment> \<open>the process is aborted, by itself or by an assertion of a called library\<close>

type_synonym 'a cres = "ub + 'a"

definition cbind :: "'a cres \<Rightarrow> ('a \<Rightarrow> 'b cres) \<Rightarrow> 'b cres" where
  "cbind m f = (case m of Inl e \<Rightarrow> Inl e | Inr x \<Rightarrow> f x)"

lemma cbind_Inl [simp, cres_simps]: "cbind (Inl e) f = Inl e"
  by (simp add: cbind_def)

lemma cbind_Inr [simp, cres_simps]: "cbind (Inr x) f = f x"
  by (simp add: cbind_def)

lemma cbind_eq_Inr [cres_simps]: "cbind m f = Inr y \<longleftrightarrow> (\<exists>x. m = Inr x \<and> f x = Inr y)"
  by (cases m) auto

lemma cbind_eq_Inl [cres_simps]:
  "cbind m f = Inl e \<longleftrightarrow> m = Inl e \<or> (\<exists>x. m = Inr x \<and> f x = Inl e)"
  by (cases m) auto

lemma cbind_assoc [cres_simps]: "cbind (cbind m f) g = cbind m (\<lambda>x. cbind (f x) g)"
  by (cases m) auto

lemma cbind_InrE [elim]:
  assumes "cbind m f = Inr y" obtains x where "m = Inr x" and "f x = Inr y"
  using assms by (cases m) auto

lemma cbind_cong [fundef_cong]:
  "m = m' \<Longrightarrow> (\<And>x. m' = Inr x \<Longrightarrow> f x = f' x) \<Longrightarrow> cbind m f = cbind m' f'"
  by (cases m') auto

definition defined :: "'a cres \<Rightarrow> bool" where
  "defined m = (case m of Inl _ \<Rightarrow> False | Inr _ \<Rightarrow> True)"

lemma defined_simps [simp]: "defined (Inr x)" "\<not> defined (Inl e)"
  by (simp_all add: defined_def)

lemma defined_iff: "defined m \<longleftrightarrow> (\<exists>x. m = Inr x)"
  by (cases m) simp_all

lemma defined_cbind [cres_simps]: "defined (cbind m f) \<longleftrightarrow> (\<exists>x. m = Inr x \<and> defined (f x))"
  by (cases m) simp_all

lemma definedI: "m = Inr x \<Longrightarrow> defined m"
  by simp

subsection \<open>C integers\<close>

text \<open>A C \<open>int\<close> is an \<open>int\<close> in the range of 32-bit two's complement.\<close>

definition int_range :: "int \<Rightarrow> bool" where
  "int_range n \<longleftrightarrow> - 2147483648 \<le> n \<and> n \<le> 2147483647"

definition to_int32 :: "int \<Rightarrow> int" where
  \<comment> \<open>conversion to \<open>int\<close>: the value modulo \<open>2 ^ 32\<close> in two's complement\<close>
  "to_int32 n = (n + 2147483648) mod 4294967296 - 2147483648"

lemma to_int32_id [simp]: "int_range n \<Longrightarrow> to_int32 n = n"
  by (simp add: int_range_def to_int32_def)

lemma to_int32_range: "int_range (to_int32 n)"
proof -
  have "0 \<le> (n + 2147483648) mod 4294967296" and "(n + 2147483648) mod 4294967296 < 4294967296"
    by simp_all
  then show ?thesis by (simp only: int_range_def to_int32_def) linarith
qed

definition c_sub :: "int \<Rightarrow> int \<Rightarrow> int cres" where
  \<comment> \<open>signed subtraction: undefined when the result does not fit\<close>
  "c_sub a b = (if int_range (a - b) then Inr (a - b) else Inl Int_Overflow)"

definition c_add :: "int \<Rightarrow> int \<Rightarrow> int cres" where
  "c_add a b = (if int_range (a + b) then Inr (a + b) else Inl Int_Overflow)"

definition c_div :: "int \<Rightarrow> int \<Rightarrow> int" where
  \<comment> \<open>C division truncates towards zero\<close>
  "c_div a b = sgn a * sgn b * (\<bar>a\<bar> div \<bar>b\<bar>)"

lemma c_div_nonneg: "0 \<le> a \<Longrightarrow> 0 < b \<Longrightarrow> c_div a b = a div b"
  by (cases "a = 0") (simp_all add: c_div_def)

subsection \<open>Strings and character buffers\<close>

abbreviation NUL :: char where "NUL \<equiv> CHR 0x00"
abbreviation newline :: char where "newline \<equiv> CHR 0x0A"

text \<open>A buffer is a list of characters as long as the array; the string it holds ends before its
  first NUL. A string alone (a value returned by a library) is a list with no NUL in it.\<close>

definition cstr :: "char list \<Rightarrow> string" where
  "cstr b = takeWhile (\<lambda>c. c \<noteq> NUL) b"

definition nul_free :: "string \<Rightarrow> bool" where
  "nul_free s \<longleftrightarrow> NUL \<notin> set s"

lemma nul_free_simps [simp]:
  "nul_free []" "nul_free (c # s) \<longleftrightarrow> c \<noteq> NUL \<and> nul_free s"
  "nul_free (s @ t) \<longleftrightarrow> nul_free s \<and> nul_free t"
  by (auto simp: nul_free_def)

lemma cstr_append_nul [cstr_simps]: "nul_free s \<Longrightarrow> cstr (s @ NUL # t) = s"
  by (induction s) (auto simp: cstr_def)

lemma cstr_nul_free [cstr_simps]: "nul_free s \<Longrightarrow> cstr s = s"
  by (induction s) (auto simp: cstr_def)

lemma cstr_append [cstr_simps]: "nul_free s \<Longrightarrow> cstr (s @ t) = s @ cstr t"
  by (induction s) (auto simp: cstr_def)

lemma nul_free_cstr [simp]: "nul_free (cstr b)"
  by (induction b) (auto simp: cstr_def)

lemma nul_free_take: "nul_free s \<Longrightarrow> nul_free (take n s)"
  by (auto simp: nul_free_def dest: in_set_takeD)

definition strncpy :: "char list \<Rightarrow> string \<Rightarrow> nat \<Rightarrow> char list" where
  \<comment> \<open>\<open>strncpy(b, s, n)\<close>: at most \<open>n\<close> characters of \<open>s\<close>, the rest of the \<open>n\<close> padded with NUL\<close>
  "strncpy b s n = take n (s @ replicate n NUL) @ drop n b"

lemma length_strncpy [simp]: "n \<le> length b \<Longrightarrow> length (strncpy b s n) = length b"
  by (simp add: strncpy_def)

definition put_at :: "char list \<Rightarrow> nat \<Rightarrow> char list \<Rightarrow> char list" where
  \<comment> \<open>bytes written into a buffer from an offset on\<close>
  "put_at b i s = take i b @ s @ drop (i + length s) b"

lemma length_put_at [simp]: "i + length s \<le> length b \<Longrightarrow> length (put_at b i s) = length b"
  by (simp add: put_at_def)

definition sprintf_into :: "nat \<Rightarrow> string \<Rightarrow> string cres" where
  \<comment> \<open>\<open>sprintf\<close> or \<open>strcpy\<close> of a text into an array of \<open>n\<close> characters\<close>
  "sprintf_into n s = (if length s < n then Inr s else Inl Buffer_Overflow)"

definition snprintf_into :: "nat \<Rightarrow> string \<Rightarrow> nat \<Rightarrow> string \<Rightarrow> string cres" where
  \<comment> \<open>\<open>snprintf(buf + off, lim, ...)\<close> after \<open>pre\<close> (of length \<open>off\<close>) was stored at the start of an
     array of \<open>cap\<close> characters: the text is cut to \<open>lim - 1\<close> characters and terminated\<close>
  "snprintf_into cap pre lim s =
     (let t = take (lim - 1) s in
      if length pre + length t < cap then Inr (pre @ t) else Inl Buffer_Overflow)"

definition g_strlcpy :: "string \<Rightarrow> nat \<Rightarrow> string" where
  \<comment> \<open>\<open>g_strlcpy(dst, src, n)\<close> for \<open>0 < n\<close>: the string left in \<open>dst\<close>\<close>
  "g_strlcpy src n = take (n - 1) src"

lemma sprintf_into_simps [cstr_simps]:
  "length s < n \<Longrightarrow> sprintf_into n s = Inr s"
  "n \<le> length s \<Longrightarrow> sprintf_into n s = Inl Buffer_Overflow"
  by (simp_all add: sprintf_into_def)

lemma sprintf_into_Inr [cres_simps]: "sprintf_into n s = Inr t \<longleftrightarrow> t = s \<and> length s < n"
  by (auto simp: sprintf_into_def)

lemma snprintf_into_fits [cstr_simps]:
  "length s < lim \<Longrightarrow> length pre + length s < cap \<Longrightarrow> snprintf_into cap pre lim s = Inr (pre @ s)"
  by (simp add: snprintf_into_def)

lemma snprintf_into_length: "snprintf_into cap pre lim s = Inr t \<Longrightarrow> length t < cap"
  by (auto simp: snprintf_into_def Let_def split: if_splits)

lemma length_g_strlcpy: "0 < n \<Longrightarrow> length (g_strlcpy s n) < n"
  by (simp add: g_strlcpy_def)

lemma g_strlcpy_id: "length s < n \<Longrightarrow> g_strlcpy s n = s"
  by (simp add: g_strlcpy_def)

fun strchr :: "char \<Rightarrow> string \<Rightarrow> nat option" where
  \<comment> \<open>the offset of the first occurrence\<close>
  "strchr c [] = None"
| "strchr c (x # xs) = (if x = c then Some 0 else map_option Suc (strchr c xs))"

lemma strchr_None [simp]: "strchr c s = None \<longleftrightarrow> c \<notin> set s"
  by (induction s) auto

lemma strchr_Some: "strchr c s = Some i \<longleftrightarrow> i < length s \<and> s ! i = c \<and> c \<notin> set (take i s)"
proof (induction s arbitrary: i)
  case Nil
  then show ?case by simp
next
  case (Cons x xs)
  then show ?case by (cases i) auto
qed

lemma strchr_append: "c \<notin> set s \<Longrightarrow> strchr c (s @ c # t) = Some (length s)"
  by (induction s) auto

text \<open>\<open>fgets(buf, n, f)\<close>, called until the end of the file: each call stores up to \<open>n - 1\<close>
  characters and stops after a newline.\<close>

fun fgets_take :: "nat \<Rightarrow> string \<Rightarrow> string \<times> string" where
  "fgets_take 0 s = ([], s)"
| "fgets_take (Suc k) [] = ([], [])"
| "fgets_take (Suc k) (c # s) =
     (if c = newline then ([c], s)
      else (let (l, r) = fgets_take k s in (c # l, r)))"

lemma fgets_take_append: "fgets_take k s = (l, r) \<Longrightarrow> s = l @ r"
  by (induction k s arbitrary: l r rule: fgets_take.induct) (auto split: if_splits prod.splits)

lemma fgets_take_length: "fgets_take k s = (l, r) \<Longrightarrow> length l \<le> k"
  by (induction k s arbitrary: l r rule: fgets_take.induct) (auto split: if_splits prod.splits)

lemma fgets_take_progress: "fgets_take (Suc k) (c # s) = (l, r) \<Longrightarrow> length r < length (c # s)"
proof -
  assume a: "fgets_take (Suc k) (c # s) = (l, r)"
  then have "l \<noteq> []" by (auto split: if_splits prod.splits)
  with fgets_take_append [OF a] show ?thesis by (metis length_append length_greater_0_conv less_add_same_cancel2)
qed

function fgets_lines :: "nat \<Rightarrow> string \<Rightarrow> string list" where
  "fgets_lines k [] = []"
| "fgets_lines 0 (c # s) = []"
| "fgets_lines (Suc k) (c # s) =
     (let (l, r) = fgets_take (Suc k) (c # s) in l # fgets_lines (Suc k) r)"
  by pat_completeness auto
termination
  by (relation "measure (\<lambda>(k, s). length s)") (auto dest!: fgets_take_progress [OF sym] simp del: fgets_take.simps)

lemma fgets_lines_concat: "concat (fgets_lines (Suc k) s) = s"
proof (induction "Suc k" s rule: fgets_lines.induct)
  case 1
  then show ?case by simp
next
  case (3 c s)
  obtain l r where lr: "fgets_take (Suc k) (c # s) = (l, r)" by (cases "fgets_take (Suc k) (c # s)")
  with 3 have "concat (fgets_lines (Suc k) r) = r" by simp
  moreover have "concat (fgets_lines (Suc k) (c # s)) = l @ concat (fgets_lines (Suc k) r)"
    by (simp only: fgets_lines.simps lr Let_def case_prod_conv) simp
  ultimately show ?case using fgets_take_append [OF lr] by metis
qed

lemma fgets_lines_length: "l \<in> set (fgets_lines k s) \<Longrightarrow> length l \<le> k"
proof (induction k s rule: fgets_lines.induct)
  case (3 k c s)
  obtain l' r where lr: "fgets_take (Suc k) (c # s) = (l', r)" by (cases "fgets_take (Suc k) (c # s)")
  with 3 fgets_take_length [OF lr] show ?case by (auto simp del: fgets_take.simps)
qed simp_all

subsection \<open>Decimal numbers\<close>

fun digits :: "nat \<Rightarrow> nat list" where
  "digits n = (if n < 10 then [n] else digits (n div 10) @ [n mod 10])"

declare digits.simps [simp del]

definition digit_char :: "nat \<Rightarrow> char" where
  "digit_char d = char_of (48 + d)"

definition char_digit :: "char \<Rightarrow> nat" where
  "char_digit c = of_char c - 48"

definition is_digit :: "char \<Rightarrow> bool" where
  "is_digit c \<longleftrightarrow> (48::nat) \<le> of_char c \<and> of_char c \<le> (57::nat)"

definition show_nat :: "nat \<Rightarrow> string" where
  "show_nat n = map digit_char (digits n)"

definition show_int :: "int \<Rightarrow> string" where
  \<comment> \<open>the text \<open>%d\<close> prints\<close>
  "show_int i = (if i < 0 then CHR ''-'' # show_nat (nat (- i)) else show_nat (nat i))"

fun atoi_digits :: "nat \<Rightarrow> string \<Rightarrow> nat" where
  "atoi_digits acc [] = acc"
| "atoi_digits acc (c # s) = (if is_digit c then atoi_digits (10 * acc + char_digit c) s else acc)"

definition is_space :: "char \<Rightarrow> bool" where
  "is_space c \<longleftrightarrow> c = CHR '' '' \<or> (9::nat) \<le> of_char c \<and> of_char c \<le> (13::nat)"

definition atoi :: "string \<Rightarrow> int" where
  \<comment> \<open>\<open>atoi\<close>: leading white space, an optional sign, decimal digits up to the first other character\<close>
  "atoi s =
     (case dropWhile is_space s of
        [] \<Rightarrow> 0
      | c # t \<Rightarrow>
          if c = CHR ''-'' then - int (atoi_digits 0 t)
          else if c = CHR ''+'' then int (atoi_digits 0 t)
          else int (atoi_digits 0 (c # t)))"

lemma digits_small: "d \<in> set (digits n) \<Longrightarrow> d < 10"
proof (induction n rule: digits.induct)
  case (1 n)
  then show ?case by (cases "n < 10") (auto simp: digits.simps [of n])
qed

lemma of_char_digit_char: "d < 10 \<Longrightarrow> (of_char (digit_char d) :: nat) = 48 + d"
  by (simp add: digit_char_def)

lemma is_digit_digit_char [simp]: "d < 10 \<Longrightarrow> is_digit (digit_char d)"
  by (simp add: is_digit_def of_char_digit_char)

lemma char_digit_digit_char [simp]: "d < 10 \<Longrightarrow> char_digit (digit_char d) = d"
  by (simp add: char_digit_def of_char_digit_char)

lemma atoi_digits_append:
  "\<forall>d\<in>set ds. d < 10 \<Longrightarrow>
   atoi_digits acc (map digit_char ds @ s) = atoi_digits (foldl (\<lambda>a d. 10 * a + d) acc ds) s"
  by (induction ds arbitrary: acc) auto

lemma foldl_digits: "foldl (\<lambda>a d. 10 * a + d) 0 (digits n) = n"
proof (induction n rule: digits.induct)
  case (1 n)
  then show ?case by (cases "n < 10") (auto simp: digits.simps [of n])
qed

lemma digits_nonempty: "digits n \<noteq> []"
  by (subst digits.simps) simp

lemma show_nat_digits: "\<forall>c\<in>set (show_nat n). is_digit c"
  by (auto simp: show_nat_def dest!: digits_small)

lemma show_nat_nonempty: "show_nat n \<noteq> []"
  by (simp add: show_nat_def digits_nonempty)

lemma is_digit_misc: "is_digit c \<Longrightarrow> \<not> is_space c \<and> c \<noteq> CHR ''-'' \<and> c \<noteq> CHR ''+'' \<and> c \<noteq> NUL"
  by (auto simp: is_digit_def is_space_def)

definition no_digit_head :: "string \<Rightarrow> bool" where
  "no_digit_head s \<longleftrightarrow> (case s of [] \<Rightarrow> True | c # _ \<Rightarrow> \<not> is_digit c)"

lemma atoi_digits_no_digit: "no_digit_head s \<Longrightarrow> atoi_digits acc s = acc"
  by (cases s) (auto simp: no_digit_head_def)

lemma atoi_digits_show_nat: "no_digit_head s \<Longrightarrow> atoi_digits 0 (show_nat n @ s) = n"
  using digits_small [of _ n]
  by (simp add: show_nat_def atoi_digits_append foldl_digits atoi_digits_no_digit)

lemma atoi_show_nat: "no_digit_head s \<Longrightarrow> atoi (show_nat n @ s) = int n"
proof -
  assume s: "no_digit_head s"
  obtain c t where ct: "show_nat n = c # t" by (cases "show_nat n") (auto simp: show_nat_nonempty)
  then have "is_digit c" using show_nat_digits [of n] by simp
  from is_digit_misc [OF this] have "atoi (show_nat n @ s) = int (atoi_digits 0 (show_nat n @ s))"
    by (simp add: atoi_def ct)
  with s show ?thesis by (simp add: atoi_digits_show_nat)
qed

lemma atoi_show_int [cstr_simps]: "no_digit_head s \<Longrightarrow> atoi (show_int i @ s) = i"
  by (auto simp: show_int_def atoi_show_nat) (simp add: atoi_def atoi_digits_show_nat is_space_def)

lemma nul_free_show_int [simp]: "nul_free (show_int i)"
  using show_nat_digits [of "nat i"] show_nat_digits [of "nat (- i)"]
  by (auto simp: show_int_def nul_free_def dest: is_digit_misc)

lemma length_digits_bound: "n < 10 ^ k \<Longrightarrow> 0 < k \<Longrightarrow> length (digits n) \<le> k"
proof (induction n arbitrary: k rule: digits.induct)
  case (1 n)
  show ?case
  proof (cases "n < 10")
    case True
    with 1 show ?thesis by (simp add: digits.simps [of n])
  next
    case False
    with "1.prems" obtain k' where k: "k = Suc k'" "0 < k'"
      by (cases k; cases "k - 1") auto
    with "1.prems"(1) have "n div 10 < 10 ^ k'" by simp
    with "1.IH" False k show ?thesis by (simp add: digits.simps [of n])
  qed
qed

lemma length_digits_lower: "10 ^ k \<le> n \<Longrightarrow> k < length (digits n)"
proof (induction n arbitrary: k rule: digits.induct)
  case (1 n)
  show ?case
  proof (cases "n < 10")
    case True
    have "k = 0"
    proof (rule ccontr)
      assume "k \<noteq> 0"
      then have "(10::nat) ^ 1 \<le> 10 ^ k" by (intro power_increasing) auto
      with True "1.prems" show False by simp
    qed
    with True show ?thesis by (simp add: digits.simps [of n])
  next
    case False
    show ?thesis
    proof (cases k)
      case 0
      then show ?thesis by (simp add: digits_nonempty)
    next
      case (Suc k')
      with "1.prems" have "10 ^ k' \<le> n div 10" by (simp add: less_eq_div_iff_mult_less_eq)
      with "1.IH" False Suc show ?thesis by (simp add: digits.simps [of n])
    qed
  qed
qed

lemma length_show_nat_bound: "n < 10 ^ k \<Longrightarrow> 0 < k \<Longrightarrow> length (show_nat n) \<le> k"
  by (simp add: show_nat_def length_digits_bound)

lemma length_show_nat_lower: "10 ^ k \<le> n \<Longrightarrow> k < length (show_nat n)"
  by (simp add: show_nat_def length_digits_lower)

text \<open>The same text computed on integers; evaluation uses this form.\<close>

function show_digits :: "int \<Rightarrow> string" where
  "show_digits i =
     (if i < 10 then [digit_char (nat i)] else show_digits (i div 10) @ [digit_char (nat (i mod 10))])"
  by pat_completeness auto
termination by (relation "measure nat") auto

declare show_digits.simps [simp del]

lemma show_digits_eq: "0 \<le> i \<Longrightarrow> show_digits i = show_nat (nat i)"
proof (induction i rule: show_digits.induct)
  case (1 i)
  have d: "nat (i div 10) = nat i div 10" "nat (i mod 10) = nat i mod 10"
    using 1 by (simp_all add: nat_div_distrib nat_mod_distrib)
  have "nat i < 10 \<longleftrightarrow> i < 10" using 1 by arith
  note d = d this
  show ?case
  proof (cases "i < 10")
    case True
    with 1 d show ?thesis by (subst show_digits.simps) (simp add: show_nat_def digits.simps [of "nat i"])
  next
    case False
    with 1 have "show_digits (i div 10) = show_nat (nat i div 10)" by (simp add: d(1))
    with False d(2,3) show ?thesis
      by (subst show_digits.simps, unfold show_nat_def, subst digits.simps) simp
  qed
qed

lemma show_int_code [code]:
  "show_int i = (if i < 0 then CHR ''-'' # show_digits (- i) else show_digits i)"
  by (simp add: show_int_def show_digits_eq)

subsection \<open>Formatted printing\<close>

datatype parg = PS string | PD int

fun cformat :: "string \<Rightarrow> parg list \<Rightarrow> string cres" where
  \<comment> \<open>the text of \<open>sprintf(fmt, args)\<close> for the directives \<open>%s\<close>, \<open>%d\<close> and \<open>%%\<close>; another directive or
     a missing argument is outside the language\<close>
  "cformat [] as = Inr []"
| "cformat [c] as = (if c = CHR ''%'' then Inl Bad_Format else Inr [c])"
| "cformat (c # d # f) as =
     (if c \<noteq> CHR ''%'' then cbind (cformat (d # f) as) (\<lambda>t. Inr (c # t))
      else if d = CHR ''%'' then cbind (cformat f as) (\<lambda>t. Inr (CHR ''%'' # t))
      else (case as of
              PS s # as' \<Rightarrow> if d = CHR ''s'' then cbind (cformat f as') (\<lambda>t. Inr (s @ t))
                           else Inl Bad_Format
            | PD i # as' \<Rightarrow> if d = CHR ''d'' then cbind (cformat f as') (\<lambda>t. Inr (show_int i @ t))
                           else Inl Bad_Format
            | [] \<Rightarrow> Inl Bad_Format))"

subsection \<open>Lists\<close>

definition swap :: "'a list \<Rightarrow> nat \<Rightarrow> nat \<Rightarrow> 'a list" where
  "swap xs i j = xs[i := xs ! j, j := xs ! i]"

lemma length_swap [simp]: "length (swap xs i j) = length xs"
  by (simp add: swap_def)

lemma nth_swap:
  "i < length xs \<Longrightarrow> j < length xs \<Longrightarrow> k < length xs \<Longrightarrow>
   swap xs i j ! k = (if k = j then xs ! i else if k = i then xs ! j else xs ! k)"
  by (simp add: swap_def nth_list_update)

lemma map_swap: "i < length xs \<Longrightarrow> j < length xs \<Longrightarrow> map f (swap xs i j) = swap (map f xs) i j"
  by (simp add: swap_def map_update)

end
