(* ===== verification/Pam_Base.thy ===== *)
theory Pam_Base
  imports Prelude
begin

text \<open>
  The data of the PAM module (\<open>misc/pam-module/common/common.h\<close>) and what surrounds it.

  \<^item> The structs \<open>AuthFactor\<close>, \<open>AuthSession\<close>, \<open>Limit\<close>, \<open>Pubkey\<close> and \<open>UserData\<close> are records with the
    fields of the C code. A pointer that may be null is an option; a pointer read before it was
    assigned needs a third value, so \<open>factors\<close> and \<open>factorOrder\<close> have the type \<open>ptr\<close>.
  \<^item> The code under \<open>src/\<close> calls libsystemd's sd-bus, json-c, OpenSSL, PAM, gettext and the kernel.
    None of them is modelled: their results are the fields of the records \<open>sdbus\<close>, \<open>jsonc\<close>,
    \<open>openssl\<close> and \<open>sysenv\<close>, arguments of every definition that calls them. What depends on time
    (a D-Bus reply, an answer of the conversation) is a function of the effects so far.
  \<^item> \<open>ud_hist\<close> is the list of the observable effects of the run, oldest first: D-Bus calls, messages
    shown, items set, and the results read from the bus. Logging is left out.
\<close>

subsection \<open>Constants\<close>

abbreviation (input) PAM_SUCCESS :: int where "PAM_SUCCESS \<equiv> 0"
abbreviation (input) PAM_AUTH_ERR :: int where "PAM_AUTH_ERR \<equiv> 7"
abbreviation (input) PAM_MAXTRIES :: int where "PAM_MAXTRIES \<equiv> 11"
abbreviation (input) PAM_IGNORE :: int where "PAM_IGNORE \<equiv> 25"
abbreviation (input) PAM_ABORT :: int where "PAM_ABORT \<equiv> 26"

abbreviation (input) PAM_PROMPT_ECHO_OFF :: int where "PAM_PROMPT_ECHO_OFF \<equiv> 1"
abbreviation (input) PAM_PROMPT_ECHO_ON :: int where "PAM_PROMPT_ECHO_ON \<equiv> 2"
abbreviation (input) PAM_ERROR_MSG :: int where "PAM_ERROR_MSG \<equiv> 3"
abbreviation (input) PAM_TEXT_INFO :: int where "PAM_TEXT_INFO \<equiv> 4"

abbreviation (input) MAX_BUF_SIZE :: nat where "MAX_BUF_SIZE \<equiv> 256"
abbreviation (input) LIMITS_BUF_SIZE :: nat where "LIMITS_BUF_SIZE \<equiv> 1024"
abbreviation (input) SUPPORT_AT_TYPE :: nat where "SUPPORT_AT_TYPE \<equiv> 7"

abbreviation (input) APP_VAL_LOGIN :: int where "APP_VAL_LOGIN \<equiv> 1"
abbreviation (input) APP_VAL_LOCK :: int where "APP_VAL_LOCK \<equiv> 2"
abbreviation (input) APP_VAL_AUTHORIZATION :: int where "APP_VAL_AUTHORIZATION \<equiv> 3"
abbreviation (input) APP_VAL_OTHER :: int where "APP_VAL_OTHER \<equiv> 4"

abbreviation (input) GET_RESULT_SUCCESS :: int where "GET_RESULT_SUCCESS \<equiv> 0"
abbreviation (input) GET_RESULT_FAIL :: int where "GET_RESULT_FAIL \<equiv> 1"
abbreviation (input) GET_RESULT_UNAVAILABLE :: int where "GET_RESULT_UNAVAILABLE \<equiv> 2"

abbreviation (input) EXPIRED_STATUS_EXPIRED_SOON :: int where "EXPIRED_STATUS_EXPIRED_SOON \<equiv> 1"

subsection \<open>Enumerations\<close>

text \<open>The enums travel over D-Bus as \<open>int\<close>, so the code compares integers; the enumerators are
  named constants here, and the datatypes give the sets of values the switches know.\<close>

datatype AuthenticateType =
  AT_Password | AT_Fingerprint | AT_Face | AT_ActiveDirectory | AT_Ukey | AT_FingerVein | AT_Iris

primrec at_flag :: "AuthenticateType \<Rightarrow> int" where
  "at_flag AT_Password = 1"
| "at_flag AT_Fingerprint = 2"
| "at_flag AT_Face = 4"
| "at_flag AT_ActiveDirectory = 8"
| "at_flag AT_Ukey = 16"
| "at_flag AT_FingerVein = 32"
| "at_flag AT_Iris = 64"

text \<open>The types are compared by their flags, as the enumeration numbers them.\<close>

lemma at_flag_inject [simp]: "at_flag t = at_flag u \<longleftrightarrow> t = u"
  by (cases t; cases u) simp_all

instantiation AuthenticateType :: linorder
begin

definition less_eq_AuthenticateType :: "AuthenticateType \<Rightarrow> AuthenticateType \<Rightarrow> bool" where
  "less_eq_AuthenticateType t u \<longleftrightarrow> at_flag t \<le> at_flag u"

definition less_AuthenticateType :: "AuthenticateType \<Rightarrow> AuthenticateType \<Rightarrow> bool" where
  "less_AuthenticateType t u \<longleftrightarrow> at_flag t < at_flag u"

instance
  by standard (auto simp: less_eq_AuthenticateType_def less_AuthenticateType_def)

end

instance AuthenticateType :: finite
proof
  have "(UNIV :: AuthenticateType set) \<subseteq>
      {AT_Password, AT_Fingerprint, AT_Face, AT_ActiveDirectory, AT_Ukey, AT_FingerVein, AT_Iris}"
    by (auto intro: AuthenticateType.exhaust)
  then show "finite (UNIV :: AuthenticateType set)" by (rule finite_subset) simp
qed

datatype AuthStutaCode =
  ASC_Success | ASC_Failure | ASC_Cancel | ASC_Timeout | ASC_Error | ASC_Verify | ASC_Expect
  | ASC_Prompt | ASC_Started | ASC_Ended

fun asc_of_int :: "int \<Rightarrow> AuthStutaCode option" where
  \<comment> \<open>the case label a \<open>switch\<close> over the received status code selects; none for another value\<close>
  "asc_of_int n =
     (if n = 0 then Some ASC_Success else if n = 1 then Some ASC_Failure
      else if n = 2 then Some ASC_Cancel else if n = 3 then Some ASC_Timeout
      else if n = 4 then Some ASC_Error else if n = 5 then Some ASC_Verify
      else if n = 6 then Some ASC_Expect else if n = 7 then Some ASC_Prompt
      else if n = 8 then Some ASC_Started else if n = 9 then Some ASC_Ended else None)"

abbreviation (input) IT_Keyboard :: int where "IT_Keyboard \<equiv> 1"
abbreviation (input) IT_Fingerprint :: int where "IT_Fingerprint \<equiv> 2"
abbreviation (input) AT_RSA :: int where "AT_RSA \<equiv> 0"

subsection \<open>Structs\<close>

datatype 'a ptr = Indeterminate | Null | Ptr 'a

record AuthFactor =
  af_authType :: int
  af_priority :: int
  af_inputType :: int
  af_required :: int

record AuthSession =
  as_isMFA :: int
  as_factorSize :: nat
  as_factorOrder :: "nat list ptr"
  as_factors :: "AuthFactor list ptr"

record Limit =
  maxTries :: int
  numFailures :: int
  locked :: bool
  unlockTime :: string

definition zero_limit :: Limit where
  "zero_limit = \<lparr>maxTries = 0, numFailures = 0, locked = False, unlockTime = []\<rparr>"

record 'k Pubkey =
  pk_algType :: int
  pk_flags :: "int list option"
  pk_pubkey :: "string option"
  pk_rsa :: "'k option"

subsection \<open>Effects\<close>

datatype bus_arg = Arg_s string | Arg_i int | Arg_ay "char list"

record bus_call =
  bc_service :: string
  bc_path :: string
  bc_iface :: string
  bc_member :: string
  bc_args :: "bus_arg list"

datatype effect =
    Bus_Call bus_call             \<comment> \<open>a blocking D-Bus method call\<close>
  | Bus_Async bus_call            \<comment> \<open>a call whose reply comes to a callback\<close>
  | Bus_Property bus_call         \<comment> \<open>a blocking read of a property\<close>
  | Bus_Match string              \<comment> \<open>the subscription to the Status signals of a session path\<close>
  | Bus_Close
  | Got_Status int int string     \<comment> \<open>a Status signal read: authType, code, message\<close>
  | Got_Result int                \<comment> \<open>the reply of GetResult read\<close>
  | Conv_Msg string int           \<comment> \<open>a message given to the conversation, with its style\<close>
  | Set_Authtok string            \<comment> \<open>\<open>pam_set_item(PAM_AUTHTOK)\<close>\<close>
  | Set_Data string string        \<comment> \<open>\<open>pam_set_data\<close> of a string\<close>
  | Env_Set string string         \<comment> \<open>\<open>setenv\<close>\<close>
  | Thread_Create
  | Thread_Cancel
  | Tty_Restore

text \<open>Where the token thread stands. \<open>T_Asked\<close>: the GetResult call for the path was sent, with its
  flag \<open>waiting_result\<close> not written yet; \<open>T_Wait\<close>: in the loop on \<open>waiting_result\<close>; \<open>T_Sent\<close>: the token
  was sent, and \<open>auth_tok\<close> is still to be set.\<close>

datatype thread_state =
    T_None
  | T_Prompt
  | T_Asked "string" "string option" "string"
  | T_Wait "string" "string option" "string"
  | T_Sent "string"
  | T_Exited

definition thread_alive :: "thread_state \<Rightarrow> bool" where
  "thread_alive t \<longleftrightarrow> t \<noteq> T_None \<and> t \<noteq> T_Exited"

subsection \<open>The per-authentication state\<close>

record 'k UserData =
  ud_bus :: bool                           \<comment> \<open>the bus pointer is not null\<close>
  ud_term :: bool                          \<comment> \<open>the saved terminal attributes are present\<close>
  ud_path :: string
  ud_username :: string
  ud_prompt :: string
  ud_auth_tok :: "string option"
  ud_pid :: bool                           \<comment> \<open>a thread id is stored\<close>
  ud_cur_type :: int
  ud_need_cancel :: bool
  ud_limits :: "Limit list"
  ud_failed_indexs :: "int list"
  ud_failed_num :: nat
  ud_auth_ctrl :: "AuthSession option"
  ud_res :: int
  ud_waiting_result :: int
  ud_get_result_val :: int
  ud_key :: "'k Pubkey option"
  ud_symmetric_key :: "string option"
  ud_thr :: thread_state
  ud_hist :: "effect list"

definition emit :: "effect \<Rightarrow> 'k UserData \<Rightarrow> 'k UserData" where
  "emit e ud = ud\<lparr>ud_hist := ud_hist ud @ [e]\<rparr>"

subsection \<open>What the module calls\<close>

record 'm sdbus =
  sd_open :: "effect list \<Rightarrow> int"
  sd_call :: "effect list \<Rightarrow> bus_call \<Rightarrow> int \<times> 'm"
  sd_get_property :: "effect list \<Rightarrow> bus_call \<Rightarrow> int \<times> 'm"
  sd_new_call :: "effect list \<Rightarrow> bus_call \<Rightarrow> int"
  sd_async :: "effect list \<Rightarrow> bus_call \<Rightarrow> int"
  sd_match :: "effect list \<Rightarrow> string \<Rightarrow> int"
  rd_s :: "'m \<Rightarrow> int \<times> string option \<times> 'm"
  rd_i :: "'m \<Rightarrow> int \<times> int \<times> 'm"
  rd_x :: "'m \<Rightarrow> int \<times> int \<times> 'm"
  rd_iis :: "'m \<Rightarrow> int \<times> int \<times> int \<times> string"
  rd_enter_array :: "'m \<Rightarrow> int \<times> 'm"
  rd_factor :: "'m \<Rightarrow> int \<times> AuthFactor \<times> 'm"
  rd_int_array :: "'m \<Rightarrow> int \<times> int list \<times> 'm"
  rd_type :: "'m \<Rightarrow> int \<times> int"
  msg_path :: "'m \<Rightarrow> string"

text \<open>json-c. A \<open>json_object\<close> pointer is an option of the abstract \<open>'j\<close>. \<open>parse_ex\<close> gives whether the
  tokener reports success, and the object; \<open>get_ex\<close> is \<open>None\<close> for the result false (the out
  parameter is then set to null); \<open>array_length\<close> is \<open>None\<close> where the library aborts.\<close>

record 'j jsonc =
  parse_ex :: "string \<Rightarrow> bool \<times> 'j option"
  get_ex :: "'j option \<Rightarrow> string \<Rightarrow> 'j option option"
  array_length :: "'j option \<Rightarrow> nat option"
  array_get_idx :: "'j option \<Rightarrow> nat \<Rightarrow> 'j option"
  get_int :: "'j option \<Rightarrow> int"
  get_boolean :: "'j option \<Rightarrow> bool"
  get_string :: "'j option \<Rightarrow> string option"
  get_string_len :: "'j option \<Rightarrow> nat"

definition get_or_null :: "'j jsonc \<Rightarrow> 'j option \<Rightarrow> string \<Rightarrow> 'j option" where
  \<comment> \<open>the out parameter after \<open>json_object_object_get_ex\<close>, the result not looked at\<close>
  "get_or_null J o' k = (case get_ex J o' k of None \<Rightarrow> None | Some v \<Rightarrow> v)"

record 'k openssl =
  bio_ok :: bool
  pem_read_pubkey :: "string \<Rightarrow> 'k option"
  pem_read_rsapublickey :: "string \<Rightarrow> 'k option"
  rsa_public_encrypt :: "'k \<Rightarrow> string \<Rightarrow> int \<times> char list"
  aes_set_encrypt_key :: "string \<Rightarrow> int \<Rightarrow> int"
  aes_set_decrypt_key :: "string \<Rightarrow> int \<Rightarrow> int"
  aes_cbc_enc :: "string \<Rightarrow> char list \<Rightarrow> char list \<Rightarrow> char list"
  aes_cbc_dec :: "string \<Rightarrow> char list \<Rightarrow> char list \<Rightarrow> char list"

text \<open>The answer to \<open>send_msg\<close>: no conversation item, a null conversation, an error of the
  conversation, or success with the response (whose text may be null).\<close>

datatype conv_answer = Conv_No_Item | Conv_Null | Conv_Error | Conv_Resp "string option option"

record sysenv =
  gettext :: "string \<Rightarrow> string"
  pam_conv :: "effect list \<Rightarrow> string \<Rightarrow> int \<Rightarrow> conv_answer"
  pam_user :: string
  pthread_create :: "effect list \<Rightarrow> int"
  now :: "effect list \<Rightarrow> int"
  gmtoff :: "int \<Rightarrow> int"
  rand_value :: "effect list \<Rightarrow> nat"
  pw_dir :: "string \<Rightarrow> string option"
  is_regular :: "string \<Rightarrow> bool"
  read_file :: "string \<Rightarrow> string option"
  readlink_exe :: "string option"
  stdin_tty :: bool
  tcgetattr_ok :: bool

record ('m, 'j, 'k) env =
  e_bus :: "'m sdbus"
  e_json :: "'j jsonc"
  e_ssl :: "'k openssl"
  e_sys :: sysenv

text \<open>The function is \<open>has_effect\<close> for the events a property looks for in a history.\<close>

definition has_effect :: "effect \<Rightarrow> 'k UserData \<Rightarrow> bool" where
  "has_effect e ud \<longleftrightarrow> e \<in> set (ud_hist ud)"

lemma has_effect_emit [simp]: "has_effect e (emit f ud) \<longleftrightarrow> e = f \<or> has_effect e ud"
  by (auto simp: has_effect_def emit_def)

text \<open>\<open>extends\<close>: a later state of the same run, whose history has the earlier one as a prefix.\<close>

definition extends :: "'k UserData \<Rightarrow> 'k UserData \<Rightarrow> bool" where
  "extends ud ud' \<longleftrightarrow> (\<exists>es. ud_hist ud' = ud_hist ud @ es)"

lemma extends_refl [simp, intro]: "extends ud ud"
  by (simp add: extends_def)

lemma extends_trans [trans]: "extends a b \<Longrightarrow> extends b c \<Longrightarrow> extends a c"
  by (auto simp: extends_def)

lemma extends_emit [simp, intro]: "extends ud (emit e ud)"
  by (auto simp: extends_def emit_def)

lemma extends_has_effect: "extends ud ud' \<Longrightarrow> has_effect e ud \<Longrightarrow> has_effect e ud'"
  by (auto simp: extends_def has_effect_def)

text \<open>What the module may take for a success.\<close>

definition verified :: "'k UserData \<Rightarrow> bool" where
  \<comment> \<open>the service said so: the overall success signal, or the result 0 of an asked session\<close>
  "verified ud \<longleftrightarrow> (\<exists>msg. has_effect (Got_Status (- 1) 0 msg) ud) \<or> has_effect (Got_Result 0) ud"

lemma verified_extends: "extends ud ud' \<Longrightarrow> verified ud \<Longrightarrow> verified ud'"
  by (auto simp: verified_def dest: extends_has_effect)

lemma emit_fields [simp]:
  "ud_bus (emit e ud) = ud_bus ud" "ud_term (emit e ud) = ud_term ud"
  "ud_path (emit e ud) = ud_path ud" "ud_username (emit e ud) = ud_username ud"
  "ud_prompt (emit e ud) = ud_prompt ud" "ud_auth_tok (emit e ud) = ud_auth_tok ud"
  "ud_pid (emit e ud) = ud_pid ud" "ud_cur_type (emit e ud) = ud_cur_type ud"
  "ud_need_cancel (emit e ud) = ud_need_cancel ud" "ud_limits (emit e ud) = ud_limits ud"
  "ud_failed_indexs (emit e ud) = ud_failed_indexs ud"
  "ud_failed_num (emit e ud) = ud_failed_num ud" "ud_auth_ctrl (emit e ud) = ud_auth_ctrl ud"
  "ud_res (emit e ud) = ud_res ud" "ud_waiting_result (emit e ud) = ud_waiting_result ud"
  "ud_get_result_val (emit e ud) = ud_get_result_val ud" "ud_key (emit e ud) = ud_key ud"
  "ud_symmetric_key (emit e ud) = ud_symmetric_key ud" "ud_thr (emit e ud) = ud_thr ud"
  "ud_hist (emit e ud) = ud_hist ud @ [e]"
  by (simp_all add: emit_def)

end
