(* ===== verification/Crypto.thy ===== *)
theory Crypto
  imports Pam_Base
begin

text \<open>
  Keys and tokens: \<open>lib/src/encrypt/aes.c\<close>, \<open>lib/src/encrypt/rsa.c\<close> and the copies of their
  functions in \<open>misc/pam-module/auth/utils.c\<close> (definitions with the prefix \<open>pam_\<close>). The block cipher,
  the RSA primitive and the PEM reader are OpenSSL's; what is modelled is what the code does around
  them: the padding, the buffers and lengths, the choice of the PEM reader, the shape of the
  symmetric key. A byte is a \<open>char\<close>. Each function returns its C result with its out parameters.
\<close>

abbreviation AES_BLOCK_SIZE :: nat where "AES_BLOCK_SIZE \<equiv> 16"

definition zero_iv :: "char list" where
  "zero_iv = replicate AES_BLOCK_SIZE NUL"

subsection \<open>AES in CBC mode\<close>

definition aes_padded :: "char list \<Rightarrow> char list" where
  \<comment> \<open>the buffer \<open>in\<close>: filled with the padding byte, then overwritten by the source\<close>
  "aes_padded src =
     (let srcLen = length src;
          blockCount = srcLen div AES_BLOCK_SIZE + 1;
          padding = AES_BLOCK_SIZE - srcLen mod AES_BLOCK_SIZE
      in put_at (replicate (AES_BLOCK_SIZE * blockCount) (char_of padding)) 0 src)"

definition aes_cbc_encrypt ::
  "'k openssl \<Rightarrow> char list \<Rightarrow> string \<Rightarrow> int \<times> char list option \<times> nat" where
  "aes_cbc_encrypt S src key =
     (let outLen = AES_BLOCK_SIZE * (length src div AES_BLOCK_SIZE + 1) in
      if aes_set_encrypt_key S key (int (length key) * 8) < 0 then (- 1, None, outLen)
      else (0, Some (aes_cbc_enc S key zero_iv (aes_padded src)), outLen))"

definition pam_aes_cbc_encrypt ::
  "'k openssl \<Rightarrow> char list \<Rightarrow> string \<Rightarrow> int \<times> char list option \<times> nat" where
  "pam_aes_cbc_encrypt S src key =
     (let quotient = length src div AES_BLOCK_SIZE;
          blockCount = quotient + 1;
          outLen = AES_BLOCK_SIZE * blockCount in
      if aes_set_encrypt_key S key (int (length key) * 8) < 0 then (- 1, None, outLen)
      else (0, Some (aes_cbc_enc S key zero_iv (aes_padded src)), outLen))"

definition schar :: "char \<Rightarrow> int" where
  \<comment> \<open>the value of a (signed) \<open>char\<close>\<close>
  "schar c = (let n = of_char c :: int in if n < 128 then n else n - 256)"

definition aes_cbc_decrypt ::
  "'k openssl \<Rightarrow> char list \<Rightarrow> string \<Rightarrow> (int \<times> char list option \<times> int) cres" where
  "aes_cbc_decrypt S src key =
     (if aes_set_decrypt_key S key (int (length key) * 8) < 0 then Inr (- 1, None, 0)
      else if src = [] then Inl Out_Of_Bounds
      else
        let tmp = aes_cbc_dec S key zero_iv src;
            unpadding = schar (tmp ! (length src - 1));
            out_len = int (length src) - unpadding
        in if out_len < 0 \<or> int (length src) < out_len then Inl Out_Of_Bounds
           else Inr (0, Some (take (nat out_len) tmp), out_len))"

subsection \<open>RSA keys\<close>

abbreviation PKCS1_HEADER :: string where "PKCS1_HEADER \<equiv> ''-----BEGIN RSA PUBLIC KEY-----''"
abbreviation PKCS8_HEADER :: string where "PKCS8_HEADER \<equiv> ''-----BEGIN PUBLIC KEY-----''"

definition has_prefix :: "string \<Rightarrow> string \<Rightarrow> bool" where
  \<comment> \<open>\<open>strncmp(s, p, strlen(p)) == 0\<close>\<close>
  "has_prefix p s \<longleftrightarrow> take (length p) s = p"

definition gen_rsa_pubkey :: "'k openssl \<Rightarrow> 'k option \<Rightarrow> string \<Rightarrow> int \<times> 'k option" where
  \<comment> \<open>a reader that fails leaves the key pointer as it was\<close>
  "gen_rsa_pubkey S rsa key =
     (if \<not> bio_ok S then (- 1, rsa)
      else if has_prefix PKCS8_HEADER key then
        (0, case pem_read_pubkey S key of None \<Rightarrow> rsa | Some k \<Rightarrow> Some k)
      else if has_prefix PKCS1_HEADER key then
        (0, case pem_read_rsapublickey S key of None \<Rightarrow> rsa | Some k \<Rightarrow> Some k)
      else (0, rsa))"

definition pam_gen_rsa_pubkey :: "'k openssl \<Rightarrow> 'k option \<Rightarrow> string \<Rightarrow> int \<times> 'k option" where
  "pam_gen_rsa_pubkey S rsa key =
     (if \<not> bio_ok S then (- 1, rsa)
      else if has_prefix PKCS8_HEADER key then
        (0, case pem_read_pubkey S key of None \<Rightarrow> rsa | Some k \<Rightarrow> Some k)
      else if has_prefix PKCS1_HEADER key then
        (0, case pem_read_rsapublickey S key of None \<Rightarrow> rsa | Some k \<Rightarrow> Some k)
      else (0, rsa))"

definition rsa_encrypt_data :: "'k openssl \<Rightarrow> 'k option \<Rightarrow> string \<Rightarrow> int \<times> char list option" where
  "rsa_encrypt_data S rsa origin_data =
     (case rsa of
        None \<Rightarrow> (- 1, None)
      | Some k \<Rightarrow> (case rsa_public_encrypt S k origin_data of (ret, c) \<Rightarrow> (ret, Some c)))"

definition pam_rsa_encrypt_data ::
  "'k openssl \<Rightarrow> 'k Pubkey option \<Rightarrow> string \<Rightarrow> int \<times> char list option" where
  "pam_rsa_encrypt_data S key origin_data =
     (case key of
        None \<Rightarrow> (- 1, None)
      | Some pk \<Rightarrow>
          (case pk_rsa pk of
             None \<Rightarrow> (- 1, None)
           | Some k \<Rightarrow> (case rsa_public_encrypt S k origin_data of (ret, c) \<Rightarrow> (ret, Some c))))"

definition create_pub_key :: "'k Pubkey" where
  "create_pub_key = \<lparr>pk_algType = 0, pk_flags = None, pk_pubkey = None, pk_rsa = None\<rparr>"

subsection \<open>The symmetric key\<close>

definition rand_num :: "nat \<Rightarrow> int" where
  "rand_num r = (10000000 + int r mod 10000000) mod 100000000"

definition create_symmetric_key :: "nat \<Rightarrow> string cres" where
  \<comment> \<open>\<open>r\<close> is the value of \<open>rand()\<close>; the text goes into 20 bytes\<close>
  "create_symmetric_key r =
     cbind (cformat ''%d%d'' [PD (rand_num r), PD (rand_num r)]) (sprintf_into 20)"

definition gen_symmetric_key :: "nat \<Rightarrow> string cres" where
  "gen_symmetric_key r =
     cbind (cformat ''%d%d'' [PD (rand_num r), PD (rand_num r)]) (sprintf_into 20)"

definition encrypt_symmtric_key ::
  "('m, 'j, 'k) env \<Rightarrow> 'k UserData \<Rightarrow> (int \<times> char list option \<times> 'k UserData) cres" where
  "encrypt_symmtric_key E ud =
     cbind (gen_symmetric_key (rand_value (e_sys E) (ud_hist ud))) (\<lambda>k.
       let ud' = ud\<lparr>ud_symmetric_key := Some k\<rparr> in
       case pam_rsa_encrypt_data (e_ssl E) (ud_key ud') k of (ret, c) \<Rightarrow> Inr (ret, c, ud'))"

subsection \<open>Padding\<close>

lemma length_padding: "length src + (16 - length src mod 16) = 16 * (length src div 16 + 1)"
  for src :: "'a list"
proof -
  define q r where "q = length src div 16" and "r = length src mod 16"
  then have "length src = q * 16 + r" and "r < 16" by simp_all
  then show ?thesis unfolding q_def [symmetric] r_def [symmetric] by simp
qed

lemma aes_padded_eq:
  "aes_padded src = src @ replicate (16 - length src mod 16) (char_of (16 - length src mod 16))"
proof -
  have "16 * (length src div 16 + 1) - length src = 16 - length src mod 16"
    using length_padding [of src] by linarith
  then show ?thesis by (simp add: aes_padded_def put_at_def Let_def)
qed

lemma length_aes_padded: "length (aes_padded src) = 16 * (length src div 16 + 1)"
  using length_padding [of src] by (simp add: aes_padded_eq)

lemma last_aes_padded: "aes_padded src ! (length (aes_padded src) - 1) = char_of (16 - length src mod 16)"
proof -
  have "length src mod 16 < 16" by simp
  then obtain p where p: "16 - length src mod 16 = Suc p" by (metis Suc_diff_Suc)
  then show ?thesis unfolding aes_padded_eq p by (simp add: nth_append del: replicate_Suc)
qed

lemma schar_char_of: "n < 128 \<Longrightarrow> schar (char_of n) = int n"
proof -
  assume n: "n < 128"
  have "(of_char (char_of n) :: int) = int (of_char (char_of n))" by (simp only: of_nat_of_char)
  also have "\<dots> = int n" using n by simp
  finally show ?thesis using n by (simp add: schar_def)
qed

subsection \<open>The key\<close>

lemma rand_num_eq: "rand_num r = 10000000 + int (r mod 10000000)"
proof -
  have "int r mod 10000000 = int (r mod 10000000)" by (simp add: zmod_int)
  moreover have "r mod 10000000 < 10000000" by simp
  ultimately show ?thesis by (simp add: rand_num_def)
qed

lemma rand_num_range: "10000000 \<le> rand_num r" "rand_num r < 20000000"
  using mod_less_divisor [of 10000000 r] unfolding rand_num_eq by linarith+

lemma length_show_rand_num: "length (show_int (rand_num r)) = 8"
proof -
  have r: "0 \<le> rand_num r" "10 ^ 7 \<le> nat (rand_num r)" "nat (rand_num r) < 10 ^ 8"
    using rand_num_range [of r] by (simp_all add: le_nat_iff nat_less_iff)
  then have "length (show_nat (nat (rand_num r))) = 8"
    using length_show_nat_bound [OF r(3)] length_show_nat_lower [OF r(2)] by simp
  with r show ?thesis by (simp add: show_int_def)
qed

lemma gen_symmetric_key_eq:
  "gen_symmetric_key r = Inr (show_int (rand_num r) @ show_int (rand_num r))"
  by (simp add: gen_symmetric_key_def sprintf_into_def length_show_rand_num)

lemma create_symmetric_key_eq: "create_symmetric_key r = gen_symmetric_key r"
  by (simp add: create_symmetric_key_def gen_symmetric_key_def)

lemma show_rand_num_digits: "\<forall>c\<in>set (show_int (rand_num r)). is_digit c"
  using rand_num_range [of r] show_nat_digits by (simp add: show_int_def)

text \<open>
  C19: a token encrypted by the module or the library and decrypted under the same key comes back
  unchanged, for any block cipher whose decryption inverts its encryption on whole blocks and keeps
  the length, and for keys OpenSSL accepts; the cipher text is the next multiple of the block size
  above the length of the token.
\<close>
theorem aes_cbc_roundtrip:
  assumes key: "0 \<le> aes_set_encrypt_key S key (int (length key) * 8)"
    "0 \<le> aes_set_decrypt_key S key (int (length key) * 8)"
    and inv: "\<And>x. length x mod 16 = 0 \<Longrightarrow> aes_cbc_dec S key zero_iv (aes_cbc_enc S key zero_iv x) = x"
    and len: "\<And>x. length x mod 16 = 0 \<Longrightarrow> length (aes_cbc_enc S key zero_iv x) = length x"
  shows "\<exists>c. aes_cbc_encrypt S src key = (0, Some c, length c)
    \<and> pam_aes_cbc_encrypt S src key = (0, Some c, length c)
    \<and> length c mod 16 = 0 \<and> length src < length c \<and> length c \<le> length src + 16
    \<and> aes_cbc_decrypt S c key = Inr (0, Some src, int (length src))"
proof -
  let ?p = "aes_padded src" and ?n = "16 - length src mod 16"
  let ?c = "aes_cbc_enc S key zero_iv ?p"
  have p: "length ?p mod 16 = 0" by (simp add: length_aes_padded)
  with inv len have c: "length ?c = length ?p" "aes_cbc_dec S key zero_iv ?c = ?p" by simp_all
  have l: "length ?p = length src + ?n" unfolding aes_padded_eq by simp
  have m: "length src mod 16 < 16" by simp
  then have n: "0 < ?n" "?n \<le> 16" by simp_all
  have "schar (?p ! (length ?p - 1)) = int ?n"
    unfolding last_aes_padded using n by (intro schar_char_of) simp
  moreover have "?c \<noteq> []" using c l n by auto
  moreover have "take (length src) ?p = src" by (simp add: aes_padded_eq)
  ultimately have "aes_cbc_decrypt S ?c key = Inr (0, Some src, int (length src))"
    using key(2) c l m by (simp add: aes_cbc_decrypt_def Let_def)
  moreover have "length src < length ?c" and "length ?c \<le> length src + 16"
    using c(1) l n by linarith+
  moreover have "length ?c mod 16 = 0" and "length ?c = 16 * (length src div 16 + 1)"
    using c(1) p length_aes_padded by simp_all
  moreover have "aes_cbc_encrypt S src key = (0, Some ?c, 16 * (length src div 16 + 1))"
    and "pam_aes_cbc_encrypt S src key = (0, Some ?c, 16 * (length src div 16 + 1))"
    using key(1) by (simp_all add: aes_cbc_encrypt_def pam_aes_cbc_encrypt_def Let_def)
  ultimately show ?thesis by metis
qed

text \<open>
  Both key generators never overrun their 20 bytes and always give 16 decimal digits, the same
  8-digit number twice: an AES-128 key, but one of at most ten million.
\<close>
theorem symmetric_key_shape:
  "\<exists>k. gen_symmetric_key r = Inr k \<and> create_symmetric_key r = Inr k
    \<and> int (length k) * 8 = 128 \<and> list_all is_digit k \<and> take 8 k = drop 8 k
    \<and> card (range gen_symmetric_key) \<le> 10000000"
proof -
  define f :: "nat \<Rightarrow> string cres"
    where "f n = Inr (show_int (10000000 + int n) @ show_int (10000000 + int n))" for n
  have "gen_symmetric_key r = f (r mod 10000000)" for r
    by (simp add: f_def gen_symmetric_key_eq rand_num_eq)
  then have "range gen_symmetric_key \<subseteq> f ` {..<10000000}"
    by (metis image_subsetI imageI lessThan_iff mod_less_divisor zero_less_numeral)
  then have "card (range gen_symmetric_key) \<le> card (f ` {..<10000000})"
    by (intro card_mono finite_imageI finite_lessThan)
  also have "\<dots> \<le> 10000000" by (metis card_image_le card_lessThan finite_lessThan)
  finally have card: "card (range gen_symmetric_key) \<le> 10000000" .
  show ?thesis
    by (intro exI [of _ "show_int (rand_num r) @ show_int (rand_num r)"] conjI card)
      (use show_rand_num_digits [of r] in
        \<open>auto simp: create_symmetric_key_eq gen_symmetric_key_eq length_show_rand_num list_all_iff\<close>)
qed

text \<open>
  what \<open>gen_rsa_pubkey\<close> answers says nothing about the key: it returns 0 whenever memory for the
  reader is there, and a text with neither PEM header, or one the reader rejects, leaves the key
  pointer null; \<open>rsa_encrypt_data\<close> then returns -1 with no cipher text.
\<close>
lemma gen_rsa_pubkey_ignores_failure:
  assumes "bio_ok S"
    and "has_prefix PKCS8_HEADER key \<longrightarrow> pem_read_pubkey S key = None"
    and "has_prefix PKCS1_HEADER key \<longrightarrow> pem_read_rsapublickey S key = None"
  shows "gen_rsa_pubkey S None key = (0, None) \<and> pam_gen_rsa_pubkey S None key = (0, None)
    \<and> rsa_encrypt_data S (snd (gen_rsa_pubkey S None key)) d = (- 1, None)"
  using assms by (simp_all add: gen_rsa_pubkey_def pam_gen_rsa_pubkey_def rsa_encrypt_data_def)

end
