(* ===== verification/Pam_Dbus.thy ===== *)
theory Pam_Dbus
  imports Crypto
begin

text \<open>
  The D-Bus calls of the PAM module (\<open>misc/pam-module/auth/dbus.c\<close>). Every definition takes the
  surroundings \<open>E\<close> and the state, and returns the C result, the texts and numbers it stores through
  its out parameters (\<open>None\<close>: the parameter keeps its value) and the new state. Releasing messages
  and error structs and logging are left out.
\<close>

abbreviation DBUS_SERVICE :: string where "DBUS_SERVICE \<equiv> ''com.deepin.daemon.Authenticate''"
abbreviation DBUS_PATH :: string where "DBUS_PATH \<equiv> ''/com/deepin/daemon/Authenticate''"
abbreviation DBUS_INTERFACE :: string where "DBUS_INTERFACE \<equiv> ''com.deepin.daemon.Authenticate''"
abbreviation DBUS_AUTHCTRL_INTERFACE :: string where
  "DBUS_AUTHCTRL_INTERFACE \<equiv> ''com.deepin.daemon.Authenticate.Session''"
abbreviation ACCOUNT_MANAGER_DBUS_SERVICE :: string where
  "ACCOUNT_MANAGER_DBUS_SERVICE \<equiv> ''com.deepin.daemon.Accounts''"
abbreviation ACCOUNT_MANAGER_DBUS_PATH :: string where
  "ACCOUNT_MANAGER_DBUS_PATH \<equiv> ''/com/deepin/daemon/Accounts''"
abbreviation ACCOUNT_USER_DBUS_INTERFACE :: string where
  "ACCOUNT_USER_DBUS_INTERFACE \<equiv> ''com.deepin.daemon.Accounts.User''"

definition AUTH_FLAG_USING :: int where
  "AUTH_FLAG_USING = 3"   \<comment> \<open>\<open>AT_Password | AT_Fingerprint\<close>\<close>

definition manager_call :: "string \<Rightarrow> bus_arg list \<Rightarrow> bus_call" where
  "manager_call member args =
     \<lparr>bc_service = DBUS_SERVICE, bc_path = DBUS_PATH, bc_iface = DBUS_INTERFACE,
      bc_member = member, bc_args = args\<rparr>"

definition session_call :: "string \<Rightarrow> string \<Rightarrow> bus_arg list \<Rightarrow> bus_call" where
  "session_call path member args =
     \<lparr>bc_service = DBUS_SERVICE, bc_path = path, bc_iface = DBUS_AUTHCTRL_INTERFACE,
      bc_member = member, bc_args = args\<rparr>"

subsection \<open>Primitive steps\<close>

definition call_sync ::
  "('m, 'j, 'k) env \<Rightarrow> bus_call \<Rightarrow> 'k UserData \<Rightarrow> int \<times> 'm \<times> 'k UserData" where
  "call_sync E c ud =
     (case sd_call (e_bus E) (ud_hist ud) c of (r, m) \<Rightarrow> (r, m, emit (Bus_Call c) ud))"

definition call_async :: "('m, 'j, 'k) env \<Rightarrow> bus_call \<Rightarrow> 'k UserData \<Rightarrow> int \<times> 'k UserData" where
  "call_async E c ud = (sd_async (e_bus E) (ud_hist ud) c, emit (Bus_Async c) ud)"

definition read_text :: "'m sdbus \<Rightarrow> nat \<Rightarrow> 'm \<Rightarrow> (int \<times> string option) cres" where
  \<comment> \<open>read a string, then print it into a buffer of \<open>n\<close> characters\<close>
  "read_text B n m =
     (case rd_s B m of (r, s, _) \<Rightarrow>
        if r < 0 then Inr (r, None)
        else (case s of None \<Rightarrow> Inl Null_Deref
              | Some t \<Rightarrow> cbind (sprintf_into n t) (\<lambda>t'. Inr (r, Some t'))))"

definition failed :: "int \<Rightarrow> int" where
  \<comment> \<open>\<open>return ret < 0 ? 1 : 0\<close>\<close>
  "failed ret = (if ret < 0 then 1 else 0)"

definition text_call ::
  "('m, 'j, 'k) env \<Rightarrow> nat \<Rightarrow> bus_call \<Rightarrow> 'k UserData \<Rightarrow> (int \<times> string option \<times> 'k UserData) cres"
  where
  \<comment> \<open>the shape \<open>Authenticate\<close>, \<open>GetLimits\<close> and \<open>PreOneKeyLogin\<close> share: call, read one text, store it\<close>
  "text_call E n c ud =
     (case call_sync E c ud of (ret, reply, ud') \<Rightarrow>
        if ret < 0 then Inr (failed ret, None, ud')
        else cbind (read_text (e_bus E) n reply) (\<lambda>(ret, s). Inr (failed ret, s, ud')))"

subsection \<open>Methods of the service\<close>

definition dbus_method_authenticate ::
  "('m, 'j, 'k) env \<Rightarrow> 'k UserData \<Rightarrow> string \<Rightarrow> int \<Rightarrow> int
     \<Rightarrow> (int \<times> string option \<times> 'k UserData) cres" where
  "dbus_method_authenticate E ud username flags app_type =
     text_call E MAX_BUF_SIZE
       (manager_call ''Authenticate'' [Arg_s username, Arg_i flags, Arg_i app_type]) ud"

definition dbus_method_get_limits ::
  "('m, 'j, 'k) env \<Rightarrow> 'k UserData \<Rightarrow> string \<Rightarrow> (int \<times> string option \<times> 'k UserData) cres" where
  "dbus_method_get_limits E ud username =
     text_call E LIMITS_BUF_SIZE (manager_call ''GetLimits'' [Arg_s username]) ud"

definition dbus_method_preOneKeyLogin ::
  "('m, 'j, 'k) env \<Rightarrow> 'k UserData \<Rightarrow> string \<Rightarrow> (int \<times> string option \<times> 'k UserData) cres" where
  "dbus_method_preOneKeyLogin E ud username =
     text_call E MAX_BUF_SIZE (manager_call ''PreOneKeyLogin'' [Arg_i AUTH_FLAG_USING]) ud"

subsection \<open>Methods of a session\<close>

definition dbus_method_end ::
  "('m, 'j, 'k) env \<Rightarrow> 'k UserData \<Rightarrow> string \<Rightarrow> int \<Rightarrow> int \<times> 'k UserData" where
  "dbus_method_end E ud path flag =
     (case call_sync E (session_call path ''End'' [Arg_i flag]) ud of (ret, _, ud') \<Rightarrow>
        (failed ret, ud'))"

definition dbus_method_start ::
  "('m, 'j, 'k) env \<Rightarrow> 'k UserData \<Rightarrow> string \<Rightarrow> int \<Rightarrow> int \<Rightarrow> int \<times> 'k UserData" where
  "dbus_method_start E ud path flags timeout =
     (case call_sync E (session_call path ''Start'' [Arg_i flags, Arg_i timeout]) ud of
        (ret, reply, ud') \<Rightarrow>
          if ret < 0 then (failed ret, ud')
          else (case rd_i (e_bus E) reply of (ret, statu, _) \<Rightarrow> (failed ret, ud')))"

definition dbus_method_setToken ::
  "('m, 'j, 'k) env \<Rightarrow> 'k UserData \<Rightarrow> string \<Rightarrow> int \<Rightarrow> string \<Rightarrow> (int \<times> 'k UserData) cres" where
  \<comment> \<open>unlike the others it returns 1 for success\<close>
  "dbus_method_setToken E ud path auth_type password =
     (case ud_symmetric_key ud of
        None \<Rightarrow> Inl Null_Deref
      | Some key \<Rightarrow>
          (case pam_aes_cbc_encrypt (e_ssl E) password key of (ret, cipher, _) \<Rightarrow>
             if ret = - 1 then Inr (0, ud)
             else
               let c = session_call path ''SetToken''
                         [Arg_i auth_type, Arg_ay (case cipher of None \<Rightarrow> [] | Some t \<Rightarrow> t)]
               in if sd_new_call (e_bus E) (ud_hist ud) c \<noteq> 0 then Inr (0, ud)
                  else (case call_async E c ud of (ret, ud') \<Rightarrow>
                          Inr (if ret \<ge> 0 then 1 else 0, ud'))))"

definition call_getResult_cb :: "'m sdbus \<Rightarrow> 'm option \<Rightarrow> 'k UserData \<Rightarrow> int \<times> 'k UserData" where
  "call_getResult_cb B m ud =
     (let (ret, ud') =
        (case m of
           None \<Rightarrow> (- 1, ud)
         | Some m \<Rightarrow>
             (case rd_i B m of (ret, res, _) \<Rightarrow>
                if ret < 0 then (ret, ud\<lparr>ud_get_result_val := GET_RESULT_UNAVAILABLE\<rparr>)
                else (ret, emit (Got_Result res) (ud\<lparr>ud_get_result_val := res\<rparr>))))
      in (ret, ud'\<lparr>ud_waiting_result := 0\<rparr>))"

text \<open>\<open>dbus_method_getResult\<close> runs in the token thread while the main thread dispatches replies, so
  its two writes are separate steps: \<open>getResult_send\<close> up to the answer of the call, \<open>getResult_mark\<close>
  the assignment to \<open>waiting_result\<close>.\<close>

definition getResult_send ::
  "('m, 'j, 'k) env \<Rightarrow> 'k UserData \<Rightarrow> string \<Rightarrow> int \<times> 'k UserData" where
  "getResult_send E ud path =
     (case call_async E (session_call path ''GetResult'' []) ud of (ret, ud') \<Rightarrow>
        if ret < 0 then (ret, ud'\<lparr>ud_get_result_val := GET_RESULT_UNAVAILABLE\<rparr>) else (ret, ud'))"

definition getResult_mark :: "'k UserData \<Rightarrow> 'k UserData" where
  "getResult_mark ud = ud\<lparr>ud_waiting_result := 1\<rparr>"

definition dbus_method_getResult ::
  "('m, 'j, 'k) env \<Rightarrow> 'k UserData \<Rightarrow> string \<Rightarrow> int \<times> 'k UserData" where
  "dbus_method_getResult E ud path =
     (case getResult_send E ud path of (ret, ud') \<Rightarrow>
        (failed ret, if ret < 0 then ud' else getResult_mark ud'))"

definition listen_dbus_signal :: "('m, 'j, 'k) env \<Rightarrow> 'k UserData \<Rightarrow> int \<times> 'k UserData" where
  "listen_dbus_signal E ud =
     (sd_match (e_bus E) (ud_hist ud) (ud_path ud), emit (Bus_Match (ud_path ud)) ud)"

subsection \<open>The encryption keys\<close>

definition dbus_method_set_symmetric_key ::
  "('m, 'j, 'k) env \<Rightarrow> 'k UserData \<Rightarrow> string \<Rightarrow> char list \<Rightarrow> int \<times> 'k UserData" where
  "dbus_method_set_symmetric_key E ud path symmetric_key =
     (let c = session_call path ''SetSymmetricKey'' [Arg_ay symmetric_key] in
      if sd_new_call (e_bus E) (ud_hist ud) c \<noteq> 0 then (1, ud)
      else (case call_sync E c ud of (ret, _, ud') \<Rightarrow> (failed ret, ud')))"

definition dbus_method_encryptKey ::
  "('m, 'j, 'k) env \<Rightarrow> string \<Rightarrow> int \<Rightarrow> char list \<Rightarrow> 'k UserData \<Rightarrow> int \<times> 'k UserData" where
  "dbus_method_encryptKey E path algType flags ud =
     (case ud_key ud of
        None \<Rightarrow> (- 1, ud)
      | Some _ \<Rightarrow>
          let c = session_call path ''EncryptKey'' [Arg_i algType, Arg_ay flags];
              ret = sd_new_call (e_bus E) (ud_hist ud) c
          in if ret \<noteq> 0 then (failed ret, ud)
             else (case call_async E c ud of (ret, ud') \<Rightarrow> (failed ret, ud')))"

text \<open>The callback of \<open>EncryptKey\<close>, in the order of its reads. \<open>err\<close>: the reply is an error.\<close>

definition encryptKey_store ::
  "('m, 'j, 'k) env \<Rightarrow> 'k Pubkey \<Rightarrow> 'k UserData \<Rightarrow> (int \<times> 'k UserData) cres" where
  \<comment> \<open>from the complete public key on: build the RSA key, make and send the symmetric key\<close>
  "encryptKey_store E key ud =
     (let rsa = snd (pam_gen_rsa_pubkey (e_ssl E) (pk_rsa key)
                       (case pk_pubkey key of None \<Rightarrow> [] | Some s \<Rightarrow> s)) in
      cbind (encrypt_symmtric_key E (ud\<lparr>ud_key := Some (key\<lparr>pk_rsa := rsa\<rparr>)\<rparr>))
        (\<lambda>(ret, cipher, ud').
           if ret < 0 then Inr (- 1, ud')
           else (case dbus_method_set_symmetric_key E ud' (ud_path ud')
                        (take (nat ret) (case cipher of None \<Rightarrow> [] | Some c \<Rightarrow> c)) of
                   (ret, ud'') \<Rightarrow> Inr (if ret < 0 then - 1 else 0, ud''))))"

definition call_encryptKey_cb ::
  "('m, 'j, 'k) env \<Rightarrow> bool \<Rightarrow> 'm \<Rightarrow> 'k UserData \<Rightarrow> (int \<times> 'k UserData) cres" where
  "call_encryptKey_cb E err m ud =
     (let B = e_bus E in
      if err then Inr (- 1, ud)
      else case rd_type B m of (ret, t) \<Rightarrow>
        if ret \<noteq> 0 then Inr (- 1, ud)
        else if t \<noteq> 2 then Inr (- 1, ud)       \<comment> \<open>\<open>SD_BUS_MESSAGE_METHOD_RETURN\<close>\<close>
        else (case ud_key ud of
          None \<Rightarrow> Inl Null_Deref
        | Some key \<Rightarrow>
            (case rd_i B m of (ret, alg, m) \<Rightarrow>
             if ret < 0 then Inr (- 1, ud)
             else
               let key = key\<lparr>pk_algType := alg\<rparr>; ud = ud\<lparr>ud_key := Some key\<rparr> in
               (case rd_int_array B m of (ret, flags, m) \<Rightarrow>
                if ret \<le> 0 then Inr (- 1, ud)
                else
                  let key = key\<lparr>pk_flags := Some flags\<rparr>; ud = ud\<lparr>ud_key := Some key\<rparr> in
                  (case rd_s B m of (ret, buf, _) \<Rightarrow>
                   if ret < 0 then Inr (- 1, ud)
                   else (case buf of
                      None \<Rightarrow> Inl Null_Deref
                    | Some s \<Rightarrow> encryptKey_store E (key\<lparr>pk_pubkey := Some s\<rparr>) ud))))))"

subsection \<open>Properties and the account service\<close>

definition dbus_get_prop_int ::
  "('m, 'j, 'k) env \<Rightarrow> 'k UserData \<Rightarrow> string \<Rightarrow> string \<Rightarrow> string \<Rightarrow> string
     \<Rightarrow> int \<times> int option \<times> 'k UserData" where
  "dbus_get_prop_int E ud service path interface prop_name =
     (let c = \<lparr>bc_service = service, bc_path = path, bc_iface = interface,
               bc_member = prop_name, bc_args = []\<rparr>
      in case sd_get_property (e_bus E) (ud_hist ud) c of (ret, reply) \<Rightarrow>
           let ud' = emit (Bus_Property c) ud in
           if ret < 0 then (ret, None, ud')
           else (case rd_i (e_bus E) reply of (ret, v, _) \<Rightarrow>
                   if ret < 0 then (ret, None, ud') else (ret, Some v, ud')))"

definition read_expired_info :: "'m sdbus \<Rightarrow> 'm \<Rightarrow> int \<times> int option \<times> int option" where
  \<comment> \<open>the status and the days, each stored when it was read\<close>
  "read_expired_info B user_reply =
     (case rd_i B user_reply of (ret, expired_status, user_reply) \<Rightarrow>
        if ret < 0 then (ret, None, None)
        else (case rd_x B user_reply of (ret, left_days, _) \<Rightarrow>
                if ret < 0 then (ret, Some expired_status, None)
                else (ret, Some expired_status, Some left_days)))"

definition dbus_get_user_passwd_expired_info ::
  "('m, 'j, 'k) env \<Rightarrow> 'k UserData \<Rightarrow> string
     \<Rightarrow> ((int \<times> int option \<times> int option) \<times> 'k UserData) cres" where
  \<comment> \<open>the result, \<open>expired_status\<close>, \<open>left_days\<close>\<close>
  "dbus_get_user_passwd_expired_info E ud username =
     (case call_sync E \<lparr>bc_service = ACCOUNT_MANAGER_DBUS_SERVICE,
              bc_path = ACCOUNT_MANAGER_DBUS_PATH, bc_iface = ACCOUNT_MANAGER_DBUS_SERVICE,
              bc_member = ''FindUserByName'', bc_args = [Arg_s username]\<rparr> ud of
        (ret, reply, ud') \<Rightarrow>
      if ret < 0 then Inr ((ret, None, None), ud')
      else cbind (read_text (e_bus E) MAX_BUF_SIZE reply) (\<lambda>(ret, userpath).
        case userpath of
          None \<Rightarrow> Inr ((ret, None, None), ud')
        | Some userpath \<Rightarrow>
            (case call_sync E \<lparr>bc_service = ACCOUNT_MANAGER_DBUS_SERVICE, bc_path = userpath,
                    bc_iface = ACCOUNT_USER_DBUS_INTERFACE,
                    bc_member = ''PasswordExpiredInfo'', bc_args = []\<rparr> ud' of
               (ret, user_reply, ud'') \<Rightarrow>
             if ret < 0 then Inr ((ret, None, None), ud'')
             else Inr (read_expired_info (e_bus E) user_reply, ud''))))"

subsection \<open>What a call changes\<close>

text \<open>\<open>same_but_hist\<close>: a call that only adds to the history.\<close>

definition same_but_hist :: "'k UserData \<Rightarrow> 'k UserData \<Rightarrow> bool" where
  "same_but_hist ud ud' \<longleftrightarrow> (\<exists>es. ud' = ud\<lparr>ud_hist := ud_hist ud @ es\<rparr>)"

lemma same_but_hist_refl [simp, intro]: "same_but_hist ud ud"
  unfolding same_but_hist_def by (rule exI [of _ "[]"]) simp

lemma same_but_hist_trans [trans]:
  "same_but_hist a b \<Longrightarrow> same_but_hist b c \<Longrightarrow> same_but_hist a c"
  by (auto simp: same_but_hist_def)

lemma same_but_hist_emit [simp, intro]: "same_but_hist ud (emit e ud)"
  by (auto simp: same_but_hist_def emit_def)

lemma same_but_hist_extends: "same_but_hist ud ud' \<Longrightarrow> extends ud ud'"
  by (auto simp: same_but_hist_def extends_def)

lemma same_but_hist_fields:
  assumes "same_but_hist ud ud'"
  shows "ud_bus ud' = ud_bus ud" "ud_term ud' = ud_term ud" "ud_path ud' = ud_path ud"
    "ud_username ud' = ud_username ud" "ud_prompt ud' = ud_prompt ud"
    "ud_auth_tok ud' = ud_auth_tok ud" "ud_pid ud' = ud_pid ud"
    "ud_cur_type ud' = ud_cur_type ud" "ud_need_cancel ud' = ud_need_cancel ud"
    "ud_limits ud' = ud_limits ud" "ud_failed_indexs ud' = ud_failed_indexs ud"
    "ud_failed_num ud' = ud_failed_num ud" "ud_auth_ctrl ud' = ud_auth_ctrl ud"
    "ud_res ud' = ud_res ud" "ud_waiting_result ud' = ud_waiting_result ud"
    "ud_get_result_val ud' = ud_get_result_val ud" "ud_key ud' = ud_key ud"
    "ud_symmetric_key ud' = ud_symmetric_key ud" "ud_thr ud' = ud_thr ud"
  using assms by (auto simp: same_but_hist_def)

lemma call_sync_same: "call_sync E c ud = (r, m, ud') \<Longrightarrow> same_but_hist ud ud'"
  by (auto simp: call_sync_def split: prod.splits)

lemma call_async_same: "call_async E c ud = (r, ud') \<Longrightarrow> same_but_hist ud ud'"
  by (auto simp: call_async_def)

lemma text_call_same: "text_call E n c ud = Inr (r, s, ud') \<Longrightarrow> same_but_hist ud ud'"
  by (auto simp: text_call_def cbind_eq_Inr dest: call_sync_same split: prod.splits if_splits)

lemma text_call_length: "text_call E n c ud = Inr (r, Some s, ud') \<Longrightarrow> length s < n"
  by (auto simp: text_call_def read_text_def cres_simps split: prod.splits if_splits option.splits)

lemma text_call_hist: "text_call E n c ud = Inr (r, s, ud') \<Longrightarrow> ud' = emit (Bus_Call c) ud"
  by (auto simp: text_call_def call_sync_def cbind_eq_Inr split: prod.splits if_splits)

lemma dbus_method_end_eq: "snd (dbus_method_end E ud p f) = emit (Bus_Call (session_call p ''End'' [Arg_i f])) ud"
  by (simp add: dbus_method_end_def call_sync_def split: prod.splits)

lemma dbus_method_start_eq:
  "snd (dbus_method_start E ud p f t) =
     emit (Bus_Call (session_call p ''Start'' [Arg_i f, Arg_i t])) ud"
  by (simp add: dbus_method_start_def call_sync_def split: prod.splits)

lemma dbus_method_start_code: "fst (dbus_method_start E ud p f t) \<in> {0, 1}"
  by (simp add: dbus_method_start_def failed_def call_sync_def split: prod.splits)

lemma dbus_method_setToken_same: "dbus_method_setToken E ud p a w = Inr (r, ud') \<Longrightarrow> same_but_hist ud ud'"
  by (auto simp: dbus_method_setToken_def Let_def dest: call_async_same
      split: option.splits prod.splits if_splits)

lemma dbus_method_setToken_defined:
  "defined (dbus_method_setToken E ud p a w) \<longleftrightarrow> ud_symmetric_key ud \<noteq> None"
  by (auto simp: dbus_method_setToken_def Let_def split: option.splits prod.splits)

lemma dbus_get_prop_int_same: "dbus_get_prop_int E ud s p i n = (r, v, ud') \<Longrightarrow> same_but_hist ud ud'"
  by (auto simp: dbus_get_prop_int_def Let_def split: prod.splits if_splits)

lemma passwd_expired_info_same:
  assumes "dbus_get_user_passwd_expired_info E ud u = Inr (r, ud')"
  shows "same_but_hist ud ud'"
proof -
  let ?c = "\<lparr>bc_service = ACCOUNT_MANAGER_DBUS_SERVICE, bc_path = ACCOUNT_MANAGER_DBUS_PATH,
              bc_iface = ACCOUNT_MANAGER_DBUS_SERVICE, bc_member = ''FindUserByName'',
              bc_args = [Arg_s u]\<rparr>"
  obtain r1 m1 ud1 where c1: "call_sync E ?c ud = (r1, m1, ud1)" by (cases "call_sync E ?c ud")
  then have s1: "same_but_hist ud ud1" by (rule call_sync_same)
  show ?thesis
  proof (cases "r1 < 0")
    case True
    with assms c1 s1 show ?thesis by (simp add: dbus_get_user_passwd_expired_info_def)
  next
    case False
    with assms c1 obtain r0 p where rt: "read_text (e_bus E) MAX_BUF_SIZE m1 = Inr (r0, p)"
      by (auto simp: dbus_get_user_passwd_expired_info_def)
    show ?thesis
    proof (cases p)
      case None
      with assms c1 rt False s1 show ?thesis by (simp add: dbus_get_user_passwd_expired_info_def)
    next
      case (Some path)
      let ?d = "\<lparr>bc_service = ACCOUNT_MANAGER_DBUS_SERVICE, bc_path = path,
                  bc_iface = ACCOUNT_USER_DBUS_INTERFACE, bc_member = ''PasswordExpiredInfo'',
                  bc_args = []\<rparr>"
      obtain r2 m2 ud2 where c2: "call_sync E ?d ud1 = (r2, m2, ud2)" by (cases "call_sync E ?d ud1")
      with assms c1 rt False Some have "ud' = ud2"
        by (simp add: dbus_get_user_passwd_expired_info_def split: if_splits)
      with s1 call_sync_same [OF c2] show ?thesis by (auto intro: same_but_hist_trans)
    qed
  qed
qed

end
