(* ===== verification/Pam_Factors.thy ===== *)
theory Pam_Factors
  imports Pam_Base "HOL-Library.Multiset"
begin

text \<open>
  The authentication factors of a session (\<open>resolve_authctrl_factors\<close> in
  \<open>misc/pam-module/auth/utils.c\<close>): the array of factors is read from the property message one
  struct at a time, and \<open>factorOrder\<close> lists the indices of the factors by falling priority, by a
  selection sort on a copy of the priorities. The order decides in which sequence a multi-factor
  authentication asks for its factors.
\<close>

subsection \<open>Reading the array\<close>

partial_function (option) read_factors ::
  "'m sdbus \<Rightarrow> 'm \<Rightarrow> AuthFactor list \<Rightarrow> (AuthFactor list \<times> 'm) option" where
  \<comment> \<open>the loop; it ends when the reader reports the end of the array or an error\<close>
  "read_factors B m factors =
     (case rd_factor B m of (r, f, m') \<Rightarrow>
        if r \<le> 0 then Some (factors, m') else read_factors B m' (factors @ [f]))"

declare read_factors.simps [code]

fun yields_factors :: "'m sdbus \<Rightarrow> 'm \<Rightarrow> AuthFactor list \<Rightarrow> bool" where
  \<comment> \<open>the message holds exactly these structs from its position on\<close>
  "yields_factors B m [] \<longleftrightarrow> fst (rd_factor B m) \<le> 0"
| "yields_factors B m (f # fs) \<longleftrightarrow>
     (case rd_factor B m of (r, f', m') \<Rightarrow> 0 < r \<and> f' = f \<and> yields_factors B m' fs)"

lemma read_factors_yields:
  "yields_factors B m fs \<Longrightarrow> \<exists>m'. read_factors B m acc = Some (acc @ fs, m')"
proof (induction fs arbitrary: m acc)
  case Nil
  then show ?case by (subst read_factors.simps) (auto split: prod.splits)
next
  case (Cons f fs)
  then obtain r m' where "rd_factor B m = (r, f, m')" "0 < r" "yields_factors B m' fs"
    by (auto split: prod.splits)
  with Cons.IH [of m' "acc @ [f]"] show ?case by (subst read_factors.simps) simp
qed

subsection \<open>The selection sort\<close>

function find_max :: "int list \<Rightarrow> nat \<Rightarrow> nat \<Rightarrow> nat \<Rightarrow> nat" where
  "find_max order j max_idx n =
     (if j < n then find_max order (Suc j) (if order ! max_idx < order ! j then j else max_idx) n
      else max_idx)"
  by pat_completeness auto
termination
  by (relation "measure (\<lambda>(order, j, max_idx, n). n - j)") auto

declare find_max.simps [simp del]

function order_loop :: "nat \<Rightarrow> nat \<Rightarrow> int list \<Rightarrow> nat list \<Rightarrow> int list \<times> nat list" where
  "order_loop i n order factorOrder =
     (if Suc i < n then
        (let max_idx = find_max order (Suc i) i n
         in order_loop (Suc i) n (swap order i max_idx) (swap factorOrder i max_idx))
      else (order, factorOrder))"
  by pat_completeness auto
termination
  by (relation "measure (\<lambda>(i, n, order, factorOrder). n - i)") auto

declare order_loop.simps [simp del]

definition factor_order :: "AuthFactor list \<Rightarrow> nat list" where
  "factor_order fs =
     snd (order_loop 0 (length fs) (map af_priority fs) [0..<length fs])"

definition resolve_authctrl_factors ::
  "'m sdbus \<Rightarrow> 'm \<Rightarrow> AuthSession \<Rightarrow> (int \<times> AuthSession) option" where
  \<comment> \<open>no result where the reading loop does not end\<close>
  "resolve_authctrl_factors B data auth_res =
     (case rd_enter_array B data of (r, data') \<Rightarrow>
        if r < 0 then Some (- 1, auth_res)
        else map_option (\<lambda>(fs, _).
          (0, auth_res\<lparr>as_factors := (if fs = [] then as_factors auth_res else Ptr fs),
                       as_factorSize := length fs,
                       as_factorOrder := Ptr (factor_order fs)\<rparr>))
          (read_factors B data' []))"

subsection \<open>The order is a permutation by falling priority\<close>

lemma find_max_bounds:
  "max_idx < n \<Longrightarrow>
   find_max order j max_idx n < n
   \<and> (find_max order j max_idx n = max_idx \<or> j \<le> find_max order j max_idx n)
   \<and> order ! max_idx \<le> order ! find_max order j max_idx n
   \<and> (\<forall>k. j \<le> k \<and> k < n \<longrightarrow> order ! k \<le> order ! find_max order j max_idx n)"
proof (induction order j max_idx n rule: find_max.induct)
  case (1 order j max_idx n)
  show ?case
  proof (cases "j < n")
    case False
    then show ?thesis using "1.prems" by (simp add: find_max.simps [of order j])
  next
    case True
    let ?m = "if order ! max_idx < order ! j then j else max_idx"
    from True "1.prems" have "?m < n" by simp
    note IH = "1.IH" [OF True this]
    have k: "order ! k \<le> order ! find_max order (Suc j) ?m n" if "j \<le> k" "k < n" for k
    proof (cases "k = j")
      case True
      then have "order ! k \<le> order ! ?m" by simp
      with IH show ?thesis by linarith
    next
      case False
      with that IH show ?thesis by simp
    qed
    have "order ! max_idx \<le> order ! ?m" by simp
    with IH k show ?thesis
      by (subst (1 2 3 4 5) find_max.simps) (auto simp: True intro: order.trans)
  qed
qed

text \<open>\<open>ranked g xs i\<close>: the first \<open>i\<close> places of the list are final.\<close>

definition ranked :: "('a \<Rightarrow> int) \<Rightarrow> 'a list \<Rightarrow> nat \<Rightarrow> bool" where
  "ranked g xs i \<longleftrightarrow> (\<forall>a b. a < i \<longrightarrow> a < b \<longrightarrow> b < length xs \<longrightarrow> g (xs ! b) \<le> g (xs ! a))"

lemma mset_swap [simp]: "i < length xs \<Longrightarrow> j < length xs \<Longrightarrow> mset (swap xs i j) = mset xs"
  by (simp add: swap_def mset_swap)

lemma ranked_step:
  assumes r: "ranked g xs i" and m: "i \<le> m" "m < length xs"
    and max: "\<And>k. i \<le> k \<Longrightarrow> k < length xs \<Longrightarrow> g (xs ! k) \<le> g (xs ! m)"
  shows "ranked g (swap xs i m) (Suc i)"
  unfolding ranked_def
proof (intro allI impI)
  fix a b
  assume ab: "a < Suc i" "a < b" "b < length (swap xs i m)"
  let ?b = "if b = m then i else if b = i then m else b"
  have b: "swap xs i m ! b = xs ! ?b" using ab m by (auto simp: nth_swap)
  show "g (swap xs i m ! b) \<le> g (swap xs i m ! a)"
  proof (cases "a = i")
    case True
    then have "swap xs i m ! a = xs ! m" using m by (auto simp: nth_swap)
    moreover have "i \<le> ?b" "?b < length xs" using ab m True by auto
    ultimately show ?thesis using max b by simp
  next
    case False
    then have "swap xs i m ! a = xs ! a" using ab m by (auto simp: nth_swap)
    moreover have "a < i" "a < ?b" "?b < length xs" using ab m False by auto
    ultimately show ?thesis using r b unfolding ranked_def by metis
  qed
qed

lemma order_loop_correct:
  assumes "length xs = n" and "ranked g xs i"
  shows "\<exists>ys. order_loop i n (map g xs) xs = (map g ys, ys) \<and> mset ys = mset xs \<and> ranked g ys n"
  using assms
proof (induction "n - i" arbitrary: i xs)
  case 0
  then have "order_loop i n (map g xs) xs = (map g xs, xs)" by (simp add: order_loop.simps)
  moreover have "ranked g xs n" using 0 by (auto simp: ranked_def)
  ultimately show ?case by blast
next
  case (Suc d)
  show ?case
  proof (cases "Suc i < n")
    case False
    then have "order_loop i n (map g xs) xs = (map g xs, xs)" by (simp add: order_loop.simps)
    moreover have "ranked g xs n" using Suc.prems False
      by (auto simp: ranked_def)
    ultimately show ?thesis by blast
  next
    case True
    define m where "m = find_max (map g xs) (Suc i) i n"
    from True have "i < n" by simp
    note fm = find_max_bounds [OF this, of "map g xs" "Suc i", folded m_def]
    have m: "i \<le> m" "m < length xs" using fm Suc.prems True by auto
    have "g (xs ! k) \<le> g (xs ! m)" if "i \<le> k" "k < length xs" for k
      using fm that m Suc.prems True by (cases "k = i") auto
    then have "ranked g (swap xs i m) (Suc i)" using ranked_step [OF Suc.prems(2) m] by blast
    moreover have "d = n - Suc i" "length (swap xs i m) = n" using Suc by simp_all
    ultimately obtain ys where ys: "order_loop (Suc i) n (map g (swap xs i m)) (swap xs i m) = (map g ys, ys)"
      "mset ys = mset (swap xs i m)" "ranked g ys n" using Suc.hyps(1) by blast
    moreover have "order_loop i n (map g xs) xs =
        order_loop (Suc i) n (map g (swap xs i m)) (swap xs i m)"
      using True m by (subst order_loop.simps) (simp add: m_def [symmetric] map_swap Let_def)
    ultimately show ?thesis using m by auto
  qed
qed

definition priority_order :: "AuthFactor list \<Rightarrow> nat list \<Rightarrow> bool" where
  "priority_order fs ord \<longleftrightarrow>
     mset ord = mset [0..<length fs]
     \<and> sorted_wrt (\<lambda>a b. af_priority (fs ! b) \<le> af_priority (fs ! a)) ord"

lemma ranked_sorted_wrt: "ranked g xs (length xs) \<Longrightarrow> sorted_wrt (\<lambda>a b. g b \<le> g a) xs"
  by (auto simp: ranked_def sorted_wrt_iff_nth_less)

lemma factor_order_correct: "priority_order fs (factor_order fs)"
proof -
  let ?g = "\<lambda>k. af_priority (fs ! k)" and ?n = "length fs"
  have "map af_priority fs = map ?g [0..<?n]" by (rule nth_equalityI) simp_all
  moreover obtain ys where "order_loop 0 ?n (map ?g [0..<?n]) [0..<?n] = (map ?g ys, ys)"
    "mset ys = mset [0..<?n]" "ranked ?g ys ?n"
    using order_loop_correct [of "[0..<?n]" ?n ?g 0] by (auto simp: ranked_def)
  moreover from this have "length ys = ?n" by (metis length_upt minus_nat.diff_0 size_mset)
  ultimately show ?thesis
    using ranked_sorted_wrt [of ?g ys] by (simp add: priority_order_def factor_order_def)
qed

lemma priority_order_props:
  assumes "priority_order fs ord"
  shows "length ord = length fs" and "set ord = {..<length fs}" and "distinct ord"
proof -
  from assms have m: "mset ord = mset [0..<length fs]" by (simp add: priority_order_def)
  then show "length ord = length fs" by (metis length_upt minus_nat.diff_0 size_mset)
  from m show "set ord = {..<length fs}" by (metis atLeast_upt set_mset_mset)
  from m show "distinct ord" by (metis distinct_upt mset_eq_imp_distinct_iff)
qed

lemma resolve_authctrl_factors_shape:
  "resolve_authctrl_factors B m s = Some (r, s') \<Longrightarrow>
     (r = - 1 \<and> s' = s) \<or> (r = 0 \<and> (\<exists>fs. as_factorSize s' = length fs
        \<and> as_factors s' = (if fs = [] then as_factors s else Ptr fs)
        \<and> as_factorOrder s' = Ptr (factor_order fs) \<and> as_isMFA s' = as_isMFA s))"
proof -
  assume a: "resolve_authctrl_factors B m s = Some (r, s')"
  obtain r0 m' where e: "rd_enter_array B m = (r0, m')" by (cases "rd_enter_array B m")
  show ?thesis
  proof (cases "r0 < 0")
    case False
    with a e obtain fs m'' where "read_factors B m' [] = Some (fs, m'')"
      by (auto simp: resolve_authctrl_factors_def)
    with a e False have "r = 0"
      and "s' = s\<lparr>as_factors := (if fs = [] then as_factors s else Ptr fs),
                 as_factorSize := length fs, as_factorOrder := Ptr (factor_order fs)\<rparr>"
      by (simp_all add: resolve_authctrl_factors_def)
    then show ?thesis by (intro disjI2 conjI exI [of _ fs]) simp_all
  qed (use a e in \<open>simp add: resolve_authctrl_factors_def\<close>)
qed

text \<open>
  C6: when the property message holds the factors \<open>fs\<close> and its array can be entered,
  \<open>resolve_authctrl_factors\<close> returns 0 with exactly these factors, and \<open>factorOrder\<close> is a permutation
  of their indices along which the priorities never rise.
\<close>
theorem resolve_authctrl_factors_correct:
  assumes "rd_enter_array B m = (r, m')" and "0 \<le> r" and "yields_factors B m' fs"
    and "as_factors s = Null"
  shows "\<exists>s' ord. resolve_authctrl_factors B m s = Some (0, s')
    \<and> as_factorSize s' = length fs \<and> as_factorOrder s' = Ptr ord
    \<and> as_factors s' = (if fs = [] then Null else Ptr fs)
    \<and> mset ord = mset [0..<length fs]
    \<and> sorted_wrt (\<lambda>a b. af_priority (fs ! b) \<le> af_priority (fs ! a)) ord"
proof -
  from read_factors_yields [OF assms(3), of "[]"] obtain m''
    where "read_factors B m' [] = Some (fs, m'')" by auto
  with assms factor_order_correct [of fs] show ?thesis
    by (simp add: resolve_authctrl_factors_def priority_order_def)
qed

text \<open>A reader over a list of structs, for the examples.\<close>

definition list_bus :: "AuthFactor list sdbus" where
  "list_bus = \<lparr>sd_open = \<lambda>_. 0, sd_call = \<lambda>_ _. (0, []), sd_get_property = \<lambda>_ _. (0, []),
     sd_new_call = \<lambda>_ _. 0, sd_async = \<lambda>_ _. 1, sd_match = \<lambda>_ _. 0,
     rd_s = \<lambda>m. (1, Some [], m), rd_i = \<lambda>m. (1, 0, m), rd_x = \<lambda>m. (1, 0, m),
     rd_iis = \<lambda>m. (1, 0, 0, []), rd_enter_array = \<lambda>m. (1, m),
     rd_factor = \<lambda>m. (case m of [] \<Rightarrow> (0, \<lparr>af_authType = 0, af_priority = 0, af_inputType = 0, af_required = 0\<rparr>, [])
                       | f # fs \<Rightarrow> (1, f, fs)),
     rd_int_array = \<lambda>m. (1, [], m), rd_type = \<lambda>m. (0, 2), msg_path = \<lambda>m. []\<rparr>"

definition sample_factors :: "AuthFactor list" where
  "sample_factors =
     [\<lparr>af_authType = 1, af_priority = 1, af_inputType = 1, af_required = 1\<rparr>,
      \<lparr>af_authType = 2, af_priority = 5, af_inputType = 2, af_required = 1\<rparr>,
      \<lparr>af_authType = 16, af_priority = 3, af_inputType = 1, af_required = 1\<rparr>]"

lemma factor_order_sample: "factor_order sample_factors = [1, 2, 0]"
  by (simp add: factor_order_def sample_factors_def order_loop.simps find_max.simps swap_def
      upt_rec Let_def)

lemma resolve_authctrl_factors_correct_witness:
  "\<exists>s' ord. resolve_authctrl_factors list_bus sample_factors
      \<lparr>as_isMFA = 1, as_factorSize = 0, as_factorOrder = Indeterminate, as_factors = Null\<rparr> = Some (0, s')
    \<and> as_factorSize s' = 3 \<and> as_factorOrder s' = Ptr ord
    \<and> as_factors s' = Ptr sample_factors
    \<and> mset ord = mset [0..<3]
    \<and> sorted_wrt (\<lambda>a b. af_priority (sample_factors ! b) \<le> af_priority (sample_factors ! a)) ord"
  using resolve_authctrl_factors_correct [of list_bus sample_factors 1 sample_factors sample_factors
      "\<lparr>as_isMFA = 1, as_factorSize = 0, as_factorOrder = Indeterminate, as_factors = Null\<rparr>"]
  by (simp add: list_bus_def sample_factors_def numeral_3_eq_3)

end
