(* ===== verification/Pam_Type.thy ===== *)
theory Pam_Type
  imports Pam_Base
begin

text \<open>
  The authentication types (\<open>misc/pam-module/auth/type.c\<close>): the index of a type in the tables of
  limits, its name, whether it needs keyboard input, and the number of an application type. The
  flag \<open>authType\<close> is a C \<open>int\<close>; \<open>type_to_index\<close> works on its 32 bits.
\<close>

unbundle bit_operations_syntax

subsection \<open>The index of a type\<close>

function type_to_index_from :: "32 word \<Rightarrow> nat \<Rightarrow> nat cres" where
  \<comment> \<open>the loop: undefined once the shift count reaches the width\<close>
  "type_to_index_from t index =
     (if 32 \<le> index then Inl Bad_Shift
      else if t AND push_bit index 1 \<noteq> 0 then Inr index
      else type_to_index_from t (Suc index))"
  by pat_completeness auto
termination
  by (relation "measure (\<lambda>(t, index). 32 - index)") auto

declare type_to_index_from.simps [simp del]

definition type_to_index :: "int \<Rightarrow> nat cres" where
  "type_to_index authType = type_to_index_from (word_of_int authType) 0"

subsection \<open>Names and classes\<close>

definition type_to_tr :: "(string \<Rightarrow> string) \<Rightarrow> int \<Rightarrow> string" where
  "type_to_tr tr authType =
     (if authType = at_flag AT_Fingerprint then tr ''Fingerprint''
      else if authType = at_flag AT_Face then tr ''Face recognition''
      else if authType = at_flag AT_ActiveDirectory then tr ''ActiveDirectory''
      else if authType = at_flag AT_Ukey then tr ''PIN''
      else if authType = at_flag AT_Iris then tr ''Iris''
      else tr ''Unknown'')"

definition is_input_type :: "int \<Rightarrow> bool" where
  "is_input_type authType \<longleftrightarrow>
     authType = at_flag AT_Password \<or> authType = at_flag AT_Ukey
     \<or> authType = at_flag AT_ActiveDirectory"

definition get_app_type :: "string option \<Rightarrow> int" where
  "get_app_type app_type =
     (case app_type of
        None \<Rightarrow> APP_VAL_OTHER
      | Some s \<Rightarrow>
          if s = ''login'' then APP_VAL_LOGIN
          else if s = ''lock'' then APP_VAL_LOCK
          else if s = ''authorization'' then APP_VAL_AUTHORIZATION
          else APP_VAL_OTHER)"

subsection \<open>The loop finds the lowest set bit\<close>

lemma and_power_zero: "t AND 2 ^ n = 0 \<longleftrightarrow> \<not> bit t n" if "n < 32" for t :: "32 word"
proof -
  have "t AND 2 ^ n = (if bit t n then 2 ^ n else 0)"
    by (rule bit_eqI) (auto simp: bit_simps)
  moreover have "(2 :: 32 word) ^ n \<noteq> 0"
    using that by simp
  ultimately show ?thesis by simp
qed

lemma type_to_index_from_step:
  "type_to_index_from t n =
     (if 32 \<le> n then Inl Bad_Shift else if bit t n then Inr n else type_to_index_from t (Suc n))"
  by (subst type_to_index_from.simps) (simp add: and_power_zero)

lemma type_to_index_from_Inr:
  "type_to_index_from t n = Inr i \<Longrightarrow> n \<le> i \<and> i < 32 \<and> bit t i \<and> (\<forall>j. n \<le> j \<and> j < i \<longrightarrow> \<not> bit t j)"
proof (induction t n rule: type_to_index_from.induct)
  case (1 t n)
  consider "32 \<le> n" | "n < 32" "bit t n" | "n < 32" "\<not> bit t n" by linarith
  then show ?case
  proof cases
    case 3
    with "1.prems" have "type_to_index_from t (Suc n) = Inr i"
      by (simp add: type_to_index_from_step [of t n])
    with 1 3 have "Suc n \<le> i \<and> i < 32 \<and> bit t i \<and> (\<forall>j. Suc n \<le> j \<and> j < i \<longrightarrow> \<not> bit t j)"
      by (simp add: and_power_zero)
    with 3 show ?thesis by (metis Suc_leD le_antisym not_less_eq_eq)
  qed (use "1.prems" in \<open>auto simp: type_to_index_from_step [of t n]\<close>)
qed

lemma type_to_index_from_found:
  "bit t i \<Longrightarrow> n \<le> i \<Longrightarrow> i < 32 \<Longrightarrow> \<exists>k. type_to_index_from t n = Inr k"
proof (induction t n rule: type_to_index_from.induct)
  case (1 t n)
  show ?case
  proof (cases "bit t n")
    case True
    with "1.prems" show ?thesis by (simp add: type_to_index_from_step [of t n])
  next
    case False
    with "1.prems" have "Suc n \<le> i" by (metis le_antisym not_less_eq_eq)
    with 1 False have "\<exists>k. type_to_index_from t (Suc n) = Inr k" by (simp add: and_power_zero)
    with "1.prems" False show ?thesis by (simp add: type_to_index_from_step [of t n])
  qed
qed

lemma type_to_index_from_none:
  "(\<And>i. n \<le> i \<Longrightarrow> i < 32 \<Longrightarrow> \<not> bit t i) \<Longrightarrow> type_to_index_from t n = Inl Bad_Shift"
proof (induction t n rule: type_to_index_from.induct)
  case (1 t n)
  show ?case
  proof (cases "32 \<le> n")
    case False
    with 1 have "type_to_index_from t (Suc n) = Inl Bad_Shift" by (simp add: and_power_zero)
    with "1.prems" False show ?thesis by (simp add: type_to_index_from_step [of t n])
  qed (simp add: type_to_index_from_step [of t n])
qed

lemma type_to_index_from_error: "type_to_index_from t n = Inl e \<Longrightarrow> e = Bad_Shift"
proof (induction t n rule: type_to_index_from.induct)
  case (1 t n)
  then show ?case
    by (auto simp: type_to_index_from_step [of t n] and_power_zero split: if_splits)
qed

lemma bit_word_of_int_32: "i < 32 \<Longrightarrow> bit (word_of_int n :: 32 word) i \<longleftrightarrow> bit n i"
  by (simp add: bit_word_of_int_iff)

lemma word_of_int_32_zero: "(word_of_int n :: 32 word) = 0 \<longleftrightarrow> n mod 4294967296 = 0"
proof -
  have "uint (word_of_int n :: 32 word) = n mod 4294967296"
    by (simp add: uint_word_of_int)
  then show ?thesis by (simp only: flip: uint_0_iff)
qed

lemma type_to_index_Inr:
  "type_to_index n = Inr i \<Longrightarrow> i < 32 \<and> bit n i \<and> (\<forall>j<i. \<not> bit n j)"
  by (auto simp: type_to_index_def bit_word_of_int_32 dest!: type_to_index_from_Inr)

lemma type_to_index_power: "i < 32 \<Longrightarrow> type_to_index (2 ^ i) = Inr i"
proof -
  assume i: "i < 32"
  define w :: "32 word" where "w = word_of_int (2 ^ i)"
  have b: "bit w j \<longleftrightarrow> j = i" if "j < 32" for j
    unfolding w_def using that by (subst bit_word_of_int_32) (auto simp: bit_exp_iff)
  from type_to_index_from_found [of w i 0] i b
  obtain k where k: "type_to_index_from w 0 = Inr k" by auto
  from type_to_index_from_Inr [OF k] b show ?thesis
    unfolding type_to_index_def w_def [symmetric] k by auto
qed

lemma type_to_index_at_flag [simp]:
  "type_to_index 1 = Inr 0" "type_to_index 2 = Inr 1" "type_to_index 4 = Inr 2"
  "type_to_index 8 = Inr 3" "type_to_index 16 = Inr 4" "type_to_index 32 = Inr 5"
  "type_to_index 64 = Inr 6"
  using type_to_index_power [of 0] type_to_index_power [of 1] type_to_index_power [of 2]
    type_to_index_power [of 3] type_to_index_power [of 4] type_to_index_power [of 5]
    type_to_index_power [of 6]
  by simp_all

lemma type_to_index_minus_one: "type_to_index (- 1) = Inr 0"
  by (simp add: type_to_index_def type_to_index_from.simps)

lemma type_to_index_undefined: "type_to_index n = Inl Bad_Shift \<longleftrightarrow> n mod 4294967296 = 0"
proof
  assume a: "type_to_index n = Inl Bad_Shift"
  have "\<not> bit (word_of_int n :: 32 word) i" for i
  proof
    assume b: "bit (word_of_int n :: 32 word) i"
    then have "i < 32" by (simp add: bit_word_of_int_iff)
    from type_to_index_from_found [OF b _ this, of 0] a show False by (auto simp: type_to_index_def)
  qed
  then have "(word_of_int n :: 32 word) = 0" by (intro bit_word_eqI) simp
  then show "n mod 4294967296 = 0" by (simp only: word_of_int_32_zero)
next
  assume "n mod 4294967296 = 0"
  then have "(word_of_int n :: 32 word) = 0" by (simp only: word_of_int_32_zero)
  then show "type_to_index n = Inl Bad_Shift"
    by (simp add: type_to_index_def type_to_index_from_none)
qed

lemma at_flag_power: "at_flag t = 2 ^ (case type_to_index (at_flag t) of Inr i \<Rightarrow> i | Inl _ \<Rightarrow> 0)"
  by (cases t) simp_all

text \<open>The types contained in a mask of flags, and the least of them.\<close>

definition types_in :: "int \<Rightarrow> AuthenticateType set" where
  "types_in n = {t. n AND at_flag t \<noteq> 0}"

lemma at_flag_index: "\<exists>i<7. at_flag t = 2 ^ i \<and> type_to_index (at_flag t) = Inr i"
  by (cases t) simp_all

lemma index_at_flag: "i < 7 \<Longrightarrow> \<exists>t. at_flag t = 2 ^ i"
proof -
  assume "i < 7"
  then consider "i = 0" | "i = 1" | "i = 2" | "i = 3" | "i = 4" | "i = 5" | "i = 6" by linarith
  then show ?thesis
    by cases (rule exI [of _ AT_Password] exI [of _ AT_Fingerprint] exI [of _ AT_Face]
      exI [of _ AT_ActiveDirectory] exI [of _ AT_Ukey] exI [of _ AT_FingerVein] exI [of _ AT_Iris], simp)+
qed

lemma types_in_bit: "at_flag t = 2 ^ i \<Longrightarrow> t \<in> types_in n \<longleftrightarrow> bit n i"
  by (simp add: types_in_def and_exp_eq_0_iff_not_bit)

lemma type_to_index_least:
  assumes "0 < n" and "n < 128"
  shows "type_to_index n = type_to_index (at_flag (Min (types_in n)))"
proof -
  have "n mod 4294967296 \<noteq> 0" using assms by simp
  then obtain i where i: "type_to_index n = Inr i"
    using type_to_index_undefined [of n] type_to_index_from_error [of "word_of_int n" 0]
    by (cases "type_to_index n") (auto simp: type_to_index_def)
  note low = type_to_index_Inr [OF i]
  have "n = take_bit 7 n" using assms by (simp add: take_bit_eq_mod)
  then have "i < 7" using low by (metis bit_take_bit_iff)
  then obtain t where t: "at_flag t = 2 ^ i" using index_at_flag by blast
  have "Min (types_in n) = t"
  proof (rule Min_eqI)
    show "t \<in> types_in n" using low t by (simp add: types_in_bit)
    show "t \<le> u" if "u \<in> types_in n" for u
    proof -
      obtain j where j: "at_flag u = 2 ^ j" using at_flag_index by blast
      with that have "bit n j" by (simp add: types_in_bit)
      with low have "i \<le> j" using not_less by blast
      with t j show ?thesis by (simp add: less_eq_AuthenticateType_def)
    qed
  qed simp
  moreover have "type_to_index (at_flag t) = Inr i"
    using type_to_index_power [of i] \<open>i < 7\<close> t by simp
  ultimately show ?thesis using i by simp
qed



end
