(* ===== verification/Env_File.thy ===== *)
theory Env_File
  imports Prelude
begin

text \<open>
  The lines of a locale file such as \<open>~/.config/locale.conf\<close>, read by \<open>load_user_locale\<close>
  (\<open>misc/pam-module/auth/utils.c\<close>), \<open>da_load_user_locale\<close> and \<open>da_get_user_lang\<close>
  (\<open>lib/src/auth/text.c\<close>) with the same code: \<open>fgets\<close>, cut at the newline, split at the first \<open>=\<close>.
\<close>

definition chop_newline :: "string \<Rightarrow> string" where
  "chop_newline s = (case strchr newline s of None \<Rightarrow> s | Some i \<Rightarrow> take i s)"

definition split_assignment :: "string \<Rightarrow> (string \<times> string) option" where
  \<comment> \<open>no \<open>=\<close>, or an \<open>=\<close> at the start: the line is skipped\<close>
  "split_assignment s =
     (case strchr (CHR ''='') s of
        None \<Rightarrow> None
      | Some i \<Rightarrow> if i = 0 then None else Some (take i s, drop (Suc i) s))"

definition parse_env_line :: "string \<Rightarrow> (string \<times> string) option" where
  "parse_env_line line = split_assignment (chop_newline (cstr line))"

definition env_line :: "string \<Rightarrow> string \<Rightarrow> string" where
  "env_line n v = n @ CHR ''='' # v @ [newline]"

lemma chop_newline_append: "newline \<notin> set s \<Longrightarrow> chop_newline (s @ newline # t) = s"
  by (simp add: chop_newline_def strchr_append)

lemma split_assignment_eq:
  "CHR ''='' \<notin> set n \<Longrightarrow> n \<noteq> [] \<Longrightarrow> split_assignment (n @ CHR ''='' # v) = Some (n, v)"
  by (simp add: split_assignment_def strchr_append)

lemma parse_env_line_roundtrip:
  assumes "CHR ''='' \<notin> set n" "n \<noteq> []" "newline \<notin> set n" "newline \<notin> set v" "nul_free n" "nul_free v"
  shows "parse_env_line (env_line n v) = Some (n, v)"
proof -
  have "chop_newline ((n @ CHR ''='' # v) @ newline # []) = n @ CHR ''='' # v"
    using assms by (intro chop_newline_append) auto
  then show ?thesis
    using assms by (simp add: parse_env_line_def env_line_def cstr_nul_free split_assignment_eq)
qed

lemma split_assignment_name: "split_assignment s = Some (n, v) \<Longrightarrow> n \<noteq> [] \<and> CHR ''='' \<notin> set n"
  by (auto simp: split_assignment_def strchr_Some split: option.splits if_splits)

lemma fgets_take_line:
  "newline \<notin> set l \<Longrightarrow> length l < k \<Longrightarrow> fgets_take k (l @ newline # r) = (l @ [newline], r)"
proof (induction l arbitrary: k)
  case Nil
  then show ?case by (cases k) auto
next
  case (Cons c l)
  then show ?case by (cases k) auto
qed

text \<open>A file of short lines is read line by line.\<close>

lemma fgets_lines_of_lines:
  assumes "\<forall>l\<in>set ls. newline \<notin> set l \<and> length l < Suc k"
  shows "fgets_lines (Suc k) (concat (map (\<lambda>l. l @ [newline]) ls)) = map (\<lambda>l. l @ [newline]) ls"
  using assms
proof (induction ls)
  case Nil
  then show ?case by simp
next
  case (Cons l ls)
  let ?r = "concat (map (\<lambda>l. l @ [newline]) ls)"
  have t: "fgets_take (Suc k) (l @ newline # ?r) = (l @ [newline], ?r)"
    using Cons.prems by (intro fgets_take_line) auto
  obtain c s where cs: "l @ newline # ?r = c # s" by (cases "l @ newline # ?r") auto
  have "fgets_lines (Suc k) (l @ newline # ?r) = (l @ [newline]) # fgets_lines (Suc k) ?r"
    using t unfolding cs by (simp only: fgets_lines.simps Let_def case_prod_conv)
  with Cons show ?case by simp
qed

text \<open>A file of assignments, one to a line.\<close>

definition env_ok :: "nat \<Rightarrow> string \<times> string \<Rightarrow> bool" where
  \<comment> \<open>an assignment that fits a line of \<open>n\<close> characters with its newline\<close>
  "env_ok n kv =
     (case kv of (k, v) \<Rightarrow>
        k \<noteq> [] \<and> CHR ''='' \<notin> set k \<and> newline \<notin> set k \<and> newline \<notin> set v \<and> nul_free k \<and> nul_free v
        \<and> length (env_line k v) \<le> n)"

definition env_file :: "(string \<times> string) list \<Rightarrow> string" where
  "env_file kvs = concat (map (\<lambda>(k, v). env_line k v) kvs)"

lemma env_file_lines:
  assumes "list_all (env_ok n) kvs" and "n \<le> Suc m"
  shows "fgets_lines (Suc m) (env_file kvs) = map (\<lambda>(k, v). env_line k v) kvs"
proof -
  let ?ls = "map (\<lambda>(k, v). k @ CHR ''='' # v) kvs"
  have e: "env_file kvs = concat (map (\<lambda>l. l @ [newline]) ?ls)"
    by (induction kvs) (auto simp: env_file_def env_line_def)
  have "newline \<notin> set l \<and> length l < Suc m" if "l \<in> set ?ls" for l
    using that assms by (auto simp: list_all_iff env_ok_def env_line_def)
  then have "fgets_lines (Suc m) (env_file kvs) = map (\<lambda>l. l @ [newline]) ?ls"
    unfolding e by (intro fgets_lines_of_lines) blast
  then show ?thesis by (simp add: env_line_def case_prod_beta comp_def)
qed

end
