(* ===== verification/Pam_Utils.thy ===== *)
theory Pam_Utils
  imports Pam_Dbus Pam_Factors Pam_Type Env_File
begin

text \<open>
  The rest of \<open>misc/pam-module/auth/utils.c\<close>: the messages of the verify signals, the limits of the
  user, the locale of the user, the properties of a session and the type of the calling application.
  JSON is read through the parameter \<open>jsonc\<close>.
\<close>

subsection \<open>Verify messages\<close>

definition format0 :: "nat \<Rightarrow> string \<Rightarrow> string cres" where
  \<comment> \<open>\<open>sprintf(buf, format)\<close> into \<open>n\<close> characters\<close>
  "format0 n f = cbind (cformat f []) (sprintf_into n)"

definition retry_text :: "int \<Rightarrow> string option" where
  \<comment> \<open>the text for a retry code of the fingerprint device; none for an unknown code\<close>
  "retry_text subcode =
     (if subcode = 1 then Some ''Clean your finger and try again''
      else if subcode = 2 then Some ''Finger not centered''
      else if subcode = 3 then Some ''Clean your finger and try again''
      else if subcode = 4 then Some ''Unclear fingerprint, please clean your finger and try again''
      else if subcode = 5 then
        Some ''Finger moved too fast, please do not lift until prompted''
      else None)"

definition verify_error_text :: "int \<Rightarrow> string option" where
  "verify_error_text subcode =
     (if subcode = 1 then Some ''Verification error''
      else if subcode = 2 then
        Some ''Fingerprint verification unavailable, please input password''
      else None)"

definition show_text :: "sysenv \<Rightarrow> string option \<Rightarrow> (int \<times> string) cres" where
  "show_text S t =
     (case t of None \<Rightarrow> Inr (0, [])
      | Some t \<Rightarrow> cbind (format0 MAX_BUF_SIZE (gettext S t)) (\<lambda>m. Inr (PAM_ERROR_MSG, m)))"

definition resolve_verify_msg :: "sysenv \<Rightarrow> 'j jsonc \<Rightarrow> string \<Rightarrow> (int \<times> string) cres" where
  \<comment> \<open>the style of the message (0: nothing to show) and the text in the zeroed buffer\<close>
  "resolve_verify_msg S J verify_msg =
     (let subcode = - 1; (ok, parsed_json) = parse_ex J verify_msg in
      if \<not> ok then Inr (0, [])
      else
        let flag = get_int J (get_or_null J parsed_json ''flag'');
            code = get_int J (get_or_null J parsed_json ''code'')
        in case get_string J (get_or_null J parsed_json ''msg'') of
             None \<Rightarrow> Inl Null_Deref
           | Some t \<Rightarrow> cbind (sprintf_into MAX_BUF_SIZE t) (\<lambda>subdata.
               if flag = at_flag AT_Fingerprint then
                 (if code = 2 then show_text S (verify_error_text subcode)
                  else if code = 3 then
                    (case parse_ex J subdata of (ok, json_subcode) \<Rightarrow>
                       if \<not> ok then Inr (0, [])
                       else show_text S (retry_text (get_int J (get_or_null J json_subcode ''subcode''))))
                  else if code = 5 then
                    cbind (format0 MAX_BUF_SIZE (gettext S ''Password'')) (\<lambda>m. Inr (PAM_TEXT_INFO, m))
                  else Inr (0, []))
               else Inr (0, [])))"

subsection \<open>Limits\<close>

definition limit_of_json :: "'j jsonc \<Rightarrow> 'j option \<Rightarrow> Limit cres" where
  "limit_of_json J jobj =
     (case get_string J (get_or_null J jobj ''unlockTime'') of
        None \<Rightarrow> Inl Null_Deref
      | Some t \<Rightarrow> cbind (sprintf_into MAX_BUF_SIZE t) (\<lambda>t.
          Inr \<lparr>maxTries = get_int J (get_or_null J jobj ''maxTries''),
               numFailures = get_int J (get_or_null J jobj ''numFailures''),
               locked = get_boolean J (get_or_null J jobj ''locked''),
               unlockTime = t\<rparr>))"

definition limits_step :: "'j jsonc \<Rightarrow> 'j option \<Rightarrow> Limit list \<Rightarrow> Limit list cres" where
  \<comment> \<open>one element of the array; an index outside the table is skipped\<close>
  "limits_step J jobj ls =
     cbind (type_to_index (get_int J (get_or_null J jobj ''flag''))) (\<lambda>typeIndex.
       if SUPPORT_AT_TYPE \<le> typeIndex then Inr ls
       else cbind (limit_of_json J jobj) (\<lambda>l. Inr (ls[typeIndex := l])))"

fun limits_loop :: "'j jsonc \<Rightarrow> 'j option list \<Rightarrow> Limit list \<Rightarrow> Limit list cres" where
  "limits_loop J [] ls = Inr ls"
| "limits_loop J (jobj # js) ls = cbind (limits_step J jobj ls) (limits_loop J js)"

definition get_limits_info :: "('m, 'j, 'k) env \<Rightarrow> 'k UserData \<Rightarrow> 'k UserData cres" where
  "get_limits_info E ud =
     cbind (dbus_method_get_limits E ud (ud_username ud)) (\<lambda>(ret, buff, ud).
       if ret \<noteq> 0 then Inr ud
       else
         let J = e_json E;
             (ok, parsed_json) = parse_ex J (case buff of None \<Rightarrow> [] | Some s \<Rightarrow> s)
         in if \<not> ok then Inr ud
            else (case array_length J parsed_json of
                    None \<Rightarrow> Inl Assert_Fail
                  | Some len \<Rightarrow>
                      cbind (limits_loop J (map (array_get_idx J parsed_json) [0..<len]) (ud_limits ud))
                        (\<lambda>ls. Inr (ud\<lparr>ud_limits := ls\<rparr>))))"

subsection \<open>The locale of the user\<close>

abbreviation (input) PATH_MAX :: nat where "PATH_MAX \<equiv> 4096"

fun set_env_lines :: "nat \<Rightarrow> string list \<Rightarrow> 'k UserData \<Rightarrow> 'k UserData cres" where
  \<comment> \<open>the reading loop over a buffer of \<open>n\<close> bytes\<close>
  "set_env_lines n [] ud = Inr ud"
| "set_env_lines n (l # ls) ud =
     (if n \<le> length l then Inl Buffer_Overflow
      else set_env_lines n ls
        (case parse_env_line l of None \<Rightarrow> ud | Some (k, v) \<Rightarrow> emit (Env_Set k v) ud))"

definition load_user_locale ::
  "sysenv \<Rightarrow> 'k UserData \<Rightarrow> string \<Rightarrow> string \<Rightarrow> 'k UserData cres" where
  "load_user_locale S ud username locale_path =
     (case pw_dir S username of
        None \<Rightarrow> Inr ud
      | Some dir \<Rightarrow>
          let path_len = length dir + length locale_path + 2;
              file = dir @ ''/'' @ locale_path
          in if PATH_MAX < path_len then Inr ud
             else if \<not> is_regular S file then Inr ud
             else (case read_file S file of
                     None \<Rightarrow> Inr ud
                   | Some content \<Rightarrow>
                       set_env_lines path_len (fgets_lines (MAX_BUF_SIZE - 1) content) ud))"

subsection \<open>The session's properties\<close>

definition session_property :: "string \<Rightarrow> string \<Rightarrow> bus_call" where
  "session_property path name =
     \<lparr>bc_service = DBUS_SERVICE, bc_path = path, bc_iface = DBUS_AUTHCTRL_INTERFACE,
      bc_member = name, bc_args = []\<rparr>"

definition get_property ::
  "('m, 'j, 'k) env \<Rightarrow> string \<Rightarrow> string \<Rightarrow> 'k UserData \<Rightarrow> int \<times> 'm \<times> 'k UserData" where
  "get_property E path name ud =
     (case sd_get_property (e_bus E) (ud_hist ud) (session_property path name) of
        (ret, reply) \<Rightarrow> (ret, reply, emit (Bus_Property (session_property path name)) ud))"

definition get_property_string ::
  "('m, 'j, 'k) env \<Rightarrow> string \<Rightarrow> string \<Rightarrow> 'k UserData \<Rightarrow> int \<times> 'k UserData" where
  \<comment> \<open>the text itself is only logged\<close>
  "get_property_string E path name ud =
     (case get_property E path name ud of (ret, reply, ud) \<Rightarrow>
        if ret < 0 then (ret, ud) else (fst (rd_s (e_bus E) reply), ud))"

definition get_property_int ::
  "('m, 'j, 'k) env \<Rightarrow> string \<Rightarrow> string \<Rightarrow> 'k UserData \<Rightarrow> int \<times> int \<times> 'k UserData" where
  "get_property_int E path name ud =
     (case get_property E path name ud of (ret, reply, ud) \<Rightarrow>
        if ret < 0 then (ret, 0, ud)
        else (case rd_i (e_bus E) reply of (r, v, _) \<Rightarrow> (r, v, ud)))"

definition get_authctl_property ::
  "('m, 'j, 'k) env \<Rightarrow> 'k UserData \<Rightarrow> string \<Rightarrow> AuthSession \<Rightarrow> (int \<times> AuthSession \<times> 'k UserData) option"
  where
  "get_authctl_property E ud path res =
     (case get_property_int E path ''IsMFA'' ud of (ret, isMFA, ud) \<Rightarrow>
      if ret < 0 then Some (PAM_ABORT, res, ud)
      else
        let res = res\<lparr>as_isMFA := isMFA\<rparr> in
      (case get_property E path ''FactorsInfo'' ud of (ret, bus_message, ud) \<Rightarrow>
      if ret < 0 then Some (PAM_ABORT, res, ud)
      else
      (case get_property_string E path ''Prompt'' ud of (ret, ud) \<Rightarrow>
      if ret < 0 then Some (PAM_ABORT, res, ud)
      else
      (case get_property_string E path ''Username'' ud of (ret, ud) \<Rightarrow>
      if ret < 0 then Some (PAM_ABORT, res, ud)
      else map_option (\<lambda>(r, res). (r, res, ud))
             (resolve_authctrl_factors (e_bus E) bus_message res)))))"

subsection \<open>The application type\<close>

definition read_file_data :: "sysenv \<Rightarrow> string \<Rightarrow> string option" where
  "read_file_data S filename = read_file S filename"

fun app_type_loop :: "'j jsonc \<Rightarrow> string \<Rightarrow> 'j option list \<Rightarrow> string option cres" where
  "app_type_loop J app_path [] = Inr None"
| "app_type_loop J app_path (target # ts) =
     (case (get_ex J target ''app'', get_ex J target ''type'') of
        (Some json_app, Some json_type) \<Rightarrow>
          (case get_string J json_app of
             None \<Rightarrow> Inl Null_Deref
           | Some json_app_path \<Rightarrow>
               if json_app_path = app_path then
                 (case get_string J json_type of
                    None \<Rightarrow> Inl Null_Deref
                  | Some s \<Rightarrow> if get_string_len J json_type < length s then Inl Buffer_Overflow
                              else Inr (Some s))
               else app_type_loop J app_path ts)
      | _ \<Rightarrow> app_type_loop J app_path ts)"

abbreviation (input) APP_TYPE_LIST_FILE_PATH :: string where
  "APP_TYPE_LIST_FILE_PATH \<equiv> ''/usr/share/deepin-authentication/app-type-list''"

definition load_app_type :: "sysenv \<Rightarrow> 'j jsonc \<Rightarrow> string \<Rightarrow> string option cres" where
  "load_app_type S J app_path =
     (case read_file_data S APP_TYPE_LIST_FILE_PATH of
        None \<Rightarrow> Inr None
      | Some data \<Rightarrow>
          (case snd (parse_ex J (cstr data)) of
             None \<Rightarrow> Inr None
           | Some parsed_json \<Rightarrow>
               (case get_ex J (Some parsed_json) ''app-type'' of
                  None \<Rightarrow> Inr None
                | Some json_app_list \<Rightarrow>
                    (case array_length J json_app_list of
                       None \<Rightarrow> Inl Assert_Fail
                     | Some n \<Rightarrow>
                         app_type_loop J app_path (map (array_get_idx J json_app_list) [0..<n])))))"

end
