(* ===== verification/Pam_Conv.thy ===== *)
theory Pam_Conv
  imports Pam_Utils
begin

text \<open>
  What the signal handlers share: \<open>send_msg\<close> of \<open>misc/pam-module/auth/pam.c\<close> (the only function the
  module passes as \<open>send_msg_cb\<close>), and the start of the thread that asks for the token.
\<close>

subsection \<open>The conversation\<close>

definition send_msg ::
  "('m, 'j, 'k) env \<Rightarrow> 'k UserData \<Rightarrow> string \<Rightarrow> int \<Rightarrow> string option option \<times> 'k UserData" where
  \<comment> \<open>the response (null, or with its text) and the state\<close>
  "send_msg E ud msg style =
     (case pam_conv (e_sys E) (ud_hist ud) msg style of
        Conv_No_Item \<Rightarrow> (None, ud)
      | Conv_Null \<Rightarrow> (None, ud)
      | Conv_Error \<Rightarrow>
          let ud = emit (Conv_Msg msg style) ud in
          (None, if style = PAM_PROMPT_ECHO_OFF \<or> style = PAM_PROMPT_ECHO_ON
                 then ud\<lparr>ud_res := (if ud_res ud = - 1 then PAM_ABORT else ud_res ud)\<rparr> else ud)
      | Conv_Resp r \<Rightarrow> (r, emit (Conv_Msg msg style) ud))"

definition show_msg :: "('m, 'j, 'k) env \<Rightarrow> 'k UserData \<Rightarrow> string \<Rightarrow> int \<Rightarrow> 'k UserData" where
  \<comment> \<open>the calls that drop the response\<close>
  "show_msg E ud msg style = snd (send_msg E ud msg style)"

lemma show_msg_same: "style \<notin> {PAM_PROMPT_ECHO_OFF, PAM_PROMPT_ECHO_ON} \<Longrightarrow> same_but_hist ud (show_msg E ud msg style)"
  by (simp add: show_msg_def send_msg_def Let_def split: conv_answer.splits)

subsection \<open>The token thread\<close>

definition token_thread_busy :: "'k UserData \<Rightarrow> bool" where
  \<comment> \<open>\<open>ud->pid && pthread_kill(ud->pid, 0) != ESRCH\<close>\<close>
  "token_thread_busy ud \<longleftrightarrow> ud_pid ud \<and> thread_alive (ud_thr ud)"

definition start_token_thread ::
  "('m, 'j, 'k) env \<Rightarrow> string \<Rightarrow> 'k UserData \<Rightarrow> (int \<times> 'k UserData) cres" where
  \<comment> \<open>store the prompt, create the thread; -1 when it runs\<close>
  "start_token_thread E prompt ud =
     cbind (sprintf_into MAX_BUF_SIZE prompt) (\<lambda>p.
       let ud = ud\<lparr>ud_prompt := p\<rparr> in
       if pthread_create (e_sys E) (ud_hist ud) \<noteq> 0 then Inr (PAM_ABORT, ud)
       else Inr (- 1, emit Thread_Create (ud\<lparr>ud_pid := True, ud_thr := T_Prompt\<rparr>)))"

subsection \<open>The texts of a failure\<close>

definition newline_first :: "'k UserData \<Rightarrow> int \<Rightarrow> string" where
  \<comment> \<open>a line break before the message of a device on a terminal\<close>
  "newline_first ud t = (if \<not> is_input_type t \<and> ud_term ud then [newline] else [])"

definition print_at :: "string \<Rightarrow> string \<Rightarrow> parg list \<Rightarrow> string cres" where
  \<comment> \<open>\<open>snprintf(msg + offset, MAX_BUF_SIZE, format, ...)\<close>\<close>
  "print_at pre f as = cbind (cformat f as) (snprintf_into MAX_BUF_SIZE pre MAX_BUF_SIZE)"

lemma print_at_length: "print_at pre f as = Inr t \<Longrightarrow> length t < MAX_BUF_SIZE"
  by (auto simp: print_at_def cbind_eq_Inr dest: snprintf_into_length)

subsection \<open>Frames\<close>

text \<open>\<open>tables_ok\<close>: the two tables with a place for each type have their size, and the count of failures
  stays inside the second.\<close>

definition tables_ok :: "'k UserData \<Rightarrow> bool" where
  "tables_ok ud \<longleftrightarrow>
     length (ud_limits ud) = SUPPORT_AT_TYPE \<and> length (ud_failed_indexs ud) = SUPPORT_AT_TYPE
     \<and> ud_failed_num ud \<le> SUPPORT_AT_TYPE"

lemma tables_ok_upd [simp]:
  "tables_ok (ud\<lparr>ud_bus := x_bus\<rparr>) = tables_ok ud"
  "tables_ok (ud\<lparr>ud_term := x_term\<rparr>) = tables_ok ud"
  "tables_ok (ud\<lparr>ud_path := x_path\<rparr>) = tables_ok ud"
  "tables_ok (ud\<lparr>ud_username := x_username\<rparr>) = tables_ok ud"
  "tables_ok (ud\<lparr>ud_prompt := x_prompt\<rparr>) = tables_ok ud"
  "tables_ok (ud\<lparr>ud_auth_tok := x_auth_tok\<rparr>) = tables_ok ud"
  "tables_ok (ud\<lparr>ud_pid := x_pid\<rparr>) = tables_ok ud"
  "tables_ok (ud\<lparr>ud_cur_type := x_cur_type\<rparr>) = tables_ok ud"
  "tables_ok (ud\<lparr>ud_need_cancel := x_need_cancel\<rparr>) = tables_ok ud"
  "tables_ok (ud\<lparr>ud_auth_ctrl := x_auth_ctrl\<rparr>) = tables_ok ud"
  "tables_ok (ud\<lparr>ud_res := x_res\<rparr>) = tables_ok ud"
  "tables_ok (ud\<lparr>ud_waiting_result := x_waiting_result\<rparr>) = tables_ok ud"
  "tables_ok (ud\<lparr>ud_get_result_val := x_get_result_val\<rparr>) = tables_ok ud"
  "tables_ok (ud\<lparr>ud_key := x_key\<rparr>) = tables_ok ud"
  "tables_ok (ud\<lparr>ud_symmetric_key := x_symmetric_key\<rparr>) = tables_ok ud"
  "tables_ok (ud\<lparr>ud_thr := x_thr\<rparr>) = tables_ok ud"
  "tables_ok (ud\<lparr>ud_hist := x_hist\<rparr>) = tables_ok ud"
  by (simp_all add: tables_ok_def)

lemma tables_ok_emit [simp]: "tables_ok (emit e ud) = tables_ok ud"
  by (simp add: emit_def)

text \<open>\<open>keeps ud ud'\<close>: a handler's step. The session, its path and the results of the token thread
  stay; the thread stays where it is, or it is a new one started while none was alive; the history
  grows; the tables keep their shape.\<close>

definition keeps :: "'k UserData \<Rightarrow> 'k UserData \<Rightarrow> bool" where
  "keeps ud ud' \<longleftrightarrow>
     extends ud ud' \<and> ud_path ud' = ud_path ud \<and> ud_username ud' = ud_username ud
     \<and> ud_auth_ctrl ud' = ud_auth_ctrl ud \<and> ud_bus ud' = ud_bus ud \<and> ud_term ud' = ud_term ud
     \<and> ud_res ud' = ud_res ud \<and> ud_waiting_result ud' = ud_waiting_result ud
     \<and> ud_get_result_val ud' = ud_get_result_val ud \<and> ud_auth_tok ud' = ud_auth_tok ud
     \<and> ud_key ud' = ud_key ud \<and> ud_symmetric_key ud' = ud_symmetric_key ud
     \<and> (tables_ok ud \<longrightarrow> tables_ok ud')
     \<and> ((ud_thr ud' = ud_thr ud \<and> ud_pid ud' = ud_pid ud)
          \<or> (\<not> token_thread_busy ud \<and> ud_thr ud' = T_Prompt \<and> ud_pid ud'))"

lemma keeps_refl [simp, intro]: "keeps ud ud"
  by (simp add: keeps_def)

lemma keeps_trans [trans]: "keeps a b \<Longrightarrow> keeps b c \<Longrightarrow> keeps a c"
  by (auto simp: keeps_def token_thread_busy_def intro: extends_trans)

lemma same_but_hist_tables: "same_but_hist ud ud' \<Longrightarrow> tables_ok ud' = tables_ok ud"
  by (auto simp: same_but_hist_def)

lemma same_but_hist_keeps: "same_but_hist ud ud' \<Longrightarrow> keeps ud ud'"
  by (simp add: keeps_def same_but_hist_extends same_but_hist_fields same_but_hist_tables)

lemma keeps_emit [simp, intro]: "keeps ud (emit e ud)"
  by (simp add: same_but_hist_keeps)

lemma keeps_upd [simp]:
  "keeps (u\<lparr>ud_need_cancel := x_need_cancel\<rparr>) v \<longleftrightarrow> keeps u v" "keeps u (v\<lparr>ud_need_cancel := x_need_cancel\<rparr>) \<longleftrightarrow> keeps u v"
  "keeps (u\<lparr>ud_cur_type := x_cur_type\<rparr>) v \<longleftrightarrow> keeps u v" "keeps u (v\<lparr>ud_cur_type := x_cur_type\<rparr>) \<longleftrightarrow> keeps u v"
  "keeps (u\<lparr>ud_prompt := x_prompt\<rparr>) v \<longleftrightarrow> keeps u v" "keeps u (v\<lparr>ud_prompt := x_prompt\<rparr>) \<longleftrightarrow> keeps u v"
  by (simp_all add: keeps_def extends_def token_thread_busy_def)

lemma keeps_prompt:
  "\<not> token_thread_busy u \<Longrightarrow> keeps u v \<Longrightarrow> keeps u (v\<lparr>ud_pid := True, ud_thr := T_Prompt\<rparr>)"
  by (simp add: keeps_def extends_def)

lemma keeps_emit_iff: "keeps u v \<Longrightarrow> same_but_hist v w \<Longrightarrow> keeps u w"
  by (rule keeps_trans [OF _ same_but_hist_keeps])

lemma keeps_emitI [simp]: "keeps ud ud' \<Longrightarrow> keeps ud (emit e ud')"
  by (rule keeps_trans [OF _ keeps_emit])

lemma show_msg_keeps [simp]:
  "style \<notin> {PAM_PROMPT_ECHO_OFF, PAM_PROMPT_ECHO_ON} \<Longrightarrow> keeps u ud \<Longrightarrow>
   keeps u (show_msg E ud msg style)"
  by (rule keeps_trans [OF _ same_but_hist_keeps [OF show_msg_same]])

lemma keeps_limits:
  "keeps u v \<Longrightarrow> length ls = length (ud_limits v) \<Longrightarrow> keeps u (v\<lparr>ud_limits := ls\<rparr>)"
  by (auto simp: keeps_def extends_def tables_ok_def)

lemma limits_loop_length: "limits_loop J js ls = Inr ls' \<Longrightarrow> length ls' = length ls"
  by (induction J js ls rule: limits_loop.induct)
    (auto simp: limits_step_def elim!: cbind_InrE split: if_splits)

lemma get_limits_info_keeps: "get_limits_info E ud = Inr ud' \<Longrightarrow> keeps ud ud'"
proof -
  assume g: "get_limits_info E ud = Inr ud'"
  then obtain r s ud1 where c: "dbus_method_get_limits E ud (ud_username ud) = Inr (r, s, ud1)"
    by (auto simp: get_limits_info_def elim!: cbind_InrE)
  have u: "ud' = ud1 \<or> (\<exists>ls. ud' = ud1\<lparr>ud_limits := ls\<rparr>)" and l: "length (ud_limits ud') = length (ud_limits ud1)"
    using g by (auto simp: get_limits_info_def c Let_def elim!: cbind_InrE dest: limits_loop_length
        split: if_splits prod.splits option.splits)
  have "keeps ud ud1"
    using c by (auto simp: dbus_method_get_limits_def dest: text_call_same intro: same_but_hist_keeps)
  with u l show ?thesis by (auto intro: keeps_limits)
qed

lemma start_token_thread_keeps:
  "start_token_thread E p ud = Inr (r, ud') \<Longrightarrow> \<not> token_thread_busy ud \<Longrightarrow> keeps ud ud'"
  by (auto simp: start_token_thread_def Let_def cres_simps keeps_prompt split: if_splits)

lemma start_token_thread_code:
  "start_token_thread E p ud = Inr (r, ud') \<Longrightarrow> r = - 1 \<or> r = PAM_ABORT"
  by (auto simp: start_token_thread_def Let_def cres_simps split: if_splits)

subsection \<open>The contract of a signal handler\<close>

text \<open>What \<open>bus_signal_cb\<close> relies on, whichever handler it calls: the frame, the codes it may get, and
  that a handler reports success for the overall success signal only.\<close>

locale signal_handler =
  fixes deal :: "('m, 'j, 'k) env \<Rightarrow> 'k UserData \<Rightarrow> int \<Rightarrow> int \<Rightarrow> string \<Rightarrow> (int \<times> 'k UserData) cres"
  assumes deal_keeps: "deal E ud code t msg = Inr (r, ud') \<Longrightarrow> keeps ud ud'"
    and deal_codes: "deal E ud code t msg = Inr (r, ud') \<Longrightarrow> r \<in> {- 1, PAM_SUCCESS, PAM_AUTH_ERR, PAM_ABORT}"
    and deal_success: "deal E ud code t msg = Inr (r, ud') \<Longrightarrow> r = PAM_SUCCESS \<Longrightarrow> code = 0 \<and> t = - 1"
begin

lemma after_read:
  assumes "deal E (emit (Got_Status t code msg) ud) code t msg = Inr (r, ud')"
  shows "keeps ud ud' \<and> (r = PAM_SUCCESS \<longrightarrow> verified ud')"
proof
  let ?e = "emit (Got_Status t code msg) ud"
  have k: "keeps ?e ud'" by (rule deal_keeps [OF assms])
  then show "keeps ud ud'" by (rule keeps_trans [OF keeps_emit])
  show "r = PAM_SUCCESS \<longrightarrow> verified ud'"
  proof
    assume "r = PAM_SUCCESS"
    with deal_success [OF assms] have "verified ?e" by (auto simp: verified_def)
    with k show "verified ud'" by (auto simp: keeps_def intro: verified_extends)
  qed
qed

lemma busy_thread_stays:
  "deal E ud code t msg = Inr (r, ud') \<Longrightarrow> token_thread_busy ud \<Longrightarrow>
     ud_thr ud' = ud_thr ud \<and> ud_pid ud' = ud_pid ud"
  using deal_keeps by (fastforce simp: keeps_def)

end

end
