(* ===== verification/C_Time.thy ===== *)
theory C_Time
  imports Prelude
begin

text \<open>
  The time functions of the C library the two copies of \<open>resolve_limit_time\<close> use
  (\<open>misc/pam-module/auth/limit.c\<close>, \<open>lib/src/auth/text.c\<close>): \<open>strptime\<close> for the format
  \<open>%FT%TZ\<close> and \<open>mktime\<close>. \<open>strptime\<close> stores each field as soon as it is read, so a text that stops
  matching leaves the fields read so far. \<open>mktime\<close> reads the fields as local time: its zone is the
  parameter \<open>off\<close>, the seconds east of UTC at a local time.
\<close>

record tm =
  tm_year :: int   \<comment> \<open>years since 1900\<close>
  tm_mon :: int    \<comment> \<open>months since January\<close>
  tm_mday :: int
  tm_hour :: int
  tm_min :: int
  tm_sec :: int

definition tm_zero :: tm where
  "tm_zero = \<lparr>tm_year = 0, tm_mon = 0, tm_mday = 0, tm_hour = 0, tm_min = 0, tm_sec = 0\<rparr>"

subsection \<open>Reading\<close>

fun num_more :: "nat \<Rightarrow> nat \<Rightarrow> nat \<Rightarrow> string \<Rightarrow> nat \<times> string" where
  "num_more 0 hi v s = (v, s)"
| "num_more (Suc n) hi v [] = (v, [])"
| "num_more (Suc n) hi v (c # s) =
     (if v * 10 \<le> hi \<and> is_digit c then num_more n hi (v * 10 + char_digit c) s else (v, c # s))"

definition get_number :: "nat \<Rightarrow> nat \<Rightarrow> nat \<Rightarrow> string \<Rightarrow> (nat \<times> string) option" where
  \<comment> \<open>a number of at most \<open>n\<close> digits between \<open>lo\<close> and \<open>hi\<close>, after optional spaces\<close>
  "get_number lo hi n s =
     (case dropWhile (\<lambda>c. c = CHR '' '') s of
        [] \<Rightarrow> None
      | c # t \<Rightarrow>
          if is_digit c then
            (let (v, r) = num_more (n - 1) hi (char_digit c) t
             in if lo \<le> v \<and> v \<le> hi then Some (v, r) else None)
          else None)"

definition match_char :: "char \<Rightarrow> string \<Rightarrow> string option" where
  "match_char c s = (case s of [] \<Rightarrow> None | x # t \<Rightarrow> if x = c then Some t else None)"

text \<open>One conversion or literal of the format: it takes the text and the fields so far, and gives
  the rest of the text, if it matched, with the fields.\<close>

type_synonym directive = "string \<times> tm \<Rightarrow> (string \<times> tm) option"

definition conv_number :: "nat \<Rightarrow> nat \<Rightarrow> nat \<Rightarrow> (nat \<Rightarrow> tm \<Rightarrow> tm) \<Rightarrow> directive" where
  "conv_number lo hi n upd = (\<lambda>(s, t).
     case get_number lo hi n s of None \<Rightarrow> None | Some (v, r) \<Rightarrow> Some (r, upd v t))"

definition conv_literal :: "char \<Rightarrow> directive" where
  "conv_literal c = (\<lambda>(s, t). case match_char c s of None \<Rightarrow> None | Some r \<Rightarrow> Some (r, t))"

definition format_FTZ :: "directive list" where
  "format_FTZ =
     [conv_number 0 9999 4 (\<lambda>v t. t\<lparr>tm_year := int v - 1900\<rparr>), conv_literal (CHR ''-''),
      conv_number 1 12 2 (\<lambda>v t. t\<lparr>tm_mon := int v - 1\<rparr>), conv_literal (CHR ''-''),
      conv_number 1 31 2 (\<lambda>v t. t\<lparr>tm_mday := int v\<rparr>), conv_literal (CHR ''T''),
      conv_number 0 23 2 (\<lambda>v t. t\<lparr>tm_hour := int v\<rparr>), conv_literal (CHR '':''),
      conv_number 0 59 2 (\<lambda>v t. t\<lparr>tm_min := int v\<rparr>), conv_literal (CHR '':''),
      conv_number 0 61 2 (\<lambda>v t. t\<lparr>tm_sec := int v\<rparr>), conv_literal (CHR ''Z'')]"

fun strptime :: "directive list \<Rightarrow> string \<Rightarrow> tm \<Rightarrow> tm" where
  "strptime [] s t = t"
| "strptime (d # ds) s t = (case d (s, t) of None \<Rightarrow> t | Some (r, t') \<Rightarrow> strptime ds r t')"

subsection \<open>Counting\<close>

definition days_from_civil :: "int \<Rightarrow> int \<Rightarrow> int \<Rightarrow> int" where
  \<comment> \<open>days from 1970-01-01 to the day \<open>d\<close> of month \<open>m\<close> (1 to 12) of year \<open>y\<close>, Gregorian\<close>
  "days_from_civil y m d =
     (let y' = (if m \<le> 2 then y - 1 else y);
          era = y' div 400;
          yoe = y' - era * 400;
          doy = (153 * (m + (if m > 2 then - 3 else 9)) + 2) div 5 + d - 1;
          doe = yoe * 365 + yoe div 4 - yoe div 100 + doy
      in era * 146097 + doe - 719468)"

definition tm_seconds :: "tm \<Rightarrow> int" where
  "tm_seconds t =
     days_from_civil (tm_year t + 1900) (tm_mon t + 1) (tm_mday t) * 86400
     + tm_hour t * 3600 + tm_min t * 60 + tm_sec t"

definition mktime :: "(int \<Rightarrow> int) \<Rightarrow> tm \<Rightarrow> int" where
  "mktime off t = tm_seconds t - off (tm_seconds t)"

lemma days_from_civil_epoch: "days_from_civil 1970 1 1 = 0"
  by (simp add: days_from_civil_def)

lemma days_from_civil_leap:
  "days_from_civil 2024 3 1 - days_from_civil 2024 2 28 = 2"
  "days_from_civil 2000 3 1 - days_from_civil 2000 2 28 = 2"
  "days_from_civil 1900 3 1 - days_from_civil 1900 2 28 = 1"
  "days_from_civil 2023 1 1 - days_from_civil 2022 1 1 = 365"
  by (simp_all add: days_from_civil_def)

subsection \<open>The time stamps of the service\<close>

text \<open>The service writes UTC times such as \<open>2024-05-17T08:09:10Z\<close>.\<close>

definition pad2 :: "nat \<Rightarrow> string" where
  "pad2 n = [digit_char (n div 10), digit_char (n mod 10)]"

definition pad4 :: "nat \<Rightarrow> string" where
  "pad4 n = pad2 (n div 100) @ pad2 (n mod 100)"

definition utc_stamp :: "nat \<Rightarrow> nat \<Rightarrow> nat \<Rightarrow> nat \<Rightarrow> nat \<Rightarrow> nat \<Rightarrow> string" where
  "utc_stamp y mo d h mi s =
     pad4 y @ ''-'' @ pad2 mo @ ''-'' @ pad2 d @ ''T'' @ pad2 h @ '':'' @ pad2 mi @ '':'' @ pad2 s
     @ ''Z''"

definition stamp_ok :: "nat \<Rightarrow> nat \<Rightarrow> nat \<Rightarrow> nat \<Rightarrow> nat \<Rightarrow> nat \<Rightarrow> bool" where
  "stamp_ok y mo d h mi s \<longleftrightarrow>
     y \<le> 9999 \<and> 1 \<le> mo \<and> mo \<le> 12 \<and> 1 \<le> d \<and> d \<le> 31 \<and> h \<le> 23 \<and> mi \<le> 59 \<and> s \<le> 61"

lemma is_digit_not_blank: "is_digit c \<Longrightarrow> c \<noteq> CHR '' ''"
  by (auto simp: is_digit_def)

lemma digit_char_not_blank [simp]: "d < 10 \<Longrightarrow> digit_char d \<noteq> CHR '' ''"
  using is_digit_not_blank is_digit_digit_char by blast

lemma get_number_2:
  assumes "a < 10" "b < 10" "lo \<le> a * 10 + b" "a * 10 + b \<le> hi"
  shows "get_number lo hi 2 (digit_char a # digit_char b # s) = Some (a * 10 + b, s)"
proof -
  have "a * 10 \<le> hi" using assms(4) by linarith
  with assms show ?thesis by (simp add: get_number_def numeral_2_eq_2)
qed

lemma get_number_4:
  assumes "a < 10" "b < 10" "c < 10" "d < 10"
  shows "get_number 0 9999 4 (digit_char a # digit_char b # digit_char c # digit_char d # s) =
    Some (((a * 10 + b) * 10 + c) * 10 + d, s)"
proof -
  define e f where "e = a * 10 + b" and "f = e * 10 + c"
  have "e \<le> 99" using assms unfolding e_def by linarith
  then have "f \<le> 999" using assms unfolding f_def by linarith
  have "a * 10 \<le> 9999" using assms by linarith
  moreover have "(a * 10 + b) * 10 \<le> 9999" using \<open>e \<le> 99\<close> by (fold e_def) linarith
  moreover have "((a * 10 + b) * 10 + c) * 10 \<le> 9999"
    using \<open>f \<le> 999\<close> by (fold e_def, fold f_def) linarith
  moreover have "((a * 10 + b) * 10 + c) * 10 + d \<le> 9999"
    using \<open>f \<le> 999\<close> assms(4) by (fold e_def, fold f_def) linarith
  moreover have "(4::nat) - 1 = Suc (Suc (Suc 0))" by simp
  ultimately show ?thesis
    using assms by (simp only: get_number_def dropWhile.simps list.case num_more.simps
        digit_char_not_blank is_digit_digit_char char_digit_digit_char if_False if_True
        Let_def case_prod_conv le0 simp_thms)
qed

lemma get_number_pad2:
  assumes "lo \<le> n" "n \<le> hi" "hi < 100"
  shows "get_number lo hi 2 (pad2 n @ s) = Some (n, s)"
proof -
  define a b where "a = n div 10" and "b = n mod 10"
  then have n: "n = a * 10 + b" and "a < 10" "b < 10" using assms by auto
  with assms show ?thesis
    using get_number_2 [of a b lo hi s] by (simp add: pad2_def)
qed

lemma get_number_pad4:
  assumes "n \<le> 9999"
  shows "get_number 0 9999 4 (pad4 n @ s) = Some (n, s)"
proof -
  define a b c d where "a = n div 100 div 10" and "b = n div 100 mod 10"
    and "c = n mod 100 div 10" and "d = n mod 100 mod 10"
  note defs = this
  have "n div 100 < 100" and "n mod 100 < 100" using assms by simp_all
  then have "a < 10" "b < 10" "c < 10" "d < 10" unfolding defs by linarith+
  moreover have "((a * 10 + b) * 10 + c) * 10 + d = n"
  proof -
    have "a * 10 + b = n div 100" and "c * 10 + d = n mod 100" unfolding defs by simp_all
    moreover have "((a * 10 + b) * 10 + c) * 10 + d = (a * 10 + b) * 100 + (c * 10 + d)" by simp
    ultimately show ?thesis by (simp only: div_mult_mod_eq)
  qed
  moreover have "pad4 n = [digit_char a, digit_char b, digit_char c, digit_char d]"
    by (simp add: pad4_def pad2_def defs)
  ultimately show ?thesis
    using get_number_4 [of a b c d s] by simp
qed

lemma strptime_stamp:
  assumes "stamp_ok y mo d h mi s"
  shows "strptime format_FTZ (utc_stamp y mo d h mi s) t =
     \<lparr>tm_year = int y - 1900, tm_mon = int mo - 1, tm_mday = int d,
      tm_hour = int h, tm_min = int mi, tm_sec = int s, \<dots> = tm.more t\<rparr>"
  using assms
  by (simp add: stamp_ok_def format_FTZ_def utc_stamp_def conv_number_def conv_literal_def
      match_char_def get_number_pad2 get_number_pad4)

definition stamp_seconds :: "nat \<Rightarrow> nat \<Rightarrow> nat \<Rightarrow> nat \<Rightarrow> nat \<Rightarrow> nat \<Rightarrow> int" where
  \<comment> \<open>the POSIX time the stamp means\<close>
  "stamp_seconds y mo d h mi s =
     days_from_civil (int y) (int mo) (int d) * 86400 + int h * 3600 + int mi * 60 + int s"

lemma mktime_stamp:
  assumes "stamp_ok y mo d h mi s"
  shows "mktime off (strptime format_FTZ (utc_stamp y mo d h mi s) tm_zero) =
     stamp_seconds y mo d h mi s - off (stamp_seconds y mo d h mi s)"
  by (simp add: strptime_stamp [OF assms] mktime_def tm_seconds_def stamp_seconds_def)

subsection \<open>Minutes to wait\<close>

definition wait_minutes :: "int \<Rightarrow> int" where
  \<comment> \<open>the minutes the code computes from the difference of the two times\<close>
  "wait_minutes diff = (if 0 \<le> diff then to_int32 (c_div (diff + 59) 60) else 0)"

lemma wait_minutes_past: "diff < 0 \<Longrightarrow> wait_minutes diff = 0"
  by (simp add: wait_minutes_def)

lemma wait_minutes_ceiling:
  assumes "0 \<le> diff" and "diff \<le> 60 * 2147483647"
  shows "wait_minutes diff = (diff + 59) div 60"
    and "60 * (wait_minutes diff - 1) < diff" and "diff \<le> 60 * wait_minutes diff"
proof -
  have "- 2147483648 \<le> (diff + 59) div 60" and "(diff + 59) div 60 \<le> 2147483647"
    using assms by linarith+
  then have "int_range ((diff + 59) div 60)" by (simp add: int_range_def)
  then show eq: "wait_minutes diff = (diff + 59) div 60"
    using assms by (simp add: wait_minutes_def c_div_nonneg)
  show "60 * (wait_minutes diff - 1) < diff" and "diff \<le> 60 * wait_minutes diff"
    unfolding eq by presburger+
qed

end
