(* ===== verification/Pam_Limit.thy ===== *)
theory Pam_Limit
  imports Pam_Base C_Time
begin

text \<open>
  The lock of an authentication type (\<open>misc/pam-module/auth/limit.c\<close>): the minutes until the unlock
  time, and the prompt that announces them. \<open>get_limit_prompt\<close> returns the text left in the buffer
  with its return code.
\<close>

definition resolve_limit_time :: "sysenv \<Rightarrow> effect list \<Rightarrow> Limit \<Rightarrow> int" where
  "resolve_limit_time S h limit =
     (let get_time = strptime format_FTZ (unlockTime limit) tm_zero;
          get_time_timestamp = mktime (gmtoff S) get_time;
          diff_of_time = get_time_timestamp - now S h
      in wait_minutes diff_of_time)"

definition get_limit_prompt :: "sysenv \<Rightarrow> effect list \<Rightarrow> string \<Rightarrow> Limit \<Rightarrow> (string \<times> int) cres" where
  \<comment> \<open>the buffer keeps its text \<open>buff\<close> when the type is not locked\<close>
  "get_limit_prompt S h buff limit =
     (if locked limit then
        (let minutes = resolve_limit_time S h limit;
             f = (if minutes > 1 then gettext S ''Please try again %d minutes later''
                  else gettext S ''Please try again %d minute later'')
         in cbind (cformat f [PD minutes]) (\<lambda>t.
            cbind (snprintf_into MAX_BUF_SIZE [] MAX_BUF_SIZE t) (\<lambda>t'.
            Inr (t', PAM_MAXTRIES))))
      else Inr (buff, PAM_SUCCESS))"

lemma get_limit_prompt_unlocked [simp]:
  "\<not> locked l \<Longrightarrow> get_limit_prompt S h b l = Inr (b, PAM_SUCCESS)"
  by (simp add: get_limit_prompt_def)

lemma get_limit_prompt_code:
  "get_limit_prompt S h b l = Inr (t, r) \<Longrightarrow> r = (if locked l then PAM_MAXTRIES else PAM_SUCCESS)"
  by (auto simp: get_limit_prompt_def Let_def split: if_splits)

lemma get_limit_prompt_length:
  "get_limit_prompt S h b l = Inr (t, r) \<Longrightarrow> length b < MAX_BUF_SIZE \<Longrightarrow> length t < MAX_BUF_SIZE"
  by (auto simp: get_limit_prompt_def Let_def dest: snprintf_into_length split: if_splits)


end
