(* ===== verification/Pam_Sfa.thy ===== *)
theory Pam_Sfa
  imports Pam_Conv Pam_Limit
begin

text \<open>
  Single-factor authentication (\<open>misc/pam-module/auth/sfa.c\<close>): every method the user has runs at
  once (type -1), the failures of single methods are collected in \<open>failed_indexs\<close>, and the overall
  status signals (type -1) decide. A handler returns -1 to go on, or the PAM code to end with.
\<close>

definition sfa_start_verify ::
  "('m, 'j, 'k) env \<Rightarrow> 'k UserData \<Rightarrow> int \<Rightarrow> int \<times> 'k UserData" where
  "sfa_start_verify E ud timeout =
     (let ud = ud\<lparr>ud_cur_type := - 1\<rparr> in
      case dbus_method_start E ud (ud_path ud) (ud_cur_type ud) timeout of (r, ud) \<Rightarrow>
        (if r \<noteq> 0 then PAM_ABORT else PAM_SUCCESS, ud))"

subsection \<open>A failure\<close>

definition sfa_record_failure :: "'k UserData \<Rightarrow> int \<Rightarrow> 'k UserData cres" where
  \<comment> \<open>the array has \<open>SUPPORT_AT_TYPE\<close> places and \<open>failed_num\<close> is not checked\<close>
  "sfa_record_failure ud authType =
     (if SUPPORT_AT_TYPE \<le> ud_failed_num ud then Inl Buffer_Overflow
      else Inr (ud\<lparr>ud_failed_indexs := (ud_failed_indexs ud)[ud_failed_num ud := authType],
                   ud_failed_num := Suc (ud_failed_num ud)\<rparr>))"

definition sfa_fail_type :: "'k UserData \<Rightarrow> int" where
  \<comment> \<open>the first failed type, or the password when it is among the failed ones or none failed\<close>
  "sfa_fail_type ud =
     (let failType = (if ud_failed_num ud > 0 then ud_failed_indexs ud ! 0 else at_flag AT_Password)
      in if list_ex (\<lambda>t. t = at_flag AT_Password) (take (ud_failed_num ud) (ud_failed_indexs ud))
         then at_flag AT_Password else failType)"

definition sfa_fail_msg ::
  "sysenv \<Rightarrow> 'k UserData \<Rightarrow> int \<Rightarrow> Limit \<Rightarrow> string cres" where
  "sfa_fail_msg S ud failType limit =
     (let tr = gettext S; pw = (failType = at_flag AT_Password) in
      if locked limit then
        (if \<not> pw then
           print_at (newline_first ud failType) (tr ''%s locked, use password please'')
             [PS (type_to_tr tr failType)]
         else cbind (get_limit_prompt S (ud_hist ud) [] limit) (\<lambda>(limit_buff, _).
           print_at [] (tr ''Password locked, %s'') [PS limit_buff]))
      else cbind (c_sub (maxTries limit) (numFailures limit)) (\<lambda>times.
        if times > 1 then
          (if pw then print_at [] (tr ''Password verification failed, %d chances left'') [PD times]
           else print_at (newline_first ud failType) (tr ''%s verification failed, %d chances left'')
                  [PS (type_to_tr tr failType), PD times])
        else
          (if pw then print_at [] (tr ''Password verification failed, only one chance left'') []
           else print_at (newline_first ud failType)
                  (tr ''%s verification failed, only one chance left'') [PS (type_to_tr tr failType)])))"

definition sfa_overall_failure :: "('m, 'j, 'k) env \<Rightarrow> 'k UserData \<Rightarrow> (int \<times> 'k UserData) cres" where
  "sfa_overall_failure E ud =
     cbind (get_limits_info E (ud\<lparr>ud_need_cancel := False\<rparr>)) (\<lambda>ud.
       let failType = sfa_fail_type ud in
       cbind (type_to_index failType) (\<lambda>typeIndex.
         if SUPPORT_AT_TYPE \<le> typeIndex then Inr (PAM_AUTH_ERR, ud)
         else cbind (sfa_fail_msg (e_sys E) ud failType (ud_limits ud ! typeIndex)) (\<lambda>msg.
                Inr (PAM_AUTH_ERR, show_msg E ud msg PAM_ERROR_MSG))))"

subsection \<open>The handler\<close>

definition sfa_prompt ::
  "('m, 'j, 'k) env \<Rightarrow> 'k UserData \<Rightarrow> string \<Rightarrow> (int \<times> 'k UserData) cres" where
  "sfa_prompt E ud signalMsg =
     (if token_thread_busy ud then Inr (PAM_ABORT, ud)
      else start_token_thread E (if ud_term ud then signalMsg @ '':'' else signalMsg) ud)"

definition signal_verify ::
  "('m, 'j, 'k) env \<Rightarrow> 'k UserData \<Rightarrow> string \<Rightarrow> (int \<times> 'k UserData) cres" where
  \<comment> \<open>the case \<open>ASC_Verify\<close>, the same in both handlers\<close>
  "signal_verify E ud signalMsg =
     cbind (resolve_verify_msg (e_sys E) (e_json E) signalMsg) (\<lambda>(r, msg).
       Inr (- 1, if r \<noteq> 0 then show_msg E ud msg r else ud))"

definition sfa_signal_deal ::
  "('m, 'j, 'k) env \<Rightarrow> 'k UserData \<Rightarrow> int \<Rightarrow> int \<Rightarrow> string \<Rightarrow> (int \<times> 'k UserData) cres" where
  "sfa_signal_deal E ud signalCode authType signalMsg =
     (case asc_of_int signalCode of
        Some ASC_Success \<Rightarrow>
          if authType = - 1 then
            cbind (format0 MAX_BUF_SIZE (gettext (e_sys E) ''Verification successful'')) (\<lambda>msg.
              Inr (PAM_SUCCESS, show_msg E (ud\<lparr>ud_need_cancel := False\<rparr>) msg PAM_TEXT_INFO))
          else Inr (- 1, ud)
      | Some ASC_Failure \<Rightarrow>
          if authType \<noteq> - 1 then cbind (sfa_record_failure ud authType) (\<lambda>ud. Inr (- 1, ud))
          else sfa_overall_failure E ud
      | Some ASC_Cancel \<Rightarrow> Inr (- 1, ud\<lparr>ud_need_cancel := False\<rparr>)
      | Some ASC_Timeout \<Rightarrow> Inr (- 1, ud\<lparr>ud_need_cancel := False\<rparr>)
      | Some ASC_Error \<Rightarrow> Inr (- 1, ud\<lparr>ud_need_cancel := False\<rparr>)
      | Some ASC_Verify \<Rightarrow> signal_verify E ud signalMsg
      | Some ASC_Expect \<Rightarrow> Inr (- 1, ud)
      | Some ASC_Prompt \<Rightarrow> if authType = - 1 then sfa_prompt E ud signalMsg else Inr (- 1, ud)
      | Some ASC_Started \<Rightarrow> Inr (- 1, ud)
      | Some ASC_Ended \<Rightarrow> Inr (- 1, ud)
      | None \<Rightarrow> Inr (- 1, ud))"

subsection \<open>Lemmas\<close>

lemma resolve_verify_msg_style:
  "resolve_verify_msg S J v = Inr (r, m) \<Longrightarrow> r \<in> {0, PAM_ERROR_MSG, PAM_TEXT_INFO}"
  by (auto simp: resolve_verify_msg_def show_text_def Let_def
      split: prod.splits if_splits option.splits elim!: cbind_InrE)

lemma signal_verify_keeps: "signal_verify E ud m = Inr (r, ud') \<Longrightarrow> r = - 1 \<and> keeps ud ud'"
  by (auto simp: signal_verify_def cbind_eq_Inr split: prod.splits if_splits
      dest!: resolve_verify_msg_style)

lemma sfa_overall_failure_keeps:
  "sfa_overall_failure E ud = Inr (r, ud') \<Longrightarrow> r = PAM_AUTH_ERR \<and> keeps ud ud'"
  by (auto simp: sfa_overall_failure_def Let_def split: if_splits elim!: cbind_InrE
      dest!: get_limits_info_keeps)

lemma sfa_prompt_keeps:
  "sfa_prompt E ud m = Inr (r, ud') \<Longrightarrow> r \<in> {- 1, PAM_ABORT} \<and> keeps ud ud'"
  by (auto simp: sfa_prompt_def split: if_splits
      dest: start_token_thread_keeps start_token_thread_code)

lemma sfa_record_failure_keeps: "sfa_record_failure ud t = Inr ud' \<Longrightarrow> keeps ud ud'"
  by (auto simp: sfa_record_failure_def keeps_def tables_ok_def extends_def split: if_splits)

lemma sfa_signal_deal_keeps:
  "sfa_signal_deal E ud c t m = Inr (r, ud') \<Longrightarrow> keeps ud ud'"
  by (auto simp: sfa_signal_deal_def cbind_eq_Inr
      split: option.splits AuthStutaCode.splits if_splits
      dest: sfa_record_failure_keeps signal_verify_keeps sfa_overall_failure_keeps sfa_prompt_keeps)

lemma sfa_signal_deal_code:
  "sfa_signal_deal E ud c t m = Inr (r, ud') \<Longrightarrow>
     r \<in> {- 1, PAM_SUCCESS, PAM_AUTH_ERR, PAM_ABORT}
     \<and> (r = PAM_SUCCESS \<longrightarrow> c = 0 \<and> t = - 1) \<and> (r = PAM_AUTH_ERR \<longrightarrow> c = 1 \<and> t = - 1)
     \<and> (r = PAM_ABORT \<longrightarrow> c = 7 \<and> t = - 1)"
  by (auto simp: sfa_signal_deal_def cbind_eq_Inr
      split: option.splits AuthStutaCode.splits if_splits
      dest: signal_verify_keeps sfa_overall_failure_keeps sfa_prompt_keeps)

interpretation sfa: signal_handler sfa_signal_deal
  by unfold_locales (use sfa_signal_deal_keeps sfa_signal_deal_code in blast)+

end
