(* ===== verification/Pam_Mfa.thy ===== *)
theory Pam_Mfa
  imports Pam_Sfa
begin

text \<open>
  Multi-factor authentication (\<open>misc/pam-module/auth/mfa.c\<close>): the factors are started one after the
  other in the order of \<open>factorOrder\<close>; the success of the current factor ends it and starts the next
  one, and the overall success signal (type -1) ends the authentication.
\<close>

subsection \<open>Reading the session\<close>

definition read_ptr :: "'a list ptr \<Rightarrow> nat \<Rightarrow> 'a cres" where
  "read_ptr p i =
     (case p of Indeterminate \<Rightarrow> Inl Uninit_Read | Null \<Rightarrow> Inl Null_Deref
      | Ptr xs \<Rightarrow> if i < length xs then Inr (xs ! i) else Inl Out_Of_Bounds)"

definition factor_type_at :: "AuthSession \<Rightarrow> nat \<Rightarrow> int cres" where
  \<comment> \<open>\<open>factors[factorOrder[index]].authType\<close>\<close>
  "factor_type_at ctrl index =
     cbind (read_ptr (as_factorOrder ctrl) index) (\<lambda>idx.
     cbind (read_ptr (as_factors ctrl) idx) (\<lambda>f. Inr (af_authType f)))"

function find_current :: "AuthSession \<Rightarrow> int \<Rightarrow> nat \<Rightarrow> nat cres" where
  \<comment> \<open>the loop over \<open>idx\<close>; \<open>factorSize\<close> when no factor has the type\<close>
  "find_current ctrl cur_type idx =
     (if idx < as_factorSize ctrl then
        cbind (factor_type_at ctrl idx) (\<lambda>t.
          if t = cur_type then Inr idx else find_current ctrl cur_type (Suc idx))
      else Inr idx)"
  by pat_completeness auto
termination
  by (relation "measure (\<lambda>(ctrl, cur_type, idx). as_factorSize ctrl - idx)") auto

declare find_current.simps [simp del]

definition session_of :: "'k UserData \<Rightarrow> AuthSession cres" where
  "session_of ud = (case ud_auth_ctrl ud of None \<Rightarrow> Inl Null_Deref | Some c \<Rightarrow> Inr c)"

subsection \<open>Starting a factor\<close>

definition mfa_start_verify ::
  "('m, 'j, 'k) env \<Rightarrow> 'k UserData \<Rightarrow> nat \<Rightarrow> int \<Rightarrow> (int \<times> 'k UserData) cres" where
  "mfa_start_verify E ud index timeout =
     cbind (session_of ud) (\<lambda>ctrl.
       if as_factorSize ctrl > 0 \<and> index < as_factorSize ctrl then
         cbind (factor_type_at ctrl index) (\<lambda>t.
           let ud = ud\<lparr>ud_cur_type := t\<rparr> in
           case dbus_method_start E ud (ud_path ud) (ud_cur_type ud) timeout of (r, ud) \<Rightarrow>
             Inr (if r \<noteq> 0 then PAM_ABORT else PAM_SUCCESS, ud))
       else Inr (PAM_ABORT, ud))"

subsection \<open>The handler\<close>

definition mfa_next_factor ::
  "('m, 'j, 'k) env \<Rightarrow> 'k UserData \<Rightarrow> int \<Rightarrow> (int \<times> 'k UserData) cres" where
  \<comment> \<open>the current factor succeeded\<close>
  "mfa_next_factor E ud authType =
     cbind (session_of ud) (\<lambda>ctrl.
     cbind (find_current ctrl (ud_cur_type ud) 0) (\<lambda>idx.
       if idx = as_factorSize ctrl then Inr (PAM_ABORT, ud)
       else if Suc idx = as_factorSize ctrl then Inr (- 1, ud)
       else
         let ud = snd (dbus_method_end E ud (ud_path ud) authType) in
         cbind (mfa_start_verify E ud (idx + 1) (- 1)) (\<lambda>(r, ud).
           Inr (if r \<noteq> PAM_SUCCESS then r else - 1, ud))))"

definition mfa_success ::
  "('m, 'j, 'k) env \<Rightarrow> 'k UserData \<Rightarrow> int \<Rightarrow> (int \<times> 'k UserData) cres" where
  "mfa_success E ud authType =
     (if authType \<noteq> - 1 then
        cbind (format0 MAX_BUF_SIZE (gettext (e_sys E) ''Verification successful'')) (\<lambda>msg.
          let ud = show_msg E ud msg PAM_TEXT_INFO in
          if authType = ud_cur_type ud then mfa_next_factor E ud authType else Inr (- 1, ud))
      else Inr (PAM_SUCCESS, ud\<lparr>ud_need_cancel := False\<rparr>))"

definition mfa_failure ::
  "('m, 'j, 'k) env \<Rightarrow> 'k UserData \<Rightarrow> int \<Rightarrow> (int \<times> 'k UserData) cres" where
  "mfa_failure E ud authType =
     (if authType \<noteq> - 1 then
        let ud = ud\<lparr>ud_need_cancel := False\<rparr>; tr = gettext (e_sys E) in
        cbind (if authType = at_flag AT_Password
               then print_at [] (tr ''Password verification failed'') []
               else print_at (newline_first ud authType) (tr ''%s verification failed'')
                      [PS (type_to_tr tr authType)])
          (\<lambda>msg. Inr (PAM_AUTH_ERR, show_msg E ud msg PAM_ERROR_MSG))
      else Inr (- 1, ud))"

definition ends_in_colon :: "string \<Rightarrow> bool cres" where
  \<comment> \<open>the test on the last two characters, which must exist; \<open>0x9a\<close> ends a full-width colon\<close>
  "ends_in_colon s =
     (let length = length s in
      if length < 2 then Inl Out_Of_Bounds
      else Inr ((s ! (length - 2) = CHR '':'' \<and> s ! (length - 1) = CHR '' '')
                \<or> s ! (length - 1) = CHR '':'' \<or> schar (s ! (length - 1)) = - 102))"

definition mfa_prompt_text :: "'k UserData \<Rightarrow> int \<Rightarrow> string \<Rightarrow> string cres" where
  "mfa_prompt_text ud authType signalMsg =
     (if ud_term ud \<and> is_input_type authType then
        cbind (ends_in_colon signalMsg) (\<lambda>b. Inr (if b then signalMsg else signalMsg @ '':''))
      else Inr signalMsg)"

definition mfa_prompt ::
  "('m, 'j, 'k) env \<Rightarrow> 'k UserData \<Rightarrow> int \<Rightarrow> string \<Rightarrow> (int \<times> 'k UserData) cres" where
  "mfa_prompt E ud authType signalMsg =
     (if authType = ud_cur_type ud \<and> authType \<noteq> - 1 then
        (if token_thread_busy ud then Inr (PAM_ABORT, ud)
         else cbind (mfa_prompt_text ud authType signalMsg) (\<lambda>p. start_token_thread E p ud))
      else if authType = - 1 then Inr (- 1, show_msg E ud signalMsg PAM_TEXT_INFO)
      else Inr (- 1, ud))"

definition mfa_signal_deal ::
  "('m, 'j, 'k) env \<Rightarrow> 'k UserData \<Rightarrow> int \<Rightarrow> int \<Rightarrow> string \<Rightarrow> (int \<times> 'k UserData) cres" where
  "mfa_signal_deal E ud signalCode authType signalMsg =
     (case asc_of_int signalCode of
        Some ASC_Success \<Rightarrow> mfa_success E ud authType
      | Some ASC_Failure \<Rightarrow> mfa_failure E ud authType
      | Some ASC_Cancel \<Rightarrow> Inr (- 1, ud\<lparr>ud_need_cancel := False\<rparr>)
      | Some ASC_Timeout \<Rightarrow> Inr (- 1, ud\<lparr>ud_need_cancel := False\<rparr>)
      | Some ASC_Error \<Rightarrow> Inr (- 1, ud\<lparr>ud_need_cancel := False\<rparr>)
      | Some ASC_Verify \<Rightarrow> signal_verify E ud signalMsg
      | Some ASC_Expect \<Rightarrow> Inr (- 1, ud)
      | Some ASC_Prompt \<Rightarrow> mfa_prompt E ud authType signalMsg
      | Some ASC_Started \<Rightarrow> Inr (- 1, ud)
      | Some ASC_Ended \<Rightarrow> Inr (- 1, ud)
      | None \<Rightarrow> Inr (- 1, ud))"

subsection \<open>Lemmas\<close>

lemma keeps_end [simp]: "keeps u ud \<Longrightarrow> keeps u (snd (dbus_method_end E ud p f))"
  by (simp add: dbus_method_end_eq)

lemma keeps_start: "dbus_method_start E ud p f t = (r, ud') \<Longrightarrow> keeps u ud \<Longrightarrow> keeps u ud'"
  using dbus_method_start_eq [of E ud p f t] by simp

lemma keeps_from_end: "keeps (snd (dbus_method_end E ud p f)) ud' \<Longrightarrow> keeps ud ud'"
  by (rule keeps_trans [OF keeps_end [OF keeps_refl]])

lemma keeps_from_show:
  "keeps (show_msg E ud m style) ud' \<Longrightarrow> style \<notin> {PAM_PROMPT_ECHO_OFF, PAM_PROMPT_ECHO_ON} \<Longrightarrow>
   keeps ud ud'"
  by (rule keeps_trans [OF show_msg_keeps [OF _ keeps_refl]])

lemma mfa_start_verify_keeps:
  "mfa_start_verify E ud i t = Inr (r, ud') \<Longrightarrow> r \<in> {PAM_SUCCESS, PAM_ABORT} \<and> keeps ud ud'"
  by (auto simp: mfa_start_verify_def Let_def split: if_splits prod.splits elim!: cbind_InrE
      dest!: keeps_start [where u = ud])

lemma mfa_next_factor_keeps:
  "mfa_next_factor E ud t = Inr (r, ud') \<Longrightarrow> r \<in> {- 1, PAM_ABORT} \<and> keeps ud ud'"
  by (auto simp: mfa_next_factor_def Let_def split: if_splits prod.splits elim!: cbind_InrE
      dest!: mfa_start_verify_keeps dest: keeps_from_end)

lemma mfa_success_keeps:
  "mfa_success E ud t = Inr (r, ud') \<Longrightarrow>
     r \<in> {- 1, PAM_SUCCESS, PAM_ABORT} \<and> (r = PAM_SUCCESS \<longrightarrow> t = - 1) \<and> keeps ud ud'"
  by (auto simp: mfa_success_def Let_def split: if_splits elim!: cbind_InrE
      dest!: mfa_next_factor_keeps keeps_from_show)

lemma mfa_failure_keeps:
  "mfa_failure E ud t = Inr (r, ud') \<Longrightarrow>
     r \<in> {- 1, PAM_AUTH_ERR} \<and> (r = PAM_AUTH_ERR \<longleftrightarrow> t \<noteq> - 1) \<and> keeps ud ud'"
  by (auto simp: mfa_failure_def Let_def split: if_splits elim!: cbind_InrE)

lemma mfa_prompt_keeps:
  "mfa_prompt E ud t m = Inr (r, ud') \<Longrightarrow> r \<in> {- 1, PAM_ABORT} \<and> keeps ud ud'"
  by (auto simp: mfa_prompt_def split: if_splits elim!: cbind_InrE
      dest: start_token_thread_keeps start_token_thread_code)

lemma mfa_signal_deal_keeps:
  "mfa_signal_deal E ud c t m = Inr (r, ud') \<Longrightarrow> keeps ud ud'"
  by (auto simp: mfa_signal_deal_def split: option.splits AuthStutaCode.splits
      dest: signal_verify_keeps mfa_success_keeps mfa_failure_keeps mfa_prompt_keeps)

lemma mfa_signal_deal_code:
  "mfa_signal_deal E ud c t m = Inr (r, ud') \<Longrightarrow>
     r \<in> {- 1, PAM_SUCCESS, PAM_AUTH_ERR, PAM_ABORT}
     \<and> (r = PAM_SUCCESS \<longrightarrow> c = 0 \<and> t = - 1) \<and> (r = PAM_AUTH_ERR \<longrightarrow> c = 1 \<and> t \<noteq> - 1)
     \<and> (r = PAM_ABORT \<longrightarrow> c = 0 \<or> c = 7)"
  by (auto simp: mfa_signal_deal_def split: option.splits AuthStutaCode.splits if_splits
      dest: signal_verify_keeps mfa_success_keeps mfa_failure_keeps mfa_prompt_keeps)

interpretation mfa: signal_handler mfa_signal_deal
  by unfold_locales (use mfa_signal_deal_keeps mfa_signal_deal_code in blast)+

end
