(* ===== verification/Pam_Thread.thy ===== *)
theory Pam_Thread
  imports Pam_Mfa
begin

text \<open>
  The token thread of \<open>misc/pam-module/auth/pam.c\<close> and the release of the state. \<open>run_request_pw\<close> runs
  beside the main loop on the same \<open>UserData\<close>, so it is cut into the steps between which the main
  thread's writes can fall: asking and sending \<open>GetResult\<close>, marking \<open>waiting_result\<close>, the result,
  sending the token, storing it. A stale read the hardware or the compiler may cause is not modelled.
\<close>

subsection \<open>The flag of the debug log\<close>

definition set_debug_flag :: "bool \<Rightarrow> bool \<Rightarrow> bool" where
  \<comment> \<open>the static variable after the call; its value before is the second argument\<close>
  "set_debug_flag enable debug = enable"

definition get_debug_flag :: "bool \<Rightarrow> bool" where
  "get_debug_flag debug = (if debug then True else False)"

subsection \<open>Releasing the state\<close>

definition cleanup_data :: "string option \<Rightarrow> char list option" where
  \<comment> \<open>\<open>common.c\<close>: what the memory of the string holds when it is given back\<close>
  "cleanup_data data = (case data of None \<Rightarrow> None | Some d \<Rightarrow> Some (replicate (length d) NUL))"

definition dalloc :: "bool \<Rightarrow> nat \<Rightarrow> char list cres" where
  \<comment> \<open>\<open>common.c\<close>: \<open>mem\<close> tells whether \<open>calloc\<close> finds the memory; without it the process is aborted\<close>
  "dalloc mem sz = (if mem then Inr (replicate sz NUL) else Inl Assert_Fail)"

definition get_pwd :: "string option \<Rightarrow> (string \<Rightarrow> 'p option) \<Rightarrow> 'p option" where
  \<comment> \<open>\<open>common.c\<close>: the arguments are the answers of \<open>pam_get_user\<close> and \<open>getpwnam\<close>\<close>
  "get_pwd user getpwnam = (case user of None \<Rightarrow> None | Some username \<Rightarrow> getpwnam username)"

definition free_ptr :: "'a ptr \<Rightarrow> 'a ptr cres" where
  \<comment> \<open>\<open>if (p) free(p); p = NULL\<close>\<close>
  "free_ptr p = (case p of Indeterminate \<Rightarrow> Inl Uninit_Read | Null \<Rightarrow> Inr Null | Ptr _ \<Rightarrow> Inr Null)"

definition clean_bus :: "('m, 'j, 'k) env \<Rightarrow> 'k UserData \<Rightarrow> 'k UserData" where
  "clean_bus E ud =
     (if ud_bus ud then
        let ud = (if ud_path ud \<noteq> [] then snd (dbus_method_end E ud (ud_path ud) (- 1)) else ud)
        in (emit Bus_Close ud)\<lparr>ud_bus := False\<rparr>
      else ud)"

definition clean_thread :: "'k UserData \<Rightarrow> 'k UserData" where
  \<comment> \<open>cancel and join\<close>
  "clean_thread ud =
     (if ud_pid ud then
        let ud = (if thread_alive (ud_thr ud) then (emit Thread_Cancel ud)\<lparr>ud_thr := T_Exited\<rparr> else ud)
        in ud\<lparr>ud_pid := False\<rparr>
      else ud)"

definition clean_auth_ctrl :: "'k UserData \<Rightarrow> 'k UserData cres" where
  "clean_auth_ctrl ud =
     (case ud_auth_ctrl ud of
        None \<Rightarrow> Inr ud
      | Some c \<Rightarrow>
          cbind (free_ptr (as_factorOrder c)) (\<lambda>_.
          cbind (free_ptr (as_factors c)) (\<lambda>_. Inr (ud\<lparr>ud_auth_ctrl := None\<rparr>))))"

definition clean_term :: "'k UserData \<Rightarrow> 'k UserData" where
  "clean_term ud = (if ud_term ud then (emit Tty_Restore ud)\<lparr>ud_term := False\<rparr> else ud)"

definition clean_auth_data :: "('m, 'j, 'k) env \<Rightarrow> 'k UserData \<Rightarrow> 'k UserData cres" where
  "clean_auth_data E ud =
     cbind (clean_auth_ctrl (clean_thread (clean_bus E ud))) (\<lambda>ud.
       Inr ((clean_term ud)\<lparr>ud_symmetric_key := None\<rparr>))"

definition pam_clean_func :: "('m, 'j, 'k) env \<Rightarrow> 'k UserData \<Rightarrow> 'k UserData cres" where
  \<comment> \<open>the state just before \<open>free(ud)\<close>\<close>
  "pam_clean_func E ud =
     cbind (clean_auth_data E ud) (\<lambda>ud. Inr (ud\<lparr>ud_auth_tok := None\<rparr>))"

definition thread_cleanup :: "('m, 'j, 'k) env \<Rightarrow> 'k UserData \<Rightarrow> 'k UserData cres" where
  "thread_cleanup E ud = pam_clean_func E ud"

subsection \<open>The answer of the conversation\<close>

definition split_data :: "string \<Rightarrow> (string \<times> string option) option" where
  \<comment> \<open>\<open>None\<close>: the result -1; the token stays null when nothing follows the separator\<close>
  "split_data resp =
     (case strchr (CHR '';'') resp of
        None \<Rightarrow> None
      | Some p \<Rightarrow>
          Some (take p resp, if length (drop p resp) > 1 then Some (drop (Suc p) resp) else None))"

subsection \<open>The steps of the thread\<close>

definition request_answered ::
  "('m, 'j, 'k) env \<Rightarrow> 'k UserData \<Rightarrow> string \<Rightarrow> 'k UserData cres" where
  \<comment> \<open>\<open>setToken\<close> and the check of its result\<close>
  "request_answered E ud resp =
     cbind (dbus_method_setToken E ud (ud_path ud) (ud_cur_type ud) resp) (\<lambda>(ok, ud).
       Inr ((if ok = 0 then ud\<lparr>ud_res := PAM_ABORT\<rparr> else ud)\<lparr>ud_thr := T_Sent resp\<rparr>))"

definition request_prompt :: "('m, 'j, 'k) env \<Rightarrow> 'k UserData \<Rightarrow> 'k UserData cres" where
  "request_prompt E ud =
     (case send_msg E ud (ud_prompt ud) PAM_PROMPT_ECHO_OFF of
        (None, ud) \<Rightarrow> Inr (ud\<lparr>ud_thr := T_Exited\<rparr>)
      | (Some None, ud) \<Rightarrow> Inl Null_Deref
      | (Some (Some resp), ud) \<Rightarrow>
          (case split_data resp of
             None \<Rightarrow> request_answered E ud resp
           | Some (path, tok) \<Rightarrow>
               (case getResult_send E ud path of (ret, ud) \<Rightarrow>
                  Inr (ud\<lparr>ud_thr := (if ret < 0 then T_Wait path tok resp else T_Asked path tok resp)\<rparr>))))"

definition request_result ::
  "('m, 'j, 'k) env \<Rightarrow> string option \<Rightarrow> string \<Rightarrow> 'k UserData \<Rightarrow> 'k UserData cres" where
  \<comment> \<open>behind the loop on \<open>waiting_result\<close>\<close>
  "request_result E tok resp ud =
     (if ud_get_result_val ud = GET_RESULT_SUCCESS then
        let ud = (case tok of None \<Rightarrow> ud
                  | Some t \<Rightarrow> emit (Set_Authtok t) (ud\<lparr>ud_auth_tok := Some t\<rparr>))
        in Inr (ud\<lparr>ud_res := PAM_SUCCESS, ud_thr := T_Exited\<rparr>)
      else request_answered E ud resp)"

definition run_request_pw :: "('m, 'j, 'k) env \<Rightarrow> 'k UserData \<Rightarrow> 'k UserData cres option" where
  \<comment> \<open>one step of the thread; none where there is no thread or it has ended\<close>
  "run_request_pw E ud =
     (case ud_thr ud of
        T_None \<Rightarrow> None
      | T_Exited \<Rightarrow> None
      | T_Prompt \<Rightarrow> Some (request_prompt E ud)
      | T_Asked path tok resp \<Rightarrow> Some (Inr ((getResult_mark ud)\<lparr>ud_thr := T_Wait path tok resp\<rparr>))
      | T_Wait path tok resp \<Rightarrow>
          Some (if ud_waiting_result ud \<noteq> 0 then Inr ud else request_result E tok resp ud)
      | T_Sent resp \<Rightarrow> Some (Inr (ud\<lparr>ud_auth_tok := Some resp, ud_thr := T_Exited\<rparr>)))"

end
