(* ===== verification/Pam_Session.thy ===== *)
theory Pam_Session
  imports Pam_Thread
begin

text \<open>
  \<open>pam_sm_authenticate\<close> of \<open>misc/pam-module/auth/pam.c\<close> up to its main loop, in the order of the code:
  the module arguments, the caller's path and the allow list, the terminal, the user, the bus, the
  session and its factors, the lock of the password, the keys, the subscription and the start.
  The function leaves this part in one of three ways: an early \<open>return\<close>, a \<open>break\<close> to the epilogue,
  or into the loop; a reading loop that never ends is the fourth value.
\<close>

subsection \<open>Ways to go on\<close>

datatype ('a, 's) flow = Return int 's | Break 's | Next 'a 's | Diverges

definition fbind ::
  "('a, 's) flow cres \<Rightarrow> ('a \<Rightarrow> 's \<Rightarrow> ('b, 's) flow cres) \<Rightarrow> ('b, 's) flow cres" where
  "fbind m f =
     cbind m (\<lambda>x. case x of Return r s \<Rightarrow> Inr (Return r s) | Break s \<Rightarrow> Inr (Break s)
                  | Next a s \<Rightarrow> f a s | Diverges \<Rightarrow> Inr Diverges)"

lemma fbind_simps [simp]:
  "fbind (Inl e) f = Inl e" "fbind (Inr (Return r s)) f = Inr (Return r s)"
  "fbind (Inr (Break s)) f = Inr (Break s)" "fbind (Inr (Next a s)) f = f a s"
  "fbind (Inr Diverges) f = Inr Diverges"
  by (simp_all add: fbind_def)

subsection \<open>The module arguments\<close>

record module_args =
  ma_buff :: "char list"
  ma_timeout :: int
  ma_user_locale :: "char list"
  ma_debug :: bool

definition args_start :: module_args where
  "args_start = \<lparr>ma_buff = replicate MAX_BUF_SIZE NUL, ma_timeout = 60000,
                 ma_user_locale = replicate MAX_BUF_SIZE NUL, ma_debug = False\<rparr>"

definition arg_debug :: "module_args \<Rightarrow> module_args" where
  "arg_debug a =
     (if cstr (ma_buff a) = ''debug'' then a\<lparr>ma_debug := set_debug_flag True (ma_debug a)\<rparr> else a)"

definition parse_arg :: "string \<Rightarrow> module_args \<Rightarrow> module_args cres" where
  \<comment> \<open>one round of the loop over \<open>argv\<close>\<close>
  "parse_arg arg a =
     (let a = a\<lparr>ma_buff := strncpy (ma_buff a) arg (MAX_BUF_SIZE - 1)\<rparr> in
      case strchr (CHR ''='') arg of
        None \<Rightarrow> Inr (arg_debug a)
      | Some i \<Rightarrow>
          if MAX_BUF_SIZE \<le> i then Inl Buffer_Overflow
          else
            let a = a\<lparr>ma_buff := (ma_buff a)[i := NUL]\<rparr>; value = drop (Suc i) arg in
            if cstr (ma_buff a) = ''timeout'' then
              (if int_range (atoi value) then Inr (a\<lparr>ma_timeout := atoi value\<rparr>) else Inl Int_Overflow)
            else if cstr (ma_buff a) = ''user_locale'' then
              Inr (a\<lparr>ma_user_locale := strncpy (ma_user_locale a) value (MAX_BUF_SIZE - 1)\<rparr>)
            else Inr (arg_debug a))"

fun parse_args :: "string list \<Rightarrow> module_args \<Rightarrow> module_args cres" where
  "parse_args [] a = Inr a"
| "parse_args (arg # argv) a = cbind (parse_arg arg a) (parse_args argv)"

subsection \<open>The caller\<close>

definition init_user_data :: "'k UserData" where
  "init_user_data =
     \<lparr>ud_bus = False, ud_term = False, ud_path = [], ud_username = [], ud_prompt = [],
      ud_auth_tok = None, ud_pid = False, ud_cur_type = 0, ud_need_cancel = False,
      ud_limits = replicate SUPPORT_AT_TYPE zero_limit,
      ud_failed_indexs = replicate SUPPORT_AT_TYPE 0, ud_failed_num = 0, ud_auth_ctrl = None,
      ud_res = - 1, ud_waiting_result = 0, ud_get_result_val = 0, ud_key = None,
      ud_symmetric_key = None, ud_thr = T_None,
      ud_hist = [Set_Data ''deepin-authenticate-user-data'' []]\<rparr>"

definition readlink_into :: "char list \<Rightarrow> string \<Rightarrow> char list" where
  \<comment> \<open>\<open>readlink\<close> stores at most the size of the buffer and no terminator\<close>
  "readlink_into buff target = put_at buff 0 (take MAX_BUF_SIZE target)"

definition exe_path :: "char list \<Rightarrow> string \<Rightarrow> string cres" where
  \<comment> \<open>the text that \<open>strcpy(app_path, buff)\<close> and the comparison with the allow list see\<close>
  "exe_path buff target =
     (let b = readlink_into buff target in
      if NUL \<in> set b then Inr (cstr b) else Inl Out_Of_Bounds)"

function file_lines :: "string \<Rightarrow> string list" where
  \<comment> \<open>the lines \<open>getline\<close> yields, without their newline\<close>
  "file_lines [] = []"
| "file_lines (c # s) =
     (case strchr newline (c # s) of
        None \<Rightarrow> [c # s]
      | Some i \<Rightarrow> take i (c # s) # file_lines (drop (Suc i) (c # s)))"
  by pat_completeness auto
termination
  by (relation "measure length") auto

definition in_allow_list :: "string \<Rightarrow> string \<Rightarrow> bool" where
  "in_allow_list content exe \<longleftrightarrow> list_ex (\<lambda>line. cstr line = exe) (file_lines content)"

abbreviation (input) PAM_ALLOW_LIST :: string where
  "PAM_ALLOW_LIST \<equiv> ''/usr/share/deepin-authentication/allowlist''"

definition check_caller ::
  "sysenv \<Rightarrow> module_args \<Rightarrow> 'k UserData \<Rightarrow> (string, 'k UserData) flow cres" where
  \<comment> \<open>\<open>app_path\<close>, which is also the text in \<open>buff\<close>\<close>
  "check_caller S a ud =
     (case readlink_exe S of
        None \<Rightarrow> Inr (Return PAM_IGNORE ud)
      | Some target \<Rightarrow>
          cbind (exe_path (ma_buff a) target) (\<lambda>buff.
            case read_file S PAM_ALLOW_LIST of
              None \<Rightarrow> Inr (Return PAM_IGNORE ud)
            | Some content \<Rightarrow>
                Inr (if in_allow_list content buff then Next buff ud else Return PAM_IGNORE ud)))"

definition prepare_user ::
  "sysenv \<Rightarrow> module_args \<Rightarrow> 'k UserData \<Rightarrow> 'k UserData cres" where
  \<comment> \<open>the terminal, the user's name and the user's locale\<close>
  "prepare_user S a ud =
     (let ud = ud\<lparr>ud_term := (stdin_tty S \<and> tcgetattr_ok S)\<rparr> in
      cbind (sprintf_into MAX_BUF_SIZE (pam_user S)) (\<lambda>username.
        let ud = ud\<lparr>ud_username := username\<rparr>; user_locale = cstr (ma_user_locale a) in
        if user_locale \<noteq> [] then load_user_locale S ud username user_locale else Inr ud))"

subsection \<open>The session path\<close>

definition show_expiry ::
  "('m, 'j, 'k) env \<Rightarrow> int \<Rightarrow> string \<Rightarrow> 'k UserData \<Rightarrow> 'k UserData cres" where
  \<comment> \<open>the warning for a login, when the password expires soon\<close>
  "show_expiry E app_type username ud =
     (if app_type = APP_VAL_LOGIN then
        cbind (dbus_get_user_passwd_expired_info E ud username) (\<lambda>((ret, status, days), ud).
          let expired_status = (case status of None \<Rightarrow> 0 | Some v \<Rightarrow> v);
              left_days = (case days of None \<Rightarrow> 0 | Some v \<Rightarrow> v)
          in if ret \<ge> 0 \<and> expired_status = EXPIRED_STATUS_EXPIRED_SOON then
               cbind (cformat (gettext (e_sys E)
                        ''Your password will expire in %d days, please change it timely'')
                      [PD (to_int32 left_days)]) (\<lambda>t.
               cbind (sprintf_into MAX_BUF_SIZE t) (\<lambda>buff. Inr (show_msg E ud buff PAM_TEXT_INFO)))
             else Inr ud)
      else Inr ud)"

definition open_session ::
  "('m, 'j, 'k) env \<Rightarrow> int \<Rightarrow> string \<Rightarrow> 'k UserData \<Rightarrow> (string, 'k UserData) flow cres" where
  \<comment> \<open>\<open>buff\<close> before \<open>PreOneKeyLogin\<close> is the third argument: the caller's path\<close>
  "open_session E app_type buff ud =
     (if sd_open (e_bus E) (ud_hist ud) < 0 then Inr (Break ud)
      else
        let username = pam_user (e_sys E) in
        cbind (dbus_method_preOneKeyLogin E (ud\<lparr>ud_bus := True\<rparr>) username) (\<lambda>(_, reply, ud).
          let buff = (case reply of None \<Rightarrow> buff | Some path \<Rightarrow> path) in
          if buff = [] then
            cbind (show_expiry E app_type username ud) (\<lambda>ud.
              case dbus_get_prop_int E ud DBUS_SERVICE DBUS_PATH DBUS_INTERFACE ''SupportedFlags'' of
                (_, v, ud) \<Rightarrow>
                  let supported_flags = (case v of None \<Rightarrow> AUTH_FLAG_USING | Some v \<Rightarrow> v) in
                  cbind (dbus_method_authenticate E ud username supported_flags app_type)
                    (\<lambda>(r, path, ud).
                       if r \<noteq> 0 then Inr (Break (ud\<lparr>ud_res := PAM_ABORT\<rparr>))
                       else Inr (Next (case path of None \<Rightarrow> [] | Some p \<Rightarrow> p) ud)))
          else Inr (Next buff ud)))"

subsection \<open>The session's data\<close>

definition fresh_session :: AuthSession where
  \<comment> \<open>\<open>malloc\<close>, then \<open>factors = NULL\<close>: the other fields are indeterminate, and the integers are
     not read before they are set\<close>
  "fresh_session = \<lparr>as_isMFA = 0, as_factorSize = 0, as_factorOrder = Indeterminate, as_factors = Null\<rparr>"

definition load_session ::
  "('m, 'j, 'k) env \<Rightarrow> string \<Rightarrow> 'k UserData \<Rightarrow> (AuthSession, 'k UserData) flow cres" where
  "load_session E buff ud =
     cbind (sprintf_into MAX_BUF_SIZE buff) (\<lambda>path.
       let ud = ud\<lparr>ud_path := path\<rparr> in
       case get_authctl_property E ud path fresh_session of
         None \<Rightarrow> Inr Diverges
       | Some (r, ctrl, ud) \<Rightarrow>
           let ud = ud\<lparr>ud_auth_ctrl := Some ctrl\<rparr> in
           Inr (if r \<noteq> 0 then Return PAM_ABORT ud else Next ctrl (ud\<lparr>ud_need_cancel := True\<rparr>)))"

definition check_password_lock ::
  "('m, 'j, 'k) env \<Rightarrow> 'k UserData \<Rightarrow> (unit, 'k UserData) flow cres" where
  \<comment> \<open>the limits, and the end when the password is locked\<close>
  "check_password_lock E ud =
     cbind (get_limits_info E ud) (\<lambda>ud.
     cbind (type_to_index (at_flag AT_Password)) (\<lambda>typeIndex.
       if SUPPORT_AT_TYPE \<le> typeIndex then Inr (Break (ud\<lparr>ud_res := PAM_ABORT\<rparr>))
       else
         cbind (get_limit_prompt (e_sys E) (ud_hist ud) [] (ud_limits ud ! typeIndex)) (\<lambda>(buff, limit_ret).
           if limit_ret \<noteq> PAM_SUCCESS then
             Inr (Break ((show_msg E ud buff PAM_ERROR_MSG)\<lparr>ud_res := limit_ret\<rparr>))
           else Inr (Next () ud))))"

fun need_token_from :: "AuthSession \<Rightarrow> nat list \<Rightarrow> bool cres" where
  "need_token_from ctrl [] = Inr False"
| "need_token_from ctrl (idx # is) =
     cbind (read_ptr (as_factors ctrl) idx) (\<lambda>f.
       if af_inputType f = IT_Keyboard then Inr True else need_token_from ctrl is)"

definition need_token :: "AuthSession \<Rightarrow> bool cres" where
  "need_token ctrl = need_token_from ctrl [0..<as_factorSize ctrl]"

definition request_key ::
  "('m, 'j, 'k) env \<Rightarrow> AuthSession \<Rightarrow> 'k UserData \<Rightarrow> (bool \<times> 'k UserData) cres" where
  \<comment> \<open>whether the call \<open>EncryptKey\<close> was sent, so that its callback will run\<close>
  "request_key E ctrl ud =
     cbind (need_token ctrl) (\<lambda>needToken.
       let ud = ud\<lparr>ud_key := Some create_pub_key\<rparr> in
       if needToken then
         (case dbus_method_encryptKey E (ud_path ud) AT_RSA [NUL] ud of (r, ud) \<Rightarrow> Inr (r = 0, ud))
       else Inr (False, ud))"

definition start_verify ::
  "('m, 'j, 'k) env \<Rightarrow> AuthSession \<Rightarrow> int \<Rightarrow> 'k UserData \<Rightarrow> (unit, 'k UserData) flow cres" where
  "start_verify E ctrl timeout ud =
     (case listen_dbus_signal E ud of (ret, ud) \<Rightarrow>
        if ret < 0 then Inr (Break (ud\<lparr>ud_res := PAM_ABORT\<rparr>))
        else
          cbind (if as_isMFA ctrl \<noteq> 0 then mfa_start_verify E ud 0 timeout
                 else Inr (sfa_start_verify E ud timeout)) (\<lambda>(ret, ud).
            Inr (if ret \<noteq> PAM_SUCCESS then Break (ud\<lparr>ud_res := PAM_ABORT\<rparr>) else Next () ud)))"

subsection \<open>All of it\<close>

definition run_session ::
  "('m, 'j, 'k) env \<Rightarrow> module_args \<Rightarrow> int \<Rightarrow> string \<Rightarrow> 'k UserData \<Rightarrow> (bool, 'k UserData) flow cres" where
  "run_session E a app_type buff ud =
     fbind (open_session E app_type buff ud) (\<lambda>buff ud.
     fbind (load_session E buff ud) (\<lambda>ctrl ud.
     fbind (check_password_lock E ud) (\<lambda>_ ud.
     cbind (request_key E ctrl ud) (\<lambda>(key_pending, ud).
     fbind (start_verify E ctrl (ma_timeout a) ud) (\<lambda>_ ud. Inr (Next key_pending ud))))))"

definition pam_sm_authenticate_start ::
  "('m, 'j, 'k) env \<Rightarrow> string list \<Rightarrow> (bool, 'k UserData) flow cres" where
  "pam_sm_authenticate_start E argv =
     cbind (parse_args argv args_start) (\<lambda>a.
     fbind (check_caller (e_sys E) a init_user_data) (\<lambda>app_path ud.
     cbind (prepare_user (e_sys E) a ud) (\<lambda>ud.
     cbind (load_app_type (e_sys E) (e_json E) app_path) (\<lambda>app_type_string.
       run_session E a (get_app_type app_type_string) app_path ud))))"

definition pam_sm_setcred :: int where
  "pam_sm_setcred = PAM_SUCCESS"

end
