(* ===== verification/Pam_Loop.thy ===== *)
theory Pam_Loop
  imports Pam_Session
begin

text \<open>
  The main loop of \<open>pam_sm_authenticate\<close> and its epilogue, interleaved with the token thread, as a
  step relation. The loop dispatches what the bus delivers (a Status signal to \<open>bus_signal_cb\<close>, the
  replies of \<open>GetResult\<close> and \<open>EncryptKey\<close> to their callbacks) while \<open>res\<close> is -1. The handler's
  result is stored into \<open>res\<close> after the handler ran, so the two are separate steps, and the epilogue
  reads \<open>res\<close> twice: for the result data, and for the return value after the release.
\<close>

subsection \<open>The signal callback\<close>

definition bus_signal_deal ::
  "('m, 'j, 'k) env \<Rightarrow> 'm \<Rightarrow> 'k UserData \<Rightarrow> (int option \<times> 'k UserData) cres" where
  \<comment> \<open>\<open>bus_signal_cb\<close> up to the handler's return; none where the message cannot be read\<close>
  "bus_signal_deal E m ud =
     cbind (sprintf_into MAX_BUF_SIZE (msg_path (e_bus E) m)) (\<lambda>_.
       case rd_iis (e_bus E) m of (ret, authType, code, signalmsg) \<Rightarrow>
         if ret < 0 then Inr (None, ud)
         else
           let ud = emit (Got_Status authType code signalmsg) ud in
           cbind (session_of ud) (\<lambda>ctrl.
           cbind (if as_isMFA ctrl \<noteq> 0 then mfa_signal_deal E ud code authType signalmsg
                  else sfa_signal_deal E ud code authType signalmsg) (\<lambda>(r, ud).
             Inr (Some r, ud))))"

definition bus_signal_store :: "int \<Rightarrow> 'k UserData \<Rightarrow> 'k UserData" where
  \<comment> \<open>the assignment to \<open>res\<close>, and the token handed on after a success\<close>
  "bus_signal_store r ud =
     (let ud = ud\<lparr>ud_res := r\<rparr> in
      if ud_res ud = PAM_SUCCESS
      then (case ud_auth_tok ud of None \<Rightarrow> ud | Some t \<Rightarrow> emit (Set_Authtok t) ud)
      else ud)"

definition bus_signal_cb :: "('m, 'j, 'k) env \<Rightarrow> 'm \<Rightarrow> 'k UserData \<Rightarrow> 'k UserData cres" where
  \<comment> \<open>the callback when no step of the thread falls between its two halves\<close>
  "bus_signal_cb E m ud =
     cbind (bus_signal_deal E m ud) (\<lambda>(r, ud).
       Inr (case r of None \<Rightarrow> ud | Some r \<Rightarrow> bus_signal_store r ud))"

subsection \<open>The epilogue\<close>

definition set_result_data :: "'k UserData \<Rightarrow> 'k UserData" where
  "set_result_data ud =
     emit (Set_Data ''deepin_authenticate_result''
             (if ud_res ud = PAM_SUCCESS then ''true'' else ''false'')) ud"

subsection \<open>States and steps\<close>

text \<open>Where the main thread stands: in the loop, between the two halves of the callback, behind the
  loop, behind the result data, behind the closing of the bus (the thread may still run until it is
  joined), returned, or in undefined behaviour.\<close>

datatype phase =
  M_Loop | M_Store int | M_Exit | M_Clean | M_Join | M_Done int | M_Undef ub

record 'k pam =
  pm_phase :: phase
  pm_result_pending :: bool     \<comment> \<open>a \<open>GetResult\<close> call whose reply was not dispatched yet\<close>
  pm_key_pending :: bool        \<comment> \<open>the same for \<open>EncryptKey\<close>\<close>
  pm_ud :: "'k UserData"

definition enter :: "phase \<Rightarrow> 'k pam \<Rightarrow> 'k UserData cres \<Rightarrow> 'k pam" where
  \<comment> \<open>the next state after an action on the data\<close>
  "enter ph p m =
     (case m of Inl e \<Rightarrow> p\<lparr>pm_phase := M_Undef e\<rparr> | Inr ud \<Rightarrow> p\<lparr>pm_phase := ph, pm_ud := ud\<rparr>)"

definition main_done :: "phase \<Rightarrow> bool" where
  "main_done ph = (case ph of M_Done _ \<Rightarrow> True | M_Undef _ \<Rightarrow> True | _ \<Rightarrow> False)"

definition asks_result :: "'k UserData \<Rightarrow> 'k UserData \<Rightarrow> bool" where
  \<comment> \<open>the thread's step sent \<open>GetResult\<close>\<close>
  "asks_result ud ud' \<longleftrightarrow>
     ud_thr ud = T_Prompt \<and> (case ud_thr ud' of T_Asked _ _ _ \<Rightarrow> True | _ \<Rightarrow> False)"

datatype 'm event =
    Ev_Thread | Ev_Status 'm | Ev_Result 'm | Ev_Key bool 'm | Ev_Store | Ev_Bus_Error | Ev_Leave
  | Ev_Data | Ev_Close | Ev_Join

inductive pam_step :: "('m, 'j, 'k) env \<Rightarrow> 'm event \<Rightarrow> 'k pam \<Rightarrow> 'k pam \<Rightarrow> bool" for E where
  thread: "\<not> main_done (pm_phase p) \<Longrightarrow> run_request_pw E (pm_ud p) = Some (Inr ud') \<Longrightarrow>
     pam_step E Ev_Thread p
       (p\<lparr>pm_ud := ud', pm_result_pending := pm_result_pending p \<or> asks_result (pm_ud p) ud'\<rparr>)"
| thread_undef: "\<not> main_done (pm_phase p) \<Longrightarrow> run_request_pw E (pm_ud p) = Some (Inl e) \<Longrightarrow>
     pam_step E Ev_Thread p (p\<lparr>pm_phase := M_Undef e\<rparr>)"
| status: "pm_phase p = M_Loop \<Longrightarrow> ud_res (pm_ud p) = - 1 \<Longrightarrow>
     bus_signal_deal E m (pm_ud p) = Inr (Some r, ud') \<Longrightarrow>
     pam_step E (Ev_Status m) p (p\<lparr>pm_phase := M_Store r, pm_ud := ud'\<rparr>)"
| status_unread: "pm_phase p = M_Loop \<Longrightarrow> ud_res (pm_ud p) = - 1 \<Longrightarrow>
     bus_signal_deal E m (pm_ud p) = Inr (None, ud') \<Longrightarrow>
     pam_step E (Ev_Status m) p (p\<lparr>pm_ud := ud'\<rparr>)"
| status_undef: "pm_phase p = M_Loop \<Longrightarrow> ud_res (pm_ud p) = - 1 \<Longrightarrow>
     bus_signal_deal E m (pm_ud p) = Inl e \<Longrightarrow>
     pam_step E (Ev_Status m) p (p\<lparr>pm_phase := M_Undef e\<rparr>)"
| result: "pm_phase p = M_Loop \<Longrightarrow> ud_res (pm_ud p) = - 1 \<Longrightarrow> pm_result_pending p \<Longrightarrow>
     pam_step E (Ev_Result m) p
       (p\<lparr>pm_ud := snd (call_getResult_cb (e_bus E) (Some m) (pm_ud p)), pm_result_pending := False\<rparr>)"
| key: "pm_phase p = M_Loop \<Longrightarrow> ud_res (pm_ud p) = - 1 \<Longrightarrow> pm_key_pending p \<Longrightarrow>
     pam_step E (Ev_Key err m) p
       (enter M_Loop (p\<lparr>pm_key_pending := False\<rparr>)
          (cbind (call_encryptKey_cb E err m (pm_ud p)) (\<lambda>(_, ud). Inr ud)))"
| store: "pm_phase p = M_Store r \<Longrightarrow>
     pam_step E Ev_Store p (p\<lparr>pm_phase := M_Loop, pm_ud := bus_signal_store r (pm_ud p)\<rparr>)"
| bus_error: "pm_phase p = M_Loop \<Longrightarrow> ud_res (pm_ud p) = - 1 \<Longrightarrow>
     pam_step E Ev_Bus_Error p (p\<lparr>pm_phase := M_Exit, pm_ud := (pm_ud p)\<lparr>ud_res := PAM_ABORT\<rparr>\<rparr>)"
| leave: "pm_phase p = M_Loop \<Longrightarrow> ud_res (pm_ud p) \<noteq> - 1 \<Longrightarrow>
     pam_step E Ev_Leave p (p\<lparr>pm_phase := M_Exit\<rparr>)"
| data: "pm_phase p = M_Exit \<Longrightarrow>
     pam_step E Ev_Data p (p\<lparr>pm_phase := M_Clean, pm_ud := set_result_data (pm_ud p)\<rparr>)"
| close: "pm_phase p = M_Clean \<Longrightarrow>
     pam_step E Ev_Close p (p\<lparr>pm_phase := M_Join, pm_ud := clean_bus E (pm_ud p)\<rparr>)"
| join: "pm_phase p = M_Join \<Longrightarrow>
     clean_auth_data E (pm_ud p) = Inr ud' \<Longrightarrow>
     pam_step E Ev_Join p (p\<lparr>pm_phase := M_Done (ud_res ud'), pm_ud := ud'\<rparr>)"
| join_undef: "pm_phase p = M_Join \<Longrightarrow>
     clean_auth_data E (pm_ud p) = Inl e \<Longrightarrow>
     pam_step E Ev_Join p (p\<lparr>pm_phase := M_Undef e\<rparr>)"

inductive_cases pam_step_cases: "pam_step E ev p p'"

text \<open>The same relation as a function: an event has at most one outcome.\<close>

definition in_loop :: "'k pam \<Rightarrow> bool" where
  "in_loop p \<longleftrightarrow> pm_phase p = M_Loop \<and> ud_res (pm_ud p) = - 1"

definition exec_thread :: "('m, 'j, 'k) env \<Rightarrow> 'k pam \<Rightarrow> 'k pam option" where
  "exec_thread E p =
     (if main_done (pm_phase p) then None
      else case run_request_pw E (pm_ud p) of
          None \<Rightarrow> None
        | Some (Inl e) \<Rightarrow> Some (p\<lparr>pm_phase := M_Undef e\<rparr>)
        | Some (Inr ud') \<Rightarrow>
            Some (p\<lparr>pm_ud := ud', pm_result_pending := pm_result_pending p \<or> asks_result (pm_ud p) ud'\<rparr>))"

definition exec_status :: "('m, 'j, 'k) env \<Rightarrow> 'm \<Rightarrow> 'k pam \<Rightarrow> 'k pam option" where
  "exec_status E m p =
     (if \<not> in_loop p then None
      else case bus_signal_deal E m (pm_ud p) of
          Inl e \<Rightarrow> Some (p\<lparr>pm_phase := M_Undef e\<rparr>)
        | Inr (None, ud') \<Rightarrow> Some (p\<lparr>pm_ud := ud'\<rparr>)
        | Inr (Some r, ud') \<Rightarrow> Some (p\<lparr>pm_phase := M_Store r, pm_ud := ud'\<rparr>))"

definition exec_join :: "('m, 'j, 'k) env \<Rightarrow> 'k pam \<Rightarrow> 'k pam option" where
  "exec_join E p =
     (if pm_phase p \<noteq> M_Join then None
      else case clean_auth_data E (pm_ud p) of
          Inl e \<Rightarrow> Some (p\<lparr>pm_phase := M_Undef e\<rparr>)
        | Inr ud' \<Rightarrow> Some (p\<lparr>pm_phase := M_Done (ud_res ud'), pm_ud := ud'\<rparr>))"

fun pam_exec :: "('m, 'j, 'k) env \<Rightarrow> 'm event \<Rightarrow> 'k pam \<Rightarrow> 'k pam option" where
  "pam_exec E Ev_Thread p = exec_thread E p"
| "pam_exec E (Ev_Status m) p = exec_status E m p"
| "pam_exec E (Ev_Result m) p =
     (if in_loop p \<and> pm_result_pending p
      then Some (p\<lparr>pm_ud := snd (call_getResult_cb (e_bus E) (Some m) (pm_ud p)),
                   pm_result_pending := False\<rparr>) else None)"
| "pam_exec E (Ev_Key err m) p =
     (if in_loop p \<and> pm_key_pending p
      then Some (enter M_Loop (p\<lparr>pm_key_pending := False\<rparr>)
                  (cbind (call_encryptKey_cb E err m (pm_ud p)) (\<lambda>(_, ud). Inr ud))) else None)"
| "pam_exec E Ev_Store p =
     (case pm_phase p of M_Store r \<Rightarrow> Some (p\<lparr>pm_phase := M_Loop, pm_ud := bus_signal_store r (pm_ud p)\<rparr>)
      | _ \<Rightarrow> None)"
| "pam_exec E Ev_Bus_Error p =
     (if in_loop p then Some (p\<lparr>pm_phase := M_Exit, pm_ud := (pm_ud p)\<lparr>ud_res := PAM_ABORT\<rparr>\<rparr>) else None)"
| "pam_exec E Ev_Leave p =
     (if pm_phase p = M_Loop \<and> ud_res (pm_ud p) \<noteq> - 1 then Some (p\<lparr>pm_phase := M_Exit\<rparr>) else None)"
| "pam_exec E Ev_Data p =
     (if pm_phase p = M_Exit then Some (p\<lparr>pm_phase := M_Clean, pm_ud := set_result_data (pm_ud p)\<rparr>) else None)"
| "pam_exec E Ev_Close p =
     (if pm_phase p = M_Clean then Some (p\<lparr>pm_phase := M_Join, pm_ud := clean_bus E (pm_ud p)\<rparr>) else None)"
| "pam_exec E Ev_Join p = exec_join E p"

lemma pam_exec_step: "pam_exec E ev p = Some q \<Longrightarrow> pam_step E ev p q"
  by (cases ev)
    (auto simp: exec_thread_def exec_status_def exec_join_def in_loop_def intro: pam_step.intros
      split: if_splits option.splits sum.splits phase.splits)

lemma pam_step_exec: "pam_step E ev p q \<Longrightarrow> pam_exec E ev p = Some q"
  by (induction rule: pam_step.induct) (auto simp: exec_thread_def exec_status_def exec_join_def in_loop_def)

lemma pam_step_iff: "pam_step E ev p q \<longleftrightarrow> pam_exec E ev p = Some q"
  using pam_exec_step pam_step_exec by blast

inductive pam_run :: "('m, 'j, 'k) env \<Rightarrow> 'm event list \<Rightarrow> 'k pam \<Rightarrow> 'k pam \<Rightarrow> bool" for E where
  run_nil: "pam_run E [] p p"
| run_cons: "pam_step E ev p q \<Longrightarrow> pam_run E evs q r \<Longrightarrow> pam_run E (ev # evs) p r"

inductive_simps pam_run_nil [simp]: "pam_run E [] p q"
inductive_simps pam_run_cons: "pam_run E (ev # evs) p r"

fun exec_run :: "('m, 'j, 'k) env \<Rightarrow> 'm event list \<Rightarrow> 'k pam \<Rightarrow> 'k pam option" where
  "exec_run E [] p = Some p"
| "exec_run E (ev # evs) p = (case pam_exec E ev p of None \<Rightarrow> None | Some q \<Rightarrow> exec_run E evs q)"

lemma exec_run_iff: "exec_run E evs p = Some q \<longleftrightarrow> pam_run E evs p q"
  by (induction evs arbitrary: p) (auto simp: pam_run_cons pam_step_iff split: option.splits)

definition pam_initial :: "('m, 'j, 'k) env \<Rightarrow> string list \<Rightarrow> 'k pam \<Rightarrow> bool" where
  \<comment> \<open>the state in which the first part of the function hands over to the loop or to the epilogue\<close>
  "pam_initial E argv p \<longleftrightarrow>
     (\<exists>k ud. pam_sm_authenticate_start E argv = Inr (Next k ud)
        \<and> p = \<lparr>pm_phase = M_Loop, pm_result_pending = False, pm_key_pending = k, pm_ud = ud\<rparr>)
     \<or> (\<exists>ud. pam_sm_authenticate_start E argv = Inr (Break ud)
        \<and> p = \<lparr>pm_phase = M_Exit, pm_result_pending = False, pm_key_pending = False, pm_ud = ud\<rparr>)"

inductive reachable :: "('m, 'j, 'k) env \<Rightarrow> string list \<Rightarrow> 'k pam \<Rightarrow> bool" for E argv where
  reach_init: "pam_initial E argv p \<Longrightarrow> reachable E argv p"
| reach_step: "reachable E argv p \<Longrightarrow> pam_step E ev p q \<Longrightarrow> reachable E argv q"

lemma reachable_run: "pam_run E evs p q \<Longrightarrow> reachable E argv p \<Longrightarrow> reachable E argv q"
  by (induction rule: pam_run.induct) (auto intro: reach_step)

end
