(* ===== verification/Pam_Safety.thy ===== *)
theory Pam_Safety
  imports Pam_Loop
begin

text \<open>
  What the PAM module promises its caller: lemmas on the stages of \<open>pam_sm_authenticate\<close>, the
  invariant of the loop and of the token thread, and the properties that rest on them.
\<close>

subsection \<open>The stages before the loop\<close>

definition fresh :: "'k UserData \<Rightarrow> bool" where
  "fresh ud \<longleftrightarrow> ud_res ud = - 1 \<and> ud_thr ud \<in> {T_None, T_Prompt} \<and> tables_ok ud"

definition ctrl_ok :: "'k UserData \<Rightarrow> bool" where
  "ctrl_ok ud \<longleftrightarrow>
     (case ud_auth_ctrl ud of None \<Rightarrow> True
      | Some c \<Rightarrow> as_factorOrder c \<noteq> Indeterminate \<and> as_factors c \<noteq> Indeterminate)"

lemma keeps_fresh: "keeps ud ud' \<Longrightarrow> fresh ud \<Longrightarrow> fresh ud'"
  by (auto simp: keeps_def fresh_def)

lemma keeps_ctrl_ok: "keeps ud ud' \<Longrightarrow> ctrl_ok ud' = ctrl_ok ud"
  by (simp add: keeps_def ctrl_ok_def)

lemma keeps_ctrl: "keeps ud ud' \<Longrightarrow> ud_auth_ctrl ud' = ud_auth_ctrl ud"
  by (simp add: keeps_def)

lemma check_caller_flow:
  assumes "check_caller S a ud = Inr x"
  shows "(\<exists>b. x = Next b ud) \<or> x = Return PAM_IGNORE ud"
  using assms by (auto simp: check_caller_def split: option.splits if_splits elim!: cbind_InrE)

lemma set_env_lines_keeps: "set_env_lines n ls ud = Inr ud' \<Longrightarrow> keeps ud ud'"
proof (induction ls arbitrary: ud)
  case (Cons l ls)
  let ?ud = "case parse_env_line l of None \<Rightarrow> ud | Some (k, v) \<Rightarrow> emit (Env_Set k v) ud"
  have "keeps ud ?ud" by (simp split: option.splits)
  moreover have "keeps ?ud ud'" using Cons by (simp split: if_splits)
  ultimately show ?case by (rule keeps_trans)
qed simp

lemma load_user_locale_keeps: "load_user_locale S ud u l = Inr ud' \<Longrightarrow> keeps ud ud'"
  by (auto simp: load_user_locale_def Let_def dest: set_env_lines_keeps split: option.splits if_splits)

lemma prepare_user_fresh:
  assumes "prepare_user S a ud = Inr ud'"
  shows "fresh ud \<Longrightarrow> fresh ud'" and "ud_auth_ctrl ud' = ud_auth_ctrl ud" and "extends ud ud'"
proof -
  let ?v = "ud\<lparr>ud_term := stdin_tty S \<and> tcgetattr_ok S, ud_username := pam_user S\<rparr>"
  have k: "keeps ?v ud'"
    using assms by (auto simp: prepare_user_def Let_def sprintf_into_Inr dest: load_user_locale_keeps
        split: if_splits elim!: cbind_InrE)
  show "fresh ud \<Longrightarrow> fresh ud'" using keeps_fresh [OF k] by (simp add: fresh_def)
  show "ud_auth_ctrl ud' = ud_auth_ctrl ud" using keeps_ctrl [OF k] by simp
  show "extends ud ud'" using k by (simp add: keeps_def extends_def)
qed

lemma show_expiry_keeps: "show_expiry E t n ud = Inr ud' \<Longrightarrow> keeps ud ud'"
  by (auto simp: show_expiry_def Let_def split: if_splits elim!: cbind_InrE
      dest!: passwd_expired_info_same [THEN same_but_hist_keeps])

lemma dbus_get_prop_int_keeps: "dbus_get_prop_int E ud s p i n = (r, v, ud') \<Longrightarrow> keeps ud ud'"
  by (rule same_but_hist_keeps [OF dbus_get_prop_int_same])

lemma authenticate_keeps: "dbus_method_authenticate E ud n f t = Inr (r, p, ud') \<Longrightarrow> keeps ud ud'"
  unfolding dbus_method_authenticate_def by (rule same_but_hist_keeps [OF text_call_same])

lemma preOneKeyLogin_keeps: "dbus_method_preOneKeyLogin E ud n = Inr (r, p, ud') \<Longrightarrow> keeps ud ud'"
  unfolding dbus_method_preOneKeyLogin_def by (rule same_but_hist_keeps [OF text_call_same])

lemma get_property_same: "get_property E p n ud = (r, m, ud') \<Longrightarrow> same_but_hist ud ud'"
  by (auto simp: get_property_def split: prod.splits)

lemma get_property_string_same: "get_property_string E p n ud = (r, ud') \<Longrightarrow> same_but_hist ud ud'"
  by (auto simp: get_property_string_def dest: get_property_same split: prod.splits if_splits)

lemma get_property_int_same: "get_property_int E p n ud = (r, v, ud') \<Longrightarrow> same_but_hist ud ud'"
  by (auto simp: get_property_int_def dest: get_property_same split: prod.splits if_splits)

lemma get_authctl_property_cases:
  assumes a: "get_authctl_property E ud p c = Some (r, c', ud')"
  shows "same_but_hist ud ud'
    \<and> (r = PAM_ABORT \<and> (\<exists>v. c' = c\<lparr>as_isMFA := v\<rparr>)
       \<or> (\<exists>m v. resolve_authctrl_factors (e_bus E) m (c\<lparr>as_isMFA := v\<rparr>) = Some (r, c')))"
proof -
  obtain r1 v ud1 where g1: "get_property_int E p ''IsMFA'' ud = (r1, v, ud1)" by (metis prod_cases3)
  obtain r3 m3 ud3 where g3: "get_property E p ''FactorsInfo'' ud1 = (r3, m3, ud3)" by (metis prod_cases3)
  obtain r4 ud4 where g4: "get_property_string E p ''Prompt'' ud3 = (r4, ud4)" by (metis surj_pair)
  obtain r5 ud5 where g5: "get_property_string E p ''Username'' ud4 = (r5, ud5)" by (metis surj_pair)
  have same: "same_but_hist ud ud1" "same_but_hist ud ud3" "same_but_hist ud ud4" "same_but_hist ud ud5"
    using get_property_int_same [OF g1] get_property_same [OF g3] get_property_string_same [OF g4]
      get_property_string_same [OF g5] by (blast intro: same_but_hist_trans)+
  have c: "c = c\<lparr>as_isMFA := as_isMFA c\<rparr>" by simp
  let ?c = "c\<lparr>as_isMFA := v\<rparr>"
  have eq: "(if r1 < 0 then Some (PAM_ABORT, c, ud1) else if r3 < 0 then Some (PAM_ABORT, ?c, ud3)
      else if r4 < 0 then Some (PAM_ABORT, ?c, ud4) else if r5 < 0 then Some (PAM_ABORT, ?c, ud5)
      else map_option (\<lambda>(r, res). (r, res, ud5)) (resolve_authctrl_factors (e_bus E) m3 ?c))
      = Some (r, c', ud')"
    using a by (simp only: get_authctl_property_def g1 g3 g4 g5 prod.case Let_def cong: if_cong)
  show ?thesis
  proof (cases "r1 < 0 \<or> r3 < 0 \<or> r4 < 0 \<or> r5 < 0")
    case True
    with eq have "r = PAM_ABORT \<and> (c' = c \<or> c' = ?c) \<and> ud' \<in> {ud1, ud3, ud4, ud5}"
      by (cases "r1 < 0"; cases "r3 < 0"; cases "r4 < 0") simp_all
    with same c show ?thesis by blast
  next
    case False
    with eq have "resolve_authctrl_factors (e_bus E) m3 ?c = Some (r, c') \<and> ud' = ud5"
      by auto
    with same show ?thesis by blast
  qed
qed

lemma get_authctl_property_keeps:
  "get_authctl_property E ud p c = Some (r, c', ud') \<Longrightarrow> keeps ud ud'"
  using get_authctl_property_cases by (blast intro: same_but_hist_keeps)

lemma get_authctl_property_ctrl:
  assumes "get_authctl_property E ud p c = Some (r, c', ud')"
  shows "(r \<noteq> 0 \<and> as_factorOrder c' = as_factorOrder c \<and> as_factors c' = as_factors c)
    \<or> (r = 0 \<and> (\<exists>fs. as_factorSize c' = length fs \<and> as_factorOrder c' = Ptr (factor_order fs)
              \<and> as_factors c' = (if fs = [] then as_factors c else Ptr fs)))"
proof -
  from get_authctl_property_cases [OF assms] consider v where "r = PAM_ABORT" "c' = c\<lparr>as_isMFA := v\<rparr>"
    | m v where "resolve_authctrl_factors (e_bus E) m (c\<lparr>as_isMFA := v\<rparr>) = Some (r, c')"
    by blast
  then show ?thesis
  proof cases
    case 1
    then show ?thesis by simp
  next
    case 2
    have "as_factors (c\<lparr>as_isMFA := v\<rparr>) = as_factors c"
      "as_factorOrder (c\<lparr>as_isMFA := v\<rparr>) = as_factorOrder c" by simp_all
    with resolve_authctrl_factors_shape [OF 2] show ?thesis by (elim disjE) (simp, metis)
  qed
qed

lemma open_session_flow:
  assumes "open_session E t b ud = Inr x" and f: "fresh ud" and c: "ud_auth_ctrl ud = None"
  shows "(\<exists>p ud'. x = Next p ud' \<and> fresh ud' \<and> ud_auth_ctrl ud' = None)
    \<or> (\<exists>ud'. x = Break ud' \<and> ud_res ud' \<in> {- 1, PAM_ABORT} \<and> ud_thr ud' \<in> {T_None, T_Prompt} \<and> tables_ok ud'
           \<and> ud_auth_ctrl ud' = None)"
proof (cases "sd_open (e_bus E) (ud_hist ud) < 0")
  case True
  with assms show ?thesis by (auto simp: open_session_def fresh_def)
next
  case False
  let ?ud = "ud\<lparr>ud_bus := True\<rparr>"
  from assms(1) False obtain r s ud1 where p: "dbus_method_preOneKeyLogin E ?ud (pam_user (e_sys E)) = Inr (r, s, ud1)"
    by (auto simp: open_session_def Let_def elim!: cbind_InrE)
  have ok1: "fresh ud1 \<and> ud_auth_ctrl ud1 = None"
    using keeps_fresh [OF preOneKeyLogin_keeps [OF p]] keeps_ctrl [OF preOneKeyLogin_keeps [OF p]] f c
    by (simp add: fresh_def)
  let ?buff = "case s of None \<Rightarrow> b | Some path \<Rightarrow> path"
  show ?thesis
  proof (cases "?buff = []")
    case False2: False
    with assms(1) False p ok1 show ?thesis by (auto simp: open_session_def)
  next
    case True
    let ?n = "pam_user (e_sys E)"
    from assms(1) False p True obtain ud2 where e: "show_expiry E t ?n ud1 = Inr ud2"
      by (auto simp: open_session_def Let_def elim!: cbind_InrE)
    obtain r3 v ud3 where g: "dbus_get_prop_int E ud2 DBUS_SERVICE DBUS_PATH DBUS_INTERFACE ''SupportedFlags'' = (r3, v, ud3)"
      by (metis prod_cases3)
    let ?f = "case v of None \<Rightarrow> AUTH_FLAG_USING | Some v \<Rightarrow> v"
    from assms(1) False p True e g obtain r4 q ud4
      where a: "dbus_method_authenticate E ud3 ?n ?f t = Inr (r4, q, ud4)"
        and x: "x = (if r4 \<noteq> 0 then Break (ud4\<lparr>ud_res := PAM_ABORT\<rparr>)
                     else Next (case q of None \<Rightarrow> [] | Some p \<Rightarrow> p) ud4)"
      by (auto simp: open_session_def Let_def split: if_splits elim!: cbind_InrE)
    have "keeps ud1 ud4"
      using show_expiry_keeps [OF e] dbus_get_prop_int_keeps [OF g] authenticate_keeps [OF a]
      by (blast intro: keeps_trans)
    with ok1 have "fresh ud4" "ud_auth_ctrl ud4 = None"
      using keeps_fresh keeps_ctrl by metis+
    with x show ?thesis by (auto simp: fresh_def)
  qed
qed

lemma load_session_flow:
  assumes "load_session E b ud = Inr x" and f: "fresh ud"
  shows "x = Diverges
    \<or> (\<exists>ud' c. x = Return PAM_ABORT ud' \<and> ud_auth_ctrl ud' = Some c \<and> as_factorOrder c = Indeterminate)
    \<or> (\<exists>ud' c. x = Next c ud' \<and> fresh ud' \<and> ud_auth_ctrl ud' = Some c \<and> ctrl_ok ud')"
proof -
  let ?ud = "ud\<lparr>ud_path := b\<rparr>"
  have x: "(case get_authctl_property E ?ud b fresh_session of
         None \<Rightarrow> Diverges
       | Some (r, ctrl, ud) \<Rightarrow>
           let ud = ud\<lparr>ud_auth_ctrl := Some ctrl\<rparr> in
           if r \<noteq> 0 then Return PAM_ABORT ud else Next ctrl (ud\<lparr>ud_need_cancel := True\<rparr>)) = x"
    using assms(1) by (auto simp: load_session_def sprintf_into_Inr Let_def
        split: option.splits prod.splits elim!: cbind_InrE)
  show ?thesis
  proof (cases "get_authctl_property E ?ud b fresh_session")
    case None
    with x show ?thesis by simp
  next
    case (Some y)
    then obtain r c ud1 where g: "get_authctl_property E ?ud b fresh_session = Some (r, c, ud1)"
      by (cases y) auto
    have ok: "fresh ud1" using keeps_fresh [OF get_authctl_property_keeps [OF g]] f by (simp add: fresh_def)
    have c:  "(r \<noteq> 0 \<and> as_factorOrder c = Indeterminate)
        \<or> (r = 0 \<and> as_factorOrder c \<noteq> Indeterminate \<and> as_factors c \<noteq> Indeterminate)"
      using get_authctl_property_ctrl [OF g] by (elim disjE conjE exE) (simp_all add: fresh_session_def)
    show ?thesis
    proof (cases "r = 0")
      case True
      with x g have "x = Next c (ud1\<lparr>ud_auth_ctrl := Some c, ud_need_cancel := True\<rparr>)" by (simp add: Let_def)
      with True c ok show ?thesis by (simp add: ctrl_ok_def fresh_def)
    next
      case False
      with x g have "x = Return PAM_ABORT (ud1\<lparr>ud_auth_ctrl := Some c\<rparr>)" by (simp add: Let_def)
      with False c show ?thesis by simp
    qed
  qed
qed

lemma check_password_lock_flow:
  assumes "check_password_lock E ud = Inr x" and f: "fresh ud"
  shows "(\<exists>ud'. x = Next () ud' \<and> keeps ud ud')
    \<or> (\<exists>ud'. x = Break ud' \<and> ud_res ud' \<in> {PAM_ABORT, PAM_MAXTRIES} \<and> ud_thr ud' \<in> {T_None, T_Prompt} \<and> tables_ok ud'
           \<and> ud_auth_ctrl ud' = ud_auth_ctrl ud)"
proof -
  from assms(1) obtain ud1 i where g: "get_limits_info E ud = Inr ud1"
    and i: "type_to_index (at_flag AT_Password) = Inr i"
    by (auto simp: check_password_lock_def elim!: cbind_InrE)
  have k: "keeps ud ud1" by (rule get_limits_info_keeps [OF g])
  then have t: "ud_thr ud1 \<in> {T_None, T_Prompt}" "tables_ok ud1" "ud_auth_ctrl ud1 = ud_auth_ctrl ud"
    using f by (auto simp: keeps_def fresh_def)
  show ?thesis
  proof (cases "SUPPORT_AT_TYPE \<le> i")
    case True
    with assms(1) g i t show ?thesis by (auto simp: check_password_lock_def)
  next
    case False
    let ?l = "ud_limits ud1 ! i"
    from assms(1) g i False obtain t r where p: "get_limit_prompt (e_sys E) (ud_hist ud1) [] ?l = Inr (t, r)"
      and x: "x = (if r \<noteq> PAM_SUCCESS then Break ((show_msg E ud1 t PAM_ERROR_MSG)\<lparr>ud_res := r\<rparr>) else Next () ud1)"
      by (auto simp: check_password_lock_def elim!: cbind_InrE split: if_splits)
    have "keeps ud1 (show_msg E ud1 t PAM_ERROR_MSG)" by simp
    with t have "ud_thr (show_msg E ud1 t PAM_ERROR_MSG) \<in> {T_None, T_Prompt} \<and> tables_ok (show_msg E ud1 t PAM_ERROR_MSG)"
      "ud_auth_ctrl (show_msg E ud1 t PAM_ERROR_MSG) = ud_auth_ctrl ud"
      by (auto simp: keeps_def)
    with x k get_limit_prompt_code [OF p] show ?thesis by (auto split: if_splits)
  qed
qed

lemma request_key_flow:
  assumes "request_key E c ud = Inr (k, ud')"
  shows "fresh ud \<Longrightarrow> fresh ud'" and "ud_auth_ctrl ud' = ud_auth_ctrl ud"
proof -
  have "keeps (ud\<lparr>ud_key := Some create_pub_key\<rparr>) ud'"
    using assms by (auto simp: request_key_def dbus_method_encryptKey_def Let_def
        dest!: call_async_same [THEN same_but_hist_keeps] split: if_splits prod.splits elim!: cbind_InrE)
  from keeps_fresh [OF this] keeps_ctrl [OF this]
  show "fresh ud \<Longrightarrow> fresh ud'" "ud_auth_ctrl ud' = ud_auth_ctrl ud" by (simp_all add: fresh_def)
qed

lemma sfa_start_verify_keeps: "sfa_start_verify E ud t = (r, ud') \<Longrightarrow> keeps ud ud'"
  by (auto simp: sfa_start_verify_def Let_def dest!: keeps_start [where u = ud] split: prod.splits)

lemma start_verify_flow:
  assumes "start_verify E c t ud = Inr x" and f: "fresh ud"
  shows "(\<exists>ud'. x = Next () ud' \<and> fresh ud' \<and> ud_auth_ctrl ud' = ud_auth_ctrl ud)
    \<or> (\<exists>ud'. x = Break ud' \<and> ud_res ud' = PAM_ABORT \<and> ud_thr ud' \<in> {T_None, T_Prompt} \<and> tables_ok ud'
           \<and> ud_auth_ctrl ud' = ud_auth_ctrl ud)"
proof -
  let ?ud = "emit (Bus_Match (ud_path ud)) ud"
  have k: "keeps ud ?ud" by simp
  let ?r = "sd_match (e_bus E) (ud_hist ud) (ud_path ud)"
  show ?thesis
  proof (cases "?r < 0")
    case True
    with assms show ?thesis by (auto simp: start_verify_def listen_dbus_signal_def fresh_def)
  next
    case False
    with assms(1) obtain r ud2 where v: "(if as_isMFA c \<noteq> 0 then mfa_start_verify E ?ud 0 t
                 else Inr (sfa_start_verify E ?ud t)) = Inr (r, ud2)"
      and x: "x = (if r \<noteq> PAM_SUCCESS then Break (ud2\<lparr>ud_res := PAM_ABORT\<rparr>) else Next () ud2)"
      by (auto simp: start_verify_def listen_dbus_signal_def elim!: cbind_InrE split: prod.splits)
    have "keeps ?ud ud2"
      using v mfa_start_verify_keeps [of E ?ud 0 t r ud2] sfa_start_verify_keeps [of E ?ud t r ud2]
      by (auto split: if_splits)
    with k have "keeps ud ud2" by (rule keeps_trans)
    with f have "fresh ud2" "ud_auth_ctrl ud2 = ud_auth_ctrl ud"
      using keeps_fresh keeps_ctrl by metis+
    with x show ?thesis by (auto simp: fresh_def)
  qed
qed

lemma run_session_flow:
  assumes "run_session E a t b ud = Inr x" and f: "fresh ud" and c: "ud_auth_ctrl ud = None"
  shows "x = Diverges
    \<or> (\<exists>ud' c. x = Return PAM_ABORT ud' \<and> ud_auth_ctrl ud' = Some c \<and> as_factorOrder c = Indeterminate)
    \<or> (\<exists>ud'. x = Break ud' \<and> ud_res ud' \<in> {- 1, PAM_ABORT, PAM_MAXTRIES}
           \<and> ud_thr ud' \<in> {T_None, T_Prompt} \<and> tables_ok ud' \<and> ctrl_ok ud')
    \<or> (\<exists>k ud'. x = Next k ud' \<and> fresh ud' \<and> ctrl_ok ud')"
proof -
  obtain y where o: "open_session E t b ud = Inr y"
    using assms(1) by (auto simp: run_session_def fbind_def elim!: cbind_InrE)
  from open_session_flow [OF this f c] show ?thesis
  proof (elim disjE exE conjE)
    fix ud1 assume "y = Break ud1" "ud_res ud1 \<in> {- 1, PAM_ABORT}" "ud_thr ud1 \<in> {T_None, T_Prompt}" "tables_ok ud1"
      "ud_auth_ctrl ud1 = None"
    with assms(1) o show ?thesis by (auto simp: run_session_def ctrl_ok_def)
  next
    fix p ud1 assume y: "y = Next p ud1" and f1: "fresh ud1"
    obtain z where l: "load_session E p ud1 = Inr z"
      using assms(1) o y by (auto simp: run_session_def fbind_def elim!: cbind_InrE)
    from load_session_flow [OF this f1] show ?thesis
    proof (elim disjE exE conjE)
      fix ud2 c assume z: "z = Next c ud2" and f2: "fresh ud2" and c2: "ud_auth_ctrl ud2 = Some c" "ctrl_ok ud2"
      obtain w where k: "check_password_lock E ud2 = Inr w"
        using assms(1) o y l z by (auto simp: run_session_def fbind_def elim!: cbind_InrE)
      from check_password_lock_flow [OF this f2] show ?thesis
      proof (elim disjE exE conjE)
        fix ud3 assume w: "w = Next () ud3" and kp: "keeps ud2 ud3"
        have f3: "fresh ud3" "ctrl_ok ud3" using keeps_fresh [OF kp f2] keeps_ctrl_ok [OF kp] c2 by simp_all
        obtain kk ud4 where r: "request_key E c ud3 = Inr (kk, ud4)"
          using assms(1) o y l z k w by (auto simp: run_session_def elim!: cbind_InrE)
        have f4: "fresh ud4" "ctrl_ok ud4" using request_key_flow [OF r] f3 by (simp_all add: ctrl_ok_def)
        obtain v where s: "start_verify E c (ma_timeout a) ud4 = Inr v"
          using assms(1) o y l z k w r by (auto simp: run_session_def fbind_def elim!: cbind_InrE)
        have x: "x = (case v of Return q s \<Rightarrow> Return q s | Break s \<Rightarrow> Break s | Next _ s \<Rightarrow> Next kk s | Diverges \<Rightarrow> Diverges)"
          using assms(1) o y l z k w r s by (auto simp: run_session_def split: flow.splits)
        from start_verify_flow [OF s f4(1)] x f4 show ?thesis by (auto simp: ctrl_ok_def)
      qed (use assms(1) o y l z k c2 in \<open>auto simp: run_session_def ctrl_ok_def\<close>)
    qed (use assms(1) o y l in \<open>auto simp: run_session_def\<close>)
  qed
qed

lemma start_flow:
  assumes "pam_sm_authenticate_start E argv = Inr x"
  shows "x = Diverges \<or> x = Return PAM_IGNORE init_user_data
    \<or> (\<exists>ud' c. x = Return PAM_ABORT ud' \<and> ud_auth_ctrl ud' = Some c \<and> as_factorOrder c = Indeterminate)
    \<or> (\<exists>ud'. x = Break ud' \<and> ud_res ud' \<in> {- 1, PAM_ABORT, PAM_MAXTRIES}
           \<and> ud_thr ud' \<in> {T_None, T_Prompt} \<and> tables_ok ud' \<and> ctrl_ok ud')
    \<or> (\<exists>k ud'. x = Next k ud' \<and> fresh ud' \<and> ctrl_ok ud')"
proof -
  obtain a y where c: "check_caller (e_sys E) a init_user_data = Inr y"
    and x: "fbind (Inr y) (\<lambda>app_path ud. cbind (prepare_user (e_sys E) a ud) (\<lambda>ud.
       cbind (load_app_type (e_sys E) (e_json E) app_path) (\<lambda>app_type_string.
         run_session E a (get_app_type app_type_string) app_path ud))) = Inr x"
    using assms by (auto simp: pam_sm_authenticate_start_def fbind_def elim!: cbind_InrE)
  from check_caller_flow [OF c] show ?thesis
  proof (elim disjE exE)
    fix b assume y: "y = Next b init_user_data"
    with x obtain ud1 t where p: "prepare_user (e_sys E) a init_user_data = Inr ud1"
      and r: "run_session E a (get_app_type t) b ud1 = Inr x"
      by (auto elim!: cbind_InrE)
    have "fresh ud1" "ud_auth_ctrl ud1 = None"
      using prepare_user_fresh [OF p] by (simp_all add: fresh_def init_user_data_def tables_ok_def)
    from run_session_flow [OF r this] show ?thesis by blast
  qed (use x in simp)
qed

subsection \<open>The invariant of the loop\<close>

definition in_wait :: "thread_state \<Rightarrow> bool" where
  "in_wait t = (case t of T_Wait _ _ _ \<Rightarrow> True | _ \<Rightarrow> False)"

lemma in_wait_simps [simp]:
  "in_wait (T_Wait p t r)" "\<not> in_wait T_Prompt" "\<not> in_wait T_Exited" "\<not> in_wait (T_Asked p t r)"
  "\<not> in_wait (T_Sent r)" "\<not> in_wait T_None"
  by (simp_all add: in_wait_def)

definition ud_inv :: "'k UserData \<Rightarrow> bool" where
  "ud_inv ud \<longleftrightarrow>
     ctrl_ok ud \<and> tables_ok ud \<and> (ud_res ud = PAM_SUCCESS \<longrightarrow> verified ud)
     \<and> (in_wait (ud_thr ud) \<and> ud_waiting_result ud = 0 \<and> ud_get_result_val ud = 0
          \<longrightarrow> has_effect (Got_Result 0) ud)"

definition pam_inv :: "'k pam \<Rightarrow> bool" where
  "pam_inv p \<longleftrightarrow>
     ud_inv (pm_ud p) \<and> (pm_phase p = M_Store PAM_SUCCESS \<longrightarrow> verified (pm_ud p))
     \<and> (pm_phase p = M_Done PAM_SUCCESS \<longrightarrow> verified (pm_ud p))"

text \<open>\<open>core\<close>: the parts of the state the invariant speaks of stay.\<close>

definition core :: "'k UserData \<Rightarrow> 'k UserData \<Rightarrow> bool" where
  "core ud ud' \<longleftrightarrow>
     extends ud ud' \<and> ud_res ud' = ud_res ud \<and> ud_auth_ctrl ud' = ud_auth_ctrl ud
     \<and> ud_waiting_result ud' = ud_waiting_result ud \<and> ud_get_result_val ud' = ud_get_result_val ud
     \<and> (ud_thr ud' = ud_thr ud \<or> ud_thr ud' = T_Prompt) \<and> (tables_ok ud \<longrightarrow> tables_ok ud')"

lemma core_refl [simp, intro]: "core ud ud"
  by (simp add: core_def)

lemma core_trans [trans]: "core a b \<Longrightarrow> core b c \<Longrightarrow> core a c"
  by (auto simp: core_def intro: extends_trans)

lemma keeps_core: "keeps ud ud' \<Longrightarrow> core ud ud'"
  by (auto simp: keeps_def core_def)

lemma core_upd [simp]:
  "core ud (v\<lparr>ud_key := k\<rparr>) \<longleftrightarrow> core ud v" "core (ud\<lparr>ud_key := k\<rparr>) v \<longleftrightarrow> core ud v"
  "core ud (v\<lparr>ud_symmetric_key := sk\<rparr>) \<longleftrightarrow> core ud v" "core (ud\<lparr>ud_symmetric_key := sk\<rparr>) v \<longleftrightarrow> core ud v"
  "core ud (v\<lparr>ud_auth_tok := t\<rparr>) \<longleftrightarrow> core ud v" "core ud (v\<lparr>ud_bus := bb\<rparr>) \<longleftrightarrow> core ud v"
  "core ud (v\<lparr>ud_term := bb\<rparr>) \<longleftrightarrow> core ud v" "core ud (v\<lparr>ud_pid := bb\<rparr>) \<longleftrightarrow> core ud v"
  by (simp_all add: core_def extends_def)

lemma core_inv: "core ud ud' \<Longrightarrow> ud_inv ud \<Longrightarrow> ud_inv ud'"
  by (auto simp: core_def ud_inv_def ctrl_ok_def dest: verified_extends extends_has_effect)

lemma core_verified: "core ud ud' \<Longrightarrow> verified ud \<Longrightarrow> verified ud'"
  by (auto simp: core_def intro: verified_extends)

lemma ud_inv_verified: "ud_inv ud \<Longrightarrow> ud_res ud = PAM_SUCCESS \<Longrightarrow> verified ud"
  by (simp add: ud_inv_def)

subsection \<open>Every step keeps the invariant\<close>

lemma setToken_core: "dbus_method_setToken E ud p a w = Inr (r, ud') \<Longrightarrow> core ud ud'"
  by (rule keeps_core [OF same_but_hist_keeps [OF dbus_method_setToken_same]])

lemma request_answered_inv:
  assumes "request_answered E ud resp = Inr ud'" and "ud_inv ud"
  shows "ud_inv ud'"
proof -
  from assms(1) obtain ok ud1 where s: "dbus_method_setToken E ud (ud_path ud) (ud_cur_type ud) resp = Inr (ok, ud1)"
    and u: "ud' = (if ok = 0 then ud1\<lparr>ud_res := PAM_ABORT\<rparr> else ud1)\<lparr>ud_thr := T_Sent resp\<rparr>"
    by (auto simp: request_answered_def elim!: cbind_InrE)
  from core_inv [OF setToken_core [OF s] assms(2)] show ?thesis
    by (auto simp: u ud_inv_def ctrl_ok_def verified_def has_effect_def)
qed

lemma send_msg_inv:
  assumes "send_msg E ud m style = (r, ud')" and "ud_inv ud"
  shows "ud_inv ud'"
proof -
  let ?a = "\<lambda>u :: 'a UserData. u\<lparr>ud_res := (if ud_res u = - 1 then PAM_ABORT else ud_res u)\<rparr>"
  let ?e = "emit (Conv_Msg m style) ud"
  have e: "ud_inv ?e" by (rule core_inv [OF keeps_core [OF keeps_emit] assms(2)])
  then have "ud_inv (?a ?e)" by (auto simp: ud_inv_def ctrl_ok_def verified_def has_effect_def)
  moreover have "ud' = ud \<or> ud' = ?e \<or> ud' = ?a ?e"
    using assms(1) by (simp add: send_msg_def Let_def split: conv_answer.splits if_splits)
  ultimately show ?thesis using e assms(2) by (elim disjE) simp_all
qed

lemma getResult_send_eq:
  "getResult_send E ud p = (r, ud') \<Longrightarrow>
     core ud (ud'\<lparr>ud_get_result_val := ud_get_result_val ud\<rparr>)
     \<and> ud_get_result_val ud' = (if r < 0 then GET_RESULT_UNAVAILABLE else ud_get_result_val ud)"
  by (auto simp: getResult_send_def call_async_def core_def extends_def split: if_splits)

lemma request_prompt_inv:
  assumes "request_prompt E ud = Inr ud'" and "ud_inv ud" and "ud_thr ud = T_Prompt"
  shows "ud_inv ud'"
proof -
  obtain r ud1 where s: "send_msg E ud (ud_prompt ud) PAM_PROMPT_ECHO_OFF = (r, ud1)" by (metis surj_pair)
  have i: "ud_inv ud1" by (rule send_msg_inv [OF s assms(2)])
  show ?thesis
  proof (cases r)
    case None
    with assms(1) s i show ?thesis
      by (auto simp: request_prompt_def ud_inv_def ctrl_ok_def verified_def has_effect_def)
  next
    case (Some r')
    with assms(1) s obtain resp where r': "r' = Some resp" by (cases r') (auto simp: request_prompt_def)
    show ?thesis
    proof (cases "split_data resp")
      case None
      with assms(1) s Some r' have "request_answered E ud1 resp = Inr ud'" by (simp add: request_prompt_def)
      from request_answered_inv [OF this i] show ?thesis .
    next
      case (Some pt)
      obtain path tok where pt: "pt = (path, tok)" by (cases pt)
      obtain q ud2 where g: "getResult_send E ud1 path = (q, ud2)" by (metis surj_pair)
      have u: "ud' = ud2\<lparr>ud_thr := (if q < 0 then T_Wait path tok resp else T_Asked path tok resp)\<rparr>"
        using assms(1) s \<open>r = Some r'\<close> r' Some pt g by (simp add: request_prompt_def)
      from getResult_send_eq [OF g] have "core ud1 (ud2\<lparr>ud_get_result_val := ud_get_result_val ud1\<rparr>)"
        and v: "ud_get_result_val ud2 = (if q < 0 then GET_RESULT_UNAVAILABLE else ud_get_result_val ud1)"
        by simp_all
      from core_inv [OF this(1) i] v show ?thesis
        by (auto simp: u ud_inv_def ctrl_ok_def verified_def has_effect_def)
    qed
  qed
qed

lemma request_result_inv:
  assumes "request_result E tok resp ud = Inr ud'" and "ud_inv ud"
    and "ud_thr ud = T_Wait path tok resp" and "ud_waiting_result ud = 0"
  shows "ud_inv ud'"
proof (cases "ud_get_result_val ud = GET_RESULT_SUCCESS")
  case True
  with assms have "has_effect (Got_Result 0) ud" by (simp add: ud_inv_def)
  with True assms show ?thesis
    by (auto simp: request_result_def ud_inv_def ctrl_ok_def verified_def has_effect_def Let_def
        split: option.splits)
next
  case False
  with assms request_answered_inv show ?thesis by (simp add: request_result_def)
qed

lemma thread_inv:
  assumes "run_request_pw E ud = Some (Inr ud')" and "ud_inv ud"
  shows "ud_inv ud'"
proof (cases "ud_thr ud")
  case T_Prompt
  with assms request_prompt_inv show ?thesis by (simp add: run_request_pw_def)
next
  case (T_Wait p t r)
  with assms request_result_inv [of E t r ud ud' p] show ?thesis
    by (auto simp: run_request_pw_def split: if_splits)
qed (use assms in \<open>auto simp: run_request_pw_def getResult_mark_def ud_inv_def ctrl_ok_def verified_def
      has_effect_def\<close>)

lemma request_answered_extends: "request_answered E ud resp = Inr ud' \<Longrightarrow> extends ud ud'"
  by (auto simp: request_answered_def core_def extends_def dest!: setToken_core
      split: if_splits elim!: cbind_InrE)

lemma send_msg_extends: "send_msg E ud m style = (r, ud') \<Longrightarrow> extends ud ud'"
  by (auto simp: send_msg_def extends_def Let_def split: conv_answer.splits)

lemma request_prompt_extends:
  assumes "request_prompt E ud = Inr ud'" shows "extends ud ud'"
proof -
  obtain r ud1 where s: "send_msg E ud (ud_prompt ud) PAM_PROMPT_ECHO_OFF = (r, ud1)" by (metis surj_pair)
  have "extends ud1 ud'"
    using assms s by (auto simp: request_prompt_def getResult_send_def call_async_def extends_def
        dest: request_answered_extends [unfolded extends_def] split: option.splits prod.splits if_splits)
  with send_msg_extends [OF s] show ?thesis by (rule extends_trans)
qed

lemma thread_extends: "run_request_pw E ud = Some (Inr ud') \<Longrightarrow> extends ud ud'"
  by (auto simp: run_request_pw_def request_result_def getResult_mark_def Let_def
      dest: request_prompt_extends request_answered_extends
      split: thread_state.splits if_splits option.splits) (auto simp: extends_def)

lemma bus_signal_deal_inv:
  assumes "bus_signal_deal E m ud = Inr (r, ud')"
  shows "keeps ud ud'" and "r = Some PAM_SUCCESS \<Longrightarrow> verified ud'"
proof -
  obtain q t c msg where rd: "rd_iis (e_bus E) m = (q, t, c, msg)" by (metis prod_cases4)
  let ?e = "emit (Got_Status t c msg) ud"
  consider "q < 0" "r = None" "ud' = ud"
    | r' where "r = Some r'" "mfa_signal_deal E ?e c t msg = Inr (r', ud')"
    | r' where "r = Some r'" "sfa_signal_deal E ?e c t msg = Inr (r', ud')"
    using assms rd by (auto simp: bus_signal_deal_def Let_def split: if_splits elim!: cbind_InrE)
  then have "keeps ud ud' \<and> (r = Some PAM_SUCCESS \<longrightarrow> verified ud')"
    by cases (auto dest: mfa.after_read sfa.after_read)
  then show "keeps ud ud'" and "r = Some PAM_SUCCESS \<Longrightarrow> verified ud'" by blast+
qed

lemma call_getResult_cb_inv:
  assumes "ud_inv ud" shows "ud_inv (snd (call_getResult_cb B (Some m) ud))"
  using assms by (auto simp: call_getResult_cb_def ud_inv_def ctrl_ok_def verified_def has_effect_def Let_def
      split: prod.splits if_splits)

lemma encryptKey_store_core: "encryptKey_store E key ud = Inr (r, ud') \<Longrightarrow> core ud ud'"
  by (auto simp: encryptKey_store_def encrypt_symmtric_key_def dbus_method_set_symmetric_key_def Let_def
      dest!: call_sync_same [THEN same_but_hist_keeps, THEN keeps_core]
      split: if_splits prod.splits elim!: cbind_InrE)

lemma call_encryptKey_cb_core: "call_encryptKey_cb E err m ud = Inr (r, ud') \<Longrightarrow> core ud ud'"
  by (auto simp: call_encryptKey_cb_def Let_def dest!: encryptKey_store_core
      split: if_splits prod.splits option.splits)

lemma bus_signal_store_inv:
  assumes "ud_inv ud" and "r = PAM_SUCCESS \<longrightarrow> verified ud"
  shows "ud_inv (bus_signal_store r ud)"
  using assms by (auto simp: bus_signal_store_def ud_inv_def ctrl_ok_def verified_def has_effect_def Let_def
      split: option.splits)

lemma clean_bus_core: "core ud (clean_bus E ud)"
  using keeps_core [OF keeps_emitI [OF keeps_end [OF keeps_refl]]]
  by (simp add: clean_bus_def Let_def keeps_core)

lemma clean_auth_data_eq:
  assumes "clean_auth_data E ud = Inr ud'"
  shows "extends ud ud'" "ud_res ud' = ud_res ud" "ud_auth_ctrl ud' = None" "ud_bus ud' = False"
    "ud_pid ud' = False" "ud_term ud' = False" "ud_symmetric_key ud' = None"
    "ud_waiting_result ud' = ud_waiting_result ud" "ud_get_result_val ud' = ud_get_result_val ud"
    "in_wait (ud_thr ud') \<Longrightarrow> in_wait (ud_thr ud)" "ud_pid ud \<Longrightarrow> \<not> thread_alive (ud_thr ud')"
    "tables_ok ud \<Longrightarrow> tables_ok ud'"
proof -
  let ?b = "clean_bus E ud" let ?t = "clean_thread ?b"
  have b: "ud_bus ?b = False" "extends ud ?b" "ud_res ?b = ud_res ud" "ud_pid ?b = ud_pid ud"
    "ud_waiting_result ?b = ud_waiting_result ud" "ud_get_result_val ?b = ud_get_result_val ud"
    "ud_thr ?b = ud_thr ud" "tables_ok ud \<Longrightarrow> tables_ok ?b"
    using clean_bus_core [of ud E] by (auto simp: clean_bus_def core_def dbus_method_end_eq Let_def)
  have t: "extends ?b ?t" "ud_res ?t = ud_res ?b" "ud_pid ?t = False" "ud_bus ?t = False"
    "ud_waiting_result ?t = ud_waiting_result ?b" "ud_get_result_val ?t = ud_get_result_val ?b"
    "ud_thr ?t = (if ud_pid ?b \<and> thread_alive (ud_thr ?b) then T_Exited else ud_thr ?b)"
    "tables_ok ?t = tables_ok ?b"
    using b by (auto simp: clean_thread_def extends_def)
  obtain u where c: "clean_auth_ctrl ?t = Inr u" and u': "ud' = (clean_term u)\<lparr>ud_symmetric_key := None\<rparr>"
    using assms by (auto simp: clean_auth_data_def elim!: cbind_InrE)
  have u: "u = ?t\<lparr>ud_auth_ctrl := None\<rparr>"
    using c by (auto simp: clean_auth_ctrl_def split: option.splits elim!: cbind_InrE)
  show "extends ud ud'" "ud_res ud' = ud_res ud" "ud_auth_ctrl ud' = None" "ud_bus ud' = False"
    "ud_pid ud' = False" "ud_term ud' = False" "ud_symmetric_key ud' = None"
    "ud_waiting_result ud' = ud_waiting_result ud" "ud_get_result_val ud' = ud_get_result_val ud"
    "in_wait (ud_thr ud') \<Longrightarrow> in_wait (ud_thr ud)" "ud_pid ud \<Longrightarrow> \<not> thread_alive (ud_thr ud')"
    "tables_ok ud \<Longrightarrow> tables_ok ud'"
    using b t extends_trans [OF b(2) t(1)]
    by (auto simp: u' u clean_term_def extends_def thread_alive_def split: if_splits)
qed

lemma clean_auth_data_defined: "ctrl_ok ud \<Longrightarrow> \<exists>ud'. clean_auth_data E ud = Inr ud'"
proof -
  assume "ctrl_ok ud"
  then have "ctrl_ok (clean_thread (clean_bus E ud))"
    using clean_bus_core [of ud E] by (simp add: ctrl_ok_def clean_thread_def core_def Let_def)
  then show ?thesis
    by (auto simp: clean_auth_data_def clean_auth_ctrl_def ctrl_ok_def free_ptr_def
        split: option.splits ptr.splits)
qed

lemma pam_step_inv:
  assumes "pam_step E ev p q" and "pam_inv p"
  shows "pam_inv q"
  using assms
proof (induction rule: pam_step.induct)
  case (thread p ud')
  with thread_inv [OF thread.hyps(2)] verified_extends [OF thread_extends [OF thread.hyps(2)]]
  show ?case by (simp add: pam_inv_def)
next
  case (status p m r ud')
  note k = bus_signal_deal_inv(1) [OF status.hyps(3)]
  have "r = PAM_SUCCESS \<Longrightarrow> verified ud'" using bus_signal_deal_inv(2) [OF status.hyps(3)] by simp
  with status core_inv [OF keeps_core [OF k]] show ?case by (simp add: pam_inv_def)
next
  case (status_unread p m ud')
  note k = bus_signal_deal_inv(1) [OF status_unread.hyps(3)]
  from status_unread core_inv [OF keeps_core [OF k]] show ?case by (simp add: pam_inv_def)
next
  case (result p m)
  then show ?case by (simp add: pam_inv_def call_getResult_cb_inv)
next
  case (key p err m)
  show ?case
  proof (cases "call_encryptKey_cb E err m (pm_ud p)")
    case (Inl e)
    with key show ?thesis by (simp add: pam_inv_def enter_def)
  next
    case (Inr x)
    then obtain r ud' where "call_encryptKey_cb E err m (pm_ud p) = Inr (r, ud')" by (cases x) auto
    with key core_inv [OF call_encryptKey_cb_core [OF this]] show ?thesis by (simp add: pam_inv_def enter_def)
  qed
next
  case (store p r)
  then show ?case by (auto simp: pam_inv_def intro: bus_signal_store_inv)
next
  case (bus_error p)
  then show ?case by (auto simp: pam_inv_def ud_inv_def ctrl_ok_def has_effect_def)
next
  case (data p)
  have "core (pm_ud p) (set_result_data (pm_ud p))"
    by (auto simp: set_result_data_def intro: keeps_core)
  with data core_inv show ?case by (auto simp: pam_inv_def)
next
  case (close p)
  with core_inv [OF clean_bus_core] show ?case by (simp add: pam_inv_def)
next
  case (join p ud')
  note c = clean_auth_data_eq [OF join.hyps(2)]
  have "ud_res ud' = PAM_SUCCESS \<Longrightarrow> verified ud'"
    using c(1,2) join.prems by (auto simp: pam_inv_def ud_inv_def intro: verified_extends)
  moreover have "in_wait (ud_thr ud') \<and> ud_waiting_result ud' = 0 \<and> ud_get_result_val ud' = 0
      \<Longrightarrow> has_effect (Got_Result 0) ud'"
    using c(8-10) join.prems extends_has_effect [OF c(1)] by (simp add: pam_inv_def ud_inv_def)
  moreover have "ctrl_ok ud'" by (simp add: ctrl_ok_def c(3))
  moreover have "tables_ok ud'" using c(12) join.prems by (simp add: pam_inv_def ud_inv_def)
  ultimately show ?case by (simp add: pam_inv_def ud_inv_def)
qed (simp_all add: pam_inv_def)

lemma pam_initial_inv: "pam_initial E argv p \<Longrightarrow> pam_inv p"
  by (auto simp: pam_initial_def pam_inv_def ud_inv_def fresh_def dest!: start_flow)

lemma reachable_inv: "reachable E argv p \<Longrightarrow> pam_inv p"
  by (induction rule: reachable.induct) (auto intro: pam_initial_inv pam_step_inv)

subsection \<open>The properties\<close>

inductive pam_returns :: "('m, 'j, 'k) env \<Rightarrow> string list \<Rightarrow> int \<Rightarrow> 'k UserData \<Rightarrow> bool" for E argv where
  \<comment> \<open>\<open>pam_sm_authenticate\<close> returns this code in this state\<close>
  early: "pam_sm_authenticate_start E argv = Inr (Return r ud) \<Longrightarrow> pam_returns E argv r ud"
| late: "reachable E argv p \<Longrightarrow> pm_phase p = M_Done r \<Longrightarrow> pam_returns E argv r (pm_ud p)"

text \<open>
  C1: \<open>pam_sm_authenticate\<close> returns \<open>PAM_SUCCESS\<close> only when the authentication service said so: it
  received an overall success signal (type -1, code 0) of the session, or the reply 0 to
  \<open>GetResult\<close>. This holds for every bus, conversation and file content, every argument list, and
  every interleaving of the main loop with the token thread.
\<close>
theorem success_needs_verification:
  assumes "pam_returns E argv r ud" and "r = PAM_SUCCESS"
  shows "(\<exists>msg. Got_Status (- 1) 0 msg \<in> set (ud_hist ud)) \<or> Got_Result 0 \<in> set (ud_hist ud)"
  using assms
proof (induction rule: pam_returns.induct)
  case (early r ud)
  then show ?case using start_flow [of E argv "Return r ud"] by auto
next
  case (late p r)
  then show ?case using reachable_inv [of E argv p] by (auto simp: pam_inv_def verified_def has_effect_def)
qed


text \<open>
  C38: the early return after a failing property read is not safe: the state it leaves behind has a
  session whose \<open>factorOrder\<close> was never assigned, and the cleanup function registered for it, which
  PAM calls at the end of the transaction, frees that indeterminate pointer.
\<close>
theorem early_return_cleanup_undefined:
  assumes "pam_sm_authenticate_start E argv = Inr (Return r ud)" and "r \<noteq> PAM_IGNORE"
  shows "r = PAM_ABORT \<and> pam_clean_func E ud = Inl Uninit_Read"
proof -
  from start_flow [OF assms(1)] assms(2) obtain c where r: "r = PAM_ABORT"
    and c: "ud_auth_ctrl ud = Some c" "as_factorOrder c = Indeterminate" by auto
  have "ud_auth_ctrl (clean_thread (clean_bus E ud)) = ud_auth_ctrl ud"
    using clean_bus_core [of ud E] by (simp add: clean_thread_def core_def Let_def)
  with r c show ?thesis
    by (simp add: pam_clean_func_def clean_auth_data_def clean_auth_ctrl_def free_ptr_def)
qed


end
