(* ===== verification/Sample_Env.thy ===== *)
theory Sample_Env
  imports Pam_Loop
begin

text \<open>
  A concrete surrounding for the examples: a bus whose service answers every call, a JSON value
  type with the accessors of json-c, a block cipher that inverts itself, and a machine with one
  user. The properties quantify over all surroundings; the examples show that their hypotheses can
  hold and run the model.
\<close>

subsection \<open>JSON\<close>

datatype json = J_Bool bool | J_Int int | J_Str string | J_Arr "json option list"
  | J_Obj "(string \<times> json option) list"

definition json_view :: "(string \<Rightarrow> json option) \<Rightarrow> json jsonc" where
  \<comment> \<open>the argument gives the value a text stands for\<close>
  "json_view parse =
     \<lparr>parse_ex = (\<lambda>t. case parse t of None \<Rightarrow> (False, None) | Some v \<Rightarrow> (True, Some v)),
      get_ex = (\<lambda>v k. case v of Some (J_Obj kvs) \<Rightarrow> map_of kvs k | _ \<Rightarrow> None),
      array_length = (\<lambda>v. case v of Some (J_Arr xs) \<Rightarrow> Some (length xs) | _ \<Rightarrow> None),
      array_get_idx = (\<lambda>v i. case v of Some (J_Arr xs) \<Rightarrow> (if i < length xs then xs ! i else None)
                                       | _ \<Rightarrow> None),
      get_int = (\<lambda>v. case v of Some (J_Int i) \<Rightarrow> i | Some (J_Bool b) \<Rightarrow> (if b then 1 else 0) | _ \<Rightarrow> 0),
      get_boolean = (\<lambda>v. case v of Some (J_Bool b) \<Rightarrow> b | Some (J_Int i) \<Rightarrow> i \<noteq> 0 | _ \<Rightarrow> False),
      get_string = (\<lambda>v. case v of Some (J_Str s) \<Rightarrow> Some s | None \<Rightarrow> None | _ \<Rightarrow> Some []),
      get_string_len = (\<lambda>v. case v of Some (J_Str s) \<Rightarrow> length s | _ \<Rightarrow> 0)\<rparr>"

subsection \<open>The bus\<close>

datatype reply = R_Text string | R_Int int | R_Factors "AuthFactor list" | R_Status int int string
  | R_Key | R_Error

definition sample_bus :: "(bus_call \<Rightarrow> int \<times> reply) \<Rightarrow> reply sdbus" where
  "sample_bus answer =
     \<lparr>sd_open = \<lambda>_. 0, sd_call = \<lambda>_. answer, sd_get_property = \<lambda>_. answer,
      sd_new_call = \<lambda>_ _. 0, sd_async = \<lambda>_ _. 1, sd_match = \<lambda>_ _. 0,
      rd_s = (\<lambda>m. case m of R_Text s \<Rightarrow> (1, Some s, m) | R_Key \<Rightarrow> (1, Some PKCS8_HEADER, m) | _ \<Rightarrow> (- 1, None, m)),
      rd_i = (\<lambda>m. case m of R_Int i \<Rightarrow> (1, i, m) | R_Key \<Rightarrow> (1, 0, m) | _ \<Rightarrow> (- 1, 0, m)),
      rd_x = (\<lambda>m. case m of R_Int i \<Rightarrow> (1, i, m) | _ \<Rightarrow> (- 1, 0, m)),
      rd_iis = (\<lambda>m. case m of R_Status t c s \<Rightarrow> (1, t, c, s) | _ \<Rightarrow> (- 1, 0, 0, [])),
      rd_enter_array = (\<lambda>m. case m of R_Factors _ \<Rightarrow> (1, m) | _ \<Rightarrow> (- 1, m)),
      rd_factor = (\<lambda>m. case m of R_Factors (f # fs) \<Rightarrow> (1, f, R_Factors fs)
                    | _ \<Rightarrow> (0, \<lparr>af_authType = 0, af_priority = 0, af_inputType = 0, af_required = 0\<rparr>, m)),
      rd_int_array = \<lambda>m. (1, [], m), rd_type = \<lambda>m. (0, 2), msg_path = \<lambda>m. []\<rparr>"

definition service_answer :: "int \<Rightarrow> bus_call \<Rightarrow> int \<times> reply" where
  \<comment> \<open>the service, with one session \<open>/s\<close> that is multi-factor or not\<close>
  "service_answer mfa c =
     (if bc_member c = ''PreOneKeyLogin'' then (1, R_Text [])
      else if bc_member c = ''Authenticate'' then (1, R_Text ''/s'')
      else if bc_member c = ''GetLimits'' then (1, R_Text [])
      else if bc_member c = ''IsMFA'' then (1, R_Int mfa)
      else if bc_member c = ''FactorsInfo'' then (1, R_Factors sample_factors)
      else if bc_member c = ''SupportedFlags'' then (1, R_Int 3)
      else if bc_member c = ''Start'' then (1, R_Int 1)
      else (1, R_Text []))"

subsection \<open>The machine\<close>

definition sample_ssl :: "nat openssl" where
  "sample_ssl =
     \<lparr>bio_ok = True, pem_read_pubkey = \<lambda>_. Some 1, pem_read_rsapublickey = \<lambda>_. None,
      rsa_public_encrypt = \<lambda>k d. (int (length d), rev d),
      aes_set_encrypt_key = \<lambda>_ _. 0, aes_set_decrypt_key = \<lambda>_ _. 0,
      aes_cbc_enc = \<lambda>_ _ d. rev d, aes_cbc_dec = \<lambda>_ _ d. rev d\<rparr>"

definition sample_sys :: "string \<Rightarrow> string \<Rightarrow> sysenv" where
  \<comment> \<open>the caller's path and the answer the user gives\<close>
  "sample_sys exe answer =
     \<lparr>gettext = \<lambda>s. s, pam_conv = \<lambda>_ _ _. Conv_Resp (Some (Some answer)), pam_user = ''uos'',
      pthread_create = \<lambda>_. 0, now = \<lambda>_. 0, gmtoff = \<lambda>_. 0, rand_value = \<lambda>_. 42,
      pw_dir = \<lambda>_. None, is_regular = \<lambda>_. False,
      read_file = (\<lambda>f. if f = PAM_ALLOW_LIST then Some (''/bin/su'' @ [newline]) else None),
      readlink_exe = Some exe, stdin_tty = False, tcgetattr_ok = False\<rparr>"

definition sample_env :: "int \<Rightarrow> string \<Rightarrow> (reply, json, nat) env" where
  "sample_env mfa answer =
     \<lparr>e_bus = sample_bus (service_answer mfa), e_json = json_view (\<lambda>_. None), e_ssl = sample_ssl,
      e_sys = sample_sys ''/bin/su'' answer\<rparr>"

text \<open>A service that reports limits, and the text it sends for them.\<close>

definition limit_json :: "int \<Rightarrow> int \<Rightarrow> int \<Rightarrow> bool \<Rightarrow> string \<Rightarrow> json option" where
  "limit_json flag tries failures lock unlock =
     Some (J_Obj [(''flag'', Some (J_Int flag)), (''maxTries'', Some (J_Int tries)),
       (''numFailures'', Some (J_Int failures)), (''locked'', Some (J_Bool lock)),
       (''unlockTime'', Some (J_Str unlock))])"

definition limits_env :: "json option list \<Rightarrow> (reply, json, nat) env" where
  "limits_env entries =
     (sample_env 0 ''secret'')\<lparr>
       e_bus := sample_bus (\<lambda>c. if bc_member c = ''GetLimits'' then (1, R_Text ''limits'') else service_answer 0 c),
       e_json := json_view (\<lambda>t. if t = ''limits'' then Some (J_Arr entries) else None)\<rparr>"

definition locked_env :: "(reply, json, nat) env" where
  "locked_env = limits_env [limit_json 1 5 5 True ''1970-01-01T00:10:00Z'']"

subsection \<open>Examples for Pam_Limit and Crypto\<close>

lemma aes_cbc_roundtrip_witness:
  "\<exists>c. aes_cbc_encrypt sample_ssl ''secret'' ''1000004210000042'' = (0, Some c, length c)
    \<and> aes_cbc_decrypt sample_ssl c ''1000004210000042'' = Inr (0, Some ''secret'', 6)"
  using aes_cbc_roundtrip [of sample_ssl "''1000004210000042''" "''secret''"]
  by (auto simp: sample_ssl_def)

lemma gen_rsa_pubkey_ignores_failure_witness:
  "gen_rsa_pubkey sample_ssl None ''no key'' = (0, None)
    \<and> rsa_encrypt_data sample_ssl (snd (gen_rsa_pubkey sample_ssl None ''no key'')) ''x'' = (- 1, None)"
proof -
  have b: "bio_ok sample_ssl" by (simp add: sample_ssl_def)
  have "\<not> has_prefix PKCS8_HEADER ''no key''" "\<not> has_prefix PKCS1_HEADER ''no key''"
    by (simp_all add: has_prefix_def)
  with gen_rsa_pubkey_ignores_failure [OF b, of "''no key''" "''x''"] show ?thesis by blast
qed


end
