(* ===== verification/Pam_Races.thy ===== *)
theory Pam_Races
  imports Pam_Safety Sample_Env
begin

text \<open>
  How the main loop and the token thread interleave (\<open>misc/pam-module/auth/pam.c\<close>, \<open>dbus.c\<close>): the
  orders of steps in which the two threads lose each other's writes. The runs are on the concrete
  surroundings of Sample_Env, evaluated with the functional form of the step relation; what follows
  from a state they reach is proved for every surrounding.
\<close>

subsection \<open>A thread that waits for a reply already given\<close>

definition stuck :: "'k pam \<Rightarrow> bool" where
  \<comment> \<open>waiting, with no reply to come\<close>
  "stuck p \<longleftrightarrow>
     in_wait (ud_thr (pm_ud p)) \<and> ud_waiting_result (pm_ud p) \<noteq> 0 \<and> ud_pid (pm_ud p)
     \<and> \<not> pm_result_pending p"

definition ended :: "'k pam \<Rightarrow> bool" where
  "ended p \<longleftrightarrow> main_done (pm_phase p)"

lemma in_wait_busy: "in_wait t \<Longrightarrow> thread_alive t"
  by (auto simp: in_wait_def thread_alive_def)

lemma in_waitE: "in_wait t \<Longrightarrow> \<exists>a b c. t = T_Wait a b c"
  by (simp add: in_wait_def split: thread_state.splits)

lemma keeps_stuck:
  "keeps ud ud' \<Longrightarrow> in_wait (ud_thr ud) \<Longrightarrow> ud_pid ud \<Longrightarrow>
   ud_thr ud' = ud_thr ud \<and> ud_pid ud' \<and> ud_waiting_result ud' = ud_waiting_result ud"
  by (auto simp: keeps_def token_thread_busy_def in_wait_busy)

lemma encryptKey_cb_stuck:
  "call_encryptKey_cb E err m ud = Inr (r, ud') \<Longrightarrow>
   ud_thr ud' = ud_thr ud \<and> ud_pid ud' = ud_pid ud \<and> ud_waiting_result ud' = ud_waiting_result ud"
  by (auto simp: call_encryptKey_cb_def encryptKey_store_def encrypt_symmtric_key_def
      dbus_method_set_symmetric_key_def call_sync_def Let_def
      split: if_splits prod.splits option.splits elim!: cbind_InrE)

lemma stuck_step:
  assumes "pam_step E ev p q" and "stuck p"
  shows "stuck q \<or> ended q"
  using assms
proof (induction rule: pam_step.induct)
  case (thread p ud')
  then obtain a b c where t: "ud_thr (pm_ud p) = T_Wait a b c" by (auto simp: stuck_def dest: in_waitE)
  with thread have "ud' = pm_ud p" by (simp add: run_request_pw_def stuck_def)
  with thread t show ?case by (simp add: stuck_def asks_result_def)
next
  case (status p m r ud')
  from keeps_stuck [OF bus_signal_deal_inv(1) [OF status.hyps(3)]] status.prems
  show ?case by (simp add: stuck_def)
next
  case (status_unread p m ud')
  from keeps_stuck [OF bus_signal_deal_inv(1) [OF status_unread.hyps(3)]] status_unread.prems
  show ?case by (simp add: stuck_def)
next
  case (result p m)
  then show ?case by (simp add: stuck_def)
next
  case (key p err m)
  show ?case
  proof (cases "call_encryptKey_cb E err m (pm_ud p)")
    case (Inl e)
    then show ?thesis by (simp add: enter_def ended_def main_done_def)
  next
    case (Inr x)
    then obtain r ud' where "call_encryptKey_cb E err m (pm_ud p) = Inr (r, ud')" by (cases x) auto
    with key.prems encryptKey_cb_stuck [OF this] show ?thesis by (simp add: stuck_def enter_def)
  qed
next
  case (store p r)
  then show ?case by (simp add: stuck_def bus_signal_store_def Let_def split: option.splits)
next
  case (close p)
  then show ?case by (simp add: stuck_def clean_bus_def dbus_method_end_eq Let_def)
qed (simp_all add: stuck_def ended_def main_done_def set_result_data_def)

lemma stuck_run: "pam_run E evs p q \<Longrightarrow> stuck p \<or> ended p \<Longrightarrow> stuck q \<or> ended q"
proof (induction rule: pam_run.induct)
  case (run_cons ev p q evs r)
  have "\<not> ended p" using run_cons.hyps(1) by (cases rule: pam_step.cases) (auto simp: ended_def main_done_def)
  with run_cons stuck_step show ?case by blast
qed simp

subsection \<open>Running the examples\<close>

definition sample_start :: "(reply, json, nat) env \<Rightarrow> nat pam option" where
  "sample_start E =
     (case pam_sm_authenticate_start E [''timeout=-1''] of
        Inr (Next k ud) \<Rightarrow>
          Some \<lparr>pm_phase = M_Loop, pm_result_pending = False, pm_key_pending = k, pm_ud = ud\<rparr>
      | _ \<Rightarrow> None)"

definition sample_run :: "(reply, json, nat) env \<Rightarrow> reply event list \<Rightarrow> nat pam option" where
  "sample_run E evs = (case sample_start E of None \<Rightarrow> None | Some p \<Rightarrow> exec_run E evs p)"

lemma sample_run_reachable:
  assumes "sample_run E evs = Some q" shows "reachable E [''timeout=-1''] q"
proof -
  from assms obtain p where s: "sample_start E = Some p" and r: "exec_run E evs p = Some q"
    by (auto simp: sample_run_def split: option.splits)
  from s have "pam_initial E [''timeout=-1''] p"
    by (auto simp: sample_start_def pam_initial_def split: sum.splits flow.splits)
  then have "reachable E [''timeout=-1''] p" by (rule reach_init)
  with r show ?thesis by (auto simp: exec_run_iff intro: reachable_run)
qed

definition ask_password :: "reply event list" where
  \<comment> \<open>the key exchange, then the prompt signal: the token thread starts\<close>
  "ask_password = [Ev_Key False R_Key, Ev_Status (R_Status (- 1) 7 ''Password''), Ev_Store]"

text \<open>A check on the last state of a run.\<close>

definition run_ends :: "(reply, json, nat) env \<Rightarrow> reply event list \<Rightarrow> (nat pam \<Rightarrow> bool) \<Rightarrow> bool" where
  "run_ends E evs P = (case sample_run E evs of None \<Rightarrow> False | Some q \<Rightarrow> P q)"

lemma run_endsD: "run_ends E evs P \<Longrightarrow> \<exists>q. reachable E [''timeout=-1''] q \<and> P q"
  by (auto simp: run_ends_def split: option.splits dest: sample_run_reachable)

lemma run_ends_stepD:
  assumes "run_ends E (evs @ [ev]) Q" and "run_ends E evs P"
  shows "\<exists>p q. reachable E [''timeout=-1''] p \<and> P p \<and> pam_step E ev p q \<and> Q q"
proof -
  have app: "exec_run E (xs @ [ev]) a = (case exec_run E xs a of None \<Rightarrow> None | Some b \<Rightarrow> pam_exec E ev b)" for xs a
    by (induction xs arbitrary: a) (auto split: option.splits)
  from assms(2) obtain p where p: "sample_run E evs = Some p" "P p"
    by (auto simp: run_ends_def split: option.splits)
  with assms(1) obtain q where "pam_exec E ev p = Some q" "Q q"
    by (auto simp: run_ends_def sample_run_def app split: option.splits)
  with p show ?thesis by (auto simp: pam_step_iff dest: sample_run_reachable)
qed

definition called :: "string \<Rightarrow> 'k UserData \<Rightarrow> bool" where
  "called member ud \<longleftrightarrow>
     list_ex (\<lambda>e. case e of Bus_Call c \<Rightarrow> bc_member c = member | Bus_Async c \<Rightarrow> bc_member c = member
                  | _ \<Rightarrow> False) (ud_hist ud)"

definition token_handed :: "'k UserData \<Rightarrow> bool" where
  "token_handed ud \<longleftrightarrow> list_ex (\<lambda>e. case e of Set_Authtok _ \<Rightarrow> True | _ \<Rightarrow> False) (ud_hist ud)"

lemma token_handed_iff: "token_handed ud \<longleftrightarrow> (\<exists>t. Set_Authtok t \<in> set (ud_hist ud))"
  unfolding token_handed_def list_ex_iff by (force split: effect.split_asm)

subsection \<open>The runs\<close>

definition lost_reply_events :: "reply event list" where
  "lost_reply_events = ask_password @ [Ev_Thread, Ev_Result (R_Int 0), Ev_Thread]"

lemma lost_reply_run:
  "run_ends (sample_env 0 ''/s;secret'') lost_reply_events
     (\<lambda>p. in_loop p \<and> stuck p \<and> has_effect (Got_Result 0) (pm_ud p))"
  by code_simp

definition no_cipher_env :: "(reply, json, nat) env" where
  "no_cipher_env =
     (sample_env 0 ''secret'')\<lparr>e_ssl := sample_ssl\<lparr>aes_set_encrypt_key := \<lambda>_ _. - 1\<rparr>\<rparr>"

definition lost_abort_events :: "reply event list" where
  "lost_abort_events = ask_password @ [Ev_Status (R_Status 1 8 []), Ev_Thread]"

lemma lost_abort_run:
  "run_ends no_cipher_env lost_abort_events (\<lambda>p. ud_res (pm_ud p) = PAM_ABORT \<and> \<not> called ''SetToken'' (pm_ud p))"
  "run_ends no_cipher_env (lost_abort_events @ [Ev_Store]) (\<lambda>p. in_loop p)"
  by code_simp+

definition late_result_events :: "reply event list" where
  "late_result_events =
     ask_password @ [Ev_Thread, Ev_Thread, Ev_Result (R_Int 0), Ev_Status (R_Status (- 1) 1 []), Ev_Store,
       Ev_Leave, Ev_Data, Ev_Thread, Ev_Close, Ev_Join]"

lemma late_result_run:
  "run_ends (sample_env 0 ''/s;secret'') late_result_events
     (\<lambda>p. pm_phase p = M_Done PAM_SUCCESS
        \<and> has_effect (Set_Data ''deepin_authenticate_result'' ''false'') (pm_ud p)
        \<and> \<not> has_effect (Set_Data ''deepin_authenticate_result'' ''true'') (pm_ud p))"
  by code_simp

definition early_success_events :: "reply event list" where
  "early_success_events =
     ask_password @ [Ev_Thread, Ev_Status (R_Status (- 1) 0 []), Ev_Store, Ev_Leave, Ev_Data, Ev_Close,
       Ev_Join]"

lemma early_success_run:
  "run_ends (sample_env 0 ''secret'') early_success_events
     (\<lambda>p. pm_phase p = M_Done PAM_SUCCESS \<and> called ''SetToken'' (pm_ud p) \<and> \<not> token_handed (pm_ud p))"
  by code_simp

subsection \<open>The properties\<close>



text \<open>
  An abort of the token thread can be lost: the thread that fails to encrypt the token sets \<open>res\<close>
  to \<open>PAM_ABORT\<close> while the main thread is inside a handler, whose -1 is then stored over it; the loop
  goes on although no token was ever sent.
\<close>
theorem thread_abort_lost:
  "\<exists>p q. reachable no_cipher_env [''timeout=-1''] p \<and> ud_res (pm_ud p) = PAM_ABORT
     \<and> \<not> called ''SetToken'' (pm_ud p) \<and> pam_step no_cipher_env Ev_Store p q \<and> in_loop q"
  using run_ends_stepD [OF lost_abort_run(2,1)] by blast

text \<open>
  The result data and the returned code can disagree: \<open>res\<close> is read once for
  \<open>deepin_authenticate_result\<close> and again for the return value, and a token thread that learns the
  result 0 in between turns a failure into \<open>PAM_SUCCESS\<close>, returned with the data "false".
\<close>
theorem result_data_disagrees:
  "\<exists>ud. pam_returns (sample_env 0 ''/s;secret'') [''timeout=-1''] PAM_SUCCESS ud
     \<and> Set_Data ''deepin_authenticate_result'' ''false'' \<in> set (ud_hist ud)
     \<and> Set_Data ''deepin_authenticate_result'' ''true'' \<notin> set (ud_hist ud)"
  using run_endsD [OF late_result_run] by (auto simp: has_effect_def intro: pam_returns.late)

text \<open>
  A success can be returned without the token: the thread stores \<open>auth_tok\<close> after it sent the
  token, so when the success signal comes first, \<open>PAM_SUCCESS\<close> is returned and \<open>PAM_AUTHTOK\<close> was never
  set for the modules behind this one.
\<close>
theorem success_without_token:
  "\<exists>ud. pam_returns (sample_env 0 ''secret'') [''timeout=-1''] PAM_SUCCESS ud
     \<and> called ''SetToken'' ud \<and> (\<forall>t. Set_Authtok t \<notin> set (ud_hist ud))"
proof -
  obtain p where "reachable (sample_env 0 ''secret'') [''timeout=-1''] p" "pm_phase p = M_Done PAM_SUCCESS"
    "called ''SetToken'' (pm_ud p)" "\<not> token_handed (pm_ud p)"
    using run_endsD [OF early_success_run] by blast
  then show ?thesis by (auto simp: token_handed_iff intro: pam_returns.late)
qed

subsection \<open>Examples for the properties of Pam_Safety\<close>

lemma success_needs_verification_witness:
  "\<exists>ud. pam_returns (sample_env 0 ''secret'') [''timeout=-1''] PAM_SUCCESS ud
     \<and> ((\<exists>msg. Got_Status (- 1) 0 msg \<in> set (ud_hist ud)) \<or> Got_Result 0 \<in> set (ud_hist ud))"
proof -
  obtain p where "reachable (sample_env 0 ''secret'') [''timeout=-1''] p" "pm_phase p = M_Done PAM_SUCCESS"
    using run_endsD [OF early_success_run] by blast
  then have r: "pam_returns (sample_env 0 ''secret'') [''timeout=-1''] PAM_SUCCESS (pm_ud p)"
    by (rule pam_returns.late)
  from success_needs_verification [OF r] r show ?thesis by blast
qed

lemma to_join_run:
  "run_ends (sample_env 0 ''secret'') [Ev_Bus_Error, Ev_Data, Ev_Close] (\<lambda>p. pm_phase p = M_Join)"
  by code_simp


definition no_property_env :: "(reply, json, nat) env" where
  \<comment> \<open>the service refuses the session's properties\<close>
  "no_property_env =
     (sample_env 0 ''secret'')\<lparr>e_bus := (sample_bus (service_answer 0))\<lparr>sd_get_property := \<lambda>_ _. (- 1, R_Error)\<rparr>\<rparr>"

lemma no_property_start:
  "case pam_sm_authenticate_start no_property_env [] of Inr (Return r ud) \<Rightarrow> r = PAM_ABORT | _ \<Rightarrow> False"
  by code_simp

lemma early_return_cleanup_undefined_witness:
  "\<exists>ud. pam_sm_authenticate_start no_property_env [] = Inr (Return PAM_ABORT ud)
     \<and> pam_clean_func no_property_env ud = Inl Uninit_Read"
proof -
  obtain ud where s: "pam_sm_authenticate_start no_property_env [] = Inr (Return PAM_ABORT ud)"
    using no_property_start by (auto split: sum.splits flow.splits)
  with early_return_cleanup_undefined [OF s] show ?thesis by simp
qed

end
