(* ===== verification/Pam_Progress.thy ===== *)
theory Pam_Progress
  imports Pam_Races
begin

text \<open>
  Progress of the PAM module. While no result is decided the main thread waits for the bus. From a
  decided result on it has a fixed number of steps left (\<open>main_left\<close>), each of them possible whatever the
  token thread does, and the token thread can neither delay them nor undo the decision; it can only
  replace the code by one of its own. Also: which codes the module can return.
\<close>

subsection \<open>The steps left\<close>

definition main_left :: "'k pam \<Rightarrow> nat" where
  "main_left p =
     (case pm_phase p of
        M_Store r \<Rightarrow> 5 | M_Loop \<Rightarrow> 4 | M_Exit \<Rightarrow> 3 | M_Clean \<Rightarrow> 2 | M_Join \<Rightarrow> 1 | M_Done r \<Rightarrow> 0 | M_Undef e \<Rightarrow> 0)"

definition decided :: "'k pam \<Rightarrow> bool" where
  "decided p \<longleftrightarrow>
     (case pm_phase p of
        M_Store r \<Rightarrow> r \<noteq> - 1 | M_Loop \<Rightarrow> ud_res (pm_ud p) \<noteq> - 1 | M_Undef e \<Rightarrow> False | _ \<Rightarrow> True)"

definition code_of :: "'k pam \<Rightarrow> int" where
  \<comment> \<open>the code that will be returned when the token thread does nothing more\<close>
  "code_of p = (case pm_phase p of M_Store r \<Rightarrow> r | M_Done r \<Rightarrow> r | _ \<Rightarrow> ud_res (pm_ud p))"

primrec is_thread :: "'m event \<Rightarrow> bool" where
  "is_thread Ev_Thread = True"
| "is_thread (Ev_Status m) = False"
| "is_thread (Ev_Result m) = False"
| "is_thread (Ev_Key b m) = False"
| "is_thread Ev_Store = False"
| "is_thread Ev_Bus_Error = False"
| "is_thread Ev_Leave = False"
| "is_thread Ev_Data = False"
| "is_thread Ev_Close = False"
| "is_thread Ev_Join = False"

definition main_steps :: "'m event list \<Rightarrow> nat" where
  "main_steps evs = length (filter (\<lambda>ev. \<not> is_thread ev) evs)"

lemma main_steps_simps [simp]:
  "main_steps [] = 0" "main_steps (ev # evs) = (if is_thread ev then main_steps evs else Suc (main_steps evs))"
  by (simp_all add: main_steps_def)

lemma is_thread_iff: "is_thread ev \<longleftrightarrow> ev = Ev_Thread"
  by (cases ev) simp_all

lemma setToken_same_res: "dbus_method_setToken E ud p a w = Inr (r, ud') \<Longrightarrow> ud_res ud' = ud_res ud"
  by (drule dbus_method_setToken_same) (simp add: same_but_hist_fields)

lemma request_answered_res:
  "request_answered E ud resp = Inr ud' \<Longrightarrow> ud_res ud' = ud_res ud \<or> ud_res ud' = PAM_ABORT"
  by (auto simp: request_answered_def elim!: cbind_InrE dest!: setToken_same_res)

lemma send_msg_res: "send_msg E ud m s = (r, ud') \<Longrightarrow> ud_res ud' = ud_res ud \<or> ud_res ud' = PAM_ABORT"
  by (auto simp: send_msg_def Let_def split: conv_answer.splits if_splits)

lemma getResult_send_res: "getResult_send E ud p = (r, ud') \<Longrightarrow> ud_res ud' = ud_res ud"
  by (drule getResult_send_eq) (simp add: core_def)

lemma request_prompt_res:
  "request_prompt E ud = Inr ud' \<Longrightarrow> ud_res ud' = ud_res ud \<or> ud_res ud' = PAM_ABORT"
  by (auto simp: request_prompt_def split: prod.splits option.splits
      dest!: send_msg_res getResult_send_res request_answered_res)

lemma thread_res:
  "run_request_pw E ud = Some (Inr ud') \<Longrightarrow> ud_res ud' = ud_res ud \<or> ud_res ud' \<in> {PAM_SUCCESS, PAM_ABORT}"
  by (auto simp: run_request_pw_def request_result_def getResult_mark_def Let_def split: thread_state.splits if_splits
      option.splits dest!: request_prompt_res request_answered_res)

lemma bus_signal_store_res [simp]: "ud_res (bus_signal_store r ud) = r" "ud_thr (bus_signal_store r ud) = ud_thr ud"
  by (auto simp: bus_signal_store_def Let_def split: option.splits)

lemma clean_bus_same [simp]: "ud_res (clean_bus E ud) = ud_res ud" "ud_thr (clean_bus E ud) = ud_thr ud"
  by (simp_all add: clean_bus_def dbus_method_end_eq Let_def)

lemma set_result_data_same [simp]: "ud_res (set_result_data ud) = ud_res ud" "ud_thr (set_result_data ud) = ud_thr ud"
  by (simp_all add: set_result_data_def)

text \<open>One step from a decided result.\<close>

lemma decided_step:
  assumes "pam_step E ev p q" and "decided p" and "pam_inv p"
  shows "if is_thread ev
    then (\<exists>e. pm_phase q = M_Undef e)
      \<or> decided q \<and> main_left q = main_left p \<and> (code_of q = code_of p \<or> code_of q \<in> {PAM_SUCCESS, PAM_ABORT})
        \<and> thread_alive (ud_thr (pm_ud p))
    else decided q \<and> Suc (main_left q) = main_left p \<and> code_of q = code_of p
      \<and> (thread_alive (ud_thr (pm_ud q)) \<longrightarrow> thread_alive (ud_thr (pm_ud p)))"
  using assms
proof (induction rule: pam_step.induct)
  case (thread p ud')
  have "thread_alive (ud_thr (pm_ud p))"
    using thread.hyps(2) by (auto simp: run_request_pw_def thread_alive_def)
  with thread thread_res [OF thread.hyps(2)] show ?case
    by (auto simp: decided_def main_left_def code_of_def main_done_def split: phase.splits)
next
  case (join p ud')
  have "\<not> thread_alive (ud_thr ud') \<or> ud_thr ud' = ud_thr (pm_ud p)"
    using join.hyps(2)
    by (auto simp: clean_auth_data_def clean_auth_ctrl_def clean_term_def clean_thread_def thread_alive_def Let_def
        split: option.splits if_splits elim!: cbind_InrE)
  with join clean_auth_data_eq(2) [OF join.hyps(2)] show ?case
    by (auto simp: decided_def main_left_def code_of_def)
next
  case (join_undef p e)
  then show ?case using clean_auth_data_defined [of "pm_ud p" E] by (simp add: pam_inv_def ud_inv_def)
qed (simp_all add: decided_def main_left_def code_of_def)

lemma decided_run:
  assumes "pam_run E evs p q" and "decided p" and "pam_inv p"
  shows "(\<exists>e. pm_phase q = M_Undef e) \<and> evs \<noteq> [] \<and> last evs = Ev_Thread
    \<or> decided q \<and> pam_inv q \<and> main_steps evs + main_left q = main_left p
      \<and> (code_of q = code_of p \<or> code_of q \<in> {PAM_SUCCESS, PAM_ABORT} \<and> thread_alive (ud_thr (pm_ud p)))"
  using assms
proof (induction rule: pam_run.induct)
  case (run_nil p)
  then show ?case by simp
next
  case (run_cons ev p q evs r)
  note step = decided_step [OF run_cons.hyps(1) run_cons.prems]
  have stop: "evs = [] \<and> r = q" if "pm_phase q = M_Undef e" for e
    using run_cons.hyps(2) that by (cases rule: pam_run.cases) (auto elim!: pam_step.cases simp: main_done_def)
  show ?case
  proof (cases "decided q")
    case True
    have i: "pam_inv q" by (rule pam_step_inv [OF run_cons.hyps(1) run_cons.prems(2)])
    have n: "\<not> (\<exists>e. pm_phase q = M_Undef e)" using True by (auto simp: decided_def)
    with step have s: "(if is_thread ev then main_left q = main_left p else Suc (main_left q) = main_left p)"
      and c: "code_of q = code_of p \<or> code_of q \<in> {PAM_SUCCESS, PAM_ABORT} \<and> thread_alive (ud_thr (pm_ud p))"
      and l: "thread_alive (ud_thr (pm_ud q)) \<longrightarrow> thread_alive (ud_thr (pm_ud p))"
      by (simp_all split: if_splits)
    from run_cons.IH [OF True i] show ?thesis
    proof
      assume "(\<exists>e. pm_phase r = M_Undef e) \<and> evs \<noteq> [] \<and> last evs = Ev_Thread"
      then show ?thesis by (intro disjI1) simp
    next
      assume a: "decided r \<and> pam_inv r \<and> main_steps evs + main_left r = main_left q
        \<and> (code_of r = code_of q \<or> code_of r \<in> {PAM_SUCCESS, PAM_ABORT} \<and> thread_alive (ud_thr (pm_ud q)))"
      have "main_steps (ev # evs) + main_left r = main_left p" using a s by (cases "is_thread ev") simp_all
      moreover have "code_of r = code_of p \<or> code_of r \<in> {PAM_SUCCESS, PAM_ABORT} \<and> thread_alive (ud_thr (pm_ud p))"
        using a c l by auto
      ultimately show ?thesis using a by simp
    qed
  next
    case False
    with step have u: "is_thread ev" "\<exists>e. pm_phase q = M_Undef e" by (auto split: if_splits)
    with stop show ?thesis by (auto simp: is_thread_iff)
  qed
qed

lemma decided_enabled:
  assumes "decided p" and "pam_inv p" and "0 < main_left p"
  shows "\<exists>ev q. \<not> is_thread ev \<and> pam_step E ev p q"
proof (cases "pm_phase p")
  case M_Loop
  with assms(1) show ?thesis by (intro exI [of _ Ev_Leave]) (auto simp: decided_def intro: pam_step.leave)
next
  case (M_Store r)
  then show ?thesis by (intro exI [of _ Ev_Store]) (auto intro: pam_step.store)
next
  case M_Exit
  then show ?thesis by (intro exI [of _ Ev_Data]) (auto intro: pam_step.data)
next
  case M_Clean
  then show ?thesis by (intro exI [of _ Ev_Close]) (auto intro: pam_step.close)
next
  case M_Join
  have "ctrl_ok (pm_ud p)" using assms(2) by (simp add: pam_inv_def ud_inv_def)
  then obtain ud' where "clean_auth_data E (pm_ud p) = Inr ud'" using clean_auth_data_defined by blast
  with M_Join show ?thesis by (intro exI [of _ Ev_Join]) (auto intro: pam_step.join)
qed (use assms(1,3) in \<open>simp_all add: decided_def main_left_def\<close>)

lemma decided_done: "decided q \<Longrightarrow> main_left q = 0 \<longleftrightarrow> (\<exists>c. pm_phase q = M_Done c)"
  by (auto simp: decided_def main_left_def split: phase.splits)

subsection \<open>The verdict\<close>

text \<open>
  C3: a verdict of the service ends the transaction. When a handler has decided on a code, the function
  returns after exactly five more steps of the main thread, in every run and however the token thread's
  steps fall; before that a step of the main thread is always possible; the run can only be cut short by
  undefined behaviour in a step of the token thread. The code returned is the handler's, or \<open>PAM_SUCCESS\<close> or
  \<open>PAM_ABORT\<close> where the token thread was still alive; without one it is the handler's.
\<close>
theorem verdict_returned:
  assumes "reachable E argv p" and "in_loop p" and "bus_signal_deal E m (pm_ud p) = Inr (Some r, ud')" and "r \<noteq> - 1"
  shows "\<exists>p1. pam_step E (Ev_Status m) p p1 \<and> (\<forall>evs q. pam_run E evs p1 q \<longrightarrow>
    (\<exists>e. pm_phase q = M_Undef e) \<and> evs \<noteq> [] \<and> last evs = Ev_Thread
    \<or> main_steps evs \<le> 5
      \<and> (main_steps evs < 5 \<longrightarrow> (\<exists>ev q'. \<not> is_thread ev \<and> pam_step E ev q q'))
      \<and> (main_steps evs = 5 \<longrightarrow> (\<exists>c. pm_phase q = M_Done c
           \<and> (c = r \<or> c \<in> {PAM_SUCCESS, PAM_ABORT} \<and> thread_alive (ud_thr ud')))))"
proof -
  let ?p1 = "p\<lparr>pm_phase := M_Store r, pm_ud := ud'\<rparr>"
  have s: "pam_step E (Ev_Status m) p ?p1" using assms(2,3) by (auto simp: in_loop_def intro: pam_step.status)
  have i: "pam_inv ?p1" by (rule pam_step_inv [OF s reachable_inv [OF assms(1)]])
  have d: "decided ?p1" "main_left ?p1 = 5" "code_of ?p1 = r" using assms(4) by (simp_all add: decided_def main_left_def code_of_def)
  show ?thesis
  proof (intro exI [of _ ?p1] conjI allI impI s)
    fix evs q
    assume run: "pam_run E evs ?p1 q"
    from decided_run [OF run d(1) i]
    show "(\<exists>e. pm_phase q = M_Undef e) \<and> evs \<noteq> [] \<and> last evs = Ev_Thread
      \<or> main_steps evs \<le> 5
        \<and> (main_steps evs < 5 \<longrightarrow> (\<exists>ev q'. \<not> is_thread ev \<and> pam_step E ev q q'))
        \<and> (main_steps evs = 5 \<longrightarrow> (\<exists>c. pm_phase q = M_Done c
             \<and> (c = r \<or> c \<in> {PAM_SUCCESS, PAM_ABORT} \<and> thread_alive (ud_thr ud'))))"
    proof
      assume a: "decided q \<and> pam_inv q \<and> main_steps evs + main_left q = main_left ?p1
        \<and> (code_of q = code_of ?p1 \<or> code_of q \<in> {PAM_SUCCESS, PAM_ABORT} \<and> thread_alive (ud_thr (pm_ud ?p1)))"
      then have n: "main_steps evs + main_left q = 5" using d(2) by simp
      from a decided_enabled [of q E] have "0 < main_left q \<Longrightarrow> \<exists>ev q'. \<not> is_thread ev \<and> pam_step E ev q q'" by blast
      moreover from a decided_done [of q] d(3) have "main_left q = 0 \<Longrightarrow> \<exists>c. pm_phase q = M_Done c
          \<and> (c = r \<or> c \<in> {PAM_SUCCESS, PAM_ABORT} \<and> thread_alive (ud_thr ud'))"
        by (auto simp: code_of_def)
      ultimately show ?thesis using n by (intro disjI2 conjI impI) simp_all
    qed simp
  qed
qed

definition verdict_events :: "reply event list" where
  "verdict_events = [Ev_Store, Ev_Leave, Ev_Data, Ev_Close, Ev_Join]"

lemma verdict_run:
  "run_ends (sample_env 0 ''secret'') [] (\<lambda>p. in_loop p
    \<and> (case bus_signal_deal (sample_env 0 ''secret'') (R_Status (- 1) 0 []) (pm_ud p) of
         Inr (Some r, ud) \<Rightarrow> r = PAM_SUCCESS \<and> ud_thr ud = T_None | _ \<Rightarrow> False)
    \<and> exec_run (sample_env 0 ''secret'') (Ev_Status (R_Status (- 1) 0 []) # verdict_events) p \<noteq> None)"
  by code_simp

lemma verdict_returned_witness:
  "\<exists>p p1 q. reachable (sample_env 0 ''secret'') [''timeout=-1''] p \<and> in_loop p
    \<and> pam_step (sample_env 0 ''secret'') (Ev_Status (R_Status (- 1) 0 [])) p p1
    \<and> pam_run (sample_env 0 ''secret'') verdict_events p1 q \<and> pm_phase q = M_Done PAM_SUCCESS"
proof -
  let ?E = "sample_env 0 ''secret''" and ?m = "R_Status (- 1) 0 []"
  obtain p where p: "reachable ?E [''timeout=-1''] p" "in_loop p"
    and c: "case bus_signal_deal ?E ?m (pm_ud p) of
         Inr (Some r, ud) \<Rightarrow> r = PAM_SUCCESS \<and> ud_thr ud = T_None | _ \<Rightarrow> False"
    and ne: "exec_run ?E (Ev_Status ?m # verdict_events) p \<noteq> None"
    using run_endsD [OF verdict_run] by blast
  from c obtain ud where d: "bus_signal_deal ?E ?m (pm_ud p) = Inr (Some PAM_SUCCESS, ud)" "ud_thr ud = T_None"
    by (simp split: sum.splits prod.splits option.splits)
  from ne obtain q where x: "exec_run ?E (Ev_Status ?m # verdict_events) p = Some q" by blast
  obtain p1 where s: "pam_step ?E (Ev_Status ?m) p p1" and run: "pam_run ?E verdict_events p1 q"
    using x unfolding exec_run_iff pam_run_cons by blast
  have t: "\<not> thread_alive (ud_thr ud)" "main_steps verdict_events = 5" "last verdict_events \<noteq> Ev_Thread"
    using d(2) by (simp_all add: thread_alive_def verdict_events_def)
  have "(PAM_SUCCESS :: int) \<noteq> - 1" by simp
  from verdict_returned [OF p d(1) this] obtain p2 where s2: "pam_step ?E (Ev_Status ?m) p p2"
    and all: "\<And>evs q. pam_run ?E evs p2 q \<Longrightarrow> (\<exists>e. pm_phase q = M_Undef e) \<and> evs \<noteq> [] \<and> last evs = Ev_Thread
      \<or> main_steps evs \<le> 5
        \<and> (main_steps evs < 5 \<longrightarrow> (\<exists>ev q'. \<not> is_thread ev \<and> pam_step ?E ev q q'))
        \<and> (main_steps evs = 5 \<longrightarrow> (\<exists>c. pm_phase q = M_Done c
             \<and> (c = PAM_SUCCESS \<or> c \<in> {PAM_SUCCESS, PAM_ABORT} \<and> thread_alive (ud_thr ud))))"
    by blast
  have "p2 = p1" using s s2 by (simp add: pam_step_iff)
  with all [of verdict_events q] run t have "pm_phase q = M_Done PAM_SUCCESS" by auto
  with p s run show ?thesis by blast
qed

subsection \<open>The codes\<close>

definition pam_codes :: "int set" where
  "pam_codes = {PAM_SUCCESS, PAM_AUTH_ERR, PAM_MAXTRIES, PAM_ABORT}"

definition no_bus :: "('m, 'j, 'k) env \<Rightarrow> bool" where
  "no_bus E \<longleftrightarrow> (\<exists>h. sd_open (e_bus E) h < 0)"

definition codes_ok :: "('m, 'j, 'k) env \<Rightarrow> 'k pam \<Rightarrow> bool" where
  "codes_ok E p \<longleftrightarrow>
     ud_res (pm_ud p) \<in> insert (- 1) pam_codes
     \<and> (case pm_phase p of
          M_Store r \<Rightarrow> r \<in> insert (- 1) pam_codes | M_Loop \<Rightarrow> True | M_Undef e \<Rightarrow> True
        | M_Done r \<Rightarrow> r \<in> pam_codes \<or> r = - 1 \<and> no_bus E
        | _ \<Rightarrow> ud_res (pm_ud p) \<noteq> - 1 \<or> no_bus E)"

definition flow_left :: "('a, 'k UserData) flow \<Rightarrow> bool" where
  \<comment> \<open>the loop is not left early without a code\<close>
  "flow_left x = (case x of Break ud \<Rightarrow> ud_res ud \<noteq> - 1 | _ \<Rightarrow> True)"

lemma flow_left_simps [simp]:
  "flow_left (Return r ud)" "flow_left (Break ud) \<longleftrightarrow> ud_res ud \<noteq> - 1" "flow_left (Next a ud)" "flow_left Diverges"
  by (simp_all add: flow_left_def)

lemma fbind_left:
  assumes "fbind m f = Inr x" and "\<And>y. m = Inr y \<Longrightarrow> flow_left y"
    and "\<And>a ud y. m = Inr (Next a ud) \<Longrightarrow> f a ud = Inr y \<Longrightarrow> flow_left y"
  shows "flow_left x"
  using assms by (cases m) (auto simp: fbind_def split: flow.splits)

lemma open_session_left: "open_session E t b ud = Inr x \<Longrightarrow> \<not> no_bus E \<Longrightarrow> flow_left x"
  by (auto simp: open_session_def no_bus_def Let_def split: if_splits prod.splits elim!: cbind_InrE)

lemma load_session_left: "load_session E b ud = Inr x \<Longrightarrow> flow_left x"
  by (auto simp: load_session_def Let_def split: option.splits if_splits elim!: cbind_InrE)

lemma check_password_lock_left: "check_password_lock E ud = Inr x \<Longrightarrow> flow_left x"
  by (auto simp: check_password_lock_def split: if_splits elim!: cbind_InrE dest!: get_limit_prompt_code)

lemma start_verify_left: "start_verify E c t ud = Inr x \<Longrightarrow> flow_left x"
  by (auto simp: start_verify_def split: if_splits prod.splits elim!: cbind_InrE)

lemma run_session_left: "run_session E a t b ud = Inr x \<Longrightarrow> \<not> no_bus E \<Longrightarrow> flow_left x"
  unfolding run_session_def
  by (erule fbind_left, erule (1) open_session_left, erule fbind_left, erule load_session_left,
      erule fbind_left, erule check_password_lock_left)
    (auto elim!: cbind_InrE fbind_left dest: start_verify_left)

lemma start_left: "pam_sm_authenticate_start E argv = Inr x \<Longrightarrow> \<not> no_bus E \<Longrightarrow> flow_left x"
  unfolding pam_sm_authenticate_start_def
  by (auto simp: check_caller_def elim!: cbind_InrE fbind_left split: option.splits if_splits dest: run_session_left)

lemma bus_signal_deal_codes: "bus_signal_deal E m ud = Inr (Some r, ud') \<Longrightarrow> r \<in> insert (- 1) pam_codes"
  by (auto simp: bus_signal_deal_def pam_codes_def Let_def split: prod.splits if_splits elim!: cbind_InrE
      dest: sfa.deal_codes mfa.deal_codes)

lemma codes_step: "pam_step E ev p q \<Longrightarrow> codes_ok E p \<Longrightarrow> codes_ok E q"
proof (induction rule: pam_step.induct)
  case (thread p ud')
  with thread_res [OF thread.hyps(2)] show ?case
    by (auto simp: codes_ok_def pam_codes_def main_done_def split: phase.splits)
next
  case (status p m r ud')
  have "ud_res ud' = ud_res (pm_ud p)" using bus_signal_deal_inv(1) [OF status.hyps(3)] by (simp add: keeps_def)
  with status bus_signal_deal_codes [OF status.hyps(3)] show ?case by (simp add: codes_ok_def)
next
  case (status_unread p m ud')
  have "ud_res ud' = ud_res (pm_ud p)" using bus_signal_deal_inv(1) [OF status_unread.hyps(3)] by (simp add: keeps_def)
  with status_unread show ?case by (simp add: codes_ok_def)
next
  case (result p m)
  then show ?case by (auto simp: codes_ok_def call_getResult_cb_def Let_def split: prod.splits)
next
  case (key p err m)
  then show ?case
    by (auto simp: codes_ok_def enter_def core_def split: sum.splits elim!: cbind_InrE dest!: call_encryptKey_cb_core)
next
  case (join p ud')
  with clean_auth_data_eq(2) [OF join.hyps(2)] show ?case by (auto simp: codes_ok_def)
qed (auto simp: codes_ok_def pam_codes_def)

lemma initial_codes: "pam_initial E argv p \<Longrightarrow> codes_ok E p"
proof -
  assume "pam_initial E argv p"
  then consider k ud where "pam_sm_authenticate_start E argv = Inr (Next k ud)" "pm_phase p = M_Loop" "pm_ud p = ud"
    | ud where "pam_sm_authenticate_start E argv = Inr (Break ud)" "pm_phase p = M_Exit" "pm_ud p = ud"
    by (auto simp: pam_initial_def)
  then show ?thesis
  proof cases
    case 1
    from start_flow [OF 1(1)] show ?thesis using 1(2,3) by (auto simp: codes_ok_def fresh_def)
  next
    case 2
    from start_flow [OF 2(1)] start_left [OF 2(1)] show ?thesis using 2(2,3) by (auto simp: codes_ok_def pam_codes_def)
  qed
qed

lemma reachable_codes: "reachable E argv p \<Longrightarrow> codes_ok E p"
  by (induction rule: reachable.induct) (auto intro: initial_codes codes_step)

text \<open>
  C4: the codes \<open>pam_sm_authenticate\<close> returns. They are five codes of PAM, with one exception: when the
  system bus cannot be opened it returns -1, which is none.
\<close>
theorem returned_codes:
  assumes "pam_returns E argv r ud"
  shows "r \<in> {PAM_SUCCESS, PAM_AUTH_ERR, PAM_MAXTRIES, PAM_ABORT, PAM_IGNORE}
    \<or> r = - 1 \<and> (\<exists>h. sd_open (e_bus E) h < 0)"
  using assms
proof cases
  case early
  from start_flow [OF early] show ?thesis by auto
next
  case (late p)
  with reachable_codes [of E argv p] show ?thesis by (auto simp: codes_ok_def pam_codes_def no_bus_def)
qed

definition no_bus_env :: "(reply, json, nat) env" where
  \<comment> \<open>the system bus is not running\<close>
  "no_bus_env = (sample_env 0 ''secret'')\<lparr>e_bus := (e_bus (sample_env 0 ''secret''))\<lparr>sd_open := \<lambda>_. - 2\<rparr>\<rparr>"

lemma no_bus_start:
  "(case pam_sm_authenticate_start no_bus_env [''timeout=-1''] of
      Inr (Break ud) \<Rightarrow>
        (case exec_run no_bus_env [Ev_Data, Ev_Close, Ev_Join]
            \<lparr>pm_phase = M_Exit, pm_result_pending = False, pm_key_pending = False, pm_ud = ud\<rparr> of
           Some p \<Rightarrow> pm_phase p = M_Done (- 1) | None \<Rightarrow> False)
    | _ \<Rightarrow> False)"
  by code_simp

lemma returned_codes_witness:
  "\<exists>ud. pam_returns no_bus_env [''timeout=-1''] (- 1) ud \<and> (\<exists>h. sd_open (e_bus no_bus_env) h < 0)"
proof -
  obtain ud p where s: "pam_sm_authenticate_start no_bus_env [''timeout=-1''] = Inr (Break ud)"
    and x: "exec_run no_bus_env [Ev_Data, Ev_Close, Ev_Join]
      \<lparr>pm_phase = M_Exit, pm_result_pending = False, pm_key_pending = False, pm_ud = ud\<rparr> = Some p"
    and d: "pm_phase p = M_Done (- 1)"
    using no_bus_start by (auto split: sum.splits flow.splits option.splits)
  have "pam_initial no_bus_env [''timeout=-1'']
      \<lparr>pm_phase = M_Exit, pm_result_pending = False, pm_key_pending = False, pm_ud = ud\<rparr>"
    using s by (auto simp: pam_initial_def)
  then have "reachable no_bus_env [''timeout=-1''] p"
    using reachable_run [OF x [unfolded exec_run_iff]] reach_init by blast
  with d have r: "pam_returns no_bus_env [''timeout=-1''] (- 1) (pm_ud p)" by (auto intro: pam_returns.late)
  with returned_codes [OF r] show ?thesis by auto
qed

end
