(* ===== verification/Pam_Entry.thy ===== *)
theory Pam_Entry
  imports Pam_Safety Sample_Env
begin

text \<open>
  Properties of what \<open>pam_sm_authenticate\<close> does before its loop: which callers it serves, what path it
  takes the caller to have, how it gets its session, and what a locked password stops.
\<close>

subsection \<open>Lines of a file\<close>

definition unlines :: "string list \<Rightarrow> string" where
  "unlines ls = concat (map (\<lambda>l. l @ [newline]) ls)"

lemma file_lines_line:
  assumes "newline \<notin> set l"
  shows "file_lines (l @ newline # s) = l # file_lines s"
proof -
  obtain c t where ct: "l @ newline # s = c # t" by (cases "l @ newline # s") auto
  have "strchr newline (c # t) = Some (length l)" by (simp add: ct [symmetric] strchr_append assms)
  then have "file_lines (c # t) = take (length l) (c # t) # file_lines (drop (Suc (length l)) (c # t))"
    by (simp only: file_lines.simps option.case)
  then show ?thesis unfolding ct [symmetric] by simp
qed

lemma file_lines_unlines: "\<forall>l\<in>set ls. newline \<notin> set l \<Longrightarrow> file_lines (unlines ls) = ls"
  by (induction ls) (simp_all add: unlines_def file_lines_line)

lemma in_allow_list_unlines:
  assumes "\<forall>l\<in>set ls. newline \<notin> set l \<and> nul_free l"
  shows "in_allow_list (unlines ls) exe \<longleftrightarrow> exe \<in> set ls"
proof -
  have "file_lines (unlines ls) = ls" using assms by (simp add: file_lines_unlines)
  moreover have "\<forall>l\<in>set ls. cstr l = l" using assms by (simp add: cstr_nul_free)
  ultimately show ?thesis by (auto simp: in_allow_list_def list_ex_iff)
qed

subsection \<open>The caller's path\<close>

lemma exe_path_cases:
  assumes b: "length b = MAX_BUF_SIZE" and t: "length target < MAX_BUF_SIZE" "nul_free target"
  shows "exe_path b target =
    (if NUL \<in> set (drop (length target) b) then Inr (target @ cstr (drop (length target) b))
     else Inl Out_Of_Bounds)"
proof -
  have r: "readlink_into b target = target @ drop (length target) b"
    using t by (simp add: readlink_into_def put_at_def)
  have "NUL \<in> set (target @ drop (length target) b) \<longleftrightarrow> NUL \<in> set (drop (length target) b)"
    using t by (auto simp: nul_free_def)
  with r t show ?thesis by (simp add: exe_path_def Let_def cstr_append)
qed

definition packaged_args :: "string list" where
  \<comment> \<open>the arguments of the configuration the package installs\<close>
  "packaged_args = [''user_locale=.config/locale.conf'', ''timeout=-1'']"

lemma packaged_args_parse:
  "\<exists>a. parse_args packaged_args args_start = Inr a \<and> ma_timeout a = - 1 \<and> ma_debug a = False
     \<and> cstr (ma_user_locale a) = ''.config/locale.conf''
     \<and> ma_buff a = ''timeout'' @ NUL # ''-1'' @ replicate 246 NUL"
proof -
  have "case parse_args packaged_args args_start of Inl _ \<Rightarrow> False
    | Inr a \<Rightarrow> ma_timeout a = - 1 \<and> ma_debug a = False
        \<and> cstr (ma_user_locale a) = ''.config/locale.conf''
        \<and> ma_buff a = ''timeout'' @ NUL # ''-1'' @ replicate 246 NUL"
    by code_simp
  then show ?thesis by (auto split: sum.splits)
qed

lemma cstr_replicate [simp]: "cstr (replicate k NUL) = []"
  by (cases k) (simp_all add: cstr_def)

lemma timeout_rest:
  assumes "n < MAX_BUF_SIZE"
  defines "b \<equiv> ''timeout'' @ NUL # ''-1'' @ replicate 246 NUL"
  shows "NUL \<in> set (drop n b) \<and> cstr (drop n b) =
    (if n < 7 then drop n ''timeout'' else if n = 8 then ''-1'' else if n = 9 then ''1'' else [])"
proof (cases "n < 10")
  case True
  then have "n \<in> {0, 1, 2, 3, 4, 5, 6, 7, 8, 9}" by auto
  then show ?thesis by (elim insertE emptyE) (simp_all add: b_def drop_Cons' cstr_def)
next
  case False
  then obtain k where k: "n = 10 + k" by (metis le_Suc_ex not_less)
  have "drop n b = drop k (drop 10 b)" by (simp add: k add.commute)
  also have "drop 10 b = replicate 246 NUL" by (simp add: b_def)
  finally have "drop n b = replicate (246 - k) NUL" by simp
  moreover have "0 < 246 - k" using assms(1) k by simp
  ultimately show ?thesis using False by simp
qed

text \<open>
  The caller's path is not read faithfully. \<open>readlink\<close> does not terminate the text it stores, so
  behind it stands what the last module argument left in \<open>buff\<close>: with the arguments of the packaged
  configuration a path of 8 or 9 characters gets \<open>-1\<close> or \<open>1\<close> appended, one shorter than 7 the rest of
  the word \<open>timeout\<close>; the others are read exactly.
\<close>
theorem packaged_exe_path:
  assumes "nul_free target" and "length target < MAX_BUF_SIZE"
  shows "\<exists>a. parse_args packaged_args args_start = Inr a
    \<and> exe_path (ma_buff a) target =
        Inr (target @ (if length target < 7 then drop (length target) ''timeout''
                       else if length target = 8 then ''-1'' else if length target = 9 then ''1'' else []))"
proof -
  obtain a where a: "parse_args packaged_args args_start = Inr a"
    and b: "ma_buff a = ''timeout'' @ NUL # ''-1'' @ replicate 246 NUL"
    using packaged_args_parse by blast
  with exe_path_cases [of "ma_buff a" target] assms timeout_rest [OF assms(2)] show ?thesis by (intro exI [of _ a]) (simp add: a b)
qed

lemma packaged_exe_path_witness:
  "\<exists>a. parse_args packaged_args args_start = Inr a
    \<and> exe_path (ma_buff a) ''/bin/sudo'' = Inr ''/bin/sudo1''"
  using packaged_exe_path [of "''/bin/sudo''"] by simp

text \<open>
  C32: the module serves exactly the callers on the allow list. With a list of lines (no NUL in them)
  and the caller's path read as \<open>exe\<close>, the function goes on when \<open>exe\<close> is one of the lines, and
  otherwise returns \<open>PAM_IGNORE\<close> with no D-Bus call, message or other effect.
\<close>
theorem allow_list_gate:
  assumes "parse_args argv args_start = Inr a" and "readlink_exe (e_sys E) = Some target"
    and "exe_path (ma_buff a) target = Inr exe"
    and "read_file (e_sys E) PAM_ALLOW_LIST = Some (unlines ls)"
    and "\<forall>l\<in>set ls. newline \<notin> set l \<and> nul_free l"
  shows "pam_sm_authenticate_start E argv =
    (if exe \<in> set ls then
       cbind (prepare_user (e_sys E) a init_user_data) (\<lambda>ud.
       cbind (load_app_type (e_sys E) (e_json E) exe) (\<lambda>t.
         run_session E a (get_app_type t) exe ud))
     else Inr (Return PAM_IGNORE init_user_data))"
  using assms in_allow_list_unlines [OF assms(5), of exe]
  by (simp add: pam_sm_authenticate_start_def check_caller_def)

lemma allow_list_gate_witness:
  "pam_sm_authenticate_start ((sample_env 0 ''secret'')\<lparr>e_sys := sample_sys ''/usr/bin/x'' ''secret''\<rparr>) [] =
     Inr (Return PAM_IGNORE init_user_data)"
  using allow_list_gate [of "[]" args_start
      "(sample_env 0 ''secret'')\<lparr>e_sys := sample_sys ''/usr/bin/x'' ''secret''\<rparr>" "''/usr/bin/x''" "''/usr/bin/x''"
      "[''/bin/su'']"]
  by (simp add: sample_sys_def unlines_def args_start_def exe_path_cases cstr_replicate)

subsection \<open>The session\<close>

text \<open>
  When \<open>PreOneKeyLogin\<close> fails, the normal authentication is not started, against the comment in
  the code: \<open>buff\<close> still holds the caller's path, which is not empty, so \<open>Authenticate\<close> is never
  called and the path of the executable is taken for the D-Bus path of the session.
\<close>
theorem one_key_failure_takes_exe_path:
  assumes "0 \<le> sd_open (e_bus E) (ud_hist ud)" and "exe \<noteq> []" and "length exe < MAX_BUF_SIZE"
    and "fst (sd_call (e_bus E) (ud_hist ud) (manager_call ''PreOneKeyLogin'' [Arg_i AUTH_FLAG_USING])) < 0"
  shows "run_session E a app_type exe ud =
    fbind (load_session E exe
             (emit (Bus_Call (manager_call ''PreOneKeyLogin'' [Arg_i AUTH_FLAG_USING])) (ud\<lparr>ud_bus := True\<rparr>)))
      (\<lambda>ctrl ud. fbind (check_password_lock E ud) (\<lambda>_ ud.
         cbind (request_key E ctrl ud) (\<lambda>(key_pending, ud).
         fbind (start_verify E ctrl (ma_timeout a) ud) (\<lambda>_ ud. Inr (Next key_pending ud)))))"
proof -
  let ?c = "manager_call ''PreOneKeyLogin'' [Arg_i AUTH_FLAG_USING]"
  obtain r m where "sd_call (e_bus E) (ud_hist ud) ?c = (r, m)" by (metis surj_pair)
  with assms have "open_session E app_type exe ud = Inr (Next exe (emit (Bus_Call ?c) (ud\<lparr>ud_bus := True\<rparr>)))"
    by (simp add: open_session_def dbus_method_preOneKeyLogin_def text_call_def call_sync_def Let_def)
  then show ?thesis by (simp add: run_session_def)
qed

definition no_one_key_env :: "(reply, json, nat) env" where
  "no_one_key_env =
     (sample_env 0 ''secret'')\<lparr>e_bus := sample_bus (\<lambda>c. if bc_member c = ''PreOneKeyLogin'' then (- 1, R_Error)
                                                 else service_answer 0 c)\<rparr>"

lemma one_key_failure_takes_exe_path_witness:
  "run_session no_one_key_env args_start APP_VAL_LOGIN ''/bin/su'' init_user_data =
    fbind (load_session no_one_key_env ''/bin/su''
             (emit (Bus_Call (manager_call ''PreOneKeyLogin'' [Arg_i 3])) (init_user_data\<lparr>ud_bus := True\<rparr>)))
      (\<lambda>ctrl ud. fbind (check_password_lock no_one_key_env ud) (\<lambda>_ ud.
         cbind (request_key no_one_key_env ctrl ud) (\<lambda>(key_pending, ud).
         fbind (start_verify no_one_key_env ctrl 60000 ud) (\<lambda>_ ud. Inr (Next key_pending ud)))))"
  using one_key_failure_takes_exe_path [of no_one_key_env init_user_data "''/bin/su''" args_start APP_VAL_LOGIN]
  by (simp add: no_one_key_env_def sample_bus_def manager_call_def AUTH_FLAG_USING_def args_start_def sample_env_def)

text \<open>
  a locked password ends the attempt whatever the factors of the session are (the comment in the
  code speaks of single-factor sessions only): the prompt with the waiting time is the only effect
  after the limits were read, so nothing is subscribed to or started, and the code is
  \<open>PAM_MAXTRIES\<close>. An unlocked password changes nothing.
\<close>
lemma password_lock_stops:
  assumes "get_limits_info E ud = Inr ud1"
    and "get_limit_prompt (e_sys E) (ud_hist ud1) [] (ud_limits ud1 ! 0) = Inr (text, code)"
  shows "check_password_lock E ud =
    (if locked (ud_limits ud1 ! 0)
     then Inr (Break ((show_msg E ud1 text PAM_ERROR_MSG)\<lparr>ud_res := PAM_MAXTRIES\<rparr>))
     else Inr (Next () ud1))
    \<and> (ud_hist (show_msg E ud1 text PAM_ERROR_MSG) = ud_hist ud1
       \<or> ud_hist (show_msg E ud1 text PAM_ERROR_MSG) = ud_hist ud1 @ [Conv_Msg text PAM_ERROR_MSG])"
proof -
  have i: "type_to_index (at_flag AT_Password) = Inr 0"
    by (simp add: type_to_index_def type_to_index_from_step)
  have "code = (if locked (ud_limits ud1 ! 0) then PAM_MAXTRIES else PAM_SUCCESS)"
    by (rule get_limit_prompt_code [OF assms(2)])
  then show ?thesis
    using assms i by (simp add: check_password_lock_def show_msg_def send_msg_def Let_def split: conv_answer.splits)
qed

lemma locked_env_limits:
  "case get_limits_info locked_env init_user_data of Inl _ \<Rightarrow> False
   | Inr ud \<Rightarrow> locked (ud_limits ud ! 0)
       \<and> get_limit_prompt (e_sys locked_env) (ud_hist ud) [] (ud_limits ud ! 0)
           = Inr (''Please try again 10 minutes later'', PAM_MAXTRIES)"
  by code_simp

lemma password_lock_stops_witness:
  "\<exists>ud'. check_password_lock locked_env init_user_data = Inr (Break ud') \<and> ud_res ud' = PAM_MAXTRIES"
proof -
  obtain ud where "get_limits_info locked_env init_user_data = Inr ud" "locked (ud_limits ud ! 0)"
    "get_limit_prompt (e_sys locked_env) (ud_hist ud) [] (ud_limits ud ! 0)
       = Inr (''Please try again 10 minutes later'', PAM_MAXTRIES)"
    using locked_env_limits by (auto split: sum.splits)
  with password_lock_stops [OF this(1,3)] show ?thesis by simp
qed

end
