(* ===== verification/Pam_Handlers.thy ===== *)
theory Pam_Handlers
  imports Pam_Safety Sample_Env
begin

text \<open>
  Properties of the two signal handlers: what ends an authentication and how, the walk of the
  multi-factor handler along the factors by priority, and the record of failures of the
  single-factor handler.
\<close>

subsection \<open>The multi-factor walk\<close>

definition starts_of :: "effect list \<Rightarrow> int list" where
  \<comment> \<open>the types the module started, in order\<close>
  "starts_of h = concat (map (\<lambda>e. case e of
       Bus_Call c \<Rightarrow> (if bc_member c = ''Start'' then (case bc_args c of Arg_i t # _ \<Rightarrow> [t] | _ \<Rightarrow> []) else [])
     | _ \<Rightarrow> []) h)"

lemma starts_of_simps [simp]:
  "starts_of [] = []" "starts_of (h @ h') = starts_of h @ starts_of h'"
  "starts_of [Conv_Msg m s] = []"
  "starts_of [Bus_Call (session_call p ''End'' as)] = []"
  "starts_of [Bus_Call (session_call p ''Start'' [Arg_i t, Arg_i o'])] = [t]"
  by (simp_all add: starts_of_def session_call_def)

definition starts_ok :: "('m, 'j, 'k) env \<Rightarrow> bool" where
  \<comment> \<open>the service accepts every start of a factor\<close>
  "starts_ok E \<longleftrightarrow>
     (\<forall>h c. bc_member c = ''Start'' \<longrightarrow>
        (case sd_call (e_bus E) h c of (r, m) \<Rightarrow> 0 \<le> r \<and> 0 \<le> fst (rd_i (e_bus E) m)))"

definition session_with :: "AuthFactor list \<Rightarrow> AuthSession \<Rightarrow> bool" where
  "session_with fs c \<longleftrightarrow>
     as_factorSize c = length fs \<and> as_factorOrder c = Ptr (factor_order fs) \<and> as_factors c = Ptr fs"

definition walk :: "AuthFactor list \<Rightarrow> int list" where
  \<comment> \<open>the types by falling priority\<close>
  "walk fs = map (\<lambda>i. af_authType (fs ! i)) (factor_order fs)"

lemma length_walk [simp]: "length (walk fs) = length fs"
  using priority_order_props [OF factor_order_correct] by (simp add: walk_def)

lemma factor_type_at_walk:
  assumes "session_with fs c" and "i < length fs"
  shows "factor_type_at c i = Inr (walk fs ! i)"
proof -
  have o: "length (factor_order fs) = length fs" "set (factor_order fs) = {..<length fs}"
    using priority_order_props [OF factor_order_correct [of fs]]
    by (auto simp: factor_order_correct priority_order_def dest: mset_eq_setD)
  then have "factor_order fs ! i < length fs" using assms(2) by (metis lessThan_iff nth_mem)
  with assms o show ?thesis by (simp add: factor_type_at_def session_with_def read_ptr_def walk_def)
qed

lemma find_current_walk:
  assumes "session_with fs c" and "distinct (walk fs)" and "i < length fs" and "j \<le> i"
  shows "find_current c (walk fs ! i) j = Inr i"
  using assms(4)
proof (induction "i - j" arbitrary: j)
  case 0
  then have "j = i" by simp
  with assms show ?case
    by (subst find_current.simps) (simp add: session_with_def factor_type_at_walk [OF assms(1)])
next
  case (Suc n)
  then have j: "j < i" "Suc j \<le> i" "n = i - Suc j" by simp_all
  then have "walk fs ! j \<noteq> walk fs ! i" using assms(2,3) by (simp add: nth_eq_iff_index_eq)
  moreover have "j < as_factorSize c" using assms(1,3) j by (simp add: session_with_def)
  ultimately show ?case
    using Suc.hyps(1) [OF j(3,2)] j assms(3)
    by (subst find_current.simps) (simp add: factor_type_at_walk [OF assms(1)])
qed

lemma mfa_start_verify_walk:
  assumes "ud_auth_ctrl ud = Some c" and "session_with fs c" and "starts_ok E" and "i < length fs"
  shows "\<exists>ud'. mfa_start_verify E ud i t = Inr (PAM_SUCCESS, ud') \<and> keeps ud ud'
    \<and> ud_cur_type ud' = walk fs ! i \<and> starts_of (ud_hist ud') = starts_of (ud_hist ud) @ [walk fs ! i]"
proof -
  let ?ud = "ud\<lparr>ud_cur_type := walk fs ! i\<rparr>"
  let ?s = "dbus_method_start E ?ud (ud_path ud) (walk fs ! i) t"
  have s: "snd ?s = emit (Bus_Call (session_call (ud_path ud) ''Start'' [Arg_i (walk fs ! i), Arg_i t])) ?ud"
    by (rule dbus_method_start_eq)
  let ?c = "session_call (ud_path ud) ''Start'' [Arg_i (walk fs ! i), Arg_i t]"
  obtain r m where r: "sd_call (e_bus E) (ud_hist ud) ?c = (r, m)" by (metis surj_pair)
  obtain r' v m' where r': "rd_i (e_bus E) m = (r', v, m')" by (metis prod_cases3)
  have bc: "bc_member ?c = ''Start''" by (simp add: session_call_def)
  have "case sd_call (e_bus E) (ud_hist ud) ?c of (r, m) \<Rightarrow> 0 \<le> r \<and> 0 \<le> fst (rd_i (e_bus E) m)"
    by (rule assms(3) [unfolded starts_ok_def, rule_format, OF bc])
  with r have "0 \<le> r \<and> 0 \<le> fst (rd_i (e_bus E) m)" by simp
  with r r' have "fst ?s = 0" by (simp add: dbus_method_start_def call_sync_def failed_def)
  with s have "?s = (0, emit (Bus_Call (session_call (ud_path ud) ''Start'' [Arg_i (walk fs ! i), Arg_i t])) ?ud)"
    by (metis prod.collapse)
  then have v: "mfa_start_verify E ud i t =
      Inr (PAM_SUCCESS, emit (Bus_Call (session_call (ud_path ud) ''Start'' [Arg_i (walk fs ! i), Arg_i t])) ?ud)"
    using assms factor_type_at_walk [OF assms(2,4)]
    by (auto simp: mfa_start_verify_def session_of_def session_with_def)
  then show ?thesis using mfa_start_verify_keeps [OF v] by simp
qed

text \<open>The texts of this module are looked up in a catalogue; the walk needs those it prints to fit.\<close>

definition success_text_ok :: "sysenv \<Rightarrow> bool" where
  "success_text_ok S \<longleftrightarrow> defined (format0 MAX_BUF_SIZE (gettext S ''Verification successful''))"

lemma mfa_success_step:
  assumes "ud_auth_ctrl ud = Some c" and "session_with fs c" and "starts_ok E" and "success_text_ok (e_sys E)"
    and "distinct (walk fs)" and "Suc i < length fs" and "ud_cur_type ud = walk fs ! i" and "walk fs ! i \<noteq> - 1"
  shows "\<exists>ud'. mfa_signal_deal E ud 0 (walk fs ! i) msg = Inr (- 1, ud') \<and> keeps ud ud'
    \<and> ud_cur_type ud' = walk fs ! Suc i
    \<and> starts_of (ud_hist ud') = starts_of (ud_hist ud) @ [walk fs ! Suc i]"
proof -
  obtain m where m: "format0 MAX_BUF_SIZE (gettext (e_sys E) ''Verification successful'') = Inr m"
    using assms(4) by (auto simp: success_text_ok_def defined_iff)
  let ?a = "show_msg E ud m PAM_TEXT_INFO"
  let ?b = "snd (dbus_method_end E ?a (ud_path ?a) (walk fs ! i))"
  have same: "same_but_hist ud ?a" by (rule show_msg_same) simp
  have a: "ud_auth_ctrl ?a = Some c" "ud_cur_type ?a = walk fs ! i"
    using same_but_hist_fields [OF same] assms by simp_all
  have b: "ud_auth_ctrl ?b = Some c" "keeps ud ?b"
    using a by (simp_all add: dbus_method_end_eq)
  have h: "starts_of (ud_hist ?b) = starts_of (ud_hist ud)"
    by (simp add: dbus_method_end_eq show_msg_def send_msg_def Let_def split: conv_answer.splits)
  obtain ud' where v: "mfa_start_verify E ?b (Suc i) (- 1) = Inr (PAM_SUCCESS, ud')" and k: "keeps ?b ud'"
    and cur: "ud_cur_type ud' = walk fs ! Suc i"
    and st: "starts_of (ud_hist ud') = starts_of (ud_hist ?b) @ [walk fs ! Suc i]"
    using mfa_start_verify_walk [OF b(1) assms(2,3,6)] by blast
  have "find_current c (walk fs ! i) 0 = Inr i"
    using assms by (intro find_current_walk [of fs]) simp_all
  then have "mfa_next_factor E ?a (walk fs ! i) = Inr (- 1, ud')"
    using a v assms(2,6) by (simp add: mfa_next_factor_def session_of_def session_with_def Let_def)
  then have "mfa_signal_deal E ud 0 (walk fs ! i) msg = Inr (- 1, ud')"
    using m a assms(8) by (simp add: mfa_signal_deal_def mfa_success_def)
  with keeps_trans [OF b(2) k] cur st h show ?thesis by (intro exI [of _ ud']) simp
qed

fun mfa_signals :: "('m, 'j, 'k) env \<Rightarrow> int list \<Rightarrow> 'k UserData \<Rightarrow> 'k UserData cres" where
  \<comment> \<open>the success signals of these types, one after the other\<close>
  "mfa_signals E [] ud = Inr ud"
| "mfa_signals E (t # ts) ud = cbind (mfa_signal_deal E ud 0 t []) (\<lambda>(r, ud). mfa_signals E ts ud)"

lemma mfa_signals_walk:
  assumes "session_with fs c" and "starts_ok E" and "success_text_ok (e_sys E)"
    and "distinct (walk fs)" and "- 1 \<notin> set (walk fs)"
  shows "ud_auth_ctrl ud = Some c \<Longrightarrow> ud_cur_type ud = walk fs ! i \<Longrightarrow> i + k < length fs \<Longrightarrow>
    \<exists>ud'. mfa_signals E (take k (drop i (walk fs))) ud = Inr ud'
      \<and> ud_cur_type ud' = walk fs ! (i + k)
      \<and> starts_of (ud_hist ud') = starts_of (ud_hist ud) @ take k (drop (Suc i) (walk fs))"
proof (induction k arbitrary: i ud)
  case 0
  then show ?case by simp
next
  case (Suc k)
  then have i: "Suc i < length fs" by simp
  have ne: "walk fs ! i \<noteq> - 1" using assms(5) i by (metis Suc_lessD length_walk nth_mem)
  obtain ud1 where s: "mfa_signal_deal E ud 0 (walk fs ! i) [] = Inr (- 1, ud1)" and k: "keeps ud ud1"
    and c1: "ud_cur_type ud1 = walk fs ! Suc i"
    and st: "starts_of (ud_hist ud1) = starts_of (ud_hist ud) @ [walk fs ! Suc i]"
    using mfa_success_step [OF Suc.prems(1) assms(1-4) i Suc.prems(2) ne] by blast
  have "ud_auth_ctrl ud1 = Some c" using keeps_ctrl [OF k] Suc.prems(1) by simp
  from Suc.IH [OF this c1] Suc.prems(3) obtain ud' where
    r: "mfa_signals E (take k (drop (Suc i) (walk fs))) ud1 = Inr ud'"
    and c2: "ud_cur_type ud' = walk fs ! (Suc i + k)"
    and st2: "starts_of (ud_hist ud') = starts_of (ud_hist ud1) @ take k (drop (Suc (Suc i)) (walk fs))"
    by auto
  have d: "drop i (walk fs) = walk fs ! i # drop (Suc i) (walk fs)"
    "drop (Suc i) (walk fs) = walk fs ! Suc i # drop (Suc (Suc i)) (walk fs)"
    using i by (simp_all add: Cons_nth_drop_Suc)
  show ?case using s r c2 st st2 d by simp
qed

lemma mset_walk: "mset (walk fs) = mset (map af_authType fs)"
proof -
  have "mset (factor_order fs) = mset [0..<length fs]"
    using factor_order_correct [of fs] by (simp add: priority_order_def)
  then have "mset (walk fs) = image_mset (\<lambda>i. af_authType (fs ! i)) (mset [0..<length fs])"
    by (simp add: walk_def)
  also have "\<dots> = mset (map (\<lambda>i. af_authType (fs ! i)) [0..<length fs])" by simp
  also have "map (\<lambda>i. af_authType (fs ! i)) [0..<length fs] = map af_authType (map ((!) fs) [0..<length fs])"
    by simp
  finally show ?thesis by (simp only: map_nth)
qed


definition sample_session :: AuthSession where
  "sample_session =
     \<lparr>as_isMFA = 1, as_factorSize = 3, as_factorOrder = Ptr [1, 2, 0], as_factors = Ptr sample_factors\<rparr>"


subsection \<open>What ends an authentication\<close>

lemma start_token_thread_outcome:
  "start_token_thread E p ud = Inr (r, ud') \<Longrightarrow>
     r = (if pthread_create (e_sys E) (ud_hist ud) \<noteq> 0 then PAM_ABORT else - 1)"
  by (auto simp: start_token_thread_def Let_def cres_simps split: if_splits)

definition prompt_fails :: "('m, 'j, 'k) env \<Rightarrow> 'k UserData \<Rightarrow> bool" where
  \<comment> \<open>a token thread is alive, or none can be created\<close>
  "prompt_fails E ud \<longleftrightarrow> token_thread_busy ud \<or> pthread_create (e_sys E) (ud_hist ud) \<noteq> 0"

text \<open>
  C31: what ends a single-factor authentication, for any status code and type: \<open>PAM_SUCCESS\<close> for the
  overall success, \<open>PAM_AUTH_ERR\<close> for the overall failure, \<open>PAM_ABORT\<close> for an overall prompt while a
  token thread is alive or cannot be created; every other signal (the failure of one method, a
  cancel, a timeout, an error) lets the loop go on.
\<close>
theorem sfa_outcome:
  assumes "sfa_signal_deal E ud code t msg = Inr (r, ud')"
  shows "r = (if t = - 1 \<and> code = 0 then PAM_SUCCESS else if t = - 1 \<and> code = 1 then PAM_AUTH_ERR
              else if t = - 1 \<and> code = 7 \<and> prompt_fails E ud then PAM_ABORT else - 1)"
  using assms
  by (auto simp: sfa_signal_deal_def sfa_prompt_def prompt_fails_def
      split: option.splits AuthStutaCode.splits if_splits elim!: cbind_InrE
      dest: signal_verify_keeps sfa_overall_failure_keeps start_token_thread_outcome)

lemma sfa_outcome_witness:
  "\<exists>ud'. sfa_signal_deal (sample_env 0 []) init_user_data 3 2 [] = Inr (- 1, ud')"
proof -
  have "case sfa_signal_deal (sample_env 0 []) init_user_data 3 2 [] of Inr (r, ud') \<Rightarrow> True | _ \<Rightarrow> False"
    by code_simp
  then obtain r ud' where "sfa_signal_deal (sample_env 0 []) init_user_data 3 2 [] = Inr (r, ud')"
    by (auto split: sum.splits)
  with sfa_outcome [OF this] show ?thesis by auto
qed

text \<open>
  C30: what ends a multi-factor authentication: \<open>PAM_SUCCESS\<close> for the overall success only, never for
  the success of a factor; \<open>PAM_AUTH_ERR\<close> for the failure of any one factor, while the overall failure
  lets the loop go on; \<open>PAM_ABORT\<close> only for a factor's success or prompt.
\<close>
theorem mfa_outcome:
  assumes "mfa_signal_deal E ud code t msg = Inr (r, ud')"
  shows "(r = PAM_SUCCESS \<longleftrightarrow> code = 0 \<and> t = - 1) \<and> (r = PAM_AUTH_ERR \<longleftrightarrow> code = 1 \<and> t \<noteq> - 1)
    \<and> (r \<notin> {PAM_SUCCESS, PAM_AUTH_ERR, - 1} \<longrightarrow> r = PAM_ABORT \<and> t = ud_cur_type ud \<and> t \<noteq> - 1 \<and> code \<in> {0, 7})"
proof -
  have n: "mfa_next_factor E u s = Inr (r, v) \<Longrightarrow> r = - 1 \<or> r = PAM_ABORT" for u s r v
    using mfa_next_factor_keeps by fastforce
  have n': "mfa_next_factor E u s \<noteq> Inr (0, v)" "mfa_next_factor E u s \<noteq> Inr (7, v)" for u s v
    using n [of u s 0 v] n [of u s 7 v] by auto
  have p: "start_token_thread E p u = Inr (r, v) \<Longrightarrow> r = - 1 \<or> r = PAM_ABORT" for p u r v
    by (rule start_token_thread_code)
  have cur: "ud_cur_type (show_msg E ud m PAM_TEXT_INFO) = ud_cur_type ud" for m
    by (rule same_but_hist_fields(8) [OF show_msg_same]) simp
  show ?thesis
    using assms
    by (auto simp: mfa_signal_deal_def mfa_success_def mfa_failure_def mfa_prompt_def Let_def cur n'
        split: option.splits AuthStutaCode.splits if_splits elim!: cbind_InrE
        dest: signal_verify_keeps n p)
qed

lemma mfa_outcome_witness:
  "\<exists>ud'. mfa_signal_deal (sample_env 1 []) init_user_data 1 2 [] = Inr (PAM_AUTH_ERR, ud')"
proof -
  have "case mfa_signal_deal (sample_env 1 []) init_user_data 1 2 [] of Inr (r, ud') \<Rightarrow> True | _ \<Rightarrow> False"
    by code_simp
  then obtain r ud' where "mfa_signal_deal (sample_env 1 []) init_user_data 1 2 [] = Inr (r, ud')"
    by (auto split: sum.splits)
  with mfa_outcome [OF this] show ?thesis by auto
qed

subsection \<open>The failures of single methods\<close>

fun sfa_failures :: "('m, 'j, 'k) env \<Rightarrow> int list \<Rightarrow> 'k UserData \<Rightarrow> 'k UserData cres" where
  \<comment> \<open>the failure signals of these methods, one after the other\<close>
  "sfa_failures E [] ud = Inr ud"
| "sfa_failures E (t # ts) ud = cbind (sfa_signal_deal E ud 1 t []) (\<lambda>(r, ud). sfa_failures E ts ud)"

lemma sfa_failures_Inr:
  assumes "length (ud_failed_indexs ud) = SUPPORT_AT_TYPE" and "- 1 \<notin> set ts"
    and "ud_failed_num ud + length ts \<le> SUPPORT_AT_TYPE"
  shows "\<exists>ud'. sfa_failures E ts ud = Inr ud' \<and> length (ud_failed_indexs ud') = SUPPORT_AT_TYPE
    \<and> ud_failed_num ud' = ud_failed_num ud + length ts
    \<and> take (ud_failed_num ud') (ud_failed_indexs ud') = take (ud_failed_num ud) (ud_failed_indexs ud) @ ts"
  using assms
proof (induction ts arbitrary: ud)
  case Nil
  then show ?case by simp
next
  case (Cons t ts)
  let ?n = "ud_failed_num ud"
  let ?ud = "ud\<lparr>ud_failed_indexs := (ud_failed_indexs ud)[?n := t], ud_failed_num := Suc ?n\<rparr>"
  have n: "?n < SUPPORT_AT_TYPE" using Cons.prems by simp
  then have s: "sfa_signal_deal E ud 1 t [] = Inr (- 1, ?ud)"
    using Cons.prems by (simp add: sfa_signal_deal_def sfa_record_failure_def)
  have "take (Suc ?n) ((ud_failed_indexs ud)[?n := t]) = take ?n (ud_failed_indexs ud) @ [t]"
    using n Cons.prems(1) by (simp add: take_Suc_conv_app_nth)
  with Cons.IH [of ?ud] Cons.prems s show ?case by simp
qed

lemma sfa_failures_overflow:
  assumes "length (ud_failed_indexs ud) = SUPPORT_AT_TYPE" and "- 1 \<notin> set ts"
    and "SUPPORT_AT_TYPE < ud_failed_num ud + length ts" and "ud_failed_num ud \<le> SUPPORT_AT_TYPE"
  shows "sfa_failures E ts ud = Inl Buffer_Overflow"
  using assms
proof (induction ts arbitrary: ud)
  case (Cons t ts)
  let ?n = "ud_failed_num ud"
  let ?ud = "ud\<lparr>ud_failed_indexs := (ud_failed_indexs ud)[?n := t], ud_failed_num := Suc ?n\<rparr>"
  show ?case
  proof (cases "?n < SUPPORT_AT_TYPE")
    case True
    then have "sfa_signal_deal E ud 1 t [] = Inr (- 1, ?ud)"
      using Cons.prems by (simp add: sfa_signal_deal_def sfa_record_failure_def)
    with Cons.IH [of ?ud] Cons.prems True show ?thesis by simp
  next
    case False
    with Cons.prems show ?thesis by (simp add: sfa_signal_deal_def sfa_record_failure_def)
  qed
qed simp

text \<open>
  C29: the failures of single methods are recorded with no bound: from a fresh state the first seven
  failure signals are stored in order and the type reported later is the password when it is among
  them (or none failed), otherwise the first that failed; the eighth writes past the end of
  \<open>failed_indexs\<close>.
\<close>
theorem sfa_failures_recorded:
  assumes "length (ud_failed_indexs ud) = SUPPORT_AT_TYPE" and "ud_failed_num ud = 0" and "- 1 \<notin> set ts"
  shows "if length ts \<le> SUPPORT_AT_TYPE
    then \<exists>ud'. sfa_failures E ts ud = Inr ud' \<and> take (ud_failed_num ud') (ud_failed_indexs ud') = ts
      \<and> sfa_fail_type ud' = (if ts = [] \<or> at_flag AT_Password \<in> set ts then at_flag AT_Password else hd ts)
    else sfa_failures E ts ud = Inl Buffer_Overflow"
proof (cases "length ts \<le> SUPPORT_AT_TYPE")
  case True
  then obtain ud' where r: "sfa_failures E ts ud = Inr ud'" and n: "ud_failed_num ud' = length ts"
    and t: "take (ud_failed_num ud') (ud_failed_indexs ud') = ts"
    using sfa_failures_Inr [OF assms(1,3), of E] assms(2) by auto
  have "sfa_fail_type ud' = (if ts = [] \<or> at_flag AT_Password \<in> set ts then at_flag AT_Password else hd ts)"
  proof (cases ts)
    case Nil
    with n show ?thesis by (simp add: sfa_fail_type_def)
  next
    case (Cons a as)
    with n t have "ud_failed_indexs ud' ! 0 = a" by (metis length_greater_0_conv list.distinct(1) nth_Cons_0 nth_take)
    with n t Cons show ?thesis by (auto simp: sfa_fail_type_def list_ex_iff Let_def)
  qed
  with r t True show ?thesis by auto
next
  case False
  with sfa_failures_overflow [OF assms(1,3), of E] assms(2) show ?thesis by simp
qed

lemma sfa_failures_recorded_witness:
  "sfa_failures (sample_env 0 []) [2, 2, 2, 2, 2, 2, 2, 2] init_user_data = Inl Buffer_Overflow
   \<and> (\<exists>ud'. sfa_failures (sample_env 0 []) [2, 1] init_user_data = Inr ud' \<and> sfa_fail_type ud' = 1)"
proof
  show "sfa_failures (sample_env 0 []) [2, 2, 2, 2, 2, 2, 2, 2] init_user_data = Inl Buffer_Overflow"
    using sfa_failures_recorded [of "init_user_data" "[2, 2, 2, 2, 2, 2, 2, 2]" "sample_env 0 []"]
    by (simp add: init_user_data_def)
  show "\<exists>ud'. sfa_failures (sample_env 0 []) [2, 1] init_user_data = Inr ud' \<and> sfa_fail_type ud' = 1"
    using sfa_failures_recorded [of "init_user_data" "[2, 1]" "sample_env 0 []"]
    by (auto simp: init_user_data_def)
qed

text \<open>
  C22: there is at most one live token thread: while one is alive no step of the main thread but the
  final join replaces it, cancels it or changes where it stands.
\<close>
theorem single_token_thread:
  assumes "pam_step E ev p q" and "token_thread_busy (pm_ud p)" and "ev \<noteq> Ev_Thread" and "ev \<noteq> Ev_Join"
  shows "ud_thr (pm_ud q) = ud_thr (pm_ud p) \<and> ud_pid (pm_ud q)"
proof -
  have k: "bus_signal_deal E m u = Inr (r, v) \<Longrightarrow> ud_pid u \<Longrightarrow> thread_alive (ud_thr u) \<Longrightarrow>
      ud_thr v = ud_thr u \<and> ud_pid v" for m u r v
    using bus_signal_deal_inv(1) [of E m u r v] by (auto simp: keeps_def token_thread_busy_def)
  have e: "call_encryptKey_cb E err m u = Inr (r, v) \<Longrightarrow> token_thread_busy u \<Longrightarrow> ud_thr v = ud_thr u \<and> ud_pid v"
    for err m u r v
    by (auto simp: token_thread_busy_def call_encryptKey_cb_def encryptKey_store_def encrypt_symmtric_key_def
        dbus_method_set_symmetric_key_def call_sync_def Let_def
        split: if_splits prod.splits option.splits elim!: cbind_InrE)
  from assms show ?thesis
  proof (induction rule: pam_step.induct)
    case (key p err m)
    then show ?case
      by (auto simp: enter_def token_thread_busy_def split: sum.splits prod.splits elim!: cbind_InrE dest!: e)
  qed (auto simp: token_thread_busy_def bus_signal_store_def set_result_data_def clean_bus_def
      dbus_method_end_eq call_getResult_cb_def Let_def
      dest: k split: option.splits prod.splits if_splits)
qed

end
