(* ===== verification/Pam_Calls.thy ===== *)
theory Pam_Calls
  imports Pam_Safety Sample_Env
begin

text \<open>
  Properties of the module's helpers: the table of limits read from the service, the user's locale
  file, the texts of the fingerprint device, and the way of the token and of the key
  (\<open>misc/pam-module/auth/utils.c\<close>, \<open>dbus.c\<close>).
\<close>

subsection \<open>The table of limits\<close>

definition entry_index :: "'j jsonc \<Rightarrow> 'j option \<Rightarrow> nat cres" where
  "entry_index J jobj = type_to_index (get_int J (get_or_null J jobj ''flag''))"

definition entry_ok :: "'j jsonc \<Rightarrow> 'j option \<Rightarrow> bool" where
  \<comment> \<open>a flag with a bit set, and for a type of the table an unlock time that fits its buffer\<close>
  "entry_ok J jobj \<longleftrightarrow>
     (case entry_index J jobj of Inl _ \<Rightarrow> False
      | Inr i \<Rightarrow> SUPPORT_AT_TYPE \<le> i \<or> defined (limit_of_json J jobj))"

lemma limits_step_simps:
  "limits_step J jobj ls =
     cbind (entry_index J jobj) (\<lambda>i. if SUPPORT_AT_TYPE \<le> i then Inr ls
        else cbind (limit_of_json J jobj) (\<lambda>l. Inr (ls[i := l])))"
  by (simp add: limits_step_def entry_index_def)

lemma limits_step_defined: "defined (limits_step J jobj ls) \<longleftrightarrow> entry_ok J jobj"
  by (auto simp: limits_step_simps entry_ok_def defined_cbind defined_iff split: sum.splits)

lemma limits_loop_defined: "defined (limits_loop J js ls) \<longleftrightarrow> list_all (entry_ok J) js"
proof (induction js arbitrary: ls)
  case (Cons j js)
  have "defined (limits_loop J (j # js) ls) \<longleftrightarrow> (\<exists>x. limits_step J j ls = Inr x) \<and> list_all (entry_ok J) js"
    by (simp add: defined_cbind Cons.IH)
  then show ?case using limits_step_defined [of J j ls] by (simp add: defined_iff)
qed simp

definition entries_for :: "'j jsonc \<Rightarrow> nat \<Rightarrow> 'j option list \<Rightarrow> 'j option list" where
  "entries_for J i js = filter (\<lambda>j. entry_index J j = Inr i) js"

lemma limits_loop_entry:
  assumes "limits_loop J js ls = Inr ls'" and "length ls = SUPPORT_AT_TYPE" and "i < SUPPORT_AT_TYPE"
  shows "length ls' = SUPPORT_AT_TYPE
    \<and> (if entries_for J i js = [] then ls' ! i = ls ! i
       else limit_of_json J (last (entries_for J i js)) = Inr (ls' ! i))"
  using assms(1,2)
proof (induction js arbitrary: ls)
  case Nil
  then show ?case by (simp add: entries_for_def)
next
  case (Cons j js)
  from Cons.prems obtain ls1 where s: "limits_step J j ls = Inr ls1" and r: "limits_loop J js ls1 = Inr ls'"
    by auto
  from s obtain k where k: "entry_index J j = Inr k"
    and l: "(SUPPORT_AT_TYPE \<le> k \<and> ls1 = ls)
        \<or> (k < SUPPORT_AT_TYPE \<and> (\<exists>l. limit_of_json J j = Inr l \<and> ls1 = ls[k := l]))"
    by (auto simp: limits_step_simps split: if_splits elim!: cbind_InrE)
  have len: "length ls1 = SUPPORT_AT_TYPE" using l Cons.prems by auto
  note IH = Cons.IH [OF r len]
  show ?case
  proof (cases "k = i")
    case True
    then obtain l' where "limit_of_json J j = Inr l'" "ls1 = ls[i := l']" using l assms(3) by auto
    with IH True k Cons.prems assms(3) show ?thesis by (auto simp: entries_for_def)
  next
    case False
    then have "ls1 ! i = ls ! i" using l by auto
    moreover have "entries_for J i (j # js) = entries_for J i js"
      using False k by (simp add: entries_for_def)
    ultimately show ?thesis using IH by simp
  qed
qed


definition two_limits :: "json option list" where
  \<comment> \<open>the password twice, and a type outside the table\<close>
  "two_limits = [limit_json 1 5 1 False [], limit_json 1 5 2 False [], limit_json 128 9 9 True []]"


subsection \<open>The locale file\<close>

lemma set_env_lines_file:
  assumes "list_all (env_ok n) kvs"
  shows "set_env_lines p (map (\<lambda>(k, v). env_line k v) kvs) ud =
    (if list_all (\<lambda>(k, v). length (env_line k v) < p) kvs
     then Inr (ud\<lparr>ud_hist := ud_hist ud @ map (\<lambda>(k, v). Env_Set k v) kvs\<rparr>) else Inl Buffer_Overflow)"
  using assms
proof (induction kvs arbitrary: ud)
  case (Cons kv kvs)
  obtain k v where kv: "kv = (k, v)" by (cases kv)
  with Cons.prems have "parse_env_line (env_line k v) = Some (k, v)"
    by (auto simp: env_ok_def intro: parse_env_line_roundtrip)
  with Cons kv show ?case by (simp add: emit_def)
qed simp

text \<open>
  C34: a locale file of assignments sets exactly these variables, in their order, when every line is
  shorter than the path of the file: \<open>load_user_locale\<close> reads the lines into the memory it allocated
  for the path, so one longer line, of at most 255 characters, already runs past it.
\<close>
theorem locale_file_loaded:
  assumes "pw_dir S user = Some dir" and "is_regular S (dir @ ''/'' @ locale)"
    and "read_file S (dir @ ''/'' @ locale) = Some (env_file kvs)"
    and "length dir + length locale + 2 \<le> 4096" and "list_all (env_ok 255) kvs"
  shows "load_user_locale S ud user locale =
    (if list_all (\<lambda>(k, v). length (env_line k v) < length dir + length locale + 2) kvs
     then Inr (ud\<lparr>ud_hist := ud_hist ud @ map (\<lambda>(k, v). Env_Set k v) kvs\<rparr>) else Inl Buffer_Overflow)"
proof -
  have "fgets_lines (MAX_BUF_SIZE - 1) (env_file kvs) = map (\<lambda>(k, v). env_line k v) kvs"
    using env_file_lines [OF assms(5), of 254] by simp
  with assms have "load_user_locale S ud user locale =
      set_env_lines (length dir + length locale + 2) (map (\<lambda>(k, v). env_line k v) kvs) ud"
    by (simp add: load_user_locale_def Let_def del: append.simps)
  then show ?thesis by (simp only: set_env_lines_file [OF assms(5)])
qed

definition locale_sys :: sysenv where
  "locale_sys = (sample_sys ''/bin/su'' [])\<lparr>pw_dir := \<lambda>_. Some ''/root'', is_regular := \<lambda>_. True,
     read_file := \<lambda>_. Some (env_file [(''LANG'', ''zh_CN.UTF-8''), (''LANGUAGE'', ''zh_CN:zh_TW:en_US:en_GB:en'')])\<rparr>"

lemma locale_file_loaded_witness:
  "load_user_locale locale_sys init_user_data ''root'' ''.config/locale.conf'' = Inl Buffer_Overflow"
proof -
  let ?kvs = "[(''LANG'', ''zh_CN.UTF-8''), (''LANGUAGE'', ''zh_CN:zh_TW:en_US:en_GB:en'')]"
  have "list_all (env_ok 255) ?kvs" by (simp add: env_ok_def env_line_def)
  from locale_file_loaded [of locale_sys "''root''" "''/root''" "''.config/locale.conf''" ?kvs, OF _ _ _ _ this]
  show ?thesis by (simp add: locale_sys_def env_line_def)
qed

subsection \<open>The texts of the fingerprint device\<close>

text \<open>
  The message of a fingerprint error is never shown. The sub-code that selects it is only read in
  the case of a retry, so for a well-formed message with code 2 (error) the handler gets nothing to
  show, while a retry shows the text of its sub-code (when the translation fits), or nothing for a
  sub-code it does not know.
\<close>
theorem verify_msg_error_silent:
  assumes "parse_ex J m = (True, o1)" and "get_int J (get_or_null J o1 ''flag'') = at_flag AT_Fingerprint"
    and "get_string J (get_or_null J o1 ''msg'') = Some data" and "length data < MAX_BUF_SIZE"
    and "parse_ex J data = (True, o2)" and "get_int J (get_or_null J o2 ''subcode'') = subcode"
  shows "(get_int J (get_or_null J o1 ''code'') = 2 \<longrightarrow> resolve_verify_msg S J m = Inr (0, []))
    \<and> (get_int J (get_or_null J o1 ''code'') = 3 \<longrightarrow> resolve_verify_msg S J m =
         (case retry_text subcode of None \<Rightarrow> Inr (0, [])
          | Some t \<Rightarrow> cbind (format0 MAX_BUF_SIZE (gettext S t)) (\<lambda>text. Inr (PAM_ERROR_MSG, text))))"
  using assms by (simp add: resolve_verify_msg_def verify_error_text_def show_text_def sprintf_into_simps)

definition finger_json :: "int \<Rightarrow> json jsonc" where
  "finger_json code =
     json_view (\<lambda>t. if t = ''m'' then Some (J_Obj [(''flag'', Some (J_Int 2)), (''code'', Some (J_Int code)),
                                                (''msg'', Some (J_Str ''d''))])
                   else Some (J_Obj [(''subcode'', Some (J_Int 2))]))"

lemma verify_msg_error_silent_witness:
  "resolve_verify_msg (sample_sys [] []) (finger_json 2) ''m'' = Inr (0, [])
   \<and> resolve_verify_msg (sample_sys [] []) (finger_json 3) ''m'' = Inr (PAM_ERROR_MSG, ''Finger not centered'')"
proof -
  have t: "format0 MAX_BUF_SIZE (gettext (sample_sys [] []) ''Finger not centered'') = Inr ''Finger not centered''"
    by code_simp
  show ?thesis
    using verify_msg_error_silent [of "finger_json 2" "''m''" _ "''d''" _ 2 "sample_sys [] []"]
      verify_msg_error_silent [of "finger_json 3" "''m''" _ "''d''" _ 2 "sample_sys [] []"] t
    by (simp add: finger_json_def json_view_def get_or_null_def retry_text_def)
qed

subsection \<open>The token and the key\<close>

text \<open>
  The token leaves the module encrypted. Without a symmetric key sending it is undefined (a null
  pointer is measured); with one, a sent token is one asynchronous \<open>SetToken\<close> call of the session with
  the cipher text of the padded token, a whole number of blocks longer than the token, and nothing
  else of the state changes; a cipher that refuses the key sends nothing and answers 0.
\<close>
theorem token_sent_encrypted:
  "dbus_method_setToken E ud path t token =
     (case ud_symmetric_key ud of
        None \<Rightarrow> Inl Null_Deref
      | Some key \<Rightarrow>
          let cipher = aes_cbc_enc (e_ssl E) key zero_iv (aes_padded token);
              call = session_call path ''SetToken'' [Arg_i t, Arg_ay cipher]
          in if aes_set_encrypt_key (e_ssl E) key (int (length key) * 8) < 0
                \<or> sd_new_call (e_bus E) (ud_hist ud) call \<noteq> 0
             then Inr (0, ud)
             else Inr (if 0 \<le> sd_async (e_bus E) (ud_hist ud) call then 1 else 0, emit (Bus_Async call) ud))
   \<and> length (aes_padded token) mod 16 = 0 \<and> length token < length (aes_padded token)"
proof
  show "length (aes_padded token) mod 16 = 0 \<and> length token < length (aes_padded token)"
    using length_padding [of token] by (simp add: length_aes_padded)
qed (auto simp: dbus_method_setToken_def pam_aes_cbc_encrypt_def call_async_def Let_def split: option.splits)

lemma token_sent_encrypted_witness:
  "\<exists>ud. dbus_method_setToken (sample_env 0 []) (init_user_data\<lparr>ud_symmetric_key := Some ''1000004210000042''\<rparr>)
      ''/s'' 1 ''secret'' = Inr (1, ud)
    \<and> last (ud_hist ud) = Bus_Async (session_call ''/s'' ''SetToken'' [Arg_i 1, Arg_ay (rev (aes_padded ''secret''))])
    \<and> length (aes_padded ''secret'') = 16"
  using token_sent_encrypted [of "sample_env 0 []"
      "init_user_data\<lparr>ud_symmetric_key := Some ''1000004210000042''\<rparr>" "''/s''" 1 "''secret''"]
  by (simp add: sample_env_def sample_ssl_def sample_bus_def init_user_data_def emit_def Let_def length_aes_padded)

text \<open>
  a failed key transfer is taken for a good one. When the RSA encryption of the symmetric key
  worked but the service refuses \<open>SetSymmetricKey\<close>, the callback's test on the result (negative for a
  failure, while \<open>dbus_method_set_symmetric_key\<close> answers 0 or 1) lets it return 0, and the key stays
  stored, so tokens will be encrypted with a key the service never got.
\<close>
lemma key_transfer_failure_ignored:
  assumes "pam_gen_rsa_pubkey (e_ssl E) (pk_rsa key) (case pk_pubkey key of None \<Rightarrow> [] | Some s \<Rightarrow> s) = (g, Some rsa)"
    and "rsa_public_encrypt (e_ssl E) rsa k = (n, cipher)" and "0 \<le> n"
    and "gen_symmetric_key (rand_value (e_sys E) (ud_hist ud)) = Inr k"
    and "sd_new_call (e_bus E) (ud_hist ud) call = 0"
    and "fst (sd_call (e_bus E) (ud_hist ud) call) < 0"
    and "call = session_call (ud_path ud) ''SetSymmetricKey'' [Arg_ay (take (nat n) cipher)]"
  shows "\<exists>ud'. encryptKey_store E key ud = Inr (0, ud') \<and> ud_symmetric_key ud' = Some k
    \<and> ud_hist ud' = ud_hist ud @ [Bus_Call call]"
proof -
  obtain r m where r: "sd_call (e_bus E) (ud_hist ud) call = (r, m)" by (metis surj_pair)
  with assms show ?thesis
    by (simp add: encryptKey_store_def encrypt_symmtric_key_def pam_rsa_encrypt_data_def
        dbus_method_set_symmetric_key_def call_sync_def failed_def Let_def)
qed

definition refusing_env :: "(reply, json, nat) env" where
  "refusing_env = (sample_env 0 [])\<lparr>e_bus := sample_bus (\<lambda>_. (- 1, R_Error))\<rparr>"

lemma key_transfer_failure_ignored_witness:
  "\<exists>ud'. encryptKey_store refusing_env (create_pub_key\<lparr>pk_pubkey := Some PKCS8_HEADER\<rparr>) init_user_data = Inr (0, ud')
     \<and> ud_symmetric_key ud' = Some ''1000004210000042''"
proof -
  let ?E = "refusing_env"
  have p: "pam_gen_rsa_pubkey (e_ssl ?E) None PKCS8_HEADER = (0, Some 1)" by code_simp
  have k: "gen_symmetric_key (rand_value (e_sys ?E) (ud_hist (init_user_data :: nat UserData))) = Inr ''1000004210000042''"
    by code_simp
  have r: "rsa_public_encrypt (e_ssl ?E) 1 ''1000004210000042'' = (16, rev ''1000004210000042'')" by code_simp
  show ?thesis
    using key_transfer_failure_ignored [of ?E "create_pub_key\<lparr>pk_pubkey := Some PKCS8_HEADER\<rparr>" 0 1
        "''1000004210000042''" 16 "rev ''1000004210000042''" init_user_data, OF _ r _ k] p
    by (auto simp: create_pub_key_def refusing_env_def sample_bus_def)
qed

end
