(* ===== verification/Pam_Spec.thy ===== *)
theory Pam_Spec
  imports Pam_Safety
begin

text \<open>
  What \<open>pam_sm_authenticate\<close> promises, as an abstract machine of three facts: whether the service has
  confirmed the user, the code held in \<open>res\<close>, and the code returned. The module refines it.
\<close>

record promise =
  pr_verified :: bool
  pr_code :: int
  pr_returned :: "int option"

inductive promise_step :: "promise \<Rightarrow> promise \<Rightarrow> bool" where
  confirm: "pr_returned s = None \<Longrightarrow> promise_step s (s\<lparr>pr_verified := True\<rparr>)"
| decide: "pr_returned s = None \<Longrightarrow> c = PAM_SUCCESS \<longrightarrow> pr_verified s \<Longrightarrow> promise_step s (s\<lparr>pr_code := c\<rparr>)"
| return: "pr_returned s = None \<Longrightarrow> promise_step s (s\<lparr>pr_returned := Some (pr_code s)\<rparr>)"

inductive_cases promise_step_cases: "promise_step s s'"

abbreviation promise_run :: "promise \<Rightarrow> promise \<Rightarrow> bool" where
  "promise_run \<equiv> promise_step\<^sup>*\<^sup>*"

definition promise_of :: "'k pam \<Rightarrow> promise" where
  \<comment> \<open>the abstraction\<close>
  "promise_of p =
     \<lparr>pr_verified = verified (pm_ud p), pr_code = ud_res (pm_ud p),
      pr_returned = (case pm_phase p of M_Done r \<Rightarrow> Some r | _ \<Rightarrow> None)\<rparr>"

subsection \<open>The specification\<close>

lemma returned_final: "promise_run s s' \<Longrightarrow> pr_returned s = Some r \<Longrightarrow> s' = s"
  by (induction rule: converse_rtranclp_induct) (auto elim: promise_step_cases)

lemma confirmed_stays: "promise_run s s' \<Longrightarrow> pr_verified s \<Longrightarrow> pr_verified s'"
  by (induction rule: rtranclp_induct) (auto elim: promise_step_cases)

definition promise_ok :: "promise \<Rightarrow> bool" where
  "promise_ok s \<longleftrightarrow>
     (pr_code s = PAM_SUCCESS \<longrightarrow> pr_verified s) \<and> (pr_returned s = Some PAM_SUCCESS \<longrightarrow> pr_verified s)"

lemma promise_ok_run: "promise_run s s' \<Longrightarrow> promise_ok s \<Longrightarrow> promise_ok s'"
  by (induction rule: rtranclp_induct) (auto simp: promise_ok_def elim: promise_step_cases)

subsection \<open>The simulation\<close>

lemma promise_runI:
  assumes "pr_returned s = None" and "pr_verified s \<longrightarrow> pr_verified s'" and "pr_code s' = PAM_SUCCESS \<longrightarrow> pr_verified s'"
    and "pr_returned s' = None \<or> pr_returned s' = Some (pr_code s')"
  shows "promise_run s s'"
proof -
  let ?a = "s\<lparr>pr_verified := pr_verified s'\<rparr>"
  let ?b = "?a\<lparr>pr_code := pr_code s'\<rparr>"
  have a: "promise_run s ?a"
    using assms(1,2) confirm [of s] by (cases "pr_verified s'"; cases s) auto
  have "promise_step ?a ?b" using assms(1,3) by (intro decide) simp_all
  moreover have "promise_run ?b s'"
    using assms(4) return [of ?b] assms(1) by (cases s, cases s') auto
  ultimately show ?thesis using a by (meson converse_rtranclp_into_rtranclp rtranclp_trans)
qed

lemma pam_step_not_done: "pam_step E ev p q \<Longrightarrow> pr_returned (promise_of p) = None"
  by (induction rule: pam_step.induct) (auto simp: promise_of_def main_done_def split: phase.splits)

lemma pam_step_done: "pam_step E ev p q \<Longrightarrow> pr_returned (promise_of q) = None \<or> pr_returned (promise_of q) = Some (pr_code (promise_of q))"
  by (induction rule: pam_step.induct)
    (auto simp: promise_of_def main_done_def enter_def split: phase.splits sum.splits)

lemma pam_step_verified:
  assumes "pam_step E ev p q" and "verified (pm_ud p)"
  shows "verified (pm_ud q)"
  using assms
proof (induction rule: pam_step.induct)
  case (thread p ud')
  with verified_extends [OF thread_extends [OF thread.hyps(2)]] show ?case by simp
next
  case (status p m r ud')
  with core_verified [OF keeps_core [OF bus_signal_deal_inv(1) [OF status.hyps(3)]]] show ?case by simp
next
  case (status_unread p m ud')
  with core_verified [OF keeps_core [OF bus_signal_deal_inv(1) [OF status_unread.hyps(3)]]] show ?case by simp
next
  case (result p m)
  then show ?case by (auto simp: call_getResult_cb_def verified_def has_effect_def emit_def Let_def split: prod.splits)
next
  case (key p err m)
  then show ?case
    by (auto simp: enter_def split: sum.splits elim!: cbind_InrE dest: core_verified [OF call_encryptKey_cb_core])
next
  case (store p r)
  then show ?case
    by (auto simp: bus_signal_store_def verified_def has_effect_def emit_def Let_def split: option.splits)
next
  case (bus_error p)
  then show ?case by (auto simp: verified_def has_effect_def)
next
  case (data p)
  then show ?case by (auto simp: set_result_data_def verified_def has_effect_def emit_def)
next
  case (close p)
  with core_verified [OF clean_bus_core] show ?case by simp
next
  case (join p ud')
  with verified_extends [OF clean_auth_data_eq(1) [OF join.hyps(2)]] show ?case by simp
qed simp_all

lemma pam_step_refines:
  assumes "pam_step E ev p q" and "pam_inv p"
  shows "promise_run (promise_of p) (promise_of q)"
proof (rule promise_runI)
  show "pr_returned (promise_of p) = None" by (rule pam_step_not_done [OF assms(1)])
  show "pr_verified (promise_of p) \<longrightarrow> pr_verified (promise_of q)"
    using pam_step_verified [OF assms(1)] by (simp add: promise_of_def)
  show "pr_code (promise_of q) = PAM_SUCCESS \<longrightarrow> pr_verified (promise_of q)"
    using ud_inv_verified [of "pm_ud q"] pam_step_inv [OF assms] by (simp add: promise_of_def pam_inv_def)
  show "pr_returned (promise_of q) = None \<or> pr_returned (promise_of q) = Some (pr_code (promise_of q))"
    by (rule pam_step_done [OF assms(1)])
qed

lemma pam_run_refines: "pam_run E evs p q \<Longrightarrow> pam_inv p \<Longrightarrow> promise_run (promise_of p) (promise_of q)"
  by (induction rule: pam_run.induct) (auto intro: pam_step_refines pam_step_inv rtranclp_trans)


end
