(* ===== verification/Auth_Base.thy ===== *)
theory Auth_Base
  imports Crypto
begin

text \<open>
  The ground of the client library (\<open>lib/src/auth\<close>): its types, the objects it owns, the calls it
  makes through the generated D-Bus stubs, and its error values.

  \<^item> The objects the library allocates or holds a reference to are addresses; \<open>lib\<close> holds which are
    live and the strings behind them. Releasing an address that is not live is \<open>Double_Free\<close>, using
    one is \<open>Use_After_Free\<close>.
  \<^item> The D-Bus stubs are generated code: each is one synchronous call, whose answer is a function of
    the calls made so far (record \<open>da_bus\<close>).
  \<^item> The out parameter \<open>err\<close> is the value stored through it where it is not null.
\<close>

subsection \<open>Types\<close>

datatype DA_AUTH_FLAG =
  AUTH_FLAG_PASSWORD | AUTH_FLAG_FINGERPRINT | AUTH_FLAG_FACE | AUTH_FLAG_AD | AUTH_FLAG_UKEY
  | AUTH_FLAG_FINGERVEIN | AUTH_FLAG_IRIS | AUTH_FLAG_ALL

definition flag_value :: "DA_AUTH_FLAG \<Rightarrow> int" where
  "flag_value f =
     (case f of
        AUTH_FLAG_PASSWORD \<Rightarrow> 1 | AUTH_FLAG_FINGERPRINT \<Rightarrow> 2 | AUTH_FLAG_FACE \<Rightarrow> 4 | AUTH_FLAG_AD \<Rightarrow> 8
      | AUTH_FLAG_UKEY \<Rightarrow> 16 | AUTH_FLAG_FINGERVEIN \<Rightarrow> 32 | AUTH_FLAG_IRIS \<Rightarrow> 64 | AUTH_FLAG_ALL \<Rightarrow> - 1)"

record da_limit_info =
  li_type :: "string option"          \<comment> \<open>none: the array was not written\<close>
  li_locked :: bool
  li_max_tries :: int
  li_fail_num :: int
  li_unlock_time :: "string option"
  li_flag :: int
  li_unlock_secs :: int

record da_factor_info =
  fi_auth_type :: int
  fi_priority :: int
  fi_input_type :: int
  fi_required :: bool

record da_error =
  er_code :: int
  er_msg :: string

type_synonym callback = "nat \<times> nat"
  \<comment> \<open>a function pointer and its user data\<close>

record 'k da_proxy =
  px_self :: nat
  px_username :: "nat option"
  px_auth :: "nat option"
  px_sess :: "nat option"
  px_path :: "nat option"
  px_log :: bool
  px_limit_cb :: "callback option"
  px_status_cb :: "callback option"
  px_pubkey :: "nat option"
  px_enc_type :: int
  px_enc_method :: "nat option"
  px_symkey :: "nat option"
  px_key :: "nat option"
  px_rsa :: "'k option"               \<comment> \<open>\<open>key->rsa\<close>, released with \<open>key\<close>\<close>

subsection \<open>Calls and events\<close>

datatype lcall =
    New_Manager_Proxy | New_Session_Proxy string
  | L_Authenticate string int int | L_GetLimits string | L_PreOneKeyLogin int
  | L_EncryptKey int "int list" | L_SetSymmetricKey "char list" | L_SetToken int "char list"
  | L_End int | L_GetResult | L_PrivilegesDisable | L_PrivilegesEnable string | L_SetQuitFlag int
  | L_Start int int | L_Get string string

datatype user_event =
    Ev_Log string
  | Ev_Limit_Cb callback "da_limit_info option list" nat
  | Ev_Status_Cb callback int int string

type_synonym gerror = "int \<times> string"

record da_bus =
  db_connect :: bool
  db_proxy :: "lcall list \<Rightarrow> lcall \<Rightarrow> gerror + bool"
  db_unit :: "lcall list \<Rightarrow> lcall \<Rightarrow> gerror option"
  db_int :: "lcall list \<Rightarrow> lcall \<Rightarrow> gerror + int"
  db_bool :: "lcall list \<Rightarrow> lcall \<Rightarrow> gerror + bool"
  db_str :: "lcall list \<Rightarrow> lcall \<Rightarrow> gerror + string option"
  db_key :: "lcall list \<Rightarrow> lcall \<Rightarrow> gerror + int \<times> string"
  db_factors :: "lcall list \<Rightarrow> lcall \<Rightarrow> gerror + da_factor_info list option"

record lib =
  lb_next :: nat
  lb_live :: "nat list"
  lb_str :: "nat \<Rightarrow> string"
  lb_calls :: "lcall list"
  lb_user :: "user_event list"

record ('j, 'k) da_env =
  de_bus :: da_bus
  de_json :: "'j jsonc"
  de_ssl :: "'k openssl"
  de_sys :: sysenv
  de_rand :: "lcall list \<Rightarrow> nat"
  de_now :: "lcall list \<Rightarrow> int"

definition lib_alloc :: "string \<Rightarrow> lib \<Rightarrow> nat \<times> lib" where
  "lib_alloc s st =
     (lb_next st,
      st\<lparr>lb_next := Suc (lb_next st), lb_live := lb_next st # lb_live st, lb_str := (lb_str st)(lb_next st := s)\<rparr>)"

definition lib_free :: "nat option \<Rightarrow> lib \<Rightarrow> lib cres" where
  \<comment> \<open>a null pointer is left alone\<close>
  "lib_free a st =
     (case a of
        None \<Rightarrow> Inr st
      | Some x \<Rightarrow> if x \<in> set (lb_live st) then Inr (st\<lparr>lb_live := removeAll x (lb_live st)\<rparr>) else Inl Double_Free)"

definition lib_deref :: "nat option \<Rightarrow> lib \<Rightarrow> string cres" where
  "lib_deref a st =
     (case a of
        None \<Rightarrow> Inl Null_Deref
      | Some x \<Rightarrow> if x \<in> set (lb_live st) then Inr (lb_str st x) else Inl Use_After_Free)"

definition lib_log :: "lcall \<Rightarrow> lib \<Rightarrow> lib" where
  "lib_log c st = st\<lparr>lb_calls := lb_calls st @ [c]\<rparr>"

definition LOG_CB :: "'k da_proxy \<Rightarrow> string \<Rightarrow> lib \<Rightarrow> lib" where
  "LOG_CB p s st = (if px_log p then st\<lparr>lb_user := lb_user st @ [Ev_Log s]\<rparr> else st)"

subsection \<open>Errors and checks\<close>

definition error_dup :: "gerror \<Rightarrow> da_error" where
  "error_dup e = \<lparr>er_code = fst e, er_msg = snd e\<rparr>"

definition error_new :: "string \<Rightarrow> da_error" where
  "error_new msg = \<lparr>er_code = - 1, er_msg = msg\<rparr>"

definition valid_object :: "nat option \<Rightarrow> lib \<Rightarrow> bool cres" where
  \<comment> \<open>the type check of GObject on a pointer: false for null\<close>
  "valid_object a st =
     (case a of
        None \<Rightarrow> Inr False
      | Some x \<Rightarrow> if x \<in> set (lb_live st) then Inr True else Inl Use_After_Free)"

definition has_valid_authenticate_proxy :: "'k da_proxy option \<Rightarrow> lib \<Rightarrow> bool cres" where
  "has_valid_authenticate_proxy p st = (case p of None \<Rightarrow> Inr False | Some p \<Rightarrow> valid_object (px_auth p) st)"

definition has_valid_session_proxy :: "'k da_proxy option \<Rightarrow> lib \<Rightarrow> bool cres" where
  "has_valid_session_proxy p st = (case p of None \<Rightarrow> Inr False | Some p \<Rightarrow> valid_object (px_sess p) st)"

type_synonym 'a da_res = "int \<times> 'a option \<times> da_error option"
  \<comment> \<open>the C result, the value stored through the out parameter, the error stored through \<open>err\<close>\<close>

definition on_manager :: "'k da_proxy option \<Rightarrow> lib \<Rightarrow> ('a da_res \<times> lib) cres \<Rightarrow> ('a da_res \<times> lib) cres" where
  \<comment> \<open>\<open>g_return_val_if_fail(has_valid_authenticate_proxy(proxy), -1)\<close>\<close>
  "on_manager p st m =
     cbind (has_valid_authenticate_proxy p st) (\<lambda>ok. if ok then m else Inr ((- 1, None, None), st))"

definition on_session :: "'k da_proxy option \<Rightarrow> lib \<Rightarrow> ('a da_res \<times> lib) cres \<Rightarrow> ('a da_res \<times> lib) cres" where
  \<comment> \<open>\<open>g_return_val_if_fail(has_valid_session_proxy(proxy), -1)\<close>\<close>
  "on_session p st m =
     cbind (has_valid_session_proxy p st) (\<lambda>ok. if ok then m else Inr ((- 1, None, None), st))"

subsection \<open>One synchronous call\<close>

definition unit_call :: "('j, 'k) da_env \<Rightarrow> lcall \<Rightarrow> lib \<Rightarrow> 'a da_res \<times> lib" where
  "unit_call D c st =
     (case db_unit (de_bus D) (lb_calls st) c of
        Some e \<Rightarrow> ((- 1, None, Some (error_dup e)), lib_log c st)
      | None \<Rightarrow> ((0, None, None), lib_log c st))"

definition value_call :: "(lcall list \<Rightarrow> lcall \<Rightarrow> gerror + 'a) \<Rightarrow> lcall \<Rightarrow> lib \<Rightarrow> 'a da_res \<times> lib" where
  \<comment> \<open>the stub stores its result on success only\<close>
  "value_call f c st =
     (case f (lb_calls st) c of
        Inl e \<Rightarrow> ((- 1, None, Some (error_dup e)), lib_log c st)
      | Inr v \<Rightarrow> ((0, Some v, None), lib_log c st))"

subsection \<open>Facts on the heap\<close>

lemma lib_alloc_fields:
  assumes "lib_alloc s st = (a, st')"
  shows "a = lb_next st" "lb_live st' = a # lb_live st" "lb_next st' = Suc a" "lb_str st' a = s"
    "x \<noteq> a \<Longrightarrow> lb_str st' x = lb_str st x" "lb_calls st' = lb_calls st" "lb_user st' = lb_user st"
  using assms by (auto simp: lib_alloc_def)

lemma lib_log_fields [simp]:
  "lb_live (lib_log c st) = lb_live st" "lb_next (lib_log c st) = lb_next st"
  "lb_str (lib_log c st) = lb_str st" "lb_calls (lib_log c st) = lb_calls st @ [c]"
  "lb_user (lib_log c st) = lb_user st"
  by (simp_all add: lib_log_def)

lemma lib_free_simps [simp]:
  "lib_free None st = Inr st"
  "x \<in> set (lb_live st) \<Longrightarrow> lib_free (Some x) st = Inr (st\<lparr>lb_live := removeAll x (lb_live st)\<rparr>)"
  "x \<notin> set (lb_live st) \<Longrightarrow> lib_free (Some x) st = Inl Double_Free"
  by (simp_all add: lib_free_def)

lemma valid_object_simps [simp]:
  "valid_object None st = Inr False"
  "x \<in> set (lb_live st) \<Longrightarrow> valid_object (Some x) st = Inr True"
  "x \<notin> set (lb_live st) \<Longrightarrow> valid_object (Some x) st = Inl Use_After_Free"
  by (simp_all add: valid_object_def)

end
