(* ===== verification/Gdbus_Base.thy ===== *)
theory Gdbus_Base
  imports Auth_Base
begin

text \<open>
  The ground of the code gdbus-codegen made for the two interfaces of the service
  (\<open>lib/src/auth/com.deepin.daemon.Authenticate.c\<close> and \<open>...Session.c\<close>): D-Bus values with their type
  strings, GObject values with the comparison the generated code brings along, and the records of
  the introspection data. GLib's conversion between the two kinds of values is the parameter \<open>gio\<close>.
\<close>

subsection \<open>D-Bus values\<close>

datatype gty =
    T_String | T_Int | T_Bool | T_Byte | T_Variant
  | T_Array gty | T_Tuple "gty list" | T_Entry gty gty

primrec gty_string :: "gty \<Rightarrow> string" where
  "gty_string T_String = ''s''"
| "gty_string T_Int = ''i''"
| "gty_string T_Bool = ''b''"
| "gty_string T_Byte = ''y''"
| "gty_string T_Variant = ''v''"
| "gty_string (T_Array t) = CHR ''a'' # gty_string t"
| "gty_string (T_Tuple ts) = CHR ''('' # concat (map gty_string ts) @ '')''"
| "gty_string (T_Entry k t) = CHR ''{'' # gty_string k @ gty_string t @ ''}''"

datatype gvariant =
    G_String string
  | G_Int int
  | G_Bool bool
  | G_Byte char
  | G_Array gty "gvariant list"      \<comment> \<open>with the type of its elements\<close>
  | G_Tuple "gvariant list"
  | G_Variant gvariant
  | G_Entry gvariant gvariant

primrec gv_type :: "gvariant \<Rightarrow> gty" where
  "gv_type (G_String s) = T_String"
| "gv_type (G_Int i) = T_Int"
| "gv_type (G_Bool b) = T_Bool"
| "gv_type (G_Byte c) = T_Byte"
| "gv_type (G_Array t vs) = T_Array t"
| "gv_type (G_Tuple vs) = T_Tuple (map gv_type vs)"
| "gv_type (G_Variant v) = T_Variant"
| "gv_type (G_Entry k v) = T_Entry (gv_type k) (gv_type v)"

definition type_string :: "gvariant \<Rightarrow> string" where
  "type_string v = gty_string (gv_type v)"

primrec gv_ok :: "gvariant \<Rightarrow> bool" where
  \<comment> \<open>what a message can hold: 32-bit integers, strings without NUL, arrays of one type\<close>
  "gv_ok (G_String s) = nul_free s"
| "gv_ok (G_Int i) = int_range i"
| "gv_ok (G_Bool b) = True"
| "gv_ok (G_Byte c) = True"
| "gv_ok (G_Array t vs) = (list_all gv_ok vs \<and> list_all (\<lambda>v. gv_type v = t) vs)"
| "gv_ok (G_Tuple vs) = list_all gv_ok vs"
| "gv_ok (G_Variant v) = gv_ok v"
| "gv_ok (G_Entry k v) = (gv_ok k \<and> gv_ok v)"

text \<open>A type string tells the type: no type string is a proper prefix of another.\<close>

lemma gty_string_head: "gty_string t @ xs \<noteq> CHR '')'' # ys" "CHR '')'' # ys \<noteq> gty_string t @ xs"
  by (cases t; simp)+

lemma gty_strings_prefix_free:
  assumes "\<And>t xs u ys. t \<in> set ts \<Longrightarrow> gty_string t @ xs = gty_string u @ ys \<Longrightarrow> t = u \<and> xs = ys"
    and "concat (map gty_string ts) @ CHR '')'' # xs = concat (map gty_string us) @ CHR '')'' # ys"
  shows "ts = us \<and> xs = ys"
  using assms
proof (induction ts arbitrary: us)
  case Nil
  then show ?case using gty_string_head by (cases us) auto
next
  case (Cons t ts)
  show ?case
  proof (cases us)
    case Nil
    with Cons.prems(2) show ?thesis by (simp add: gty_string_head)
  next
    case (Cons u us')
    have "t = u \<and> concat (map gty_string ts) @ CHR '')'' # xs = concat (map gty_string us') @ CHR '')'' # ys"
      by (rule Cons.prems(1)) (use Cons.prems(2) Cons in simp_all)
    moreover from this have "ts = us' \<and> xs = ys" using Cons.prems(1) by (intro Cons.IH) auto
    ultimately show ?thesis using Cons by simp
  qed
qed

lemma gty_string_prefix_free: "gty_string t @ xs = gty_string u @ ys \<Longrightarrow> t = u \<and> xs = ys"
proof (induction t arbitrary: u xs ys)
  case (T_Array t)
  then show ?case by (cases u) auto
next
  case (T_Tuple ts)
  then show ?case using gty_strings_prefix_free [of ts xs _ ys] by (cases u) auto
next
  case (T_Entry k t)
  show ?case
  proof (cases u)
    case (T_Entry k' t')
    with T_Entry.prems have "k = k' \<and> gty_string t @ CHR ''}'' # xs = gty_string t' @ CHR ''}'' # ys"
      using T_Entry.IH(1) [of "gty_string t @ CHR ''}'' # xs" k'] by simp
    with T_Entry T_Entry.IH(2) [of "CHR ''}'' # xs" t'] show ?thesis by simp
  qed (use T_Entry.prems in simp_all)
qed (simp_all, (case_tac u; simp)+)

lemma gty_string_inject [simp]: "gty_string t = gty_string u \<longleftrightarrow> t = u"
  using gty_string_prefix_free [of t "[]" u "[]"] by auto

definition bytestring :: "char list \<Rightarrow> gvariant" where
  "bytestring b = G_Array T_Byte (map G_Byte b)"

definition int_array :: "int list \<Rightarrow> gvariant" where
  "int_array is = G_Array T_Int (map G_Int is)"

lemma bytestring_typed [simp]: "gv_type (bytestring b) = T_Array T_Byte" "gv_ok (bytestring b)"
  by (simp_all add: bytestring_def list_all_iff)

lemma int_array_typed [simp]:
  "gv_type (int_array is) = T_Array T_Int" "gv_ok (int_array is) \<longleftrightarrow> list_all int_range is"
  by (auto simp: int_array_def list_all_iff)

text \<open>The values of a type.\<close>

lemma gv_type_basic [simp]:
  "gv_type v = T_String \<longleftrightarrow> (\<exists>s. v = G_String s)" "gv_type v = T_Int \<longleftrightarrow> (\<exists>i. v = G_Int i)"
  "gv_type v = T_Bool \<longleftrightarrow> (\<exists>b. v = G_Bool b)" "gv_type v = T_Tuple ts \<longleftrightarrow> (\<exists>vs. v = G_Tuple vs \<and> map gv_type vs = ts)"
  "gv_type v = T_Array t \<longleftrightarrow> (\<exists>vs. v = G_Array t vs)"
  by (cases v; auto)+

subsection \<open>GObject values\<close>

datatype gtype =
    GT_Boolean | GT_UChar | GT_Int | GT_UInt | GT_Int64 | GT_UInt64 | GT_Double | GT_String | GT_Variant
  | GT_Strv | GT_Other

datatype gvalue =
    GV_Boolean bool
  | GV_UChar "8 word"
  | GV_Int int
  | GV_UInt "32 word"
  | GV_Int64 "64 word"
  | GV_UInt64 "64 word"
  | GV_Double "64 word"                 \<comment> \<open>the bits of the number\<close>
  | GV_String "string option"
  | GV_Variant "gvariant option"
  | GV_Strv "string list option"
  | GV_Other

primrec gtype_of :: "gvalue \<Rightarrow> gtype" where
  "gtype_of (GV_Boolean b) = GT_Boolean"
| "gtype_of (GV_UChar b) = GT_UChar"
| "gtype_of (GV_Int b) = GT_Int"
| "gtype_of (GV_UInt b) = GT_UInt"
| "gtype_of (GV_Int64 b) = GT_Int64"
| "gtype_of (GV_UInt64 b) = GT_UInt64"
| "gtype_of (GV_Double b) = GT_Double"
| "gtype_of (GV_String b) = GT_String"
| "gtype_of (GV_Variant b) = GT_Variant"
| "gtype_of (GV_Strv b) = GT_Strv"
| "gtype_of GV_Other = GT_Other"

fun strv_same :: "string list \<Rightarrow> string list \<Rightarrow> bool" where
  \<comment> \<open>the loop of \<open>_g_strv_equal0\<close>, on arrays of one length\<close>
  "strv_same (a # as) (b # bs) \<longleftrightarrow> a = b \<and> strv_same as bs"
| "strv_same _ _ \<longleftrightarrow> True"

definition g_strv_equal0 :: "string list option \<Rightarrow> string list option \<Rightarrow> bool" where
  "g_strv_equal0 a b =
     (case (a, b) of
        (None, None) \<Rightarrow> True
      | (Some as, Some bs) \<Rightarrow> if length as \<noteq> length bs then False else strv_same as bs
      | _ \<Rightarrow> False)"

definition g_variant_equal0 :: "gvariant option \<Rightarrow> gvariant option \<Rightarrow> bool" where
  "g_variant_equal0 a b =
     (case (a, b) of (None, None) \<Rightarrow> True | (Some v, Some w) \<Rightarrow> v = w | _ \<Rightarrow> False)"

definition g_value_equal :: "gvalue \<Rightarrow> gvalue \<Rightarrow> bool cres" where
  \<comment> \<open>the assertion on the types, then the comparison; a type it does not know is never equal\<close>
  "g_value_equal a b =
     (if gtype_of a \<noteq> gtype_of b then Inl Assert_Fail
      else Inr (case (a, b) of
          (GV_Boolean x, GV_Boolean y) \<Rightarrow> x = y
        | (GV_UChar x, GV_UChar y) \<Rightarrow> x = y
        | (GV_Int x, GV_Int y) \<Rightarrow> x = y
        | (GV_UInt x, GV_UInt y) \<Rightarrow> x = y
        | (GV_Int64 x, GV_Int64 y) \<Rightarrow> x = y
        | (GV_UInt64 x, GV_UInt64 y) \<Rightarrow> x = y
        | (GV_Double x, GV_Double y) \<Rightarrow> x = y
        | (GV_String x, GV_String y) \<Rightarrow> x = y
        | (GV_Variant x, GV_Variant y) \<Rightarrow> g_variant_equal0 x y
        | (GV_Strv x, GV_Strv y) \<Rightarrow> g_strv_equal0 x y
        | _ \<Rightarrow> False))"

lemma strv_same_eq: "length as = length bs \<Longrightarrow> strv_same as bs \<longleftrightarrow> as = bs"
  by (induction "as" bs rule: list_induct2) simp_all

lemma g_strv_equal0_eq [simp]: "g_strv_equal0 a b \<longleftrightarrow> a = b"
  by (auto simp: g_strv_equal0_def strv_same_eq split: option.splits)

lemma g_variant_equal0_eq [simp]: "g_variant_equal0 a b \<longleftrightarrow> a = b"
  by (auto simp: g_variant_equal0_def split: option.splits)

lemma g_value_equal_eq:
  "gtype_of a = gtype_of b \<Longrightarrow> gtype_of a \<noteq> GT_Other \<Longrightarrow> g_value_equal a b = Inr (a = b)"
  by (cases a; cases b) (simp_all add: g_value_equal_def)

subsection \<open>Introspection data\<close>

record gdbus_arg =
  ga_name :: string
  ga_sig :: string
  ga_use_gvariant :: bool

record gdbus_method =
  gm_name :: string
  gm_in :: "gdbus_arg list"
  gm_out :: "gdbus_arg list"
  gm_signal :: string
  gm_pass_fdlist :: bool

record gdbus_signal =
  gs_name :: string
  gs_args :: "gdbus_arg list"
  gs_signal :: string

record gdbus_property =
  gp_name :: string
  gp_sig :: string
  gp_readable :: bool
  gp_hyphen :: string
  gp_use_gvariant :: bool

record gdbus_interface =
  gi_name :: string
  gi_methods :: "gdbus_method list"
  gi_signals :: "gdbus_signal list"
  gi_properties :: "gdbus_property list"
  gi_hyphen :: string

abbreviation plain_arg :: "string \<Rightarrow> string \<Rightarrow> gdbus_arg" where
  "plain_arg name sig \<equiv> \<lparr>ga_name = name, ga_sig = sig, ga_use_gvariant = False\<rparr>"

abbreviation readable_property :: "string \<Rightarrow> string \<Rightarrow> string \<Rightarrow> gdbus_property" where
  "readable_property name sig hyphen \<equiv>
     \<lparr>gp_name = name, gp_sig = sig, gp_readable = True, gp_hyphen = hyphen, gp_use_gvariant = False\<rparr>"

definition tuple_sig :: "gdbus_arg list \<Rightarrow> string" where
  "tuple_sig args = ''('' @ concat (map ga_sig args) @ '')''"

definition lookup_method :: "gdbus_interface \<Rightarrow> string \<Rightarrow> gdbus_method option" where
  \<comment> \<open>GLib: the first of that name\<close>
  "lookup_method I name = find (\<lambda>m. gm_name m = name) (gi_methods I)"

definition lookup_signal :: "gdbus_interface \<Rightarrow> string \<Rightarrow> gdbus_signal option" where
  "lookup_signal I name = find (\<lambda>m. gs_name m = name) (gi_signals I)"

definition lookup_property :: "gdbus_interface \<Rightarrow> string \<Rightarrow> gdbus_property option" where
  "lookup_property I name = find (\<lambda>m. gp_name m = name) (gi_properties I)"

subsection \<open>GLib\<close>

text \<open>
  GLib's conversions are a parameter. What the generated code relies on is what their documentation
  says of the types in use: strings, integers and truth values become values of these types, an array
  of another type stays a variant, and back.
\<close>

record gio =
  to_gvalue :: "gvariant \<Rightarrow> gvalue"
  to_gvariant :: "gvalue \<Rightarrow> string \<Rightarrow> gvariant"

definition gio_contract :: "gio \<Rightarrow> bool" where
  "gio_contract G \<longleftrightarrow>
     (\<forall>s. to_gvalue G (G_String s) = GV_String (Some s)) \<and> (\<forall>i. to_gvalue G (G_Int i) = GV_Int i)
     \<and> (\<forall>b. to_gvalue G (G_Bool b) = GV_Boolean b)
     \<and> (\<forall>t vs. t \<notin> {T_String, T_Byte, T_Array T_Byte} \<longrightarrow> to_gvalue G (G_Array t vs) = GV_Variant (Some (G_Array t vs)))
     \<and> (\<forall>s. to_gvariant G (GV_String (Some s)) ''s'' = G_String s)
     \<and> (\<forall>i. to_gvariant G (GV_Int i) ''i'' = G_Int i) \<and> (\<forall>b. to_gvariant G (GV_Boolean b) ''b'' = G_Bool b)
     \<and> (\<forall>v. to_gvariant G (GV_Variant (Some v)) (type_string v) = v)"

end
