(* ===== verification/Gdbus_Tables.thy ===== *)
theory Gdbus_Tables
  imports Gdbus_Base
begin

text \<open>
  The introspection data of the two interfaces, as the generated code holds it: one definition for each
  method and signal, the properties, and what the interfaces register with GObject (a signal for every
  incoming call and every received signal, a property for every D-Bus property).
\<close>

subsection \<open>\<open>com.deepin.daemon.Authenticate\<close>\<close>

definition manager_method_info_authenticate :: gdbus_method where
  "manager_method_info_authenticate =
     \<lparr>gm_name = ''Authenticate'',
      gm_in = [plain_arg ''username'' ''s'', plain_arg ''authFlags'' ''i'', plain_arg ''appType'' ''i''],
      gm_out = [plain_arg ''path'' ''s''],
      gm_signal = ''handle-authenticate'', gm_pass_fdlist = False\<rparr>"

definition manager_method_info_get_limits :: gdbus_method where
  "manager_method_info_get_limits =
     \<lparr>gm_name = ''GetLimits'',
      gm_in = [plain_arg ''username'' ''s''],
      gm_out = [plain_arg ''limits'' ''s''],
      gm_signal = ''handle-get-limits'', gm_pass_fdlist = False\<rparr>"

definition manager_method_info_pre_one_key_login :: gdbus_method where
  "manager_method_info_pre_one_key_login =
     \<lparr>gm_name = ''PreOneKeyLogin'',
      gm_in = [plain_arg ''flag'' ''i''],
      gm_out = [plain_arg ''result'' ''s''],
      gm_signal = ''handle-pre-one-key-login'', gm_pass_fdlist = False\<rparr>"

definition manager_signal_info_limit_updated :: gdbus_signal where
  "manager_signal_info_limit_updated =
     \<lparr>gs_name = ''LimitUpdated'',
      gs_args = [plain_arg ''username'' ''s''],
      gs_signal = ''limit-updated''\<rparr>"

definition manager_property_info :: "gdbus_property list" where
  "manager_property_info =
     [readable_property ''SupportEncrypts'' ''s'' ''support-encrypts'',
      readable_property ''FrameworkState'' ''i'' ''framework-state'',
      readable_property ''SupportedFlags'' ''i'' ''supported-flags'']"

definition manager_methods :: "gdbus_method list" where
  "manager_methods =
     [manager_method_info_authenticate,
      manager_method_info_get_limits,
      manager_method_info_pre_one_key_login]"

definition manager_interface_info :: gdbus_interface where
  "manager_interface_info =
     \<lparr>gi_name = ''com.deepin.daemon.Authenticate'', gi_methods = manager_methods,
      gi_signals = [manager_signal_info_limit_updated],
      gi_properties = manager_property_info, gi_hyphen = ''com-deepin-daemon-authenticate''\<rparr>"

definition manager_gobject_signals :: "(string \<times> gtype list) list" where
  \<comment> \<open>the signals for incoming calls, without the invocation they all carry, and for received signals\<close>
  "manager_gobject_signals =
     [(''handle-authenticate'', [GT_String, GT_Int, GT_Int]),
      (''handle-get-limits'', [GT_String]),
      (''handle-pre-one-key-login'', [GT_Int]),
      (''limit-updated'', [GT_String])]"

definition manager_gobject_properties :: "(string \<times> gtype) list" where
  "manager_gobject_properties =
     [(''support-encrypts'', GT_String),
      (''framework-state'', GT_Int),
      (''supported-flags'', GT_Int)]"

subsection \<open>\<open>com.deepin.daemon.Authenticate.Session\<close>\<close>

definition session_method_info_encrypt_key :: gdbus_method where
  "session_method_info_encrypt_key =
     \<lparr>gm_name = ''EncryptKey'',
      gm_in = [plain_arg ''encryptType'' ''i'', plain_arg ''encryptMethod'' ''ai''],
      gm_out = [plain_arg ''encType'' ''i'', plain_arg ''encMethod'' ''ai'', plain_arg ''pubKey'' ''s''],
      gm_signal = ''handle-encrypt-key'', gm_pass_fdlist = False\<rparr>"

definition session_method_info_end :: gdbus_method where
  "session_method_info_end =
     \<lparr>gm_name = ''End'',
      gm_in = [plain_arg ''flag'' ''i''],
      gm_out = [plain_arg ''failNum'' ''i''],
      gm_signal = ''handle-end'', gm_pass_fdlist = False\<rparr>"

definition session_method_info_get_result :: gdbus_method where
  "session_method_info_get_result =
     \<lparr>gm_name = ''GetResult'',
      gm_in = [],
      gm_out = [plain_arg ''result'' ''i''],
      gm_signal = ''handle-get-result'', gm_pass_fdlist = False\<rparr>"

definition session_method_info_privileges_disable :: gdbus_method where
  "session_method_info_privileges_disable =
     \<lparr>gm_name = ''PrivilegesDisable'',
      gm_in = [],
      gm_out = [],
      gm_signal = ''handle-privileges-disable'', gm_pass_fdlist = False\<rparr>"

definition session_method_info_privileges_enable :: gdbus_method where
  "session_method_info_privileges_enable =
     \<lparr>gm_name = ''PrivilegesEnable'',
      gm_in = [plain_arg ''masterPath'' ''s''],
      gm_out = [plain_arg ''enabled'' ''b''],
      gm_signal = ''handle-privileges-enable'', gm_pass_fdlist = False\<rparr>"

definition session_method_info_quit :: gdbus_method where
  "session_method_info_quit =
     \<lparr>gm_name = ''Quit'',
      gm_in = [],
      gm_out = [],
      gm_signal = ''handle-quit'', gm_pass_fdlist = False\<rparr>"

definition session_method_info_set_quit_flag :: gdbus_method where
  "session_method_info_set_quit_flag =
     \<lparr>gm_name = ''SetQuitFlag'',
      gm_in = [plain_arg ''method'' ''i''],
      gm_out = [],
      gm_signal = ''handle-set-quit-flag'', gm_pass_fdlist = False\<rparr>"

definition session_method_info_set_token :: gdbus_method where
  "session_method_info_set_token =
     \<lparr>gm_name = ''SetToken'',
      gm_in = [plain_arg ''flag'' ''i'', \<lparr>ga_name = ''token'', ga_sig = ''ay'', ga_use_gvariant = True\<rparr>],
      gm_out = [],
      gm_signal = ''handle-set-token'', gm_pass_fdlist = False\<rparr>"

definition session_method_info_start :: gdbus_method where
  "session_method_info_start =
     \<lparr>gm_name = ''Start'',
      gm_in = [plain_arg ''flag'' ''i'', plain_arg ''timeout'' ''i''],
      gm_out = [plain_arg ''failNum'' ''i''],
      gm_signal = ''handle-start'', gm_pass_fdlist = False\<rparr>"

definition session_method_info_set_symmetric_key :: gdbus_method where
  "session_method_info_set_symmetric_key =
     \<lparr>gm_name = ''SetSymmetricKey'',
      gm_in = [\<lparr>ga_name = ''key'', ga_sig = ''ay'', ga_use_gvariant = True\<rparr>],
      gm_out = [],
      gm_signal = ''handle-set-symmetric-key'', gm_pass_fdlist = False\<rparr>"

definition session_signal_info_status :: gdbus_signal where
  "session_signal_info_status =
     \<lparr>gs_name = ''Status'',
      gs_args = [plain_arg ''flag'' ''i'', plain_arg ''status'' ''i'', plain_arg ''msg'' ''s''],
      gs_signal = ''status''\<rparr>"

definition session_property_info :: "gdbus_property list" where
  "session_property_info =
     [readable_property ''IsMFA'' ''b'' ''is-mfa'',
      readable_property ''Prompt'' ''s'' ''prompt'',
      readable_property ''FactorsInfo'' ''a(iiib)'' ''factors-info'',
      readable_property ''Username'' ''s'' ''username'',
      readable_property ''PINLen'' ''i'' ''pinlen'',
      readable_property ''PrgPath'' ''s'' ''prg-path'']"

definition session_methods :: "gdbus_method list" where
  "session_methods =
     [session_method_info_encrypt_key,
      session_method_info_end,
      session_method_info_get_result,
      session_method_info_privileges_disable,
      session_method_info_privileges_enable,
      session_method_info_quit,
      session_method_info_set_quit_flag,
      session_method_info_set_token,
      session_method_info_start,
      session_method_info_set_symmetric_key]"

definition session_interface_info :: gdbus_interface where
  "session_interface_info =
     \<lparr>gi_name = ''com.deepin.daemon.Authenticate.Session'', gi_methods = session_methods,
      gi_signals = [session_signal_info_status],
      gi_properties = session_property_info, gi_hyphen = ''com-deepin-daemon-authenticate-session''\<rparr>"

definition session_gobject_signals :: "(string \<times> gtype list) list" where
  \<comment> \<open>the signals for incoming calls, without the invocation they all carry, and for received signals\<close>
  "session_gobject_signals =
     [(''handle-encrypt-key'', [GT_Int, GT_Variant]),
      (''handle-end'', [GT_Int]),
      (''handle-get-result'', []),
      (''handle-privileges-disable'', []),
      (''handle-privileges-enable'', [GT_String]),
      (''handle-quit'', []),
      (''handle-set-quit-flag'', [GT_Int]),
      (''handle-set-token'', [GT_Int, GT_Variant]),
      (''handle-start'', [GT_Int, GT_Int]),
      (''handle-set-symmetric-key'', [GT_Variant]),
      (''status'', [GT_Int, GT_Int, GT_String])]"

definition session_gobject_properties :: "(string \<times> gtype) list" where
  "session_gobject_properties =
     [(''is-mfa'', GT_Boolean),
      (''prompt'', GT_String),
      (''factors-info'', GT_Variant),
      (''username'', GT_String),
      (''pinlen'', GT_Int),
      (''prg-path'', GT_String)]"

end
