(* ===== verification/Gdbus_Client.thy ===== *)
theory Gdbus_Client
  imports Gdbus_Tables
begin

text \<open>
  The client half of the generated code: for every method the asynchronous call (the method and the
  message it sends), its \<open>_finish\<close> function (what it reads from the reply), the synchronous stub over a
  wire, and the \<open>_complete\<close> function a service answers with. Arguments of the C type \<open>GVariant *\<close> are
  passed on as they are. A reply that does not have the type of the reader's format string leaves the
  language (\<open>Bad_Format\<close>).
\<close>

subsection \<open>Reading a reply\<close>

type_synonym wire = "string \<Rightarrow> gvariant \<Rightarrow> gerror + gvariant"
  \<comment> \<open>\<open>g_dbus_proxy_call_sync\<close> on one proxy: method and parameters to error or reply\<close>

fun get_unit :: "gvariant \<Rightarrow> unit option" where
  "get_unit (G_Tuple []) = Some ()"
| "get_unit _ = None"

fun get_s :: "gvariant \<Rightarrow> string option" where
  "get_s (G_Tuple [G_String s]) = Some s"
| "get_s _ = None"

fun get_i :: "gvariant \<Rightarrow> int option" where
  "get_i (G_Tuple [G_Int i]) = Some i"
| "get_i _ = None"

fun get_b :: "gvariant \<Rightarrow> bool option" where
  "get_b (G_Tuple [G_Bool b]) = Some b"
| "get_b _ = None"

fun get_iais :: "gvariant \<Rightarrow> (int \<times> gvariant \<times> string) option" where
  "get_iais (G_Tuple [G_Int i, v, G_String s]) = (if gv_type v = T_Array T_Int then Some (i, v, s) else None)"
| "get_iais _ = None"

definition call_finish :: "(gvariant \<Rightarrow> 'a option) \<Rightarrow> gerror + gvariant \<Rightarrow> (gerror + 'a) cres" where
  \<comment> \<open>an error is passed on; a reply is read by its format\<close>
  "call_finish get ret =
     (case ret of
        Inl e \<Rightarrow> Inr (Inl e)
      | Inr v \<Rightarrow> (case get v of None \<Rightarrow> Inl Bad_Format | Some x \<Rightarrow> Inr (Inr x)))"

subsection \<open>The manager\<close>

definition manager_call_authenticate :: "string \<Rightarrow> int \<Rightarrow> int \<Rightarrow> string \<times> gvariant" where
  "manager_call_authenticate username authFlags appType = (''Authenticate'', G_Tuple [G_String username, G_Int authFlags, G_Int appType])"

definition manager_call_authenticate_finish :: "gerror + gvariant \<Rightarrow> (gerror + string) cres" where
  "manager_call_authenticate_finish res = call_finish get_s res"

definition manager_call_authenticate_sync :: "wire \<Rightarrow> string \<Rightarrow> int \<Rightarrow> int \<Rightarrow> (gerror + string) cres" where
  "manager_call_authenticate_sync X username authFlags appType = call_finish get_s (X ''Authenticate'' (G_Tuple [G_String username, G_Int authFlags, G_Int appType]))"

definition manager_complete_authenticate :: "string \<Rightarrow> gvariant" where
  "manager_complete_authenticate path = G_Tuple [G_String path]"

definition manager_call_get_limits :: "string \<Rightarrow> string \<times> gvariant" where
  "manager_call_get_limits username = (''GetLimits'', G_Tuple [G_String username])"

definition manager_call_get_limits_finish :: "gerror + gvariant \<Rightarrow> (gerror + string) cres" where
  "manager_call_get_limits_finish res = call_finish get_s res"

definition manager_call_get_limits_sync :: "wire \<Rightarrow> string \<Rightarrow> (gerror + string) cres" where
  "manager_call_get_limits_sync X username = call_finish get_s (X ''GetLimits'' (G_Tuple [G_String username]))"

definition manager_complete_get_limits :: "string \<Rightarrow> gvariant" where
  "manager_complete_get_limits limits = G_Tuple [G_String limits]"

definition manager_call_pre_one_key_login :: "int \<Rightarrow> string \<times> gvariant" where
  "manager_call_pre_one_key_login flag = (''PreOneKeyLogin'', G_Tuple [G_Int flag])"

definition manager_call_pre_one_key_login_finish :: "gerror + gvariant \<Rightarrow> (gerror + string) cres" where
  "manager_call_pre_one_key_login_finish res = call_finish get_s res"

definition manager_call_pre_one_key_login_sync :: "wire \<Rightarrow> int \<Rightarrow> (gerror + string) cres" where
  "manager_call_pre_one_key_login_sync X flag = call_finish get_s (X ''PreOneKeyLogin'' (G_Tuple [G_Int flag]))"

definition manager_complete_pre_one_key_login :: "string \<Rightarrow> gvariant" where
  "manager_complete_pre_one_key_login result = G_Tuple [G_String result]"

subsection \<open>The session\<close>

definition session_call_encrypt_key :: "int \<Rightarrow> gvariant \<Rightarrow> string \<times> gvariant" where
  "session_call_encrypt_key encryptType encryptMethod = (''EncryptKey'', G_Tuple [G_Int encryptType, encryptMethod])"

definition session_call_encrypt_key_finish :: "gerror + gvariant \<Rightarrow> (gerror + int \<times> gvariant \<times> string) cres" where
  "session_call_encrypt_key_finish res = call_finish get_iais res"

definition session_call_encrypt_key_sync :: "wire \<Rightarrow> int \<Rightarrow> gvariant \<Rightarrow> (gerror + int \<times> gvariant \<times> string) cres" where
  "session_call_encrypt_key_sync X encryptType encryptMethod = call_finish get_iais (X ''EncryptKey'' (G_Tuple [G_Int encryptType, encryptMethod]))"

definition session_complete_encrypt_key :: "int \<Rightarrow> gvariant \<Rightarrow> string \<Rightarrow> gvariant" where
  "session_complete_encrypt_key encType encMethod pubKey = G_Tuple [G_Int encType, encMethod, G_String pubKey]"

definition session_call_end :: "int \<Rightarrow> string \<times> gvariant" where
  "session_call_end flag = (''End'', G_Tuple [G_Int flag])"

definition session_call_end_finish :: "gerror + gvariant \<Rightarrow> (gerror + int) cres" where
  "session_call_end_finish res = call_finish get_i res"

definition session_call_end_sync :: "wire \<Rightarrow> int \<Rightarrow> (gerror + int) cres" where
  "session_call_end_sync X flag = call_finish get_i (X ''End'' (G_Tuple [G_Int flag]))"

definition session_complete_end :: "int \<Rightarrow> gvariant" where
  "session_complete_end failNum = G_Tuple [G_Int failNum]"

definition session_call_get_result :: "string \<times> gvariant" where
  "session_call_get_result = (''GetResult'', G_Tuple [])"

definition session_call_get_result_finish :: "gerror + gvariant \<Rightarrow> (gerror + int) cres" where
  "session_call_get_result_finish res = call_finish get_i res"

definition session_call_get_result_sync :: "wire \<Rightarrow> (gerror + int) cres" where
  "session_call_get_result_sync X = call_finish get_i (X ''GetResult'' (G_Tuple []))"

definition session_complete_get_result :: "int \<Rightarrow> gvariant" where
  "session_complete_get_result result = G_Tuple [G_Int result]"

definition session_call_privileges_disable :: "string \<times> gvariant" where
  "session_call_privileges_disable = (''PrivilegesDisable'', G_Tuple [])"

definition session_call_privileges_disable_finish :: "gerror + gvariant \<Rightarrow> (gerror + unit) cres" where
  "session_call_privileges_disable_finish res = call_finish get_unit res"

definition session_call_privileges_disable_sync :: "wire \<Rightarrow> (gerror + unit) cres" where
  "session_call_privileges_disable_sync X = call_finish get_unit (X ''PrivilegesDisable'' (G_Tuple []))"

definition session_complete_privileges_disable :: "gvariant" where
  "session_complete_privileges_disable = G_Tuple []"

definition session_call_privileges_enable :: "string \<Rightarrow> string \<times> gvariant" where
  "session_call_privileges_enable masterPath = (''PrivilegesEnable'', G_Tuple [G_String masterPath])"

definition session_call_privileges_enable_finish :: "gerror + gvariant \<Rightarrow> (gerror + bool) cres" where
  "session_call_privileges_enable_finish res = call_finish get_b res"

definition session_call_privileges_enable_sync :: "wire \<Rightarrow> string \<Rightarrow> (gerror + bool) cres" where
  "session_call_privileges_enable_sync X masterPath = call_finish get_b (X ''PrivilegesEnable'' (G_Tuple [G_String masterPath]))"

definition session_complete_privileges_enable :: "bool \<Rightarrow> gvariant" where
  "session_complete_privileges_enable enabled = G_Tuple [G_Bool enabled]"

definition session_call_quit :: "string \<times> gvariant" where
  "session_call_quit = (''Quit'', G_Tuple [])"

definition session_call_quit_finish :: "gerror + gvariant \<Rightarrow> (gerror + unit) cres" where
  "session_call_quit_finish res = call_finish get_unit res"

definition session_call_quit_sync :: "wire \<Rightarrow> (gerror + unit) cres" where
  "session_call_quit_sync X = call_finish get_unit (X ''Quit'' (G_Tuple []))"

definition session_complete_quit :: "gvariant" where
  "session_complete_quit = G_Tuple []"

definition session_call_set_quit_flag :: "int \<Rightarrow> string \<times> gvariant" where
  "session_call_set_quit_flag meth = (''SetQuitFlag'', G_Tuple [G_Int meth])"

definition session_call_set_quit_flag_finish :: "gerror + gvariant \<Rightarrow> (gerror + unit) cres" where
  "session_call_set_quit_flag_finish res = call_finish get_unit res"

definition session_call_set_quit_flag_sync :: "wire \<Rightarrow> int \<Rightarrow> (gerror + unit) cres" where
  "session_call_set_quit_flag_sync X meth = call_finish get_unit (X ''SetQuitFlag'' (G_Tuple [G_Int meth]))"

definition session_complete_set_quit_flag :: "gvariant" where
  "session_complete_set_quit_flag = G_Tuple []"

definition session_call_set_token :: "int \<Rightarrow> gvariant \<Rightarrow> string \<times> gvariant" where
  "session_call_set_token flag token = (''SetToken'', G_Tuple [G_Int flag, token])"

definition session_call_set_token_finish :: "gerror + gvariant \<Rightarrow> (gerror + unit) cres" where
  "session_call_set_token_finish res = call_finish get_unit res"

definition session_call_set_token_sync :: "wire \<Rightarrow> int \<Rightarrow> gvariant \<Rightarrow> (gerror + unit) cres" where
  "session_call_set_token_sync X flag token = call_finish get_unit (X ''SetToken'' (G_Tuple [G_Int flag, token]))"

definition session_complete_set_token :: "gvariant" where
  "session_complete_set_token = G_Tuple []"

definition session_call_start :: "int \<Rightarrow> int \<Rightarrow> string \<times> gvariant" where
  "session_call_start flag timeout = (''Start'', G_Tuple [G_Int flag, G_Int timeout])"

definition session_call_start_finish :: "gerror + gvariant \<Rightarrow> (gerror + int) cres" where
  "session_call_start_finish res = call_finish get_i res"

definition session_call_start_sync :: "wire \<Rightarrow> int \<Rightarrow> int \<Rightarrow> (gerror + int) cres" where
  "session_call_start_sync X flag timeout = call_finish get_i (X ''Start'' (G_Tuple [G_Int flag, G_Int timeout]))"

definition session_complete_start :: "int \<Rightarrow> gvariant" where
  "session_complete_start failNum = G_Tuple [G_Int failNum]"

definition session_call_set_symmetric_key :: "gvariant \<Rightarrow> string \<times> gvariant" where
  "session_call_set_symmetric_key key = (''SetSymmetricKey'', G_Tuple [key])"

definition session_call_set_symmetric_key_finish :: "gerror + gvariant \<Rightarrow> (gerror + unit) cres" where
  "session_call_set_symmetric_key_finish res = call_finish get_unit res"

definition session_call_set_symmetric_key_sync :: "wire \<Rightarrow> gvariant \<Rightarrow> (gerror + unit) cres" where
  "session_call_set_symmetric_key_sync X key = call_finish get_unit (X ''SetSymmetricKey'' (G_Tuple [key]))"

definition session_complete_set_symmetric_key :: "gvariant" where
  "session_complete_set_symmetric_key = G_Tuple []"

end
