(* ===== verification/Gdbus_Objects.thy ===== *)
theory Gdbus_Objects
  imports Gdbus_Client
begin

text \<open>
  The object classes of the generated code, one for each interface: the proxy class of the client
  (properties read from GDBusProxy's cache, received signals turned into GObject signals) and the
  skeleton class of a service (incoming calls handed to handlers, properties with their changes
  collected and announced by one signal). The two files are made from one template, so the
  definitions take the interface as an argument; the ones with the prefix \<open>session_\<close> are the copies in
  the session's file. Two operations of a skeleton release its lock between their parts: a set before it
  notifies, a flush before it announces; their parts are definitions of their own.
\<close>

subsection \<open>The proxy class\<close>

type_synonym property_cache = "string \<Rightarrow> gvariant option"
  \<comment> \<open>\<open>g_dbus_proxy_get_cached_property\<close>\<close>

definition check_prop :: "gdbus_interface \<Rightarrow> nat \<Rightarrow> gdbus_property cres" where
  \<comment> \<open>the assertion on \<open>prop_id\<close>, and the entry of the property\<close>
  "check_prop I prop_id =
     (if prop_id = 0 \<or> length (gi_properties I) \<le> prop_id - 1 then Inl Assert_Fail
      else Inr (gi_properties I ! (prop_id - 1)))"

definition proxy_get_property :: "gio \<Rightarrow> gdbus_interface \<Rightarrow> property_cache \<Rightarrow> nat \<Rightarrow> gvalue \<Rightarrow> gvalue cres" where
  \<comment> \<open>the value afterwards; it keeps what it held when nothing is cached\<close>
  "proxy_get_property G I cache prop_id val =
     cbind (check_prop I prop_id) (\<lambda>info.
       let variant = cache (gp_name info) in
       if gp_use_gvariant info then Inr (GV_Variant variant)
       else Inr (case variant of None \<Rightarrow> val | Some v \<Rightarrow> to_gvalue G v))"

definition proxy_set_property :: "gio \<Rightarrow> gdbus_interface \<Rightarrow> nat \<Rightarrow> gvalue \<Rightarrow> (string \<times> gvariant) cres" where
  \<comment> \<open>the asynchronous call it makes\<close>
  "proxy_set_property G I prop_id val =
     cbind (check_prop I prop_id) (\<lambda>info.
       Inr (''org.freedesktop.DBus.Properties.Set'',
         G_Tuple [G_String (gi_name I), G_String (gp_name info), G_Variant (to_gvariant G val (gp_sig info))]))"

definition g_children :: "gvariant \<Rightarrow> gvariant list" where
  \<comment> \<open>GLib's iterator over a container\<close>
  "g_children v =
     (case v of G_Tuple vs \<Rightarrow> vs | G_Array t vs \<Rightarrow> vs | G_Variant w \<Rightarrow> [w] | G_Entry k w \<Rightarrow> [k, w] | _ \<Rightarrow> [])"

fun param_values :: "gio \<Rightarrow> gdbus_arg list \<Rightarrow> gvariant list \<Rightarrow> gvalue list cres" where
  \<comment> \<open>the loop over the children; behind the last argument the array of arguments holds a null pointer\<close>
  "param_values G args [] = Inr []"
| "param_values G [] (c # cs) = Inl Null_Deref"
| "param_values G (a # args) (c # cs) =
     cbind (param_values G args cs) (\<lambda>vs.
       Inr ((if ga_use_gvariant a then GV_Variant (Some c) else to_gvalue G c) # vs))"

definition proxy_g_signal ::
  "gio \<Rightarrow> gdbus_interface \<Rightarrow> string \<Rightarrow> gvariant \<Rightarrow> (string \<times> gvalue list) option cres" where
  \<comment> \<open>the GObject signal emitted; none for a signal the interface does not have\<close>
  "proxy_g_signal G I signal_name parameters =
     (case lookup_signal I signal_name of
        None \<Rightarrow> Inr None
      | Some info \<Rightarrow>
          cbind (param_values G (gs_args info) (g_children parameters)) (\<lambda>paramv.
            Inr (Some (gs_signal info, paramv))))"

definition proxy_g_properties_changed ::
  "gdbus_interface \<Rightarrow> (string \<times> gvariant) list \<Rightarrow> string list \<Rightarrow> string list \<Rightarrow> string list \<times> string list" where
  \<comment> \<open>the keys left in \<open>qdata\<close>, and the properties notified\<close>
  "proxy_g_properties_changed I changed_properties invalidated_properties qdata =
     (let keys = map fst changed_properties @ invalidated_properties in
      (filter (\<lambda>k. k \<notin> set keys) qdata,
       concat (map (\<lambda>k. case lookup_property I k of None \<Rightarrow> [] | Some info \<Rightarrow> [gp_hyphen info]) keys)))"

definition cached :: "(gvariant \<Rightarrow> 'a option) \<Rightarrow> 'a \<Rightarrow> property_cache \<Rightarrow> string \<Rightarrow> 'a cres" where
  "cached get none cache name =
     (case cache name of
        None \<Rightarrow> Inr none
      | Some v \<Rightarrow> (case get v of None \<Rightarrow> Inl Bad_Format | Some x \<Rightarrow> Inr x))"

definition the_string :: "gvariant \<Rightarrow> string option option" where
  "the_string v = (case v of G_String s \<Rightarrow> Some (Some s) | _ \<Rightarrow> None)"

definition the_int32 :: "gvariant \<Rightarrow> int option" where
  "the_int32 v = (case v of G_Int i \<Rightarrow> Some i | _ \<Rightarrow> None)"

definition the_boolean :: "gvariant \<Rightarrow> bool option" where
  "the_boolean v = (case v of G_Bool b \<Rightarrow> Some b | _ \<Rightarrow> None)"

definition manager_proxy_get_support_encrypts :: "property_cache \<Rightarrow> string option cres" where
  "manager_proxy_get_support_encrypts cache = cached the_string None cache ''SupportEncrypts''"

definition manager_proxy_get_framework_state :: "property_cache \<Rightarrow> int cres" where
  "manager_proxy_get_framework_state cache = cached the_int32 0 cache ''FrameworkState''"

definition manager_proxy_get_supported_flags :: "property_cache \<Rightarrow> int cres" where
  "manager_proxy_get_supported_flags cache = cached the_int32 0 cache ''SupportedFlags''"

definition session_proxy_get_is_mfa :: "property_cache \<Rightarrow> bool cres" where
  "session_proxy_get_is_mfa cache = cached the_boolean False cache ''IsMFA''"

definition session_proxy_get_prompt :: "property_cache \<Rightarrow> string option cres" where
  "session_proxy_get_prompt cache = cached the_string None cache ''Prompt''"

definition session_proxy_get_factors_info :: "property_cache \<Rightarrow> gvariant option" where
  "session_proxy_get_factors_info cache = cache ''FactorsInfo''"

definition session_proxy_get_username :: "property_cache \<Rightarrow> string option cres" where
  "session_proxy_get_username cache = cached the_string None cache ''Username''"

definition session_proxy_get_pinlen :: "property_cache \<Rightarrow> int cres" where
  "session_proxy_get_pinlen cache = cached the_int32 0 cache ''PINLen''"

definition session_proxy_get_prg_path :: "property_cache \<Rightarrow> string option cres" where
  "session_proxy_get_prg_path cache = cached the_string None cache ''PrgPath''"

definition session_proxy_get_property :: "gio \<Rightarrow> property_cache \<Rightarrow> nat \<Rightarrow> gvalue \<Rightarrow> gvalue cres" where
  "session_proxy_get_property G = proxy_get_property G session_interface_info"

definition session_proxy_set_property :: "gio \<Rightarrow> nat \<Rightarrow> gvalue \<Rightarrow> (string \<times> gvariant) cres" where
  "session_proxy_set_property G = proxy_set_property G session_interface_info"

definition session_proxy_g_signal :: "gio \<Rightarrow> string \<Rightarrow> gvariant \<Rightarrow> (string \<times> gvalue list) option cres" where
  "session_proxy_g_signal G = proxy_g_signal G session_interface_info"

definition session_proxy_g_properties_changed ::
  "(string \<times> gvariant) list \<Rightarrow> string list \<Rightarrow> string list \<Rightarrow> string list \<times> string list" where
  "session_proxy_g_properties_changed = proxy_g_properties_changed session_interface_info"

subsection \<open>The skeleton class\<close>

record changed_property =
  cp_info :: gdbus_property
  cp_prop_id :: nat
  cp_orig_value :: gvalue

record skeleton =
  sk_properties :: "gvalue list"
  sk_changed :: "changed_property list"
  sk_idle :: bool                          \<comment> \<open>\<open>changed_properties_idle_source\<close> is not null\<close>
  sk_connections :: "nat list"             \<comment> \<open>the connections the object is exported on\<close>
  sk_out :: "(nat \<times> string \<times> string \<times> gvariant) list"
    \<comment> \<open>the signals emitted: connection, interface, member, parameters\<close>

definition manager_skeleton_init :: skeleton where
  "manager_skeleton_init =
     \<lparr>sk_properties = [GV_String None, GV_Int 0, GV_Int 0], sk_changed = [], sk_idle = False,
      sk_connections = [], sk_out = []\<rparr>"

definition session_skeleton_init :: skeleton where
  "session_skeleton_init =
     \<lparr>sk_properties = [GV_Boolean False, GV_String None, GV_Variant None, GV_String None, GV_Int 0, GV_String None],
      sk_changed = [], sk_idle = False, sk_connections = [], sk_out = []\<rparr>"

definition emit_to_all :: "string \<Rightarrow> string \<Rightarrow> gvariant \<Rightarrow> skeleton \<Rightarrow> skeleton" where
  \<comment> \<open>the loop over the connections\<close>
  "emit_to_all iface member params sk =
     sk\<lparr>sk_out := sk_out sk @ map (\<lambda>c. (c, iface, member, params)) (sk_connections sk)\<rparr>"

definition schedule_emit_changed :: "gdbus_property \<Rightarrow> nat \<Rightarrow> gvalue \<Rightarrow> skeleton \<Rightarrow> skeleton" where
  "schedule_emit_changed info prop_id orig_value sk =
     (case find (\<lambda>cp. cp_info cp = info) (sk_changed sk) of
        Some cp \<Rightarrow> sk
      | None \<Rightarrow>
          sk\<lparr>sk_changed := \<lparr>cp_info = info, cp_prop_id = prop_id, cp_orig_value = orig_value\<rparr> # sk_changed sk\<rparr>)"

definition skeleton_notify :: "skeleton \<Rightarrow> skeleton" where
  "skeleton_notify sk = (if sk_changed sk \<noteq> [] \<and> \<not> sk_idle sk then sk\<lparr>sk_idle := True\<rparr> else sk)"

definition skeleton_store_property :: "gdbus_interface \<Rightarrow> nat \<Rightarrow> gvalue \<Rightarrow> skeleton \<Rightarrow> (bool \<times> skeleton) cres" where
  \<comment> \<open>what \<open>set_property\<close> does under the lock; true: the property is to be notified\<close>
  "skeleton_store_property I prop_id val sk =
     cbind (check_prop I prop_id) (\<lambda>info.
     cbind (g_value_equal val (sk_properties sk ! (prop_id - 1))) (\<lambda>eq.
       if eq then Inr (False, sk)
       else
         let sk = (if sk_connections sk \<noteq> []
                   then schedule_emit_changed info prop_id (sk_properties sk ! (prop_id - 1)) sk else sk)
         in Inr (True, sk\<lparr>sk_properties := (sk_properties sk)[prop_id - 1 := val]\<rparr>)))"

definition skeleton_set_property :: "gdbus_interface \<Rightarrow> nat \<Rightarrow> gvalue \<Rightarrow> skeleton \<Rightarrow> skeleton cres" where
  \<comment> \<open>the notification is frozen until the lock is released\<close>
  "skeleton_set_property I prop_id val sk =
     cbind (skeleton_store_property I prop_id val sk) (\<lambda>(changed, sk).
       Inr (if changed then skeleton_notify sk else sk))"

definition skeleton_get_property :: "gdbus_interface \<Rightarrow> nat \<Rightarrow> skeleton \<Rightarrow> gvalue cres" where
  "skeleton_get_property I prop_id sk = cbind (check_prop I prop_id) (\<lambda>_. Inr (sk_properties sk ! (prop_id - 1)))"

fun changed_entries :: "gio \<Rightarrow> gvalue list \<Rightarrow> changed_property list \<Rightarrow> gvariant list cres" where
  \<comment> \<open>the loop over the changed properties: those whose value is no longer the original one\<close>
  "changed_entries G props [] = Inr []"
| "changed_entries G props (cp # cps) =
     (let cur_value = props ! (cp_prop_id cp - 1) in
      cbind (g_value_equal cur_value (cp_orig_value cp)) (\<lambda>eq.
      cbind (changed_entries G props cps) (\<lambda>es.
        Inr (if eq then es
             else G_Entry (G_String (gp_name (cp_info cp)))
                    (G_Variant (to_gvariant G cur_value (gp_sig (cp_info cp)))) # es))))"

definition emit_changed :: "gio \<Rightarrow> gdbus_interface \<Rightarrow> skeleton \<Rightarrow> skeleton cres" where
  "emit_changed G I sk =
     cbind (changed_entries G (sk_properties sk) (sk_changed sk)) (\<lambda>es.
       let sk = (if es \<noteq> []
                 then emit_to_all ''org.freedesktop.DBus.Properties'' ''PropertiesChanged''
                        (G_Tuple [G_String (gi_name I), G_Array (T_Entry T_String T_Variant) es, G_Array T_String []]) sk
                 else sk)
       in Inr (sk\<lparr>sk_changed := [], sk_idle := False\<rparr>))"

definition skeleton_take_idle :: "skeleton \<Rightarrow> bool \<times> skeleton" where
  \<comment> \<open>what \<open>flush\<close> does under the lock: it destroys a waiting idle source\<close>
  "skeleton_take_idle sk = (sk_idle sk, sk\<lparr>sk_idle := False\<rparr>)"

definition skeleton_flush :: "gio \<Rightarrow> gdbus_interface \<Rightarrow> skeleton \<Rightarrow> skeleton cres" where
  "skeleton_flush G I sk =
     (case skeleton_take_idle sk of (waiting, sk) \<Rightarrow> if waiting then emit_changed G I sk else Inr sk)"

subsection \<open>Incoming requests\<close>

abbreviation (input) G_DBUS_ERROR_INVALID_ARGS :: int where "G_DBUS_ERROR_INVALID_ARGS \<equiv> 16"
abbreviation (input) G_DBUS_ERROR_UNKNOWN_METHOD :: int where "G_DBUS_ERROR_UNKNOWN_METHOD \<equiv> 19"

type_synonym handler = "string \<Rightarrow> gvalue list \<Rightarrow> (gerror + gvariant) option"
  \<comment> \<open>the handlers connected to the signals: none where no handler takes the call\<close>

definition skeleton_handle_method_call ::
  "gio \<Rightarrow> gdbus_interface \<Rightarrow> gdbus_method \<Rightarrow> handler \<Rightarrow> gvariant \<Rightarrow> (gerror + gvariant) cres" where
  \<comment> \<open>\<open>info\<close> is the method GDBus has found for the invocation; the result is what the caller gets\<close>
  "skeleton_handle_method_call G I info H parameters =
     cbind (param_values G (gm_in info) (g_children parameters)) (\<lambda>paramv.
       Inr (case H (gm_signal info) paramv of
          Some answer \<Rightarrow> answer
        | None \<Rightarrow>
            Inl (G_DBUS_ERROR_UNKNOWN_METHOD,
              ''Method '' @ gm_name info @ '' is not implemented on interface '' @ gi_name I)))"

definition manager_override_properties :: "nat \<Rightarrow> (string \<times> nat) list" where
  "manager_override_properties b =
     [(''support-encrypts'', b), (''framework-state'', b + 1), (''supported-flags'', b + 2)]"

definition session_override_properties :: "nat \<Rightarrow> (string \<times> nat) list" where
  "session_override_properties b =
     [(''is-mfa'', b), (''prompt'', b + 1), (''factors-info'', b + 2), (''username'', b + 3),
      (''pinlen'', b + 4), (''prg-path'', b + 5)]"

definition skeleton_handle_get_property ::
  "gio \<Rightarrow> gdbus_interface \<Rightarrow> (string \<times> nat) list \<Rightarrow> string \<Rightarrow> skeleton \<Rightarrow> (gerror + gvariant) cres" where
  \<comment> \<open>\<open>ids\<close>: the properties of the class with their numbers\<close>
  "skeleton_handle_get_property G I ids property_name sk =
     (case lookup_property I property_name of
        None \<Rightarrow> Inl Assert_Fail
      | Some info \<Rightarrow>
          (case map_of ids (gp_hyphen info) of
             None \<Rightarrow> Inr (Inl (G_DBUS_ERROR_INVALID_ARGS, ''No property with name '' @ property_name))
           | Some prop_id \<Rightarrow>
               cbind (skeleton_get_property I prop_id sk) (\<lambda>val. Inr (Inr (to_gvariant G val (gp_sig info))))))"

definition skeleton_handle_set_property ::
  "gio \<Rightarrow> gdbus_interface \<Rightarrow> (string \<times> nat) list \<Rightarrow> string \<Rightarrow> gvariant \<Rightarrow> skeleton \<Rightarrow> (gerror + skeleton) cres" where
  "skeleton_handle_set_property G I ids property_name variant sk =
     (case lookup_property I property_name of
        None \<Rightarrow> Inl Assert_Fail
      | Some info \<Rightarrow>
          (case map_of ids (gp_hyphen info) of
             None \<Rightarrow> Inr (Inl (G_DBUS_ERROR_INVALID_ARGS, ''No property with name '' @ property_name))
           | Some prop_id \<Rightarrow>
               cbind (skeleton_set_property I prop_id
                   (if gp_use_gvariant info then GV_Variant (Some variant) else to_gvalue G variant) sk)
                 (\<lambda>sk. Inr (Inr sk))))"

fun property_entries ::
  "gio \<Rightarrow> gdbus_interface \<Rightarrow> (string \<times> nat) list \<Rightarrow> skeleton \<Rightarrow> gdbus_property list \<Rightarrow> gvariant list cres" where
  "property_entries G I ids sk [] = Inr []"
| "property_entries G I ids sk (info # ps) =
     (if \<not> gp_readable info then property_entries G I ids sk ps
      else
        cbind (skeleton_handle_get_property G I ids (gp_name info) sk) (\<lambda>r.
        cbind (property_entries G I ids sk ps) (\<lambda>es.
          Inr (case r of Inl _ \<Rightarrow> es | Inr v \<Rightarrow> G_Entry (G_String (gp_name info)) (G_Variant v) # es))))"

definition skeleton_get_properties ::
  "gio \<Rightarrow> gdbus_interface \<Rightarrow> (string \<times> nat) list \<Rightarrow> skeleton \<Rightarrow> gvariant cres" where
  "skeleton_get_properties G I ids sk =
     cbind (property_entries G I ids sk (gi_properties I)) (\<lambda>es. Inr (G_Array (T_Entry T_String T_Variant) es))"

definition manager_on_signal_limit_updated :: "string \<Rightarrow> skeleton \<Rightarrow> skeleton" where
  "manager_on_signal_limit_updated username =
     emit_to_all ''com.deepin.daemon.Authenticate'' ''LimitUpdated'' (G_Tuple [G_String username])"

definition session_on_signal_status :: "int \<Rightarrow> int \<Rightarrow> string \<Rightarrow> skeleton \<Rightarrow> skeleton" where
  "session_on_signal_status flag status msg =
     emit_to_all ''com.deepin.daemon.Authenticate.Session'' ''Status'' (G_Tuple [G_Int flag, G_Int status, G_String msg])"

subsection \<open>The session's copies, and the accessors of the properties\<close>

definition session_schedule_emit_changed :: "gdbus_property \<Rightarrow> nat \<Rightarrow> gvalue \<Rightarrow> skeleton \<Rightarrow> skeleton" where
  "session_schedule_emit_changed = schedule_emit_changed"

definition session_skeleton_notify :: "skeleton \<Rightarrow> skeleton" where
  "session_skeleton_notify = skeleton_notify"

definition session_skeleton_set_property :: "nat \<Rightarrow> gvalue \<Rightarrow> skeleton \<Rightarrow> skeleton cres" where
  "session_skeleton_set_property = skeleton_set_property session_interface_info"

definition session_skeleton_get_property :: "nat \<Rightarrow> skeleton \<Rightarrow> gvalue cres" where
  "session_skeleton_get_property = skeleton_get_property session_interface_info"

definition session_emit_changed :: "gio \<Rightarrow> skeleton \<Rightarrow> skeleton cres" where
  "session_emit_changed G = emit_changed G session_interface_info"

definition session_skeleton_flush :: "gio \<Rightarrow> skeleton \<Rightarrow> skeleton cres" where
  "session_skeleton_flush G = skeleton_flush G session_interface_info"

definition session_skeleton_handle_method_call ::
  "gio \<Rightarrow> gdbus_method \<Rightarrow> handler \<Rightarrow> gvariant \<Rightarrow> (gerror + gvariant) cres" where
  "session_skeleton_handle_method_call G = skeleton_handle_method_call G session_interface_info"

definition session_skeleton_handle_get_property :: "gio \<Rightarrow> string \<Rightarrow> skeleton \<Rightarrow> (gerror + gvariant) cres" where
  "session_skeleton_handle_get_property G =
     skeleton_handle_get_property G session_interface_info (session_override_properties 1)"

definition session_skeleton_handle_set_property ::
  "gio \<Rightarrow> string \<Rightarrow> gvariant \<Rightarrow> skeleton \<Rightarrow> (gerror + skeleton) cres" where
  "session_skeleton_handle_set_property G =
     skeleton_handle_set_property G session_interface_info (session_override_properties 1)"

definition session_skeleton_get_properties :: "gio \<Rightarrow> skeleton \<Rightarrow> gvariant cres" where
  "session_skeleton_get_properties G =
     skeleton_get_properties G session_interface_info (session_override_properties 1)"

definition value_string :: "gvalue \<Rightarrow> string option" where
  \<comment> \<open>\<open>g_value_get_string\<close> and its kind answer null or 0 on a value of another type\<close>
  "value_string v = (case v of GV_String s \<Rightarrow> s | _ \<Rightarrow> None)"

definition value_int :: "gvalue \<Rightarrow> int" where
  "value_int v = (case v of GV_Int i \<Rightarrow> i | _ \<Rightarrow> 0)"

definition manager_skeleton_get_support_encrypts :: "skeleton \<Rightarrow> string option" where
  "manager_skeleton_get_support_encrypts sk = value_string (sk_properties sk ! 0)"

definition manager_skeleton_get_framework_state :: "skeleton \<Rightarrow> int" where
  "manager_skeleton_get_framework_state sk = value_int (sk_properties sk ! 1)"

definition manager_skeleton_get_supported_flags :: "skeleton \<Rightarrow> int" where
  "manager_skeleton_get_supported_flags sk = value_int (sk_properties sk ! 2)"

definition session_skeleton_get_is_mfa :: "skeleton \<Rightarrow> bool" where
  "session_skeleton_get_is_mfa sk = (case sk_properties sk ! 0 of GV_Boolean b \<Rightarrow> b | _ \<Rightarrow> False)"

definition session_skeleton_get_prompt :: "skeleton \<Rightarrow> string option" where
  "session_skeleton_get_prompt sk = value_string (sk_properties sk ! 1)"

definition session_skeleton_get_factors_info :: "skeleton \<Rightarrow> gvariant option" where
  "session_skeleton_get_factors_info sk = (case sk_properties sk ! 2 of GV_Variant v \<Rightarrow> v | _ \<Rightarrow> None)"

definition session_skeleton_get_username :: "skeleton \<Rightarrow> string option" where
  "session_skeleton_get_username sk = value_string (sk_properties sk ! 3)"

definition session_skeleton_get_pinlen :: "skeleton \<Rightarrow> int" where
  "session_skeleton_get_pinlen sk = value_int (sk_properties sk ! 4)"

definition session_skeleton_get_prg_path :: "skeleton \<Rightarrow> string option" where
  "session_skeleton_get_prg_path sk = value_string (sk_properties sk ! 5)"

definition manager_set_support_encrypts :: "string option \<Rightarrow> skeleton \<Rightarrow> skeleton cres" where
  "manager_set_support_encrypts val = skeleton_set_property manager_interface_info 1 (GV_String val)"

definition manager_set_framework_state :: "int \<Rightarrow> skeleton \<Rightarrow> skeleton cres" where
  "manager_set_framework_state val = skeleton_set_property manager_interface_info 2 (GV_Int val)"

definition manager_set_supported_flags :: "int \<Rightarrow> skeleton \<Rightarrow> skeleton cres" where
  "manager_set_supported_flags val = skeleton_set_property manager_interface_info 3 (GV_Int val)"

definition session_set_is_mfa :: "bool \<Rightarrow> skeleton \<Rightarrow> skeleton cres" where
  "session_set_is_mfa val = session_skeleton_set_property 1 (GV_Boolean val)"

definition session_set_prompt :: "string option \<Rightarrow> skeleton \<Rightarrow> skeleton cres" where
  "session_set_prompt val = session_skeleton_set_property 2 (GV_String val)"

definition session_set_factors_info :: "gvariant option \<Rightarrow> skeleton \<Rightarrow> skeleton cres" where
  "session_set_factors_info val = session_skeleton_set_property 3 (GV_Variant val)"

definition session_set_username :: "string option \<Rightarrow> skeleton \<Rightarrow> skeleton cres" where
  "session_set_username val = session_skeleton_set_property 4 (GV_String val)"

definition session_set_pinlen :: "int \<Rightarrow> skeleton \<Rightarrow> skeleton cres" where
  "session_set_pinlen val = session_skeleton_set_property 5 (GV_Int val)"

definition session_set_prg_path :: "string option \<Rightarrow> skeleton \<Rightarrow> skeleton cres" where
  "session_set_prg_path val = session_skeleton_set_property 6 (GV_String val)"

end
