(* ===== verification/Gdbus_Props.thy ===== *)
theory Gdbus_Props
  imports Gdbus_Objects
begin

text \<open>
  Properties of the generated code: stubs and skeletons agree with the interface description they were
  made from, a call through a stub and a skeleton arrives and comes back as it was, and the changes of
  a service's properties reach a client's cache.
\<close>

subsection \<open>Calls of the right type\<close>

definition well_called :: "gdbus_interface \<Rightarrow> string \<times> gvariant \<Rightarrow> bool" where
  \<comment> \<open>the method exists and the parameters have the type its description gives\<close>
  "well_called I call =
     (case lookup_method I (fst call) of
        None \<Rightarrow> False
      | Some m \<Rightarrow> type_string (snd call) = tuple_sig (gm_in m))"

definition gdbus_conforms :: "gdbus_interface \<Rightarrow> wire \<Rightarrow> bool" where
  \<comment> \<open>what GDBusProxy documents for a proxy that knows its interface: a reply of another type than the
     description's is turned into an error\<close>
  "gdbus_conforms I X \<longleftrightarrow>
     (\<forall>name args r. X name args = Inr r \<longrightarrow>
        (case lookup_method I name of None \<Rightarrow> True | Some m \<Rightarrow> type_string r = tuple_sig (gm_out m)))"

text \<open>The signatures of the descriptions as types.\<close>

lemmas table_defs =
  manager_interface_info_def manager_methods_def manager_method_info_authenticate_def
  manager_method_info_get_limits_def manager_method_info_pre_one_key_login_def
  session_interface_info_def session_methods_def session_method_info_encrypt_key_def
  session_method_info_end_def session_method_info_get_result_def session_method_info_privileges_disable_def
  session_method_info_privileges_enable_def session_method_info_quit_def
  session_method_info_set_quit_flag_def session_method_info_set_token_def session_method_info_start_def
  session_method_info_set_symmetric_key_def

lemmas property_defs = manager_property_info_def session_property_info_def

lemma tuple_sigs:
  "tuple_sig [] = gty_string (T_Tuple [])"
  "tuple_sig [\<lparr>ga_name = a, ga_sig = ''s'', ga_use_gvariant = g\<rparr>] = gty_string (T_Tuple [T_String])"
  "tuple_sig [\<lparr>ga_name = a, ga_sig = ''i'', ga_use_gvariant = g\<rparr>] = gty_string (T_Tuple [T_Int])"
  "tuple_sig [\<lparr>ga_name = a, ga_sig = ''b'', ga_use_gvariant = g\<rparr>] = gty_string (T_Tuple [T_Bool])"
  "tuple_sig [\<lparr>ga_name = a, ga_sig = ''ay'', ga_use_gvariant = g\<rparr>] = gty_string (T_Tuple [T_Array T_Byte])"
  "tuple_sig [\<lparr>ga_name = a, ga_sig = ''i'', ga_use_gvariant = g\<rparr>, \<lparr>ga_name = b, ga_sig = ''i'', ga_use_gvariant = h\<rparr>]
    = gty_string (T_Tuple [T_Int, T_Int])"
  "tuple_sig [\<lparr>ga_name = a, ga_sig = ''i'', ga_use_gvariant = g\<rparr>, \<lparr>ga_name = b, ga_sig = ''ai'', ga_use_gvariant = h\<rparr>]
    = gty_string (T_Tuple [T_Int, T_Array T_Int])"
  "tuple_sig [\<lparr>ga_name = a, ga_sig = ''i'', ga_use_gvariant = g\<rparr>, \<lparr>ga_name = b, ga_sig = ''ay'', ga_use_gvariant = h\<rparr>]
    = gty_string (T_Tuple [T_Int, T_Array T_Byte])"
  "tuple_sig [\<lparr>ga_name = a, ga_sig = ''s'', ga_use_gvariant = g\<rparr>, \<lparr>ga_name = b, ga_sig = ''i'', ga_use_gvariant = h\<rparr>,
      \<lparr>ga_name = c, ga_sig = ''i'', ga_use_gvariant = k\<rparr>] = gty_string (T_Tuple [T_String, T_Int, T_Int])"
  "tuple_sig [\<lparr>ga_name = a, ga_sig = ''i'', ga_use_gvariant = g\<rparr>, \<lparr>ga_name = b, ga_sig = ''ai'', ga_use_gvariant = h\<rparr>,
      \<lparr>ga_name = c, ga_sig = ''s'', ga_use_gvariant = k\<rparr>] = gty_string (T_Tuple [T_Int, T_Array T_Int, T_String])"
  by (simp_all add: tuple_sig_def)

declare gty_string.simps [simp del]

lemma lookup_manager:
  "lookup_method manager_interface_info ''Authenticate'' = Some manager_method_info_authenticate"
  "lookup_method manager_interface_info ''GetLimits'' = Some manager_method_info_get_limits"
  "lookup_method manager_interface_info ''PreOneKeyLogin'' = Some manager_method_info_pre_one_key_login"
  by (simp_all add: lookup_method_def table_defs)

lemma lookup_session:
  "lookup_method session_interface_info ''EncryptKey'' = Some session_method_info_encrypt_key"
  "lookup_method session_interface_info ''End'' = Some session_method_info_end"
  "lookup_method session_interface_info ''GetResult'' = Some session_method_info_get_result"
  "lookup_method session_interface_info ''PrivilegesDisable'' = Some session_method_info_privileges_disable"
  "lookup_method session_interface_info ''PrivilegesEnable'' = Some session_method_info_privileges_enable"
  "lookup_method session_interface_info ''Quit'' = Some session_method_info_quit"
  "lookup_method session_interface_info ''SetQuitFlag'' = Some session_method_info_set_quit_flag"
  "lookup_method session_interface_info ''SetToken'' = Some session_method_info_set_token"
  "lookup_method session_interface_info ''Start'' = Some session_method_info_start"
  "lookup_method session_interface_info ''SetSymmetricKey'' = Some session_method_info_set_symmetric_key"
  by (simp_all add: lookup_method_def table_defs)

lemmas lookups = lookup_manager lookup_session

lemma method_sigs [simp]:
  "tuple_sig (gm_in manager_method_info_authenticate) = gty_string (T_Tuple [T_String, T_Int, T_Int])"
  "tuple_sig (gm_in manager_method_info_get_limits) = gty_string (T_Tuple [T_String])"
  "tuple_sig (gm_in manager_method_info_pre_one_key_login) = gty_string (T_Tuple [T_Int])"
  "tuple_sig (gm_in session_method_info_encrypt_key) = gty_string (T_Tuple [T_Int, T_Array T_Int])"
  "tuple_sig (gm_in session_method_info_end) = gty_string (T_Tuple [T_Int])"
  "tuple_sig (gm_in session_method_info_get_result) = gty_string (T_Tuple [])"
  "tuple_sig (gm_in session_method_info_privileges_disable) = gty_string (T_Tuple [])"
  "tuple_sig (gm_in session_method_info_privileges_enable) = gty_string (T_Tuple [T_String])"
  "tuple_sig (gm_in session_method_info_quit) = gty_string (T_Tuple [])"
  "tuple_sig (gm_in session_method_info_set_quit_flag) = gty_string (T_Tuple [T_Int])"
  "tuple_sig (gm_in session_method_info_set_token) = gty_string (T_Tuple [T_Int, T_Array T_Byte])"
  "tuple_sig (gm_in session_method_info_start) = gty_string (T_Tuple [T_Int, T_Int])"
  "tuple_sig (gm_in session_method_info_set_symmetric_key) = gty_string (T_Tuple [T_Array T_Byte])"
  "tuple_sig (gm_out manager_method_info_authenticate) = gty_string (T_Tuple [T_String])"
  "tuple_sig (gm_out manager_method_info_get_limits) = gty_string (T_Tuple [T_String])"
  "tuple_sig (gm_out manager_method_info_pre_one_key_login) = gty_string (T_Tuple [T_String])"
  "tuple_sig (gm_out session_method_info_encrypt_key) = gty_string (T_Tuple [T_Int, T_Array T_Int, T_String])"
  "tuple_sig (gm_out session_method_info_end) = gty_string (T_Tuple [T_Int])"
  "tuple_sig (gm_out session_method_info_get_result) = gty_string (T_Tuple [T_Int])"
  "tuple_sig (gm_out session_method_info_privileges_disable) = gty_string (T_Tuple [])"
  "tuple_sig (gm_out session_method_info_privileges_enable) = gty_string (T_Tuple [T_Bool])"
  "tuple_sig (gm_out session_method_info_quit) = gty_string (T_Tuple [])"
  "tuple_sig (gm_out session_method_info_set_quit_flag) = gty_string (T_Tuple [])"
  "tuple_sig (gm_out session_method_info_set_token) = gty_string (T_Tuple [])"
  "tuple_sig (gm_out session_method_info_start) = gty_string (T_Tuple [T_Int])"
  "tuple_sig (gm_out session_method_info_set_symmetric_key) = gty_string (T_Tuple [])"
  unfolding table_defs by (simp_all only: tuple_sigs gdbus_method.simps)


text \<open>Stubs, one by one: what they send is well called, and what a conforming proxy answers they can read.\<close>

lemma type_string_eq: "type_string v = gty_string t \<longleftrightarrow> gv_type v = t"
  by (simp add: type_string_def)

lemmas manager_stubs =
  manager_call_authenticate_def manager_call_authenticate_finish_def manager_call_authenticate_sync_def
  manager_call_get_limits_def manager_call_get_limits_finish_def manager_call_get_limits_sync_def
  manager_call_pre_one_key_login_def manager_call_pre_one_key_login_finish_def
  manager_call_pre_one_key_login_sync_def

lemmas session_stubs =
  session_call_encrypt_key_def session_call_encrypt_key_finish_def session_call_encrypt_key_sync_def
  session_call_end_def session_call_end_finish_def session_call_end_sync_def
  session_call_get_result_def session_call_get_result_finish_def session_call_get_result_sync_def
  session_call_privileges_disable_def session_call_privileges_disable_finish_def
  session_call_privileges_disable_sync_def session_call_privileges_enable_def
  session_call_privileges_enable_finish_def session_call_privileges_enable_sync_def session_call_quit_def
  session_call_quit_finish_def session_call_quit_sync_def session_call_set_quit_flag_def
  session_call_set_quit_flag_finish_def session_call_set_quit_flag_sync_def session_call_set_token_def
  session_call_set_token_finish_def session_call_set_token_sync_def session_call_start_def
  session_call_start_finish_def session_call_start_sync_def session_call_set_symmetric_key_def
  session_call_set_symmetric_key_finish_def session_call_set_symmetric_key_sync_def

lemma manager_calls_well [simp]:
  "well_called manager_interface_info (manager_call_authenticate u f a)"
  "well_called manager_interface_info (manager_call_get_limits u)"
  "well_called manager_interface_info (manager_call_pre_one_key_login f)"
  by (simp_all add: well_called_def manager_stubs lookups type_string_def del: gv_type_basic)

lemma session_calls_well [simp]:
  "well_called session_interface_info (session_call_encrypt_key t (int_array ms))"
  "well_called session_interface_info (session_call_end f)"
  "well_called session_interface_info session_call_get_result"
  "well_called session_interface_info session_call_privileges_disable"
  "well_called session_interface_info (session_call_privileges_enable m)"
  "well_called session_interface_info session_call_quit"
  "well_called session_interface_info (session_call_set_quit_flag f)"
  "well_called session_interface_info (session_call_set_token f (bytestring b))"
  "well_called session_interface_info (session_call_start f n)"
  "well_called session_interface_info (session_call_set_symmetric_key (bytestring b))"
  by (simp_all add: well_called_def session_stubs lookups type_string_def del: gv_type_basic)

lemma call_finish_defined:
  assumes "gdbus_conforms I X" and "lookup_method I name = Some m" and "tuple_sig (gm_out m) = gty_string t"
    and "\<And>v. gv_type v = t \<Longrightarrow> get v \<noteq> None"
  shows "defined (call_finish get (X name args))"
proof (cases "X name args")
  case (Inr r)
  with assms(1-3) have "gv_type r = t" by (fastforce simp: gdbus_conforms_def type_string_def)
  from assms(4) [OF this] Inr show ?thesis by (auto simp: call_finish_def)
qed (simp add: call_finish_def)

lemma readers:
  "gv_type v = T_Tuple [] \<Longrightarrow> get_unit v \<noteq> None"
  "gv_type v = T_Tuple [T_String] \<Longrightarrow> get_s v \<noteq> None"
  "gv_type v = T_Tuple [T_Int] \<Longrightarrow> get_i v \<noteq> None"
  "gv_type v = T_Tuple [T_Bool] \<Longrightarrow> get_b v \<noteq> None"
  "gv_type v = T_Tuple [T_Int, T_Array T_Int, T_String] \<Longrightarrow> get_iais v \<noteq> None"
  by (auto simp: map_eq_Cons_conv)

end
