(* ===== verification/Pam_Interface.thy ===== *)
theory Pam_Interface
  imports Pam_Races Gdbus_Props
begin

text \<open>
  The calls of the PAM module against the interfaces of the service. The module writes its messages by
  hand; the descriptions the library's stubs were generated from say which methods and properties there
  are and which types they take. \<open>proper\<close> compares an effect of the module with them.
\<close>

subsection \<open>The types of the module's messages\<close>

primrec arg_type :: "bus_arg \<Rightarrow> string" where
  \<comment> \<open>the type strings given to \<open>sd_bus_message_append\<close> and its kind\<close>
  "arg_type (Arg_s s) = ''s''"
| "arg_type (Arg_i i) = ''i''"
| "arg_type (Arg_ay b) = ''ay''"

definition message_type :: "bus_call \<Rightarrow> string" where
  "message_type c = ''('' @ concat (map arg_type (bc_args c)) @ '')''"

definition interface_of :: "bus_call \<Rightarrow> gdbus_interface option" where
  "interface_of c =
     (if bc_iface c = gi_name manager_interface_info then Some manager_interface_info
      else if bc_iface c = gi_name session_interface_info then Some session_interface_info else None)"

definition method_of :: "bus_call \<Rightarrow> gdbus_method option" where
  "method_of c = Option.bind (interface_of c) (\<lambda>I. lookup_method I (bc_member c))"

definition proper_call :: "bus_call \<Rightarrow> bool" where
  \<comment> \<open>the interface has the method, and the message the type of its parameters\<close>
  "proper_call c = (case method_of c of None \<Rightarrow> False | Some m \<Rightarrow> message_type c = tuple_sig (gm_in m))"

definition proper_read :: "bus_call \<Rightarrow> bool" where
  "proper_read c = (Option.bind (interface_of c) (\<lambda>I. lookup_property I (bc_member c)) \<noteq> None)"

definition to_service :: "bus_call \<Rightarrow> bool" where
  "to_service c \<longleftrightarrow> bc_service c = DBUS_SERVICE"

definition proper :: "effect \<Rightarrow> bool" where
  \<comment> \<open>with the one exception: the type of \<open>EncryptKey\<close>\<close>
  "proper e =
     (case e of
        Bus_Call c \<Rightarrow> to_service c \<longrightarrow> proper_call c
      | Bus_Async c \<Rightarrow> to_service c \<and> method_of c \<noteq> None \<and> proper_call c = (bc_member c \<noteq> ''EncryptKey'')
      | Bus_Property c \<Rightarrow> to_service c \<and> proper_read c
      | _ \<Rightarrow> True)"

abbreviation speaks :: "'k UserData \<Rightarrow> bool" where
  "speaks ud \<equiv> list_all proper (ud_hist ud)"

lemma proper_simps [simp]:
  "proper (Conv_Msg m st)" "proper Thread_Create" "proper Thread_Cancel" "proper (Set_Authtok t)"
  "proper (Set_Data k v)" "proper (Got_Result n)" "proper (Got_Status i c m)" "proper (Env_Set k v)"
  "proper (Bus_Match q)" "proper Bus_Close" "proper Tty_Restore"
  by (simp_all add: proper_def)

subsection \<open>Each message\<close>

lemma interface_names: "gi_name manager_interface_info = DBUS_INTERFACE" "gi_name session_interface_info = DBUS_AUTHCTRL_INTERFACE"
  by (simp_all add: manager_interface_info_def session_interface_info_def)

lemma method_of_calls:
  "method_of (manager_call n as) = lookup_method manager_interface_info n"
  "method_of (session_call q n as) = lookup_method session_interface_info n"
  by (simp_all add: method_of_def interface_of_def interface_names manager_call_def session_call_def)

lemma call_fields [simp]:
  "to_service (manager_call n as)" "to_service (session_call q n as)"
  "bc_member (session_call q n as) = n" "bc_args (manager_call n as) = as" "bc_args (session_call q n as) = as"
  by (simp_all add: to_service_def manager_call_def session_call_def)

lemma proper_methods [simp]:
  "proper (Bus_Call (manager_call ''Authenticate'' [Arg_s u, Arg_i f, Arg_i t]))"
  "proper (Bus_Call (manager_call ''GetLimits'' [Arg_s u]))"
  "proper (Bus_Call (manager_call ''PreOneKeyLogin'' [Arg_i f]))"
  "proper (Bus_Call (session_call q ''End'' [Arg_i f]))"
  "proper (Bus_Call (session_call q ''Start'' [Arg_i f, Arg_i t]))"
  "proper (Bus_Call (session_call q ''SetSymmetricKey'' [Arg_ay b]))"
  "proper (Bus_Async (session_call q ''SetToken'' [Arg_i f, Arg_ay b]))"
  "proper (Bus_Async (session_call q ''GetResult'' []))"
  "proper (Bus_Async (session_call q ''EncryptKey'' [Arg_i f, Arg_ay b]))"
  by (simp_all add: proper_def proper_call_def method_of_calls lookups message_type_def gty_string.simps)

lemma proper_properties [simp]:
  "n \<in> {''IsMFA'', ''FactorsInfo'', ''Prompt'', ''Username''} \<Longrightarrow> proper (Bus_Property (session_property q n))"
  "proper (Bus_Property \<lparr>bc_service = DBUS_SERVICE, bc_path = q, bc_iface = DBUS_INTERFACE, bc_member = ''SupportedFlags'', bc_args = []\<rparr>)"
  by (auto simp: proper_def proper_read_def to_service_def interface_of_def session_property_def manager_interface_info_def
      session_interface_info_def lookup_property_def manager_property_info_def session_property_info_def)

lemma proper_elsewhere [simp]: "bc_service c \<noteq> DBUS_SERVICE \<Longrightarrow> proper (Bus_Call c)"
  by (simp add: proper_def to_service_def)

subsection \<open>The functions of the module\<close>

lemma call_sync_speaks: "call_sync E c ud = (r, m, ud') \<Longrightarrow> proper (Bus_Call c) \<Longrightarrow> speaks ud' = speaks ud"
  by (auto simp: call_sync_def split: prod.splits)

lemma call_async_speaks: "call_async E c ud = (r, ud') \<Longrightarrow> proper (Bus_Async c) \<Longrightarrow> speaks ud' = speaks ud"
  by (auto simp: call_async_def)

lemma text_call_speaks: "text_call E n c ud = Inr (r, s, ud') \<Longrightarrow> proper (Bus_Call c) \<Longrightarrow> speaks ud' = speaks ud"
  by (auto simp: text_call_def split: prod.splits if_splits elim!: cbind_InrE dest: call_sync_speaks)

lemma dbus_text_speaks:
  "dbus_method_authenticate E ud u f t = Inr (r, s, ud') \<Longrightarrow> speaks ud' = speaks ud"
  "dbus_method_get_limits E ud u = Inr (r, s, ud') \<Longrightarrow> speaks ud' = speaks ud"
  "dbus_method_preOneKeyLogin E ud u = Inr (r, s, ud') \<Longrightarrow> speaks ud' = speaks ud"
  by (simp_all add: dbus_method_authenticate_def dbus_method_get_limits_def dbus_method_preOneKeyLogin_def
      text_call_speaks)

lemma dbus_session_speaks:
  "dbus_method_end E ud q f = (r, ud') \<Longrightarrow> speaks ud' = speaks ud"
  "dbus_method_start E ud q f t = (r, ud') \<Longrightarrow> speaks ud' = speaks ud"
  "dbus_method_set_symmetric_key E ud q b = (r, ud') \<Longrightarrow> speaks ud' = speaks ud"
  "dbus_method_encryptKey E q f b ud = (r, ud') \<Longrightarrow> speaks ud' = speaks ud"
  "getResult_send E ud q = (r, ud') \<Longrightarrow> speaks ud' = speaks ud"
  "dbus_method_setToken E ud q f pw = Inr (r, ud') \<Longrightarrow> speaks ud' = speaks ud"
  by (auto simp: dbus_method_end_def dbus_method_start_def dbus_method_set_symmetric_key_def
      dbus_method_encryptKey_def getResult_send_def dbus_method_setToken_def Let_def
      split: prod.splits if_splits option.splits dest: call_sync_speaks call_async_speaks)

lemma send_msg_speaks: "send_msg E ud m st = (r, ud') \<Longrightarrow> speaks ud' = speaks ud"
  by (auto simp: send_msg_def Let_def split: conv_answer.splits if_splits)

lemma show_msg_speaks [simp]: "speaks (show_msg E ud m st) = speaks ud"
  using send_msg_speaks [of E ud m st "fst (send_msg E ud m st)" "show_msg E ud m st"] by (simp add: show_msg_def)

lemma end_speaks [simp]: "speaks (snd (dbus_method_end E ud q f)) = speaks ud"
  using dbus_session_speaks(1) [of E ud q f "fst (dbus_method_end E ud q f)"] by simp

lemma get_limits_info_speaks: "get_limits_info E ud = Inr ud' \<Longrightarrow> speaks ud' = speaks ud"
  by (auto simp: get_limits_info_def Let_def split: prod.splits if_splits option.splits elim!: cbind_InrE
      dest!: dbus_text_speaks)

lemma start_token_thread_speaks: "start_token_thread E q ud = Inr (r, ud') \<Longrightarrow> speaks ud' = speaks ud"
  by (auto simp: start_token_thread_def Let_def split: if_splits elim!: cbind_InrE)

lemma sfa_start_verify_speaks: "sfa_start_verify E ud t = (r, ud') \<Longrightarrow> speaks ud' = speaks ud"
  by (auto simp: sfa_start_verify_def Let_def split: prod.splits dest!: dbus_session_speaks)

lemma mfa_start_verify_speaks: "mfa_start_verify E ud i t = Inr (r, ud') \<Longrightarrow> speaks ud' = speaks ud"
  by (auto simp: mfa_start_verify_def Let_def split: prod.splits if_splits elim!: cbind_InrE dest!: dbus_session_speaks)

lemma signal_verify_speaks: "signal_verify E ud m = Inr (r, ud') \<Longrightarrow> speaks ud' = speaks ud"
  by (auto simp: signal_verify_def split: if_splits elim!: cbind_InrE)

lemma sfa_overall_failure_speaks: "sfa_overall_failure E ud = Inr (r, ud') \<Longrightarrow> speaks ud' = speaks ud"
  by (auto simp: sfa_overall_failure_def Let_def split: if_splits elim!: cbind_InrE dest!: get_limits_info_speaks)

lemma sfa_signal_deal_speaks: "sfa_signal_deal E ud c t m = Inr (r, ud') \<Longrightarrow> speaks ud' = speaks ud"
  by (auto simp: sfa_signal_deal_def sfa_record_failure_def sfa_prompt_def
      split: option.splits AuthStutaCode.splits if_splits elim!: cbind_InrE
      dest!: sfa_overall_failure_speaks signal_verify_speaks start_token_thread_speaks)

lemma mfa_next_factor_speaks: "mfa_next_factor E ud t = Inr (r, ud') \<Longrightarrow> speaks ud' = speaks ud"
  by (auto simp: mfa_next_factor_def Let_def split: if_splits elim!: cbind_InrE dest!: mfa_start_verify_speaks)

lemma mfa_success_speaks: "mfa_success E ud t = Inr (r, ud') \<Longrightarrow> speaks ud' = speaks ud"
  by (auto simp: mfa_success_def Let_def split: if_splits elim!: cbind_InrE dest!: mfa_next_factor_speaks)

lemma mfa_signal_deal_speaks: "mfa_signal_deal E ud c t m = Inr (r, ud') \<Longrightarrow> speaks ud' = speaks ud"
  by (auto simp: mfa_signal_deal_def mfa_failure_def mfa_prompt_def Let_def
      split: option.splits AuthStutaCode.splits if_splits elim!: cbind_InrE
      dest!: mfa_success_speaks signal_verify_speaks start_token_thread_speaks)

lemma bus_signal_deal_speaks: "bus_signal_deal E m ud = Inr (r, ud') \<Longrightarrow> speaks ud' = speaks ud"
  by (auto simp: bus_signal_deal_def Let_def split: prod.splits if_splits elim!: cbind_InrE
      dest!: mfa_signal_deal_speaks sfa_signal_deal_speaks)

lemma encryptKey_store_speaks: "encryptKey_store E key ud = Inr (r, ud') \<Longrightarrow> speaks ud' = speaks ud"
  by (auto simp: encryptKey_store_def encrypt_symmtric_key_def Let_def split: prod.splits if_splits
      elim!: cbind_InrE dest!: dbus_session_speaks(3))

lemma call_encryptKey_cb_speaks: "call_encryptKey_cb E err m ud = Inr (r, ud') \<Longrightarrow> speaks ud' = speaks ud"
  by (auto simp: call_encryptKey_cb_def Let_def split: prod.splits if_splits option.splits
      dest!: encryptKey_store_speaks)

lemma call_getResult_cb_speaks [simp]: "speaks (snd (call_getResult_cb B m ud)) = speaks ud"
  by (simp add: call_getResult_cb_def split: option.splits prod.splits)

lemma request_answered_speaks: "request_answered E ud resp = Inr ud' \<Longrightarrow> speaks ud' = speaks ud"
  by (auto simp: request_answered_def elim!: cbind_InrE dest!: dbus_session_speaks(6) split: if_splits)

lemma request_prompt_speaks: "request_prompt E ud = Inr ud' \<Longrightarrow> speaks ud' = speaks ud"
  by (auto simp: request_prompt_def split: prod.splits option.splits dest!: send_msg_speaks request_answered_speaks
      dbus_session_speaks(5))

lemma request_result_speaks: "request_result E tok resp ud = Inr ud' \<Longrightarrow> speaks ud' = speaks ud"
  by (auto simp: request_result_def Let_def split: if_splits option.splits dest!: request_answered_speaks)

lemma run_request_pw_speaks: "run_request_pw E ud = Some (Inr ud') \<Longrightarrow> speaks ud' = speaks ud"
  by (auto simp: run_request_pw_def getResult_mark_def split: thread_state.splits if_splits
      dest!: request_prompt_speaks request_result_speaks)

lemma clean_speaks:
  "speaks (clean_bus E ud) = speaks ud" "speaks (clean_thread ud) = speaks ud" "speaks (clean_term ud) = speaks ud"
  "clean_auth_ctrl ud = Inr ud' \<Longrightarrow> speaks ud' = speaks ud"
  by (auto simp: clean_bus_def clean_thread_def clean_term_def clean_auth_ctrl_def Let_def
      split: option.splits elim!: cbind_InrE)

lemma clean_auth_data_speaks: "clean_auth_data E ud = Inr ud' \<Longrightarrow> speaks ud' = speaks ud"
  by (auto simp: clean_auth_data_def clean_speaks(1-3) elim!: cbind_InrE dest!: clean_speaks(4))

subsection \<open>The stages up to the loop\<close>

definition flow_speaks :: "('a, 'k UserData) flow \<Rightarrow> bool" where
  "flow_speaks x =
     (case x of Return r ud \<Rightarrow> speaks ud | Break ud \<Rightarrow> speaks ud | Next a ud \<Rightarrow> speaks ud | Diverges \<Rightarrow> True)"

lemma flow_speaks_simps [simp]:
  "flow_speaks (Return r ud) = speaks ud" "flow_speaks (Break ud) = speaks ud" "flow_speaks (Next a ud) = speaks ud"
  "flow_speaks Diverges"
  by (simp_all add: flow_speaks_def)

lemma fbind_speaks:
  assumes "fbind m f = Inr x" and "\<And>y. m = Inr y \<Longrightarrow> flow_speaks y"
    and "\<And>a ud y. m = Inr (Next a ud) \<Longrightarrow> speaks ud \<Longrightarrow> f a ud = Inr y \<Longrightarrow> flow_speaks y"
  shows "flow_speaks x"
  using assms by (cases m) (auto simp: fbind_def split: flow.splits)

lemma passwd_expired_info_speaks:
  "dbus_get_user_passwd_expired_info E ud u = Inr (r, ud') \<Longrightarrow> speaks ud' = speaks ud"
  by (auto simp: dbus_get_user_passwd_expired_info_def split: prod.splits if_splits option.splits
      elim!: cbind_InrE dest!: call_sync_speaks)

lemma show_expiry_speaks: "show_expiry E t u ud = Inr ud' \<Longrightarrow> speaks ud' = speaks ud"
  by (auto simp: show_expiry_def Let_def split: if_splits elim!: cbind_InrE dest!: passwd_expired_info_speaks)

lemma set_env_lines_speaks: "set_env_lines n ls ud = Inr ud' \<Longrightarrow> speaks ud' = speaks ud"
  by (induction n ls ud rule: set_env_lines.induct) (auto split: if_splits option.splits)

lemma prepare_user_speaks: "prepare_user S a ud = Inr ud' \<Longrightarrow> speaks ud' = speaks ud"
  by (auto simp: prepare_user_def load_user_locale_def Let_def split: if_splits option.splits elim!: cbind_InrE
      dest!: set_env_lines_speaks)

lemma supported_flags_speaks:
  "dbus_get_prop_int E ud DBUS_SERVICE q DBUS_INTERFACE ''SupportedFlags'' = (r, v, ud') \<Longrightarrow> speaks ud' = speaks ud"
  by (auto simp: dbus_get_prop_int_def Let_def split: prod.splits if_splits)

lemma open_session_speaks: "open_session E t b ud = Inr x \<Longrightarrow> speaks ud \<Longrightarrow> flow_speaks x"
  by (auto simp: open_session_def Let_def split: if_splits prod.splits elim!: cbind_InrE
      dest!: dbus_text_speaks show_expiry_speaks supported_flags_speaks)

lemma get_property_speaks:
  assumes "n \<in> {''IsMFA'', ''FactorsInfo'', ''Prompt'', ''Username''}"
  shows "get_property E q n ud = (r, m, ud') \<Longrightarrow> speaks ud' = speaks ud"
    "get_property_int E q n ud = (r, i, ud') \<Longrightarrow> speaks ud' = speaks ud"
    "get_property_string E q n ud = (r, ud') \<Longrightarrow> speaks ud' = speaks ud"
  using proper_properties(1) [OF assms]
  by (auto simp: get_property_def get_property_int_def get_property_string_def split: prod.splits if_splits)

lemma get_authctl_property_speaks: "get_authctl_property E ud q c = Some (r, c', ud') \<Longrightarrow> speaks ud' = speaks ud"
  by (auto simp: get_authctl_property_def Let_def split: prod.splits if_splits dest!: get_property_speaks [rotated])

lemma load_session_speaks: "load_session E b ud = Inr x \<Longrightarrow> speaks ud \<Longrightarrow> flow_speaks x"
  by (auto simp: load_session_def Let_def split: option.splits if_splits elim!: cbind_InrE
      dest!: get_authctl_property_speaks)

lemma check_password_lock_speaks: "check_password_lock E ud = Inr x \<Longrightarrow> speaks ud \<Longrightarrow> flow_speaks x"
  by (auto simp: check_password_lock_def split: if_splits elim!: cbind_InrE dest!: get_limits_info_speaks)

lemma request_key_speaks: "request_key E c ud = Inr (k, ud') \<Longrightarrow> speaks ud' = speaks ud"
  by (auto simp: request_key_def Let_def split: if_splits prod.splits elim!: cbind_InrE dest!: dbus_session_speaks(4))

lemma start_verify_speaks: "start_verify E c t ud = Inr x \<Longrightarrow> speaks ud \<Longrightarrow> flow_speaks x"
  by (auto simp: start_verify_def listen_dbus_signal_def split: if_splits prod.splits elim!: cbind_InrE
      dest!: mfa_start_verify_speaks sfa_start_verify_speaks)

lemma run_session_speaks: "run_session E a t b ud = Inr x \<Longrightarrow> speaks ud \<Longrightarrow> flow_speaks x"
  unfolding run_session_def
  by (erule fbind_speaks, erule (1) open_session_speaks, erule fbind_speaks, erule (1) load_session_speaks,
      erule fbind_speaks, erule (1) check_password_lock_speaks)
    (auto elim!: cbind_InrE fbind_speaks dest!: request_key_speaks dest: start_verify_speaks)

lemma start_speaks: "pam_sm_authenticate_start E argv = Inr x \<Longrightarrow> flow_speaks x"
  unfolding pam_sm_authenticate_start_def
  by (auto simp: check_caller_def init_user_data_def elim!: cbind_InrE fbind_speaks split: option.splits
      dest!: prepare_user_speaks dest: run_session_speaks)

lemma step_speaks: "pam_step E ev p p' \<Longrightarrow> speaks (pm_ud p) \<Longrightarrow> speaks (pm_ud p')"
  by (induction rule: pam_step.induct)
    (auto simp: enter_def bus_signal_store_def set_result_data_def Let_def clean_speaks split: sum.splits option.splits
      elim!: cbind_InrE dest!: run_request_pw_speaks bus_signal_deal_speaks call_encryptKey_cb_speaks clean_auth_data_speaks)

lemma reachable_speaks: "reachable E argv p \<Longrightarrow> speaks (pm_ud p)"
proof (induction rule: reachable.induct)
  case (reach_init p)
  then show ?case by (auto simp: pam_initial_def dest: start_speaks)
next
  case (reach_step p ev q)
  then show ?case by (blast intro: step_speaks)
qed

subsection \<open>The property\<close>

text \<open>
  C15: the module speaks the service's interfaces, with one exception. In every reachable state, and where
  the function returns early, each call the module has made to the service is a method of the interface
  with a message of the described type, and each property it has read is one of the interface; every
  asynchronous call goes to the service and conforms, except \<open>EncryptKey\<close>, whose flags the module sends as
  an array of bytes where the description (and the library's stub) has an array of integers.
\<close>
theorem module_speaks_interface:
  assumes "reachable E argv p \<and> ud = pm_ud p \<or> pam_sm_authenticate_start E argv = Inr (Return r ud)"
  shows "(\<forall>c. Bus_Call c \<in> set (ud_hist ud) \<longrightarrow> to_service c \<longrightarrow> proper_call c)
    \<and> (\<forall>c. Bus_Property c \<in> set (ud_hist ud) \<longrightarrow> to_service c \<and> proper_read c)
    \<and> (\<forall>c. Bus_Async c \<in> set (ud_hist ud) \<longrightarrow> to_service c \<and> method_of c \<noteq> None
         \<and> proper_call c = (bc_member c \<noteq> ''EncryptKey''))
    \<and> well_called session_interface_info (session_call_encrypt_key t (int_array ms))"
proof -
  have "speaks ud" using assms reachable_speaks start_speaks [of E argv "Return r ud"] by auto
  then have ok: "proper e" if "e \<in> set (ud_hist ud)" for e using that by (simp add: list_all_iff)
  show ?thesis using ok [of "Bus_Call c" for c] ok [of "Bus_Property c" for c] ok [of "Bus_Async c" for c]
    by (auto simp: proper_def)
qed

lemma key_request_run:
  "run_ends (sample_env 0 ''secret'') [] (\<lambda>p. has_effect (Bus_Async (session_call ''/s'' ''EncryptKey'' [Arg_i 0, Arg_ay [NUL]])) (pm_ud p)
    \<and> has_effect (Bus_Call (session_call ''/s'' ''Start'' [Arg_i (- 1), Arg_i (- 1)])) (pm_ud p))"
  by code_simp

theorem module_speaks_interface_witness:
  "\<exists>p. reachable (sample_env 0 ''secret'') [''timeout=-1''] p
    \<and> (\<exists>c. Bus_Async c \<in> set (ud_hist (pm_ud p)) \<and> bc_member c = ''EncryptKey'' \<and> \<not> proper_call c)
    \<and> (\<exists>c. Bus_Call c \<in> set (ud_hist (pm_ud p)) \<and> bc_member c = ''Start'' \<and> proper_call c)"
proof -
  let ?k = "session_call ''/s'' ''EncryptKey'' [Arg_i 0, Arg_ay [NUL]]"
  let ?s = "session_call ''/s'' ''Start'' [Arg_i (- 1), Arg_i (- 1)]"
  obtain p where r: "reachable (sample_env 0 ''secret'') [''timeout=-1''] p"
    and e: "Bus_Async ?k \<in> set (ud_hist (pm_ud p))" "Bus_Call ?s \<in> set (ud_hist (pm_ud p))"
    using run_endsD [OF key_request_run] by (auto simp: has_effect_def)
  have "\<not> proper_call ?k" "proper_call ?s"
    using module_speaks_interface [OF disjI1 [OF conjI [OF r refl]]] e by auto
  with r e show ?thesis by (metis call_fields(3))
qed

end
