(* ===== verification/Shm.thy ===== *)
theory Shm
  imports Prelude
begin

text \<open>
  The shared-memory notifier of the library (\<open>lib/src/shm-comm/shm_notifier.c\<close>): a writer stores data
  in a shared memory object and tells its readers the length over a socket; an optional second
  object carries data back. The world holds the shared memory objects by name, the live mappings
  and the bytes under way on every socket. The two endless loops are given by one round each; a
  callback of the user is a record of its arguments. Socket and mapping failures are parameters.
  A pointer into a mapping is the object's name, the mapping's base address and an offset; bounds are
  those of the object, not rounded up to pages.
\<close>

subsection \<open>Constants and types\<close>

datatype SHMN_ROLE = SHMN_ROLE_WRITER | SHMN_ROLE_READER | Other_Role

datatype SHMN_ERR =
  SHMN_NO_ERR | SHMN_ERR_EMPTY_OBJECT | SHMN_ERR_ROLE | SHMN_ERR_DATA_SIZE | SHMN_ERR_UNDEFINED
  | SHMN_ERR_DATA_EXIST

abbreviation (input) CB_NO_ERR :: int where "CB_NO_ERR \<equiv> 0"
abbreviation (input) CB_ERR_DISCONNETED :: int where "CB_ERR_DISCONNETED \<equiv> 1"
abbreviation (input) INT_TO_STRING_MAX_LEN :: nat where "INT_TO_STRING_MAX_LEN \<equiv> 10"
abbreviation (input) LOCK_STATE_VAL :: int where "LOCK_STATE_VAL \<equiv> 1"
abbreviation (input) UNLOCK_STATE_VAL :: int where "UNLOCK_STATE_VAL \<equiv> 0"
abbreviation (input) lock_size :: nat where "lock_size \<equiv> 4"

record region =
  rg_key :: string
  rg_base :: nat
  rg_off :: nat

record shmn =
  sh_role :: SHMN_ROLE
  sh_enable_ex :: bool
  sh_self_fd :: nat
  sh_epoll :: bool
  sh_clients :: "nat list"
  sh_send :: "region option"
  sh_rcvd :: "region option"
  sh_sender_size :: int
  sh_rcvder_size :: int
  sh_listen :: bool
  sh_recv_loop :: bool
  sh_cb :: bool
  sh_locker :: "region option"

record world =
  w_shm :: "string \<Rightarrow> char list"     \<comment> \<open>the shared memory objects\<close>
  w_maps :: "nat list"               \<comment> \<open>the bases of the live mappings\<close>
  w_unmaps :: "nat list"             \<comment> \<open>the bases given to \<open>munmap\<close>, in order\<close>
  w_stream :: "nat \<Rightarrow> char list"    \<comment> \<open>the bytes sent to a socket and not read yet\<close>

record shm_env =
  se_open :: "string \<Rightarrow> bool"             \<comment> \<open>\<open>shm_open\<close> succeeds\<close>
  se_mmap :: "world \<Rightarrow> nat option"        \<comment> \<open>the base of a new mapping\<close>
  se_socket :: "nat option"                \<comment> \<open>a new socket\<close>
  se_connect :: "string \<Rightarrow> bool"
  se_thread :: bool

datatype user_call = Update_Cb "char list option" int int
  \<comment> \<open>a call of \<open>recv_cb\<close>: the bytes behind the data pointer (none for null), the size, the error code\<close>

subsection \<open>32-bit integers in memory\<close>

definition int32_bytes :: "int \<Rightarrow> char list" where
  "int32_bytes i =
     [char_of (nat (i mod 256)), char_of (nat (i div 256 mod 256)), char_of (nat (i div 65536 mod 256)),
      char_of (nat (i div 16777216 mod 256))]"

definition bytes_int32 :: "char list \<Rightarrow> int" where
  "bytes_int32 b =
     to_int32 (of_char (b ! 0) + 256 * of_char (b ! 1) + 65536 * of_char (b ! 2) + 16777216 * of_char (b ! 3))"

lemma length_int32_bytes [simp]: "length (int32_bytes i) = 4"
  by (simp add: int32_bytes_def)

lemma of_char_byte: "(of_char (char_of (nat (x mod 256))) :: int) = x mod 256"
proof -
  have "(of_char (char_of (nat (x mod 256))) :: int) = int (of_char (char_of (nat (x mod 256))))"
    by (simp only: of_nat_of_char)
  also have "\<dots> = int (nat (x mod 256) mod 256)" by (simp only: of_char_of)
  also have "\<dots> = x mod 256" by (simp add: nat_mod_distrib)
  finally show ?thesis .
qed

lemma bytes_int32_roundtrip: "int_range i \<Longrightarrow> bytes_int32 (int32_bytes i @ t) = i"
proof -
  assume r: "int_range i"
  let ?s = "i mod 256 + 256 * (i div 256 mod 256) + 65536 * (i div 65536 mod 256)
      + 16777216 * (i div 16777216 mod 256)"
  have sum: "?s = i mod 4294967296"
  proof -
    have gen: "x = 256 * a + r0 \<Longrightarrow> a = 256 * b + r1 \<Longrightarrow> b = 256 * r3 + r2 \<Longrightarrow>
        r0 + 256 * r1 + 65536 * r2 + 16777216 * r3 = x" for x a b r0 r1 r2 r3 :: int
      by simp
    have "i mod 4294967296 = 256 * (i div 256 mod 16777216) + i mod 256"
      using zmod_zmult2_eq [of 16777216 i 256] by simp
    moreover have "i div 256 mod 16777216 = 256 * (i div 65536 mod 65536) + i div 256 mod 256"
      using zmod_zmult2_eq [of 65536 "i div 256" 256] by (simp add: zdiv_zmult2_eq [symmetric])
    moreover have "i div 65536 mod 65536 = 256 * (i div 16777216 mod 256) + i div 65536 mod 256"
      using zmod_zmult2_eq [of 256 "i div 65536" 256] by (simp add: zdiv_zmult2_eq [symmetric])
    ultimately show ?thesis by (rule gen)
  qed
  have n: "int32_bytes i @ t = [b0, b1, b2, b3] @ t \<Longrightarrow> bytes_int32 (int32_bytes i @ t) =
      to_int32 (of_char b0 + 256 * of_char b1 + 65536 * of_char b2 + 16777216 * of_char b3)" for b0 b1 b2 b3
    by (simp add: bytes_int32_def)
  have "bytes_int32 (int32_bytes i @ t) = to_int32 ?s"
    unfolding n [OF arg_cong [OF int32_bytes_def]] of_char_byte ..
  also have "\<dots> = to_int32 (i mod 4294967296)" by (simp only: sum)
  also have "\<dots> = to_int32 i" by (simp add: to_int32_def mod_simps)
  finally show ?thesis using r by simp
qed

subsection \<open>Shared memory\<close>

definition resize :: "int \<Rightarrow> char list \<Rightarrow> char list" where
  \<comment> \<open>\<open>ftruncate\<close>, which refuses a negative size\<close>
  "resize n b = (if n < 0 then b else take (nat n) b @ replicate (nat n - length b) NUL)"

definition create_shm_data ::
  "shm_env \<Rightarrow> string \<Rightarrow> int \<Rightarrow> world \<Rightarrow> region option \<times> world" where
  "create_shm_data S key sz w =
     (if \<not> se_open S key then (None, w)
      else
        let w = w\<lparr>w_shm := (w_shm w)(key := resize sz (w_shm w key))\<rparr> in
        case (if sz \<le> 0 then None else se_mmap S w) of
          None \<Rightarrow> (None, w\<lparr>w_shm := (w_shm w)(key := [])\<rparr>)
        | Some base \<Rightarrow> (Some \<lparr>rg_key = key, rg_base = base, rg_off = 0\<rparr>, w\<lparr>w_maps := base # w_maps w\<rparr>))"

definition region_write :: "region \<Rightarrow> char list \<Rightarrow> world \<Rightarrow> world cres" where
  "region_write r b w =
     (let m = w_shm w (rg_key r) in
      if rg_off r + length b \<le> length m
      then Inr (w\<lparr>w_shm := (w_shm w)(rg_key r := put_at m (rg_off r) b)\<rparr>) else Inl Buffer_Overflow)"

definition region_read :: "region \<Rightarrow> world \<Rightarrow> char list" where
  \<comment> \<open>the bytes behind the pointer\<close>
  "region_read r w = drop (rg_off r) (w_shm w (rg_key r))"

definition page_aligned :: "region \<Rightarrow> bool" where
  \<comment> \<open>a mapping's base is aligned\<close>
  "page_aligned r \<longleftrightarrow> rg_off r mod 4096 = 0"

definition munmap :: "region \<Rightarrow> world \<Rightarrow> world" where
  \<comment> \<open>refused for an address that is not page aligned; the argument is logged either way\<close>
  "munmap r w =
     w\<lparr>w_unmaps := w_unmaps w @ [rg_base r + rg_off r],
       w_maps := (if page_aligned r then removeAll (rg_base r + rg_off r) (w_maps w) else w_maps w)\<rparr>"

subsection \<open>Creating and releasing\<close>

definition create_tcp_server :: "shm_env \<Rightarrow> string \<Rightarrow> shmn \<Rightarrow> (bool \<times> shmn) cres" where
  \<comment> \<open>whether it worked; the path goes into the 108 bytes of \<open>sun_path\<close>\<close>
  "create_tcp_server S path s =
     (case se_socket S of
        None \<Rightarrow> Inr (False, s)
      | Some fd \<Rightarrow> cbind (sprintf_into 108 path) (\<lambda>_.
          Inr (se_thread S, s\<lparr>sh_epoll := True, sh_self_fd := fd, sh_listen := se_thread S\<rparr>)))"

definition connect_to_tcp_server :: "shm_env \<Rightarrow> string \<Rightarrow> shmn \<Rightarrow> (bool \<times> shmn) cres" where
  "connect_to_tcp_server S path s =
     (case se_socket S of
        None \<Rightarrow> Inr (False, s)
      | Some fd \<Rightarrow> cbind (sprintf_into 108 path) (\<lambda>_.
          if se_connect S path then Inr (True, s\<lparr>sh_self_fd := fd\<rparr>) else Inr (False, s)))"

definition shmn_free :: "shmn option \<Rightarrow> world \<Rightarrow> world" where
  "shmn_free s w =
     (case s of
        None \<Rightarrow> w
      | Some s \<Rightarrow>
          let w = (case sh_send s of None \<Rightarrow> w | Some r \<Rightarrow> munmap r w);
              w = (case sh_send s of None \<Rightarrow> w | Some r \<Rightarrow> munmap r w)
          in case sh_rcvd s of None \<Rightarrow> w | Some r \<Rightarrow> munmap r w)"

definition empty_shmn :: "SHMN_ROLE \<Rightarrow> region \<Rightarrow> shmn" where
  "empty_shmn role data =
     \<lparr>sh_role = role, sh_enable_ex = False, sh_self_fd = 0, sh_epoll = False, sh_clients = [],
      sh_send = None, sh_rcvd = None, sh_sender_size = 0, sh_rcvder_size = 0, sh_listen = False,
      sh_recv_loop = False, sh_cb = False, sh_locker = Some data\<rparr>"

definition shmn_create ::
  "shm_env \<Rightarrow> SHMN_ROLE \<Rightarrow> string \<Rightarrow> string \<Rightarrow> int \<Rightarrow> world \<Rightarrow> (shmn option \<times> world) cres" where
  "shmn_create S role key path sz w =
     (if role \<noteq> SHMN_ROLE_READER \<and> role \<noteq> SHMN_ROLE_WRITER then Inr (None, w)
      else (case create_shm_data S key (sz + int lock_size) w of
          (None, w) \<Rightarrow> Inr (None, w)
        | (Some data, w) \<Rightarrow>
            let s = empty_shmn role data; shm = data\<lparr>rg_off := lock_size\<rparr> in
            cbind (if role = SHMN_ROLE_WRITER
                   then create_tcp_server S path (s\<lparr>sh_send := Some shm, sh_sender_size := sz\<rparr>)
                   else connect_to_tcp_server S path (s\<lparr>sh_rcvd := Some shm, sh_rcvder_size := sz\<rparr>))
              (\<lambda>(ok, s). if ok then Inr (Some s, w) else Inr (None, shmn_free (Some s) w))))"

definition shmn_enable_role_ex ::
  "shm_env \<Rightarrow> shmn option \<Rightarrow> string \<Rightarrow> int \<Rightarrow> world \<Rightarrow> SHMN_ERR \<times> shmn option \<times> world" where
  "shmn_enable_role_ex S s key sz w =
     (case s of
        None \<Rightarrow> (SHMN_ERR_EMPTY_OBJECT, None, w)
      | Some s \<Rightarrow>
          if sh_role s = SHMN_ROLE_WRITER then
            (if sh_rcvd s \<noteq> None then (SHMN_ERR_DATA_EXIST, Some s, w)
             else (case create_shm_data S key sz w of
                 (None, w) \<Rightarrow> (SHMN_ERR_EMPTY_OBJECT, Some s, w)
               | (Some d, w) \<Rightarrow>
                   (SHMN_NO_ERR, Some (s\<lparr>sh_rcvd := Some d, sh_rcvder_size := sz, sh_enable_ex := True\<rparr>), w)))
          else if sh_role s = SHMN_ROLE_READER then
            (if sh_send s \<noteq> None then (SHMN_ERR_DATA_EXIST, Some s, w)
             else (case create_shm_data S key sz w of
                 (None, w) \<Rightarrow> (SHMN_ERR_EMPTY_OBJECT, Some s, w)
               | (Some d, w) \<Rightarrow>
                   (SHMN_NO_ERR, Some (s\<lparr>sh_send := Some d, sh_sender_size := sz, sh_enable_ex := True\<rparr>), w)))
          else (SHMN_NO_ERR, Some (s\<lparr>sh_enable_ex := True\<rparr>), w))"

subsection \<open>Writing\<close>

type_synonym data_write_cb = "region option \<Rightarrow> int \<Rightarrow> world \<Rightarrow> world cres"
  \<comment> \<open>a write callback with its user data\<close>

definition len_message :: "int \<Rightarrow> char list \<Rightarrow> char list cres" where
  \<comment> \<open>the ten bytes of \<open>len_str\<close>: the number, its terminator, and what the array held before\<close>
  "len_message len junk =
     cbind (sprintf_into INT_TO_STRING_MAX_LEN (show_int len)) (\<lambda>t.
       Inr (take INT_TO_STRING_MAX_LEN (t @ NUL # drop (Suc (length t)) junk)))"

definition server_send_data_foreach :: "char list \<Rightarrow> nat \<Rightarrow> world \<Rightarrow> world" where
  "server_send_data_foreach msg fd w = w\<lparr>w_stream := (w_stream w)(fd := w_stream w fd @ msg)\<rparr>"

definition shmn_copy :: "region option \<Rightarrow> char list \<Rightarrow> int \<Rightarrow> world \<Rightarrow> world cres" where
  \<comment> \<open>\<open>memcpy\<close> of \<open>len\<close> bytes to the send pointer; a negative length is a huge one\<close>
  "shmn_copy dst data len w =
     (case dst of
        None \<Rightarrow> Inl Null_Deref
      | Some r \<Rightarrow>
          if len < 0 then Inl Buffer_Overflow
          else if length data < nat len then Inl Out_Of_Bounds
          else region_write r (take (nat len) data) w)"

definition shmn_write ::
  "shmn option \<Rightarrow> char list \<Rightarrow> int \<Rightarrow> data_write_cb option \<Rightarrow> char list \<Rightarrow> world \<Rightarrow> (SHMN_ERR \<times> world) cres" where
  "shmn_write s data len cb junk w =
     (case s of
        None \<Rightarrow> Inr (SHMN_ERR_EMPTY_OBJECT, w)
      | Some s \<Rightarrow>
          if len > sh_sender_size s then Inr (SHMN_ERR_DATA_SIZE, w)
          else if sh_role s = SHMN_ROLE_WRITER then
            cbind (case cb of Some f \<Rightarrow> f (sh_send s) len w | None \<Rightarrow> shmn_copy (sh_send s) data len w) (\<lambda>w.
            cbind (len_message len junk) (\<lambda>msg.
              Inr (SHMN_NO_ERR, fold (server_send_data_foreach msg) (sh_clients s) w)))
          else if sh_role s = SHMN_ROLE_READER \<and> sh_enable_ex s then
            cbind (shmn_copy (sh_send s) data len w) (\<lambda>w.
            cbind (len_message len junk) (\<lambda>msg.
              Inr (SHMN_NO_ERR, server_send_data_foreach msg (sh_self_fd s) w)))
          else Inr (SHMN_NO_ERR, w))"

subsection \<open>Receiving\<close>

text \<open>One round of a loop reads from the socket; \<open>other\<close> is the far end's name for it.\<close>

definition number_ends :: "char list \<Rightarrow> bool" where
  \<comment> \<open>\<open>atoi\<close> on an array without terminator stays inside it\<close>
  "number_ends b \<longleftrightarrow>
     (case dropWhile is_space b of
        [] \<Rightarrow> False
      | c # t \<Rightarrow> dropWhile is_digit (if c = CHR ''-'' \<or> c = CHR ''+'' then t else c # t) \<noteq> [])"

definition atoi_in :: "char list \<Rightarrow> int cres" where
  "atoi_in b = (if number_ends b then Inr (atoi b) else Inl Out_Of_Bounds)"

definition call_user :: "shmn \<Rightarrow> char list option \<Rightarrow> int \<Rightarrow> int \<Rightarrow> user_call cres" where
  "call_user s data sz err = (if sh_cb s then Inr (Update_Cb data sz err) else Inl Null_Deref)"

definition recv_round :: "shmn \<Rightarrow> nat \<Rightarrow> char list \<Rightarrow> world \<Rightarrow> (user_call \<times> world) cres" where
  \<comment> \<open>one successful \<open>read\<close> of \<open>recv_loop\<close>; \<open>old\<close> is what \<open>buff\<close> holds from the round before\<close>
  "recv_round s other old w =
     (let got = take INT_TO_STRING_MAX_LEN (w_stream w other) in
      if got = [] then
        cbind (call_user s None 0 CB_ERR_DISCONNETED) (\<lambda>c. Inr (c, w))
      else
        cbind (atoi_in (put_at old 0 got)) (\<lambda>len.
        cbind (call_user s (map_option (\<lambda>r. region_read r w) (sh_rcvd s)) len CB_NO_ERR) (\<lambda>c.
          Inr (c, w\<lparr>w_stream := (w_stream w)(other := drop INT_TO_STRING_MAX_LEN (w_stream w other))\<rparr>))))"

definition listen_accept :: "nat \<Rightarrow> shmn \<Rightarrow> shmn" where
  \<comment> \<open>a new connection\<close>
  "listen_accept connfd s = s\<lparr>sh_clients := sh_clients s @ [connfd]\<rparr>"

definition listen_read ::
  "shmn \<Rightarrow> nat \<Rightarrow> nat \<Rightarrow> char list \<Rightarrow> world \<Rightarrow> (shmn \<times> user_call list \<times> world) cres" where
  \<comment> \<open>\<open>listen_client\<close> on a readable client \<open>fd\<close>: at most four bytes; \<open>old\<close> is what the array holds\<close>
  "listen_read s fd other old w =
     (let got = take 4 (w_stream w other);
          w' = w\<lparr>w_stream := (w_stream w)(other := drop 4 (w_stream w other))\<rparr> in
      if got = [] then Inr (s\<lparr>sh_clients := remove1 fd (sh_clients s)\<rparr>, [], w)
      else if \<not> sh_enable_ex s then Inr (s, [], w')
      else
        cbind (atoi_in (put_at old 0 got)) (\<lambda>len.
        cbind (call_user s (map_option (\<lambda>r. region_read r w) (sh_rcvd s)) len CB_NO_ERR) (\<lambda>c.
          Inr (s, [c], w'))))"

fun listen_rounds ::
  "nat \<Rightarrow> shmn \<Rightarrow> nat \<Rightarrow> nat \<Rightarrow> char list \<Rightarrow> world \<Rightarrow> (shmn \<times> user_call list \<times> world) cres" where
  \<comment> \<open>so many rounds on the same client while bytes are there\<close>
  "listen_rounds 0 s fd other old w = Inr (s, [], w)"
| "listen_rounds (Suc n) s fd other old w =
     (if w_stream w other = [] then Inr (s, [], w)
      else
        cbind (listen_read s fd other old w) (\<lambda>(s, cs, w).
        cbind (listen_rounds n s fd other old w) (\<lambda>(s, cs', w). Inr (s, cs @ cs', w))))"

definition shmn_read_loop :: "shm_env \<Rightarrow> shmn \<Rightarrow> (SHMN_ERR \<times> shmn) cres" where
  \<comment> \<open>\<open>ret\<close> is only assigned for a reader\<close>
  "shmn_read_loop S s =
     (let s = s\<lparr>sh_cb := True\<rparr> in
      if sh_role s = SHMN_ROLE_READER then
        (if se_thread S then Inr (SHMN_NO_ERR, s\<lparr>sh_recv_loop := True\<rparr>) else Inr (SHMN_ERR_UNDEFINED, s))
      else Inl Uninit_Read)"

subsection \<open>The channel lock\<close>

partial_function (option) lock_spin :: "(nat \<Rightarrow> int) \<Rightarrow> nat \<Rightarrow> nat option" where
  \<comment> \<open>the loop over the values of \<open>n\<close> read one after the other; the index of the read that ends it\<close>
  "lock_spin obs i = (if obs i \<noteq> LOCK_STATE_VAL then lock_spin obs (Suc i) else Some i)"

declare lock_spin.simps [code]

definition shmn_lock_channel ::
  "shmn option \<Rightarrow> (nat \<Rightarrow> int) \<Rightarrow> world \<Rightarrow> (SHMN_ERR \<times> world) option" where
  \<comment> \<open>\<open>None\<close>: the function does not return\<close>
  "shmn_lock_channel s obs w =
     (case s of
        None \<Rightarrow> Some (SHMN_ERR_EMPTY_OBJECT, w)
      | Some s \<Rightarrow>
          (case sh_locker s of
             None \<Rightarrow> Some (SHMN_ERR_EMPTY_OBJECT, w)
           | Some r \<Rightarrow>
               map_option (\<lambda>_. (SHMN_NO_ERR,
                   w\<lparr>w_shm := (w_shm w)(rg_key r := put_at (w_shm w (rg_key r)) (rg_off r) (int32_bytes LOCK_STATE_VAL))\<rparr>))
                 (lock_spin obs 0)))"

definition shmn_unlock_channel :: "shmn option \<Rightarrow> world \<Rightarrow> SHMN_ERR \<times> world" where
  "shmn_unlock_channel s w =
     (case s of
        None \<Rightarrow> (SHMN_ERR_EMPTY_OBJECT, w)
      | Some s \<Rightarrow>
          (case sh_locker s of
             None \<Rightarrow> (SHMN_ERR_EMPTY_OBJECT, w)
           | Some r \<Rightarrow>
               (SHMN_NO_ERR,
                w\<lparr>w_shm := (w_shm w)(rg_key r := put_at (w_shm w (rg_key r)) (rg_off r) (int32_bytes UNLOCK_STATE_VAL))\<rparr>)))"

definition lock_value :: "shmn \<Rightarrow> world \<Rightarrow> int" where
  "lock_value s w = (case sh_locker s of None \<Rightarrow> 0 | Some r \<Rightarrow> bytes_int32 (region_read r w))"

end
