(* ===== verification/Shm_Props.thy ===== *)
theory Shm_Props
  imports Shm
begin

text \<open>
  Properties of the shared-memory notifier: a write reaches the reader with its length and bytes, the
  lengths for which writing is defined, what the server makes of a length sent back to it, the
  channel lock, and what releasing an object releases.
\<close>

subsection \<open>The length on the wire\<close>

lemma number_ends_show:
  assumes "0 \<le> i" shows "number_ends (show_int i @ NUL # x)"
proof -
  obtain c t where ct: "show_nat (nat i) = c # t" by (cases "show_nat (nat i)") (auto simp: show_nat_nonempty)
  have d: "\<forall>c\<in>set (show_nat (nat i)). is_digit c" by (rule show_nat_digits)
  with ct have "\<not> is_space c" "c \<noteq> CHR ''-''" "c \<noteq> CHR ''+''" by (auto dest: is_digit_misc)
  moreover have "dropWhile is_digit (show_nat (nat i) @ NUL # x) = NUL # x"
    using d by (subst dropWhile_append2) (auto simp: is_digit_def)
  ultimately show ?thesis using assms ct by (simp add: number_ends_def show_int_def)
qed

lemma atoi_show_nul: "atoi (show_int i @ NUL # x) = i"
  by (rule atoi_show_int) (simp add: no_digit_head_def is_digit_def)

lemma length_show_int: "0 \<le> i \<Longrightarrow> length (show_int i) = length (show_nat (nat i))"
  by (simp add: show_int_def)

lemma show_int_short: "0 \<le> i \<Longrightarrow> length (show_int i) \<le> k \<longleftrightarrow> i < 10 ^ k" if "0 < k"
proof -
  assume i: "0 \<le> i"
  have "nat i < 10 ^ k \<longleftrightarrow> i < 10 ^ k" using i by (simp add: nat_less_iff)
  moreover have "nat i < 10 ^ k \<Longrightarrow> length (show_nat (nat i)) \<le> k" by (rule length_show_nat_bound) (use that in simp_all)
  moreover have "\<not> nat i < 10 ^ k \<Longrightarrow> \<not> length (show_nat (nat i)) \<le> k"
    using length_show_nat_lower [of k "nat i"] by simp
  ultimately show ?thesis using i by (auto simp: length_show_int)
qed

lemma len_message_eq:
  assumes "0 \<le> len" and "length junk = INT_TO_STRING_MAX_LEN"
  shows "len_message len junk =
    (if len < 1000000000
     then Inr (show_int len @ NUL # drop (Suc (length (show_int len))) junk) else Inl Buffer_Overflow)"
proof (cases "len < 1000000000")
  case True
  then have "length (show_int len) \<le> 9" using show_int_short [of 9 len] assms(1) by simp
  with assms True show ?thesis by (simp add: len_message_def sprintf_into_def)
next
  case False
  then have "\<not> length (show_int len) \<le> 9" using show_int_short [of 9 len] assms(1) by simp
  with False show ?thesis by (simp add: len_message_def sprintf_into_def)
qed

lemma length_len_message:
  assumes "len_message len junk = Inr msg" and "length junk = INT_TO_STRING_MAX_LEN"
  shows "length msg = INT_TO_STRING_MAX_LEN"
  using assms by (auto simp: len_message_def sprintf_into_Inr elim!: cbind_InrE)

lemma fold_send:
  "distinct fds \<Longrightarrow> w_shm (fold (server_send_data_foreach msg) fds w) = w_shm w
    \<and> w_stream (fold (server_send_data_foreach msg) fds w) fd =
        (if fd \<in> set fds then w_stream w fd @ msg else w_stream w fd)"
  by (induction fds arbitrary: w) (auto simp: server_send_data_foreach_def)

lemma take_put_at: "i + length b \<le> length m \<Longrightarrow> take (length b) (drop i (put_at m i b)) = b"
  by (simp add: put_at_def)

subsection \<open>A writer and a reader as a transport of frames\<close>

definition linked :: "shmn \<Rightarrow> shmn \<Rightarrow> nat \<Rightarrow> nat \<Rightarrow> world \<Rightarrow> bool" where
  \<comment> \<open>a writer \<open>s\<close> with room for so many bytes, and a reader \<open>t\<close> of the same object behind the client \<open>fd\<close>\<close>
  "linked s t fd n w \<longleftrightarrow>
     sh_role s = SHMN_ROLE_WRITER \<and> distinct (sh_clients s) \<and> fd \<in> set (sh_clients s) \<and> w_stream w fd = []
     \<and> sh_cb t \<and> int n \<le> sh_sender_size s \<and> n < 1000000000
     \<and> (case (sh_send s, sh_rcvd t) of
          (Some r, Some r') \<Rightarrow> rg_key r' = rg_key r \<and> rg_off r' = rg_off r
            \<and> rg_off r + n \<le> length (w_shm w (rg_key r))
        | _ \<Rightarrow> False)"

lemma recv_round_msg:
  assumes "w_stream w fd = msg" and "length msg = 10" and "length old = 10" and "atoi_in msg = Inr len"
    and "sh_cb t" and "sh_rcvd t = Some r"
  shows "recv_round t fd old w = Inr (Update_Cb (Some (region_read r w)) len CB_NO_ERR, w\<lparr>w_stream := (w_stream w)(fd := [])\<rparr>)"
proof -
  have p: "put_at old 0 msg = msg" using assms(2,3) by (simp add: put_at_def)
  have ne: "msg \<noteq> []" using assms(2) by auto
  show ?thesis using assms(1,2,4-6) p ne by (simp add: recv_round_def call_user_def)
qed

lemma write_recv:
  assumes "linked s t fd (length data) w" and "length junk = 10" and "length old = 10"
  shows "\<exists>w1 w2 bytes. shmn_write (Some s) data (int (length data)) None junk w = Inr (SHMN_NO_ERR, w1)
    \<and> recv_round t fd old w1 = Inr (Update_Cb (Some bytes) (int (length data)) CB_NO_ERR, w2)
    \<and> take (length data) bytes = data \<and> w_stream w2 fd = []"
proof -
  obtain r r' where r: "sh_send s = Some r" "sh_rcvd t = Some r'" "rg_key r' = rg_key r" "rg_off r' = rg_off r"
      "rg_off r + length data \<le> length (w_shm w (rg_key r))"
    using assms(1) by (auto simp: linked_def split: option.splits)
  have l: "sh_role s = SHMN_ROLE_WRITER" "distinct (sh_clients s)" "fd \<in> set (sh_clients s)" "w_stream w fd = []"
      "sh_cb t" "int (length data) \<le> sh_sender_size s" "length data < 1000000000"
    using assms(1) by (simp_all add: linked_def)
  let ?len = "int (length data)" and ?m = "w_shm w (rg_key r)"
  let ?x = "drop (Suc (length (show_int ?len))) junk"
  let ?msg = "show_int ?len @ NUL # ?x"
  let ?w = "w\<lparr>w_shm := (w_shm w)(rg_key r := put_at ?m (rg_off r) data)\<rparr>"
  let ?w1 = "fold (server_send_data_foreach ?msg) (sh_clients s) ?w"
  have m: "len_message ?len junk = Inr ?msg" using len_message_eq [of ?len junk] assms(2) l(7) by simp
  have c: "shmn_copy (sh_send s) data ?len w = Inr ?w"
    using r(1,5) by (simp add: shmn_copy_def region_write_def)
  have w: "shmn_write (Some s) data ?len None junk w = Inr (SHMN_NO_ERR, ?w1)"
    using l(1,6) m c by (simp add: shmn_write_def)
  have ln: "length ?msg = 10" using length_len_message [OF m] assms(2) by simp
  have st: "w_stream ?w1 fd = ?msg" and mem: "w_shm ?w1 = w_shm ?w"
    using fold_send [OF l(2), of ?msg ?w fd] l(3,4) by simp_all
  have a: "atoi_in ?msg = Inr ?len" using number_ends_show [of ?len ?x] by (simp add: atoi_in_def atoi_show_nul)
  let ?b = "region_read r' ?w1"
  have "recv_round t fd old ?w1 = Inr (Update_Cb (Some ?b) ?len CB_NO_ERR, ?w1\<lparr>w_stream := (w_stream ?w1)(fd := [])\<rparr>)"
    by (rule recv_round_msg [OF st ln assms(3) a l(5) r(2)])
  moreover have "take (length data) ?b = data"
    using mem r(3-5) take_put_at [of "rg_off r" data ?m] by (simp add: region_read_def)
  ultimately show ?thesis using w by (intro exI conjI) auto
qed

definition channel_send :: "shmn \<Rightarrow> char list \<Rightarrow> char list \<Rightarrow> world \<Rightarrow> world option" where
  "channel_send s junk d w =
     (case shmn_write (Some s) d (int (length d)) None junk w of
        Inr (SHMN_NO_ERR, w') \<Rightarrow> Some w' | _ \<Rightarrow> None)"

definition channel_deliver :: "shmn \<Rightarrow> nat \<Rightarrow> char list \<Rightarrow> world \<Rightarrow> (char list \<times> int) option" where
  "channel_deliver t fd old w =
     (case recv_round t fd old w of Inr (Update_Cb (Some b) n _, _) \<Rightarrow> Some (b, n) | _ \<Rightarrow> None)"

text \<open>What a client of the notifier relies on: a frame that fits is delivered whole, with its length.\<close>

locale frame_transport =
  fixes ready :: "nat \<Rightarrow> 'w \<Rightarrow> bool"
    and send :: "char list \<Rightarrow> 'w \<Rightarrow> 'w option"
    and deliver :: "'w \<Rightarrow> (char list \<times> int) option"
  assumes delivered: "ready (length d) w \<Longrightarrow>
    \<exists>w' b. send d w = Some w' \<and> deliver w' = Some (b, int (length d)) \<and> take (length d) b = d"
begin

lemma framed:
  assumes "ready (length h + length d) w"
  shows "\<exists>w' b. send (h @ d) w = Some w' \<and> deliver w' = Some (b, int (length h + length d))
    \<and> take (length h) b = h \<and> take (length d) (drop (length h) b) = d"
proof -
  obtain w' b where b: "send (h @ d) w = Some w'" "deliver w' = Some (b, int (length (h @ d)))"
      "take (length (h @ d)) b = h @ d"
    using delivered [of "h @ d" w] assms by auto
  have "take (length h) b = take (length h) (take (length (h @ d)) b)" by (simp add: min_absorb1)
  then have "take (length h) b = h" unfolding b(3) by simp
  moreover have "take (length d) (drop (length h) b) = drop (length h) (take (length (h @ d)) b)"
    by (simp add: drop_take)
  then have "take (length d) (drop (length h) b) = d" unfolding b(3) by simp
  ultimately show ?thesis using b by auto
qed

end

interpretation shm: frame_transport "\<lambda>n w. linked s t fd n w \<and> length junk = 10 \<and> length old = 10"
    "channel_send s junk" "channel_deliver t fd old" for s t fd junk old
proof (unfold_locales)
  fix d :: "char list" and w
  assume "linked s t fd (length d) w \<and> length junk = 10 \<and> length old = 10"
  then obtain w1 w2 bytes where "shmn_write (Some s) d (int (length d)) None junk w = Inr (SHMN_NO_ERR, w1)"
      "recv_round t fd old w1 = Inr (Update_Cb (Some bytes) (int (length d)) CB_NO_ERR, w2)"
      "take (length d) bytes = d"
    using write_recv [of s t fd d w junk old] by auto
  then show "\<exists>w' b. channel_send s junk d w = Some w' \<and> channel_deliver t fd old w' = Some (b, int (length d))
      \<and> take (length d) b = d"
    by (simp add: channel_send_def channel_deliver_def)
qed

subsection \<open>The properties\<close>


definition sample_writer :: shmn where
  "sample_writer =
     \<lparr>sh_role = SHMN_ROLE_WRITER, sh_enable_ex = True, sh_self_fd = 3, sh_epoll = True, sh_clients = [5],
      sh_send = Some \<lparr>rg_key = ''k'', rg_base = 4096, rg_off = 4\<rparr>,
      sh_rcvd = Some \<lparr>rg_key = ''x'', rg_base = 8192, rg_off = 0\<rparr>, sh_sender_size = 16,
      sh_rcvder_size = 16, sh_listen = True, sh_recv_loop = False, sh_cb = True,
      sh_locker = Some \<lparr>rg_key = ''k'', rg_base = 4096, rg_off = 0\<rparr>\<rparr>"

definition sample_world :: world where
  "sample_world = \<lparr>w_shm = \<lambda>_. replicate 20 NUL, w_maps = [4096], w_unmaps = [], w_stream = \<lambda>_. []\<rparr>"

definition sample_reader :: shmn where
  "sample_reader = sample_writer\<lparr>sh_role := SHMN_ROLE_READER, sh_rcvd := sh_send sample_writer, sh_send := sh_rcvd sample_writer\<rparr>"

lemma sample_linked: "linked sample_writer sample_reader 5 3 sample_world"
  by (simp add: linked_def sample_reader_def sample_writer_def sample_world_def)


text \<open>
  C37: the lengths for which a writer's \<open>shmn_write\<close> is defined. With an object of the writer's size and
  enough source bytes it is defined exactly for lengths that are refused as too large and for those
  from 0 to below 10^9: a negative length is not refused and is copied as a huge one, and a length of
  ten digits overruns the ten bytes of \<open>len_str\<close>.
\<close>
theorem shmn_write_defined:
  assumes "sh_role s = SHMN_ROLE_WRITER" and "sh_send s = Some r"
    and "int (length (w_shm w (rg_key r))) = int (rg_off r) + sh_sender_size s"
    and "nat len \<le> length data" and "length junk = 10"
  shows "defined (shmn_write (Some s) data len None junk w) \<longleftrightarrow>
    sh_sender_size s < len \<or> 0 \<le> len \<and> len < 1000000000"
proof (cases "sh_sender_size s < len")
  case True
  then show ?thesis by (simp add: shmn_write_def)
next
  case False
  show ?thesis
  proof (cases "0 \<le> len")
    case True
    with False assms(3) have "rg_off r + nat len \<le> length (w_shm w (rg_key r))" by linarith
    with True assms(2,4) obtain w1 where "shmn_copy (sh_send s) data len w = Inr w1"
      by (simp add: shmn_copy_def region_write_def min_absorb2)
    with False True assms(1,5) show ?thesis by (simp add: shmn_write_def len_message_eq)
  next
    case neg: False
    with False assms(1,2) show ?thesis by (simp add: shmn_write_def shmn_copy_def)
  qed
qed

lemma shmn_write_defined_witness:
  "\<not> defined (shmn_write (Some sample_writer) ''abc'' (- 1) None (replicate 10 NUL) sample_world)
   \<and> defined (shmn_write (Some sample_writer) ''abc'' 3 None (replicate 10 NUL) sample_world)"
  using shmn_write_defined [of sample_writer "\<lparr>rg_key = ''k'', rg_base = 4096, rg_off = 4\<rparr>" sample_world
      "- 1" "''abc''" "replicate 10 NUL"]
    shmn_write_defined [of sample_writer "\<lparr>rg_key = ''k'', rg_base = 4096, rg_off = 4\<rparr>" sample_world
      3 "''abc''" "replicate 10 NUL"]
  by (simp add: sample_writer_def sample_world_def)

text \<open>
  A length a reader sends back is cut up by the server, which reads four bytes where ten were
  written: from 1000 on the digits fill the four bytes and reading them as a number runs past the
  array; below that the user is called with the right length, but six bytes of the message stay in
  the stream and are taken for further lengths.
\<close>
theorem listen_cuts_message:
  assumes "len_message len junk = Inr msg" and "0 \<le> len" and "length junk = 10" and "length old = 4"
    and "w_stream w other = msg" and "sh_enable_ex s" and "sh_cb s" and "sh_rcvd s = Some r"
  shows "if 1000 \<le> len then listen_read s fd other old w = Inl Out_Of_Bounds
    else \<exists>w'. listen_read s fd other old w = Inr (s, [Update_Cb (Some (region_read r w)) len CB_NO_ERR], w')
           \<and> w_stream w' other = drop 4 msg \<and> length (w_stream w' other) = 6"
proof -
  have l: "length msg = 10" by (rule length_len_message [OF assms(1,3)])
  have n: "len < 1000000000" using assms(1,2,3) len_message_eq [of len junk] by (auto split: if_splits)
  with assms(1,2,3) have msg: "msg = show_int len @ NUL # drop (Suc (length (show_int len))) junk"
    by (simp add: len_message_eq)
  have p: "put_at old 0 (take 4 msg) = take 4 msg" using l assms(4) by (simp add: put_at_def)
  have ne: "take 4 msg \<noteq> []" using l by auto
  show ?thesis
  proof (cases "1000 \<le> len")
    case True
    then have "\<not> length (show_int len) \<le> 3" using show_int_short [of 3 len] assms(2) by simp
    then have t: "take 4 msg = take 4 (show_int len)" by (simp add: msg)
    have "\<forall>c\<in>set (take 4 (show_int len)). is_digit c"
      using show_nat_digits [of "nat len"] assms(2) by (auto simp: show_int_def dest: in_set_takeD)
    with t have d: "\<forall>c\<in>set (take 4 msg). is_digit c" by simp
    obtain c u where cu: "take 4 msg = c # u" using ne by (cases "take 4 msg") auto
    with d have "\<not> is_space c" "c \<noteq> CHR ''-''" "c \<noteq> CHR ''+''" by (auto dest: is_digit_misc)
    moreover have "dropWhile is_digit (take 4 msg) = []" using d by (simp add: dropWhile_eq_Nil_conv)
    ultimately have "\<not> number_ends (take 4 msg)" by (simp add: number_ends_def cu)
    with True ne p assms(5,6) show ?thesis by (simp add: listen_read_def atoi_in_def)
  next
    case False
    then have s3: "length (show_int len) \<le> 3" using show_int_short [of 3 len] assms(2) by simp
    then obtain x where t: "take 4 msg = show_int len @ NUL # x"
      by (simp add: msg take_Cons')
    have "atoi_in (take 4 msg) = Inr len"
      using number_ends_show [OF assms(2), of x] by (simp add: t atoi_in_def atoi_show_nul)
    with False ne p l assms(5-8) show ?thesis by (simp add: listen_read_def call_user_def)
  qed
qed

lemma listen_cuts_message_witness:
  "listen_read sample_writer 5 5 (replicate 4 NUL)
      (sample_world\<lparr>w_stream := \<lambda>_. show_int 1234 @ NUL # replicate 5 NUL\<rparr>) = Inl Out_Of_Bounds"
proof -
  have len: "length (show_int 1234) = 4" by code_simp
  have m: "len_message 1234 (replicate 10 NUL) = Inr (show_int 1234 @ NUL # replicate 5 NUL)"
    using len_message_eq [of 1234 "replicate 10 NUL"] by (simp add: len)
  show ?thesis
    using listen_cuts_message [OF m, of "replicate 4 NUL"
        "sample_world\<lparr>w_stream := \<lambda>_. show_int 1234 @ NUL # replicate 5 NUL\<rparr>" 5 sample_writer
        "\<lparr>rg_key = ''x'', rg_base = 8192, rg_off = 0\<rparr>" 5]
    by (simp add: sample_writer_def)
qed

lemma lock_spin_sees: "lock_spin obs i = Some k \<Longrightarrow> obs k = LOCK_STATE_VAL"
  by (erule lock_spin.raw_induct [rotated, where P = "\<lambda>obs i k. obs k = LOCK_STATE_VAL"])
    (auto split: if_splits)

lemma lock_spin_never: "\<forall>j. obs j \<noteq> LOCK_STATE_VAL \<Longrightarrow> lock_spin obs i = None"
  using lock_spin_sees [of obs i] by (cases "lock_spin obs i") auto

lemma lock_spin_ends: "obs (i + n) = LOCK_STATE_VAL \<Longrightarrow> lock_spin obs i \<noteq> None"
proof (induction n arbitrary: i)
  case 0
  then show ?case by (simp add: lock_spin.simps)
next
  case (Suc n)
  then have "lock_spin obs (Suc i) \<noteq> None" by simp
  then show ?case by (subst lock_spin.simps) simp
qed

lemma lock_spin_iff: "lock_spin obs 0 \<noteq> None \<longleftrightarrow> (\<exists>i. obs i = LOCK_STATE_VAL)"
  using lock_spin_never [of obs 0] lock_spin_ends [of obs 0] by (metis add_0)

lemma lock_value_put:
  assumes "sh_locker s = Some r" and "rg_off r + lock_size \<le> length (w_shm w (rg_key r))" and "int_range v"
  shows "lock_value s (w\<lparr>w_shm := (w_shm w)(rg_key r := put_at (w_shm w (rg_key r)) (rg_off r) (int32_bytes v))\<rparr>) = v"
proof -
  have "drop (rg_off r) (put_at (w_shm w (rg_key r)) (rg_off r) (int32_bytes v))
      = int32_bytes v @ drop (rg_off r + 4) (w_shm w (rg_key r))"
    using assms(2) by (simp add: put_at_def)
  then show ?thesis using assms(1,3) by (simp add: lock_value_def region_read_def bytes_int32_roundtrip)
qed

text \<open>
  C35: the channel lock is inverted. \<open>shmn_lock_channel\<close> returns exactly when it sees the value that
  means locked: on a channel released by \<open>shmn_unlock_channel\<close>, whose value is then the unlocked one,
  it never returns, and on one another process holds it returns at once. It leaves the value that
  means locked.
\<close>
theorem lock_waits_for_locked:
  assumes "sh_locker s = Some r" and "rg_off r + lock_size \<le> length (w_shm w (rg_key r))"
  shows "(shmn_lock_channel (Some s) obs w \<noteq> None \<longleftrightarrow> (\<exists>i. obs i = LOCK_STATE_VAL))
    \<and> lock_value s (snd (shmn_unlock_channel (Some s) w)) = UNLOCK_STATE_VAL
    \<and> shmn_lock_channel (Some s) (\<lambda>_. lock_value s (snd (shmn_unlock_channel (Some s) w))) w = None
    \<and> (\<forall>e w'. shmn_lock_channel (Some s) obs w = Some (e, w') \<longrightarrow> e = SHMN_NO_ERR \<and> lock_value s w' = LOCK_STATE_VAL)"
proof -
  have ret: "shmn_lock_channel (Some s) f w \<noteq> None \<longleftrightarrow> (\<exists>i. f i = LOCK_STATE_VAL)" for f
    using lock_spin_iff [of f] assms(1) by (auto simp: shmn_lock_channel_def)
  have un: "lock_value s (snd (shmn_unlock_channel (Some s) w)) = UNLOCK_STATE_VAL"
    using lock_value_put [OF assms, of 0] assms(1) by (simp add: shmn_unlock_channel_def int_range_def)
  have "shmn_lock_channel (Some s) (\<lambda>_. lock_value s (snd (shmn_unlock_channel (Some s) w))) w = None"
    unfolding un using lock_spin_never [of "\<lambda>_. 0" 0] assms(1) by (simp add: shmn_lock_channel_def)
  moreover have "e = SHMN_NO_ERR \<and> lock_value s w' = LOCK_STATE_VAL"
    if "shmn_lock_channel (Some s) obs w = Some (e, w')" for e w'
    using that lock_value_put [OF assms, of 1] assms(1) by (auto simp: shmn_lock_channel_def int_range_def)
  ultimately show ?thesis using ret un by blast
qed

lemma lock_waits_for_locked_witness:
  "shmn_lock_channel (Some sample_writer) (\<lambda>_. 0) sample_world = None
   \<and> lock_value sample_writer (snd (shmn_unlock_channel (Some sample_writer) sample_world)) = 0"
  using lock_waits_for_locked [of sample_writer "\<lparr>rg_key = ''k'', rg_base = 4096, rg_off = 0\<rparr>" sample_world "\<lambda>_. 0"]
  by (auto simp: sample_writer_def sample_world_def)

subsection \<open>Releasing\<close>

definition mmap_fresh :: "shm_env \<Rightarrow> bool" where
  \<comment> \<open>documented behaviour of \<open>mmap\<close>: a new mapping starts on a page no live mapping has\<close>
  "mmap_fresh S \<longleftrightarrow> (\<forall>w b. se_mmap S w = Some b \<longrightarrow> b \<notin> set (w_maps w) \<and> b mod 4096 = 0)"

lemma create_shm_data_SomeD:
  assumes "create_shm_data S key sz w = (Some r, w')"
  shows "rg_off r = 0 \<and> w_maps w' = rg_base r # w_maps w \<and> w_unmaps w' = w_unmaps w
    \<and> (mmap_fresh S \<longrightarrow> rg_base r \<notin> set (w_maps w))"
  using assms by (force simp: create_shm_data_def mmap_fresh_def Let_def split: if_splits option.splits)

lemma connect_keeps:
  "connect_to_tcp_server S path s = Inr (ok, s') \<Longrightarrow> \<exists>fd. s' = s\<lparr>sh_self_fd := fd\<rparr>"
  by (cases s) (auto simp: connect_to_tcp_server_def split: option.splits if_splits elim!: cbind_InrE)

lemma shmn_create_readerD:
  assumes "shmn_create S SHMN_ROLE_READER key path sz w = Inr (Some s, w')"
  shows "\<exists>r. w_maps w' = rg_base r # w_maps w \<and> w_unmaps w' = w_unmaps w \<and> sh_send s = None
    \<and> sh_rcvd s = Some (r\<lparr>rg_off := lock_size\<rparr>) \<and> sh_role s = SHMN_ROLE_READER"
proof -
  obtain r w1 where c: "create_shm_data S key (sz + int lock_size) w = (Some r, w1)"
    using assms by (auto simp: shmn_create_def split: prod.splits option.splits)
  let ?s = "(empty_shmn SHMN_ROLE_READER r)\<lparr>sh_rcvd := Some (r\<lparr>rg_off := lock_size\<rparr>), sh_rcvder_size := sz\<rparr>"
  have "cbind (connect_to_tcp_server S path ?s)
      (\<lambda>(ok, s). if ok then Inr (Some s, w1) else Inr (None, shmn_free (Some s) w1)) = Inr (Some s, w')"
    using assms by (simp add: shmn_create_def c [simplified] Let_def)
  then obtain ok where "connect_to_tcp_server S path ?s = Inr (ok, s)" "w' = w1"
    by (auto elim!: cbind_InrE split: if_splits)
  with connect_keeps [of S path ?s] create_shm_data_SomeD [OF c] show ?thesis
    by (auto simp: empty_shmn_def)
qed

text \<open>
  C36: \<open>shmn_free\<close> releases the wrong addresses. For a reader that was created and enabled to write
  back, the mapping that carries data back is unmapped twice, and the main mapping, whose pointer
  lies behind the lock and is not aligned to a page, is not unmapped at all: it is still live when
  \<open>shmn_free\<close> has returned.
\<close>
theorem free_leaks_main_mapping:
  assumes "shmn_create S SHMN_ROLE_READER key path sz w = Inr (Some s, w1)"
    and "shmn_enable_role_ex S (Some s) key' sz' w1 = (SHMN_NO_ERR, Some s', w2)" and "mmap_fresh S"
  shows "\<exists>main back. w_maps w2 = back # main # w_maps w
    \<and> w_unmaps (shmn_free (Some s') w2) = w_unmaps w @ [back, back, main + lock_size]
    \<and> main \<in> set (w_maps (shmn_free (Some s') w2)) \<and> back \<notin> set (w_maps (shmn_free (Some s') w2))"
proof -
  obtain r where r: "w_maps w1 = rg_base r # w_maps w" "w_unmaps w1 = w_unmaps w" "sh_send s = None"
      "sh_rcvd s = Some (r\<lparr>rg_off := lock_size\<rparr>)" "sh_role s = SHMN_ROLE_READER"
    using shmn_create_readerD [OF assms(1)] by blast
  then obtain b where c: "create_shm_data S key' sz' w1 = (Some b, w2)"
      and s': "sh_send s' = Some b" "sh_rcvd s' = sh_rcvd s"
    using assms(2) by (auto simp: shmn_enable_role_ex_def split: prod.splits option.splits)
  have b: "rg_off b = 0" "w_maps w2 = rg_base b # rg_base r # w_maps w" "w_unmaps w2 = w_unmaps w"
      "rg_base b \<noteq> rg_base r" "rg_base b \<notin> set (w_maps w)"
    using create_shm_data_SomeD [OF c] assms(3) r(1,2) by auto
  show ?thesis
    by (rule exI [of _ "rg_base r"], rule exI [of _ "rg_base b"])
      (use b r(4) s' in \<open>auto simp: shmn_free_def munmap_def page_aligned_def Let_def\<close>)
qed

definition sample_shm_env :: shm_env where
  "sample_shm_env =
     \<lparr>se_open = \<lambda>_. True, se_mmap = \<lambda>w. Some (4096 * Suc (sum_list (w_maps w))), se_socket = Some 3,
      se_connect = \<lambda>_. True, se_thread = True\<rparr>"

lemma sample_mmap_fresh: "mmap_fresh sample_shm_env"
proof -
  have "x \<in> set xs \<Longrightarrow> x \<le> sum_list xs" for x :: nat and xs by (rule member_le_sum_list) simp_all
  then have "4096 * Suc (sum_list xs) \<notin> set xs" for xs :: "nat list" by fastforce
  then show ?thesis by (simp add: mmap_fresh_def sample_shm_env_def)
qed

lemma free_leaks_main_mapping_witness:
  "\<exists>s w1 s' w2 main. shmn_create sample_shm_env SHMN_ROLE_READER ''k'' ''p'' 16 (sample_world\<lparr>w_maps := []\<rparr>) = Inr (Some s, w1)
    \<and> shmn_enable_role_ex sample_shm_env (Some s) ''x'' 16 w1 = (SHMN_NO_ERR, Some s', w2)
    \<and> main \<in> set (w_maps (shmn_free (Some s') w2))"
proof -
  obtain s w1 where c: "shmn_create sample_shm_env SHMN_ROLE_READER ''k'' ''p'' 16 (sample_world\<lparr>w_maps := []\<rparr>)
      = Inr (Some s, w1)"
    by (simp add: shmn_create_def create_shm_data_def connect_to_tcp_server_def sample_shm_env_def
        sprintf_into_def cbind_def)
  then have "sh_role s = SHMN_ROLE_READER" "sh_send s = None"
    using shmn_create_readerD by blast+
  then obtain s' w2 where e: "shmn_enable_role_ex sample_shm_env (Some s) ''x'' 16 w1 = (SHMN_NO_ERR, Some s', w2)"
    by (simp add: shmn_enable_role_ex_def create_shm_data_def sample_shm_env_def)
  show ?thesis using free_leaks_main_mapping [OF c e sample_mmap_fresh] c e by blast
qed

end
