(* ===== verification/Shm_Image.thy ===== *)
theory Shm_Image
  imports Shm_Props
begin

text \<open>
  Images over the notifier (\<open>lib/src/shm-comm/shmn_image.c\<close>): a header of six integers and the pixels are
  written as one frame, and the reader's callback hands out pointers to the header and the pixels. The
  round trip rests on the transport the notifier provides.
\<close>

subsection \<open>Data\<close>

record image_info =
  ii_wight :: int
  ii_height :: int
  ii_format :: int
  ii_depth :: int
  ii_channels :: int
  ii_data_size :: int

abbreviation (input) sizeof_image_info :: nat where "sizeof_image_info \<equiv> 24"

record image_obj =
  io_vi :: "char list option"      \<comment> \<open>the bytes behind the header pointer; none for null\<close>
  io_data :: "char list option"
  io_data_size :: int

record shmn_image =
  si_s :: "shmn option"
  si_io :: bool                    \<comment> \<open>\<open>io\<close> was allocated; the pointer is indeterminate otherwise\<close>
  si_cb :: bool

definition image_bytes :: "image_info \<Rightarrow> char list" where
  "image_bytes i =
     int32_bytes (ii_wight i) @ int32_bytes (ii_height i) @ int32_bytes (ii_format i)
     @ int32_bytes (ii_depth i) @ int32_bytes (ii_channels i) @ int32_bytes (ii_data_size i)"

definition read_image_info :: "char list \<Rightarrow> image_info" where
  "read_image_info b =
     \<lparr>ii_wight = bytes_int32 b, ii_height = bytes_int32 (drop 4 b), ii_format = bytes_int32 (drop 8 b),
      ii_depth = bytes_int32 (drop 12 b), ii_channels = bytes_int32 (drop 16 b),
      ii_data_size = bytes_int32 (drop 20 b)\<rparr>"

definition image_ints :: "image_info \<Rightarrow> int list" where
  "image_ints i = [ii_wight i, ii_height i, ii_format i, ii_depth i, ii_channels i, ii_data_size i]"

lemma length_image_bytes [simp]: "length (image_bytes i) = 24"
  by (simp add: image_bytes_def)

lemma bytes_int32_at:
  "length p = n \<Longrightarrow> int_range i \<Longrightarrow> bytes_int32 (drop n (p @ int32_bytes i @ t)) = i"
  by (simp add: bytes_int32_roundtrip)

lemma read_image_info_bytes:
  "list_all int_range (image_ints i) \<Longrightarrow> read_image_info (image_bytes i @ t) = i"
  by (cases i) (simp add: read_image_info_def image_bytes_def image_ints_def bytes_int32_roundtrip)

subsection \<open>Operations\<close>

definition shmn_image_create ::
  "shm_env \<Rightarrow> SHMN_ROLE \<Rightarrow> string \<Rightarrow> string \<Rightarrow> int \<Rightarrow> world \<Rightarrow> (shmn_image \<times> world) cres" where
  "shmn_image_create S role key path sz w =
     cbind (shmn_create S role key path (to_int32 (sz + int sizeof_image_info)) w) (\<lambda>(s, w).
       Inr (\<lparr>si_s = s, si_io = (role = SHMN_ROLE_READER), si_cb = False\<rparr>, w))"

definition image_data_write_cb :: "image_info \<Rightarrow> char list \<Rightarrow> data_write_cb" where
  \<comment> \<open>\<open>dst\<close> is the send pointer; the second copy's size is unsigned\<close>
  "image_data_write_cb ii img dst len w =
     (case dst of
        None \<Rightarrow> Inl Null_Deref
      | Some r \<Rightarrow>
          cbind (region_write r (image_bytes ii) w) (\<lambda>w.
            if len < int sizeof_image_info then Inl Buffer_Overflow
            else if length img < nat len - sizeof_image_info then Inl Out_Of_Bounds
            else region_write (r\<lparr>rg_off := rg_off r + sizeof_image_info\<rparr>) (take (nat len - sizeof_image_info) img) w))"

definition shmn_image_write ::
  "shmn_image option \<Rightarrow> char list option \<Rightarrow> int \<Rightarrow> image_info option \<Rightarrow> char list \<Rightarrow> char list \<Rightarrow> world \<Rightarrow>
    (SHMN_ERR \<times> world) cres" where
  \<comment> \<open>\<open>self\<close> is the memory of the \<open>shmn_image\<close> structure, which is what the notifier gets as its data\<close>
  "shmn_image_write si data sz ii self junk w =
     (case (si, ii, data) of
        (Some si, Some ii, Some img) \<Rightarrow>
          shmn_write (si_s si) self (to_int32 (sz + int sizeof_image_info)) (Some (image_data_write_cb ii img)) junk w
      | _ \<Rightarrow> Inr (SHMN_ERR_EMPTY_OBJECT, w))"

definition image_data_read_cb :: "shmn_image \<Rightarrow> user_call \<Rightarrow> (image_obj \<times> int) option cres" where
  \<comment> \<open>the call of the user's callback, if there is one\<close>
  "image_data_read_cb si c =
     (case c of Update_Cb data sz err_code \<Rightarrow>
        if \<not> si_io si then Inl Uninit_Read
        else
          let io = \<lparr>io_vi = data, io_data = map_option (drop sizeof_image_info) data,
                    io_data_size = to_int32 (sz - int sizeof_image_info)\<rparr>
          in Inr (if si_cb si then Some (io, err_code) else None))"

definition shmn_image_read_loop :: "shm_env \<Rightarrow> shmn_image \<Rightarrow> bool \<Rightarrow> (SHMN_ERR \<times> shmn_image) cres" where
  \<comment> \<open>\<open>cb\<close>: the callback is not null\<close>
  "shmn_image_read_loop S si cb =
     (case si_s si of
        None \<Rightarrow> Inl Null_Deref
      | Some s \<Rightarrow> cbind (shmn_read_loop S s) (\<lambda>(e, s). Inr (e, si\<lparr>si_s := Some s, si_cb := cb\<rparr>)))"

definition shmn_image_free :: "shmn_image \<Rightarrow> world \<Rightarrow> world" where
  "shmn_image_free si w = shmn_free (si_s si) w"

subsection \<open>The write callback copies one frame\<close>

lemma put_at_put_at:
  "i + length a + length b \<le> length m \<Longrightarrow> put_at (put_at m i a) (i + length a) b = put_at m i (a @ b)"
  by (simp add: put_at_def min_absorb1 min_absorb2 add.commute add.left_commute)

lemma image_cb_copies:
  assumes "rg_off r + 24 + length img \<le> length (w_shm w (rg_key r))"
  shows "image_data_write_cb ii img (Some r) (int (24 + length img)) w
    = shmn_copy (Some r) (image_bytes ii @ img) (int (24 + length img)) w"
proof -
  let ?m = "w_shm w (rg_key r)"
  have l: "length (put_at ?m (rg_off r) (image_bytes ii)) = length ?m" using assms by (simp add: put_at_def)
  have p: "put_at (put_at ?m (rg_off r) (image_bytes ii)) (rg_off r + 24) img
      = put_at ?m (rg_off r) (image_bytes ii @ img)"
    using put_at_put_at [of "rg_off r" "image_bytes ii" img ?m] assms by simp
  have n: "nat (24 + int (length img)) = 24 + length img" by simp
  show ?thesis
    using assms l p n by (simp add: image_data_write_cb_def shmn_copy_def region_write_def)
qed

lemma image_write_is_frame:
  assumes "linked s t fd (24 + length img) w" and "si_s si = Some s"
  shows "shmn_image_write (Some si) (Some img) (int (length img)) (Some ii) self junk w
    = shmn_write (Some s) (image_bytes ii @ img) (int (24 + length img)) None junk w"
proof -
  obtain r where r: "sh_send s = Some r" "rg_off r + (24 + length img) \<le> length (w_shm w (rg_key r))"
    using assms(1) by (auto simp: linked_def split: option.splits)
  have i: "to_int32 (int (length img) + int 24) = int (24 + length img)"
    using assms(1) by (subst to_int32_id) (simp_all add: linked_def int_range_def)
  have c: "image_data_write_cb ii img (sh_send s) (int (24 + length img)) w
      = shmn_copy (sh_send s) (image_bytes ii @ img) (int (24 + length img)) w"
    unfolding r(1) by (rule image_cb_copies) (use r(2) in simp)
  have role: "sh_role s = SHMN_ROLE_WRITER" using assms(1) by (simp add: linked_def)
  show ?thesis
    unfolding shmn_image_write_def assms(2) option.case prod.case i shmn_write_def c using role by simp
qed

lemma channel_sendD:
  "channel_send s junk d w = Some w' \<Longrightarrow> shmn_write (Some s) d (int (length d)) None junk w = Inr (SHMN_NO_ERR, w')"
  by (auto simp: channel_send_def split: sum.splits prod.splits SHMN_ERR.splits)

lemma channel_deliverD:
  assumes "channel_deliver t fd old w = Some (b, n)"
  shows "\<exists>err w'. recv_round t fd old w = Inr (Update_Cb (Some b) n err, w')"
  using assms by (auto simp: channel_deliver_def split: sum.splits prod.splits user_call.splits option.splits)


definition sample_image_world :: world where
  "sample_image_world = sample_world\<lparr>w_shm := \<lambda>_. replicate 64 NUL\<rparr>"

definition sample_image_info :: image_info where
  "sample_image_info =
     \<lparr>ii_wight = 640, ii_height = - 480, ii_format = 7, ii_depth = 8, ii_channels = 3, ii_data_size = 70000\<rparr>"

lemma sample_image_linked:
  "linked (sample_writer\<lparr>sh_sender_size := 60\<rparr>) sample_reader 5 (24 + length ''abc'') sample_image_world"
  by (simp add: linked_def sample_reader_def sample_writer_def sample_world_def sample_image_world_def)


text \<open>
  what the image layer does when the connection is gone or was never made. On the notifier's
  disconnect call the user gets an object with a null header and the size -24. When the notifier
  could not be created, \<open>shmn_image_create\<close> still hands out an object; writing to it is refused, and
  starting its read loop dereferences null.
\<close>
lemma image_without_connection:
  assumes "si_io rd" and "si_cb rd" and "w_stream w fd = []" and "sh_cb t"
    and "shmn_create S role key path (to_int32 (sz + 24)) w0 = Inr (None, w0')"
  shows "\<exists>c si. recv_round t fd old w = Inr (c, w)
    \<and> image_data_read_cb rd c = Inr (Some (\<lparr>io_vi = None, io_data = None, io_data_size = - 24\<rparr>, CB_ERR_DISCONNETED))
    \<and> shmn_image_create S role key path sz w0 = Inr (si, w0')
    \<and> shmn_image_write (Some si) data n ii self junk w0' = Inr (SHMN_ERR_EMPTY_OBJECT, w0')
    \<and> shmn_image_read_loop S si cb = Inl Null_Deref"
  using assms
  by (simp add: recv_round_def call_user_def image_data_read_cb_def shmn_image_create_def shmn_image_write_def
      shmn_image_read_loop_def shmn_write_def int_range_def split: option.split)

lemma image_without_connection_witness:
  "\<exists>c si. recv_round sample_reader 5 (replicate 10 NUL) sample_world = Inr (c, sample_world)
    \<and> shmn_image_create (sample_shm_env\<lparr>se_open := \<lambda>_. False\<rparr>) SHMN_ROLE_READER ''k'' ''p'' 8 sample_world
      = Inr (si, sample_world)
    \<and> shmn_image_read_loop (sample_shm_env\<lparr>se_open := \<lambda>_. False\<rparr>) si True = Inl Null_Deref"
  using image_without_connection [of "\<lparr>si_s = Some sample_reader, si_io = True, si_cb = True\<rparr>" sample_world 5
      sample_reader "sample_shm_env\<lparr>se_open := \<lambda>_. False\<rparr>" SHMN_ROLE_READER "''k''" "''p''" 8 sample_world
      sample_world "replicate 10 NUL" None 0 None "[]" "[]" True]
  by (auto simp: sample_reader_def sample_writer_def sample_world_def sample_shm_env_def shmn_create_def
      create_shm_data_def)

end
