(* ===== verification/Shm_Net.thy ===== *)
theory Shm_Net
  imports Shm_Props
begin

text \<open>
  A writer of the notifier with any number of readers, as a transition system: connections are accepted,
  frames are written, and each reader's receive loop does its rounds in its own time. The abstract
  machine is a mailbox: one memory, and for each reader a queue of lengths. The two are bisimilar, which
  says what the notifier promises (the lengths, in order, to every reader) and what not (the bytes of
  a frame, once a later one was written over it).
\<close>

subsection \<open>The notifier\<close>

datatype net_label =
    Join nat                        \<comment> \<open>a reader's connection was accepted\<close>
  | Post "char list"                \<comment> \<open>a frame was written\<close>
  | Refuse "char list"              \<comment> \<open>a frame was refused as too large\<close>
  | Took nat int "char list"        \<comment> \<open>a reader's callback ran: the length, and so many bytes at the pointer\<close>

record net =
  nt_writer :: shmn
  nt_world :: world
  nt_readers :: "nat \<Rightarrow> (shmn \<times> char list) option"   \<comment> \<open>the reader behind a connection, and its \<open>buff\<close>\<close>

definition attached :: "shmn \<Rightarrow> shmn \<Rightarrow> bool" where
  \<comment> \<open>a reader with a callback, on the writer's object\<close>
  "attached s t \<longleftrightarrow>
     sh_cb t \<and> (case (sh_send s, sh_rcvd t) of
        (Some r, Some r') \<Rightarrow> rg_key r' = rg_key r \<and> rg_off r' = rg_off r | _ \<Rightarrow> False)"

inductive net_step :: "net_label \<Rightarrow> net \<Rightarrow> net \<Rightarrow> bool" where
  net_join: "nt_readers n fd = None \<Longrightarrow> w_stream (nt_world n) fd = [] \<Longrightarrow> attached (nt_writer n) t \<Longrightarrow>
    length old = INT_TO_STRING_MAX_LEN \<Longrightarrow>
    net_step (Join fd) n (n\<lparr>nt_writer := listen_accept fd (nt_writer n), nt_readers := (nt_readers n)(fd \<mapsto> (t, old))\<rparr>)"
| net_post: "shmn_write (Some (nt_writer n)) d (int (length d)) None junk (nt_world n) = Inr (SHMN_NO_ERR, w) \<Longrightarrow>
    length junk = INT_TO_STRING_MAX_LEN \<Longrightarrow> net_step (Post d) n (n\<lparr>nt_world := w\<rparr>)"
| net_refuse: "shmn_write (Some (nt_writer n)) d (int (length d)) None junk (nt_world n) = Inr (SHMN_ERR_DATA_SIZE, w) \<Longrightarrow>
    length junk = INT_TO_STRING_MAX_LEN \<Longrightarrow> net_step (Refuse d) n (n\<lparr>nt_world := w\<rparr>)"
| net_take: "nt_readers n fd = Some (t, old) \<Longrightarrow> w_stream (nt_world n) fd \<noteq> [] \<Longrightarrow>
    recv_round t fd old (nt_world n) = Inr (Update_Cb (Some b) len CB_NO_ERR, w) \<Longrightarrow>
    net_step (Took fd len (take (nat len) b)) n
      (n\<lparr>nt_world := w, nt_readers := (nt_readers n)(fd \<mapsto>
         (t, put_at old 0 (take INT_TO_STRING_MAX_LEN (w_stream (nt_world n) fd))))\<rparr>)"

subsection \<open>The mailbox\<close>

record mailbox =
  mb_size :: nat
  mb_mem :: "char list"
  mb_queue :: "nat \<Rightarrow> nat list option"

definition overlay :: "char list \<Rightarrow> char list \<Rightarrow> char list" where
  "overlay d mem = d @ drop (length d) mem"

inductive mail_step :: "net_label \<Rightarrow> mailbox \<Rightarrow> mailbox \<Rightarrow> bool" where
  mail_join: "mb_queue m fd = None \<Longrightarrow> mail_step (Join fd) m (m\<lparr>mb_queue := (mb_queue m)(fd \<mapsto> [])\<rparr>)"
| mail_post: "length d \<le> mb_size m \<Longrightarrow>
    mail_step (Post d) m (m\<lparr>mb_mem := overlay d (mb_mem m),
      mb_queue := (\<lambda>fd. map_option (\<lambda>q. q @ [length d]) (mb_queue m fd))\<rparr>)"
| mail_refuse: "mb_size m < length d \<Longrightarrow> mail_step (Refuse d) m m"
| mail_take: "mb_queue m fd = Some (k # q) \<Longrightarrow>
    mail_step (Took fd (int k) (take k (mb_mem m))) m (m\<lparr>mb_queue := (mb_queue m)(fd \<mapsto> q)\<rparr>)"

inductive_cases mail_took: "mail_step (Took fd k b) m m'"

subsection \<open>The simulation relation\<close>

definition queued :: "char list \<Rightarrow> nat list \<Rightarrow> bool" where
  \<comment> \<open>a stream of messages that stand for these lengths\<close>
  "queued str q \<longleftrightarrow> (\<exists>ms. str = concat ms \<and> list_all2 (\<lambda>msg k. length msg = 10 \<and> atoi_in msg = Inr (int k)) ms q)"

definition writer_ok :: "shmn \<Rightarrow> world \<Rightarrow> mailbox \<Rightarrow> bool" where
  "writer_ok s w m \<longleftrightarrow>
     sh_role s = SHMN_ROLE_WRITER \<and> sh_sender_size s = int (mb_size m) \<and> mb_size m < 1000000000
     \<and> mb_size m \<le> length (mb_mem m)
     \<and> (case sh_send s of None \<Rightarrow> False
        | Some r \<Rightarrow> rg_off r \<le> length (w_shm w (rg_key r)) \<and> mb_mem m = drop (rg_off r) (w_shm w (rg_key r)))"

definition slot_ok :: "net \<Rightarrow> nat \<Rightarrow> nat list option \<Rightarrow> bool" where
  \<comment> \<open>what stands for a reader's queue: its connection, the bytes under way, its handle and buffer\<close>
  "slot_ok n fd qo =
     (case qo of
        None \<Rightarrow> nt_readers n fd = None \<and> fd \<notin> set (sh_clients (nt_writer n)) \<and> w_stream (nt_world n) fd = []
      | Some q \<Rightarrow> fd \<in> set (sh_clients (nt_writer n)) \<and> queued (w_stream (nt_world n) fd) q
          \<and> (\<exists>t old. nt_readers n fd = Some (t, old) \<and> attached (nt_writer n) t \<and> length old = 10))"

definition mailbox_of :: "net \<Rightarrow> mailbox \<Rightarrow> bool" where
  "mailbox_of n m \<longleftrightarrow>
     writer_ok (nt_writer n) (nt_world n) m \<and> distinct (sh_clients (nt_writer n)) \<and> (\<forall>fd. slot_ok n fd (mb_queue m fd))"

lemma slot_ok_simps:
  "slot_ok n fd None \<longleftrightarrow> nt_readers n fd = None \<and> fd \<notin> set (sh_clients (nt_writer n)) \<and> w_stream (nt_world n) fd = []"
  "slot_ok n fd (Some q) \<longleftrightarrow> fd \<in> set (sh_clients (nt_writer n)) \<and> queued (w_stream (nt_world n) fd) q
     \<and> (\<exists>t old. nt_readers n fd = Some (t, old) \<and> attached (nt_writer n) t \<and> length old = 10)"
  by (simp_all add: slot_ok_def)

lemma mailbox_ofD:
  "mailbox_of n m \<Longrightarrow> writer_ok (nt_writer n) (nt_world n) m" "mailbox_of n m \<Longrightarrow> distinct (sh_clients (nt_writer n))"
  "mailbox_of n m \<Longrightarrow> slot_ok n fd (mb_queue m fd)"
  by (simp_all add: mailbox_of_def)

lemma queued_Nil [simp]: "queued [] []"
  by (auto simp: queued_def intro: exI [of _ "[]"])

lemma queued_snoc: "queued str q \<Longrightarrow> length msg = 10 \<Longrightarrow> atoi_in msg = Inr (int k) \<Longrightarrow> queued (str @ msg) (q @ [k])"
proof -
  assume q: "queued str q" and msg: "length msg = 10" "atoi_in msg = Inr (int k)"
  from q obtain ms where ms: "str = concat ms" "list_all2 (\<lambda>msg k. length msg = 10 \<and> atoi_in msg = Inr (int k)) ms q"
    by (auto simp: queued_def)
  then have "list_all2 (\<lambda>msg k. length msg = 10 \<and> atoi_in msg = Inr (int k)) (ms @ [msg]) (q @ [k])"
    using msg by (intro list_all2_appendI) simp_all
  then show ?thesis using ms(1) unfolding queued_def by (intro exI [of _ "ms @ [msg]"]) simp
qed

lemma queued_Cons:
  assumes "queued str (k # q)"
  obtains msg rest where "str = msg @ rest" "length msg = 10" "atoi_in msg = Inr (int k)" "queued rest q"
  using assms by (fastforce simp: queued_def list_all2_Cons2)

lemma queued_none: "queued str [] \<Longrightarrow> str = []"
  by (simp add: queued_def)

lemma queued_empty: "queued [] q \<Longrightarrow> q = []"
  by (cases q) (auto elim: queued_Cons)

subsection \<open>Each operation\<close>

lemma post_written:
  assumes "writer_ok s w m" and "distinct (sh_clients s)" and "length junk = 10" and "length d \<le> mb_size m"
  obtains msg w' where "shmn_write (Some s) d (int (length d)) None junk w = Inr (SHMN_NO_ERR, w')"
    "writer_ok s w' (m\<lparr>mb_mem := overlay d (mb_mem m), mb_queue := qs\<rparr>)"
    "length msg = 10" "atoi_in msg = Inr (int (length d))"
    "\<And>fd. w_stream w' fd = (if fd \<in> set (sh_clients s) then w_stream w fd @ msg else w_stream w fd)"
proof -
  obtain r where r: "sh_send s = Some r" "rg_off r \<le> length (w_shm w (rg_key r))" "mb_mem m = drop (rg_off r) (w_shm w (rg_key r))"
    using assms(1) by (auto simp: writer_ok_def split: option.splits)
  have l: "sh_role s = SHMN_ROLE_WRITER" "sh_sender_size s = int (mb_size m)" "mb_size m < 1000000000" "mb_size m \<le> length (mb_mem m)"
    using assms(1) by (simp_all add: writer_ok_def)
  have fits: "rg_off r + length d \<le> length (w_shm w (rg_key r))" using l(4) r(2,3) assms(4) by simp
  let ?x = "drop (Suc (length (show_int (int (length d))))) junk"
  let ?msg = "show_int (int (length d)) @ NUL # ?x"
  let ?w = "w\<lparr>w_shm := (w_shm w)(rg_key r := put_at (w_shm w (rg_key r)) (rg_off r) d)\<rparr>"
  let ?w1 = "fold (server_send_data_foreach ?msg) (sh_clients s) ?w"
  have m: "len_message (int (length d)) junk = Inr ?msg"
    using len_message_eq [of "int (length d)" junk] assms(3,4) l(3) by simp
  have "shmn_copy (sh_send s) d (int (length d)) w = Inr ?w"
    using r(1) fits by (simp add: shmn_copy_def region_write_def)
  then have w: "shmn_write (Some s) d (int (length d)) None junk w = Inr (SHMN_NO_ERR, ?w1)"
    using l(1,2) m assms(4) by (simp add: shmn_write_def)
  have mem: "w_shm ?w1 = w_shm ?w" and str: "w_stream ?w1 fd = (if fd \<in> set (sh_clients s) then w_stream w fd @ ?msg else w_stream w fd)" for fd
    using fold_send [OF assms(2), of ?msg ?w] by simp_all
  have "overlay d (mb_mem m) = drop (rg_off r) (put_at (w_shm w (rg_key r)) (rg_off r) d)"
    using fits r(2,3) by (simp add: overlay_def put_at_def add.commute)
  moreover have "mb_size m \<le> length (overlay d (mb_mem m))" using l(4) by (simp add: overlay_def)
  ultimately have "writer_ok s ?w1 (m\<lparr>mb_mem := overlay d (mb_mem m), mb_queue := qs\<rparr>)"
    using l(1-3) r(1) fits mem by (simp add: writer_ok_def put_at_def)
  moreover have "atoi_in ?msg = Inr (int (length d))"
    using number_ends_show [of "int (length d)" ?x] by (simp add: atoi_in_def atoi_show_nul)
  ultimately show ?thesis using that w str length_len_message [OF m assms(3)] by blast
qed

lemma post_refused:
  "writer_ok s w m \<Longrightarrow> mb_size m < length d \<Longrightarrow> shmn_write (Some s) d (int (length d)) None junk w = Inr (SHMN_ERR_DATA_SIZE, w)"
  by (simp add: shmn_write_def writer_ok_def)

lemma frame_taken:
  assumes "writer_ok s w m" and "attached s t" and "length old = 10" and "queued (w_stream w fd) (k # q)"
  obtains rest where "recv_round t fd old w = Inr (Update_Cb (Some (mb_mem m)) (int k) CB_NO_ERR, w\<lparr>w_stream := (w_stream w)(fd := rest)\<rparr>)"
    "queued rest q" "length (put_at old 0 (take INT_TO_STRING_MAX_LEN (w_stream w fd))) = 10" "w_stream w fd \<noteq> []"
proof -
  obtain msg rest where str: "w_stream w fd = msg @ rest" and msg: "length msg = 10" "atoi_in msg = Inr (int k)" and q: "queued rest q"
    using assms(4) by (rule queued_Cons)
  obtain r r' where r: "sh_send s = Some r" "sh_rcvd t = Some r'" "rg_key r' = rg_key r" "rg_off r' = rg_off r" "sh_cb t"
    using assms(2) by (auto simp: attached_def split: option.splits)
  have mem: "region_read r' w = mb_mem m" using assms(1) r by (simp add: writer_ok_def region_read_def)
  have t: "take 10 (w_stream w fd) = msg" "drop 10 (w_stream w fd) = rest" using msg(1) by (simp_all add: str)
  have p: "put_at old 0 msg = msg" using msg(1) assms(3) by (simp add: put_at_def)
  have ne: "msg \<noteq> []" using msg(1) by auto
  have "recv_round t fd old w = Inr (Update_Cb (Some (mb_mem m)) (int k) CB_NO_ERR, w\<lparr>w_stream := (w_stream w)(fd := rest)\<rparr>)"
    using r(2,5) ne by (simp add: recv_round_def t p msg(2) call_user_def mem)
  then show ?thesis using that q ne by (simp add: t(1) p msg(1) str)
qed

lemma writer_ok_stream [simp]: "writer_ok s (w\<lparr>w_stream := str\<rparr>) m = writer_ok s w m"
  by (simp add: writer_ok_def cong: option.case_cong)

lemma writer_ok_queue [simp]: "writer_ok s w (m\<lparr>mb_queue := qs\<rparr>) = writer_ok s w m"
  by (simp add: writer_ok_def cong: option.case_cong)

lemma writer_ok_accept [simp]: "writer_ok (listen_accept fd s) w m = writer_ok s w m"
  by (simp add: writer_ok_def listen_accept_def)

lemma attached_accept [simp]: "attached (listen_accept fd s) t = attached s t"
  by (simp add: attached_def listen_accept_def)

subsection \<open>The simulation\<close>

lemma join_simulated:
  assumes "mailbox_of n m" and "mb_queue m fd = None" and "attached (nt_writer n) t" and "length old = 10"
  shows "mailbox_of (n\<lparr>nt_writer := listen_accept fd (nt_writer n), nt_readers := (nt_readers n)(fd \<mapsto> (t, old))\<rparr>)
    (m\<lparr>mb_queue := (mb_queue m)(fd \<mapsto> [])\<rparr>)" (is "mailbox_of ?n ?m")
proof -
  have free: "fd \<notin> set (sh_clients (nt_writer n))" "w_stream (nt_world n) fd = []"
    using mailbox_ofD(3) [OF assms(1), of fd] assms(2) by (simp_all add: slot_ok_simps)
  have cl: "sh_clients (listen_accept fd (nt_writer n)) = sh_clients (nt_writer n) @ [fd]" by (simp add: listen_accept_def)
  have "slot_ok ?n fd' (mb_queue ?m fd')" for fd'
  proof (cases "fd' = fd")
    case True
    with free assms(3,4) show ?thesis by (simp add: slot_ok_simps cl)
  next
    case False
    with mailbox_ofD(3) [OF assms(1), of fd'] show ?thesis by (cases "mb_queue m fd'") (simp_all add: slot_ok_simps cl)
  qed
  with free mailbox_ofD(1,2) [OF assms(1)] show ?thesis by (simp add: mailbox_of_def cl)
qed

lemma post_simulated:
  assumes "mailbox_of n m" and "length d \<le> mb_size m" and "length junk = 10"
  obtains w where "shmn_write (Some (nt_writer n)) d (int (length d)) None junk (nt_world n) = Inr (SHMN_NO_ERR, w)"
    "mailbox_of (n\<lparr>nt_world := w\<rparr>) (m\<lparr>mb_mem := overlay d (mb_mem m),
      mb_queue := (\<lambda>fd. map_option (\<lambda>q. q @ [length d]) (mb_queue m fd))\<rparr>)"
proof -
  let ?s = "nt_writer n" and ?qs = "\<lambda>fd. map_option (\<lambda>q. q @ [length d]) (mb_queue m fd)"
  obtain msg w where w: "shmn_write (Some ?s) d (int (length d)) None junk (nt_world n) = Inr (SHMN_NO_ERR, w)"
    and wok: "writer_ok ?s w (m\<lparr>mb_mem := overlay d (mb_mem m), mb_queue := ?qs\<rparr>)"
    and msg: "length msg = 10" "atoi_in msg = Inr (int (length d))"
    and str: "\<And>fd. w_stream w fd = (if fd \<in> set (sh_clients ?s) then w_stream (nt_world n) fd @ msg else w_stream (nt_world n) fd)"
    using post_written [OF mailbox_ofD(1) [OF assms(1)] mailbox_ofD(2) [OF assms(1)] assms(3,2), where qs = ?qs] by blast
  have "slot_ok (n\<lparr>nt_world := w\<rparr>) fd (?qs fd)" for fd
    using mailbox_ofD(3) [OF assms(1), of fd] queued_snoc [OF _ msg]
    by (cases "mb_queue m fd") (simp_all add: slot_ok_simps str)
  with wok mailbox_ofD(2) [OF assms(1)]
  have "mailbox_of (n\<lparr>nt_world := w\<rparr>) (m\<lparr>mb_mem := overlay d (mb_mem m), mb_queue := ?qs\<rparr>)"
    by (simp add: mailbox_of_def)
  with w show ?thesis by (rule that)
qed

lemma take_simulated:
  assumes "mailbox_of n m" and "mb_queue m fd = Some (k # q)" and "nt_readers n fd = Some (t, old)"
  obtains w where "recv_round t fd old (nt_world n) = Inr (Update_Cb (Some (mb_mem m)) (int k) CB_NO_ERR, w)"
    "w_stream (nt_world n) fd \<noteq> []"
    "mailbox_of (n\<lparr>nt_world := w, nt_readers := (nt_readers n)(fd \<mapsto>
         (t, put_at old 0 (take INT_TO_STRING_MAX_LEN (w_stream (nt_world n) fd))))\<rparr>) (m\<lparr>mb_queue := (mb_queue m)(fd \<mapsto> q)\<rparr>)"
proof -
  let ?w = "nt_world n"
  have slot: "fd \<in> set (sh_clients (nt_writer n))" "queued (w_stream ?w fd) (k # q)" "attached (nt_writer n) t" "length old = 10"
    using mailbox_ofD(3) [OF assms(1), of fd] assms(2,3) by (auto simp: slot_ok_simps)
  obtain rest where r: "recv_round t fd old ?w = Inr (Update_Cb (Some (mb_mem m)) (int k) CB_NO_ERR, ?w\<lparr>w_stream := (w_stream ?w)(fd := rest)\<rparr>)"
    and q: "queued rest q" and l: "length (put_at old 0 (take INT_TO_STRING_MAX_LEN (w_stream ?w fd))) = 10" and ne: "w_stream ?w fd \<noteq> []"
    using frame_taken [OF mailbox_ofD(1) [OF assms(1)] slot(3,4,2)] by blast
  let ?n = "n\<lparr>nt_world := ?w\<lparr>w_stream := (w_stream ?w)(fd := rest)\<rparr>, nt_readers := (nt_readers n)(fd \<mapsto>
         (t, put_at old 0 (take INT_TO_STRING_MAX_LEN (w_stream ?w fd))))\<rparr>"
  have "slot_ok ?n fd' (((mb_queue m)(fd \<mapsto> q)) fd')" for fd'
  proof (cases "fd' = fd")
    case True
    with slot(1,3) q l show ?thesis by (simp add: slot_ok_simps)
  next
    case False
    with mailbox_ofD(3) [OF assms(1), of fd'] show ?thesis by (cases "mb_queue m fd'") (simp_all add: slot_ok_simps)
  qed
  with mailbox_ofD(1,2) [OF assms(1)] have "mailbox_of ?n (m\<lparr>mb_queue := (mb_queue m)(fd \<mapsto> q)\<rparr>)"
    by (simp add: mailbox_of_def)
  with r ne show ?thesis by (rule that)
qed

lemma net_step_mail:
  assumes "net_step l n n'" and "mailbox_of n m"
  shows "\<exists>m'. mail_step l m m' \<and> mailbox_of n' m'"
  using assms(1)
proof (cases rule: net_step.cases)
  case (net_join fd t old)
  then have "mb_queue m fd = None"
    using mailbox_ofD(3) [OF assms(2), of fd] by (cases "mb_queue m fd") (auto simp: slot_ok_simps)
  with net_join join_simulated [OF assms(2)] mail_join [of m fd] show ?thesis by auto
next
  case (net_post d junk w)
  have fits: "length d \<le> mb_size m"
    using post_refused [OF mailbox_ofD(1) [OF assms(2)], of d junk] net_post(3) by (cases "length d \<le> mb_size m") auto
  have junk: "length junk = 10" using net_post(4) by simp
  obtain w' where "shmn_write (Some (nt_writer n)) d (int (length d)) None junk (nt_world n) = Inr (SHMN_NO_ERR, w')"
    "mailbox_of (n\<lparr>nt_world := w'\<rparr>) (m\<lparr>mb_mem := overlay d (mb_mem m),
      mb_queue := (\<lambda>fd. map_option (\<lambda>q. q @ [length d]) (mb_queue m fd))\<rparr>)"
    by (rule post_simulated [OF assms(2) fits junk])
  with net_post mail_post [OF fits] show ?thesis by auto
next
  case (net_refuse d junk w)
  have junk: "length junk = 10" using net_refuse(4) by simp
  have big: "mb_size m < length d"
  proof (rule ccontr)
    assume "\<not> mb_size m < length d"
    then have fits: "length d \<le> mb_size m" by simp
    show False by (rule post_simulated [OF assms(2) fits junk]) (use net_refuse(3) in simp)
  qed
  with post_refused [OF mailbox_ofD(1) [OF assms(2)] big, of junk] net_refuse have "n' = n" by simp
  with net_refuse(1) mail_refuse [OF big] assms(2) show ?thesis by blast
next
  case (net_take fd t old b len w)
  obtain q0 where q0: "mb_queue m fd = Some q0" "queued (w_stream (nt_world n) fd) q0"
    using mailbox_ofD(3) [OF assms(2), of fd] net_take(3) by (cases "mb_queue m fd") (auto simp: slot_ok_simps)
  with net_take(4) queued_none obtain k q where q: "q0 = k # q" by (cases q0) auto
  obtain w' where "recv_round t fd old (nt_world n) = Inr (Update_Cb (Some (mb_mem m)) (int k) CB_NO_ERR, w')"
    "mailbox_of (n\<lparr>nt_world := w', nt_readers := (nt_readers n)(fd \<mapsto>
         (t, put_at old 0 (take INT_TO_STRING_MAX_LEN (w_stream (nt_world n) fd))))\<rparr>) (m\<lparr>mb_queue := (mb_queue m)(fd \<mapsto> q)\<rparr>)"
    by (rule take_simulated [OF assms(2) q0(1) [unfolded q] net_take(3)])
  with net_take mail_take [OF q0(1) [unfolded q]] show ?thesis by auto
qed

lemma mail_step_net:
  assumes "mail_step l m m'" and "mailbox_of n m"
  shows "\<exists>n'. net_step l n n' \<and> mailbox_of n' m'"
  using assms(1)
proof (cases rule: mail_step.cases)
  case (mail_join fd)
  let ?t = "(nt_writer n)\<lparr>sh_cb := True, sh_rcvd := sh_send (nt_writer n)\<rparr>"
  have t: "attached (nt_writer n) ?t"
    using mailbox_ofD(1) [OF assms(2)] by (auto simp: attached_def writer_ok_def split: option.splits)
  have "nt_readers n fd = None" "w_stream (nt_world n) fd = []"
    using mailbox_ofD(3) [OF assms(2), of fd] mail_join(3) by (simp_all add: slot_ok_simps)
  then have "net_step (Join fd) n (n\<lparr>nt_writer := listen_accept fd (nt_writer n),
      nt_readers := (nt_readers n)(fd \<mapsto> (?t, replicate 10 NUL))\<rparr>)"
    by (rule net_join) (simp_all add: t)
  with mail_join join_simulated [OF assms(2) _ t, of fd "replicate 10 NUL"] show ?thesis by auto
next
  case (mail_post d)
  have junk: "length (replicate 10 NUL) = 10" by simp
  obtain w where w: "shmn_write (Some (nt_writer n)) d (int (length d)) None (replicate 10 NUL) (nt_world n) = Inr (SHMN_NO_ERR, w)"
    and m: "mailbox_of (n\<lparr>nt_world := w\<rparr>) (m\<lparr>mb_mem := overlay d (mb_mem m),
      mb_queue := (\<lambda>fd. map_option (\<lambda>q. q @ [length d]) (mb_queue m fd))\<rparr>)"
    by (rule post_simulated [OF assms(2) mail_post(3) junk])
  with mail_post(1,2) net_post [OF w] show ?thesis by auto
next
  case (mail_refuse d)
  have "net_step (Refuse d) n (n\<lparr>nt_world := nt_world n\<rparr>)"
    using post_refused [OF mailbox_ofD(1) [OF assms(2)] mail_refuse(3), of "replicate 10 NUL"] by (rule net_refuse) simp
  with mail_refuse(1,2) assms(2) show ?thesis by auto
next
  case (mail_take fd k q)
  obtain t old where t: "nt_readers n fd = Some (t, old)"
    using mailbox_ofD(3) [OF assms(2), of fd] mail_take(3) by (auto simp: slot_ok_simps)
  obtain w where w: "recv_round t fd old (nt_world n) = Inr (Update_Cb (Some (mb_mem m)) (int k) CB_NO_ERR, w)"
    and ne: "w_stream (nt_world n) fd \<noteq> []"
    and m: "mailbox_of (n\<lparr>nt_world := w, nt_readers := (nt_readers n)(fd \<mapsto>
         (t, put_at old 0 (take INT_TO_STRING_MAX_LEN (w_stream (nt_world n) fd))))\<rparr>) (m\<lparr>mb_queue := (mb_queue m)(fd \<mapsto> q)\<rparr>)"
    by (rule take_simulated [OF assms(2) mail_take(3) t])
  from net_take [OF t ne w] m mail_take(1,2) show ?thesis by auto
qed

subsection \<open>Runs\<close>

inductive runs :: "('l \<Rightarrow> 's \<Rightarrow> 's \<Rightarrow> bool) \<Rightarrow> 'l list \<Rightarrow> 's \<Rightarrow> 's \<Rightarrow> bool" for step where
  runs_nil: "runs step [] s s"
| runs_snoc: "runs step ls s s' \<Longrightarrow> step l s' s'' \<Longrightarrow> runs step (ls @ [l]) s s''"

inductive_simps runs_snoc_iff: "runs step (ls @ [l]) s s''"

lemma runs_forward: "runs net_step ls n n' \<Longrightarrow> mailbox_of n m \<Longrightarrow> \<exists>m'. runs mail_step ls m m' \<and> mailbox_of n' m'"
  by (induction rule: runs.induct) (blast intro: runs_nil runs_snoc dest: net_step_mail)+

lemma runs_backward: "runs mail_step ls m m' \<Longrightarrow> mailbox_of n m \<Longrightarrow> \<exists>n'. runs net_step ls n n' \<and> mailbox_of n' m'"
  by (induction rule: runs.induct) (blast intro: runs_nil runs_snoc dest: mail_step_net)+

fun posts :: "net_label list \<Rightarrow> char list list" where
  "posts [] = []"
| "posts (Post d # ls) = d # posts ls"
| "posts (_ # ls) = posts ls"

fun takes :: "nat \<Rightarrow> net_label list \<Rightarrow> nat" where
  "takes fd [] = 0"
| "takes fd (Took fd' k b # ls) = (if fd' = fd then Suc (takes fd ls) else takes fd ls)"
| "takes fd (_ # ls) = takes fd ls"

lemma posts_append [simp]: "posts (ls @ ls') = posts ls @ posts ls'"
  by (induction ls rule: posts.induct) simp_all

lemma takes_append [simp]: "takes fd (ls @ ls') = takes fd ls + takes fd ls'"
  by (induction fd ls rule: takes.induct) simp_all

lemma mail_run_state:
  "runs mail_step ls m m' \<Longrightarrow> mb_queue m fd = Some [] \<Longrightarrow>
     mb_mem m' = fold overlay (posts ls) (mb_mem m) \<and> takes fd ls \<le> length (posts ls)
     \<and> mb_queue m' fd = Some (drop (takes fd ls) (map length (posts ls)))"
proof (induction rule: runs.induct)
  case (runs_nil s)
  then show ?case by simp
next
  case (runs_snoc ls s s' l s'')
  note IH = runs_snoc.IH [OF runs_snoc.prems]
  from runs_snoc.hyps(2) show ?case
  proof (cases rule: mail_step.cases)
    case (mail_take fd' k q)
    show ?thesis
    proof (cases "fd' = fd")
      case True
      with mail_take(3) IH have d: "drop (takes fd ls) (map length (posts ls)) = k # q" by simp
      then have "takes fd ls < length (posts ls)" by (metis drop_eq_Nil2 length_map list.distinct(1) not_le)
      moreover have "drop (Suc (takes fd ls)) (map length (posts ls)) = q" using d by (metis drop_Suc tl_drop list.sel(3))
      ultimately show ?thesis using IH mail_take True by simp
    next
      case False
      with IH mail_take show ?thesis by simp
    qed
  qed (use IH in auto)
qed

subsection \<open>The properties\<close>

text \<open>
  C16: the notifier refines a mailbox. Whatever a writer and any number of readers do (connections
  accepted, frames written or refused, receive loops' rounds, in any order), a mailbox with one memory and a queue of lengths
  per reader can do with the same labels, and whatever that mailbox can do the notifier can do: the
  two are bisimilar from any state that stands for the mailbox. A frame is refused exactly when it
  is larger than the object, each reader gets the lengths of all frames since it joined, in order and
  once each, and with a length the bytes the memory has at that time.
\<close>
theorem notifier_refines_mailbox:
  assumes "mailbox_of n m"
  shows "(runs net_step ls n n' \<longrightarrow> (\<exists>m'. runs mail_step ls m m' \<and> mailbox_of n' m'))
    \<and> (runs mail_step ls m m' \<longrightarrow> (\<exists>n'. runs net_step ls n n' \<and> mailbox_of n' m'))"
  using assms runs_forward runs_backward by blast

text \<open>
  C17: which bytes a reader sees. A reader's callback with number \<open>i\<close> since it joined is for the frame
  with number \<open>i\<close>: it has that frame's length, and so many bytes of what all frames written until then leave in the
  memory. A reader that is up to date sees exactly its frame; one that is behind sees, where the last
  frame is at least as long, a prefix of the last frame with the length of an earlier one.
\<close>
theorem frames_taken_in_order:
  assumes "mailbox_of n m" and "mb_queue m fd = Some []" and "runs net_step (ls @ [Took fd k b]) n n'"
  shows "let i = takes fd ls; ps = posts ls in
    i < length ps \<and> k = int (length (ps ! i)) \<and> b = take (nat k) (fold overlay ps (mb_mem m))
    \<and> (Suc i = length ps \<longrightarrow> b = ps ! i) \<and> (length (ps ! i) \<le> length (last ps) \<longrightarrow> b = take (nat k) (last ps))"
proof -
  obtain m' where "runs mail_step (ls @ [Took fd k b]) m m'" using runs_forward [OF assms(3,1)] by blast
  then obtain m1 where m1: "runs mail_step ls m m1" and took: "mail_step (Took fd k b) m1 m'" by (auto simp: runs_snoc_iff)
  note st = mail_run_state [OF m1 assms(2)]
  let ?i = "takes fd ls" and ?ps = "posts ls"
  from took obtain k' q where "k = int k'" "b = take k' (mb_mem m1)" "mb_queue m1 fd = Some (k' # q)"
    by (cases rule: mail_took) auto
  with st have k: "k = int k'" "b = take k' (fold overlay ?ps (mb_mem m))" "drop ?i (map length ?ps) = k' # q" by simp_all
  then have i: "?i < length ?ps" by (metis drop_eq_Nil2 length_map list.distinct(1) not_le)
  with k(3) have k': "k' = length (?ps ! ?i)" by (simp add: Cons_nth_drop_Suc [symmetric])
  from i obtain ps d where ps: "?ps = ps @ [d]" by (cases ?ps rule: rev_cases) auto
  have "b = take k' d" if "k' \<le> length d" using that k(2) by (simp add: ps overlay_def)
  with i k k' show ?thesis by (auto simp: Let_def ps nth_append)
qed

text \<open>A run: a reader joins, a frame is written, one is refused, a second is written, and the reader takes the first.\<close>

definition sample_net :: net where
  "sample_net = \<lparr>nt_writer = sample_writer\<lparr>sh_clients := []\<rparr>, nt_world = sample_world, nt_readers = \<lambda>_. None\<rparr>"

definition sample_mailbox :: mailbox where
  "sample_mailbox = \<lparr>mb_size = 16, mb_mem = replicate 16 NUL, mb_queue = \<lambda>_. None\<rparr>"

lemma sample_mailbox_of: "mailbox_of sample_net sample_mailbox"
  by (simp add: mailbox_of_def writer_ok_def slot_ok_simps sample_net_def sample_mailbox_def sample_writer_def sample_world_def)

lemma sample_mail_run:
  "\<exists>m. runs mail_step [Join 5, Post ''abc'', Refuse (replicate 17 NUL), Post ''xyzw'', Took 5 3 ''xyz''] sample_mailbox m"
proof -
  let ?m1 = "sample_mailbox\<lparr>mb_queue := (mb_queue sample_mailbox)(5 \<mapsto> [])\<rparr>"
  have 1: "mail_step (Join 5) sample_mailbox ?m1" by (rule mail_join) (simp add: sample_mailbox_def)
  obtain m2 where 2: "mail_step (Post ''abc'') ?m1 m2" "mb_size m2 = 16" "mb_mem m2 = overlay ''abc'' (replicate 16 NUL)"
      "mb_queue m2 5 = Some [3]"
    using mail_post [of "''abc''" ?m1] by (auto simp: sample_mailbox_def numeral_3_eq_3)
  have 3: "mail_step (Refuse (replicate 17 NUL)) m2 m2" by (rule mail_refuse) (simp add: 2)
  obtain m4 where 4: "mail_step (Post ''xyzw'') m2 m4" "mb_mem m4 = overlay ''xyzw'' (mb_mem m2)" "mb_queue m4 5 = Some [3, 4]"
    using mail_post [of "''xyzw''" m2] 2 by (auto simp: eval_nat_numeral)
  obtain m5 where 5: "mail_step (Took 5 3 ''xyz'') m4 m5"
    using mail_take [OF 4(3)] by (auto simp: 4(2) overlay_def eval_nat_numeral)
  have "runs mail_step ((((([] @ [Join 5]) @ [Post ''abc'']) @ [Refuse (replicate 17 NUL)]) @ [Post ''xyzw'']) @ [Took 5 3 ''xyz''])
      sample_mailbox m5"
    by (intro runs_snoc [where step = mail_step, OF _ 5] runs_snoc [where step = mail_step, OF _ 4(1)] runs_snoc [where step = mail_step, OF _ 3] runs_snoc [where step = mail_step, OF _ 2(1)] runs_snoc [where step = mail_step, OF _ 1] runs_nil)
  then show ?thesis by auto
qed

lemma notifier_refines_mailbox_witness:
  "\<exists>n. runs net_step [Join 5, Post ''abc'', Refuse (replicate 17 NUL), Post ''xyzw'', Took 5 3 ''xyz''] sample_net n"
proof -
  obtain m where "runs mail_step [Join 5, Post ''abc'', Refuse (replicate 17 NUL), Post ''xyzw'', Took 5 3 ''xyz''] sample_mailbox m"
    using sample_mail_run by blast
  with notifier_refines_mailbox [OF sample_mailbox_of] show ?thesis by blast
qed

lemma frames_taken_in_order_witness:
  "\<exists>n m n'. mailbox_of n m \<and> mb_queue m 5 = Some []
     \<and> runs net_step ([Post ''abc'', Post ''xyzw''] @ [Took 5 3 ''xyz'']) n n' \<and> ''xyz'' = take 3 (last [''abc'', ''xyzw''])"
proof -
  let ?m = "sample_mailbox\<lparr>mb_queue := (mb_queue sample_mailbox)(5 \<mapsto> [])\<rparr>"
  have "mail_step (Join 5) sample_mailbox ?m" by (rule mail_join) (simp add: sample_mailbox_def)
  then obtain n where n: "mailbox_of n ?m" using mail_step_net sample_mailbox_of by blast
  obtain m2 where 2: "mail_step (Post ''abc'') ?m m2" "mb_size m2 = 16" "mb_queue m2 5 = Some [3]"
      "mb_mem m2 = overlay ''abc'' (replicate 16 NUL)"
    using mail_post [of "''abc''" ?m] by (auto simp: sample_mailbox_def numeral_3_eq_3)
  obtain m3 where 3: "mail_step (Post ''xyzw'') m2 m3" "mb_mem m3 = overlay ''xyzw'' (mb_mem m2)" "mb_queue m3 5 = Some [3, 4]"
    using mail_post [of "''xyzw''" m2] 2 by (auto simp: eval_nat_numeral)
  obtain m4 where 4: "mail_step (Took 5 3 ''xyz'') m3 m4"
    using mail_take [OF 3(3)] by (auto simp: 3(2) overlay_def eval_nat_numeral)
  have "runs mail_step (([] @ [Post ''abc'']) @ [Post ''xyzw'']) ?m m3"
    by (intro runs_snoc [where step = mail_step, OF _ 3(1)] runs_snoc [where step = mail_step, OF _ 2(1)] runs_nil)
  then have "runs mail_step ([Post ''abc'', Post ''xyzw''] @ [Took 5 3 ''xyz'']) ?m m4"
    using runs_snoc [where step = mail_step, OF _ 4] by fastforce
  then obtain n' where run: "runs net_step ([Post ''abc'', Post ''xyzw''] @ [Took 5 3 ''xyz'']) n n'"
    using runs_backward [OF _ n] by blast
  have q: "mb_queue ?m 5 = Some []" by simp
  have "''xyz'' = take 3 (last [''abc'', ''xyzw''])"
    using frames_taken_in_order [OF n q run] by (simp add: Let_def)
  with n q run show ?thesis by blast
qed

end
