(* ===== verification/Auth_Session.thy ===== *)
theory Auth_Session
  imports Auth_Base
begin

text \<open>
  The life of a proxy of the client library (\<open>lib/src/auth/auth.c\<close>): creating it, opening a session
  with its exchange of keys, ending the session, and releasing the proxy.
\<close>

abbreviation (input) DA_DBUS_SERVER :: string where "DA_DBUS_SERVER \<equiv> ''com.deepin.daemon.Authenticate''"

subsection \<open>Creating\<close>

definition new_proxy :: "nat \<Rightarrow> 'k da_proxy" where
  \<comment> \<open>after \<open>memset\<close>\<close>
  "new_proxy self =
     \<lparr>px_self = self, px_username = None, px_auth = None, px_sess = None, px_path = None, px_log = False,
      px_limit_cb = None, px_status_cb = None, px_pubkey = None, px_enc_type = 0, px_enc_method = None,
      px_symkey = None, px_key = None, px_rsa = None\<rparr>"

definition da_dbus_proxy_new :: "('j, 'k) da_env \<Rightarrow> lib \<Rightarrow> ('k da_proxy option \<times> lib) cres" where
  "da_dbus_proxy_new D st =
     (case lib_alloc [] st of (self, st) \<Rightarrow>
        let p = new_proxy self in
        if \<not> db_connect (de_bus D) then Inr (None, st)
        else
          let r = db_proxy (de_bus D) (lb_calls st) New_Manager_Proxy; st = lib_log New_Manager_Proxy st in
          (case r of
             Inr True \<Rightarrow> (case lib_alloc [] st of (a, st) \<Rightarrow> Inr (Some (p\<lparr>px_auth := Some a\<rparr>), st))
           | _ \<Rightarrow> cbind (lib_free (Some self) st) (\<lambda>st. Inr (None, st))))"

definition da_set_log_callback :: "'k da_proxy option \<Rightarrow> bool \<Rightarrow> int \<times> 'k da_proxy option" where
  \<comment> \<open>\<open>cb\<close>: the callback is not null\<close>
  "da_set_log_callback p cb =
     (case p of None \<Rightarrow> (- 1, None) | Some p \<Rightarrow> if \<not> cb then (- 1, Some p) else (0, Some (p\<lparr>px_log := True\<rparr>)))"

definition da_signal_connect_limit_updated ::
  "'k da_proxy option \<Rightarrow> callback option \<Rightarrow> int \<times> 'k da_proxy option" where
  "da_signal_connect_limit_updated p cb =
     (case p of None \<Rightarrow> (- 1, None)
      | Some p \<Rightarrow> if cb = None then (- 1, Some p) else (0, Some (p\<lparr>px_limit_cb := cb\<rparr>)))"

definition da_session_signal_connect_status ::
  "'k da_proxy option \<Rightarrow> callback option \<Rightarrow> int \<times> 'k da_proxy option" where
  "da_session_signal_connect_status p cb =
     (case p of None \<Rightarrow> (- 1, None)
      | Some p \<Rightarrow> if cb = None then (- 1, Some p) else (0, Some (p\<lparr>px_status_cb := cb\<rparr>)))"

definition signal_status_handler :: "'k da_proxy \<Rightarrow> int \<Rightarrow> int \<Rightarrow> string \<Rightarrow> lib \<Rightarrow> bool \<times> lib" where
  "signal_status_handler p flag status msg st =
     (let st = LOG_CB p ''signal_status_handler invoked!'' st in
      (True, case px_status_cb p of
               None \<Rightarrow> st
             | Some cb \<Rightarrow> st\<lparr>lb_user := lb_user st @ [Ev_Status_Cb cb flag status msg]\<rparr>))"

subsection \<open>Opening a session\<close>

definition fail_path :: "nat \<Rightarrow> da_error \<Rightarrow> 'k da_proxy \<Rightarrow> lib \<Rightarrow> (int \<times> da_error option \<times> 'k da_proxy \<times> lib) cres" where
  \<comment> \<open>the error branches after the path was received: \<open>g_free(out_path); return -1\<close>\<close>
  "fail_path out_path e p st = cbind (lib_free (Some out_path) st) (\<lambda>st. Inr (- 1, Some e, p, st))"

definition g_bytes_of :: "int \<times> char list option \<Rightarrow> char list cres" where
  \<comment> \<open>\<open>g_bytes_new(text, len)\<close> wrapped into a variant; the length is unsigned\<close>
  "g_bytes_of r =
     (case r of
        (len, None) \<Rightarrow> if len = 0 then Inr [] else Inl Null_Deref
      | (len, Some c) \<Rightarrow> if len < 0 \<or> length c < nat len then Inl Out_Of_Bounds else Inr (take (nat len) c))"

definition send_symmetric_key ::
  "('j, 'k) da_env \<Rightarrow> nat \<Rightarrow> 'k da_proxy \<Rightarrow> lib \<Rightarrow> (int \<times> da_error option \<times> 'k da_proxy \<times> lib) cres" where
  "send_symmetric_key D out_path p st =
     cbind (create_symmetric_key (de_rand D (lb_calls st))) (\<lambda>sym.
     (case lib_alloc sym st of (a, st) \<Rightarrow>
        let p = p\<lparr>px_symkey := Some a\<rparr> in
        cbind (g_bytes_of (rsa_encrypt_data (de_ssl D) (px_rsa p) sym)) (\<lambda>bytes.
          let c = L_SetSymmetricKey bytes; r = db_unit (de_bus D) (lb_calls st) c; st = lib_log c st in
          case r of
            Some e \<Rightarrow> fail_path out_path (error_dup e) p st
          | None \<Rightarrow> Inr (0, None, p, st))))"

definition exchange_keys ::
  "('j, 'k) da_env \<Rightarrow> nat \<Rightarrow> 'k da_proxy \<Rightarrow> lib \<Rightarrow> (int \<times> da_error option \<times> 'k da_proxy \<times> lib) cres" where
  "exchange_keys D out_path p st =
     (let c = L_EncryptKey 0 []; r = db_key (de_bus D) (lb_calls st) c; st = lib_log c st in
      case r of
        Inl e \<Rightarrow> fail_path out_path (error_dup e) p st
      | Inr (ty, pubkey) \<Rightarrow>
          (case lib_alloc pubkey st of (a, st) \<Rightarrow>
           case lib_alloc [] st of (m, st) \<Rightarrow>
           case lib_alloc [] st of (k, st) \<Rightarrow>
             let p = p\<lparr>px_enc_type := ty, px_pubkey := Some a, px_enc_method := Some m, px_key := Some k, px_rsa := None\<rparr> in
             case gen_rsa_pubkey (de_ssl D) (px_rsa p) pubkey of (ret, rsa) \<Rightarrow>
               let p = p\<lparr>px_rsa := rsa\<rparr> in
               if ret \<noteq> 0 then fail_path out_path (error_new ''gen rsa error'') p st
               else send_symmetric_key D out_path p st))"

definition open_proxy ::
  "('j, 'k) da_env \<Rightarrow> 'k da_proxy \<Rightarrow> string \<Rightarrow> int \<Rightarrow> int \<Rightarrow> lib \<Rightarrow>
    (int \<times> da_error option \<times> 'k da_proxy \<times> lib) cres" where
  "open_proxy D p username flags app_type st =
     (let c = L_Authenticate username flags app_type;
          r = db_str (de_bus D) (lb_calls st) c; st = lib_log c st in
      case r of
        Inl e \<Rightarrow> Inr (- 1, Some (error_dup e), p, st)
      | Inr None \<Rightarrow> Inr (- 1, Some (error_new ''call dbus-authenticate failed.''), p, st)
      | Inr (Some path) \<Rightarrow>
          (case lib_alloc path st of (out_path, st) \<Rightarrow>
             let c = New_Session_Proxy path;
                 r = db_proxy (de_bus D) (lb_calls st) c; st = lib_log c st in
             case r of
               Inl e \<Rightarrow> fail_path out_path (error_dup e) (p\<lparr>px_sess := None\<rparr>) st
             | Inr False \<Rightarrow> fail_path out_path (error_new ''create session failed.'') (p\<lparr>px_sess := None\<rparr>) st
             | Inr True \<Rightarrow>
                 (case lib_alloc [] st of (s, st) \<Rightarrow>
                  case lib_alloc username st of (u, st) \<Rightarrow>
                    exchange_keys D out_path
                      (p\<lparr>px_sess := Some s, px_path := Some out_path, px_username := Some u\<rparr>) st)))"

definition da_create_authenticate ::
  "('j, 'k) da_env \<Rightarrow> 'k da_proxy option \<Rightarrow> string \<Rightarrow> int \<Rightarrow> int \<Rightarrow> lib \<Rightarrow>
    (int \<times> da_error option \<times> 'k da_proxy option \<times> lib) cres" where
  "da_create_authenticate D p username flags app_type st =
     cbind (has_valid_authenticate_proxy p st) (\<lambda>ok.
       case p of
         Some p' \<Rightarrow>
           if ok then cbind (open_proxy D p' username flags app_type st) (\<lambda>(r, e, p, st). Inr (r, e, Some p, st))
           else Inr (- 1, None, p, st)
       | None \<Rightarrow> Inr (- 1, None, p, st))"

subsection \<open>Ending and releasing\<close>

definition da_quit_authenticate :: "('j, 'k) da_env \<Rightarrow> 'k da_proxy option \<Rightarrow> lib \<Rightarrow> (unit da_res \<times> lib) cres" where
  \<comment> \<open>the proxy keeps its pointers\<close>
  "da_quit_authenticate D p st =
     on_session p st
       (let c = L_End (- 1); r = db_int (de_bus D) (lb_calls st) c; st = lib_log c st in
        case r of
          Inl e \<Rightarrow> Inr ((- 1, None, Some (error_dup e)), st)
        | Inr _ \<Rightarrow>
            cbind (lib_free (Option.bind p px_sess) st) (\<lambda>st.
            cbind (lib_free (Option.bind p px_path) st) (\<lambda>st. Inr ((0, None, None), st))))"

fun lib_free_all :: "nat option list \<Rightarrow> lib \<Rightarrow> lib cres" where
  "lib_free_all [] st = Inr st"
| "lib_free_all (a # as) st = cbind (lib_free a st) (lib_free_all as)"

definition da_dbus_proxy_free :: "'k da_proxy option \<Rightarrow> lib \<Rightarrow> lib cres" where
  "da_dbus_proxy_free p st =
     (case p of
        None \<Rightarrow> Inr st
      | Some p \<Rightarrow>
          lib_free_all
            [px_username p, px_auth p, px_sess p, px_path p, px_pubkey p, px_enc_method p, px_symkey p,
             px_key p, Some (px_self p)] st)"

end
