(* ===== verification/Auth_Ownership.thy ===== *)
theory Auth_Ownership
  imports Auth_Session
begin

text \<open>
  What a proxy of the client library owns: the invariant that its pointers are live and distinct,
  which is exactly when releasing it is defined, and what opening and ending a session make of it.
\<close>

subsection \<open>The invariant\<close>

fun somes :: "'a option list \<Rightarrow> 'a list" where
  "somes [] = []"
| "somes (None # xs) = somes xs"
| "somes (Some x # xs) = x # somes xs"

definition pointers :: "'k da_proxy \<Rightarrow> nat option list" where
  "pointers p =
     [px_username p, px_auth p, px_sess p, px_path p, px_pubkey p, px_enc_method p, px_symkey p, px_key p,
      Some (px_self p)]"

definition owned_list :: "nat option list \<Rightarrow> lib \<Rightarrow> bool" where
  "owned_list as st \<longleftrightarrow>
     distinct (somes as) \<and> set (somes as) \<subseteq> set (lb_live st) \<and> (\<forall>x\<in>set (lb_live st). x < lb_next st)"

definition owned :: "'k da_proxy \<Rightarrow> lib \<Rightarrow> bool" where
  "owned p st \<longleftrightarrow> owned_list (pointers p) st"

lemma somes_append [simp]: "somes (xs @ ys) = somes xs @ somes ys"
  by (induction xs rule: somes.induct) simp_all

lemma set_somes: "x \<in> set (somes as) \<longleftrightarrow> Some x \<in> set as"
  by (induction as rule: somes.induct) auto

lemma lib_free_all_defined:
  "defined (lib_free_all as st) \<longleftrightarrow> distinct (somes as) \<and> set (somes as) \<subseteq> set (lb_live st)"
proof (induction as arbitrary: st)
  case (Cons a as)
  show ?case
  proof (cases a)
    case (Some x)
    then show ?thesis using Cons.IH by (cases "x \<in> set (lb_live st)") auto
  qed (use Cons in simp)
qed simp

lemma lib_free_all_live:
  "lib_free_all as st = Inr st' \<Longrightarrow> set (lb_live st') = set (lb_live st) - set (somes as)"
proof (induction as arbitrary: st)
  case (Cons a as)
  then show ?case
    by (cases a) (auto simp: lib_free_def split: if_splits)
qed simp

lemma owned_put:
  assumes "owned_list (xs @ x # ys) st" and "lib_alloc s st = (a, st')"
  shows "owned_list (xs @ Some a # ys) st'"
proof -
  have a: "a = lb_next st" "lb_live st' = a # lb_live st" "lb_next st' = Suc a"
    using lib_alloc_fields [OF assms(2)] by auto
  then have "a \<notin> set (lb_live st)" using assms(1) by (auto simp: owned_list_def)
  with a assms(1) show ?thesis
    by (cases x) (auto simp: owned_list_def less_Suc_eq)
qed

lemma owned_drop: "owned_list (xs @ x # ys) st \<Longrightarrow> owned_list (xs @ None # ys) st"
  by (cases x) (auto simp: owned_list_def)

lemma owned_log [simp]: "owned_list as (lib_log c st) = owned_list as st"
  by (simp add: owned_list_def)

lemma owned_put_field:
  assumes "owned p st" and "lib_alloc s st = (a, st')"
  shows "owned (p\<lparr>px_sess := Some a\<rparr>) st'" "owned (p\<lparr>px_path := Some a\<rparr>) st'"
    "owned (p\<lparr>px_username := Some a\<rparr>) st'" "owned (p\<lparr>px_pubkey := Some a\<rparr>) st'"
    "owned (p\<lparr>px_enc_method := Some a\<rparr>) st'" "owned (p\<lparr>px_symkey := Some a\<rparr>) st'"
    "owned (p\<lparr>px_key := Some a\<rparr>) st'"
proof -
  note put = owned_put [OF _ assms(2)]
  have o: "owned_list (pointers p) st" using assms(1) by (simp add: owned_def)
  show "owned (p\<lparr>px_username := Some a\<rparr>) st'"
    using put [of "[]"] o by (simp add: owned_def pointers_def)
  show "owned (p\<lparr>px_sess := Some a\<rparr>) st'"
    using put [of "[px_username p, px_auth p]"] o by (simp add: owned_def pointers_def)
  show "owned (p\<lparr>px_path := Some a\<rparr>) st'"
    using put [of "[px_username p, px_auth p, px_sess p]"] o by (simp add: owned_def pointers_def)
  show "owned (p\<lparr>px_pubkey := Some a\<rparr>) st'"
    using put [of "[px_username p, px_auth p, px_sess p, px_path p]"] o by (simp add: owned_def pointers_def)
  show "owned (p\<lparr>px_enc_method := Some a\<rparr>) st'"
    using put [of "[px_username p, px_auth p, px_sess p, px_path p, px_pubkey p]"] o
    by (simp add: owned_def pointers_def)
  show "owned (p\<lparr>px_symkey := Some a\<rparr>) st'"
    using put [of "[px_username p, px_auth p, px_sess p, px_path p, px_pubkey p, px_enc_method p]"] o
    by (simp add: owned_def pointers_def)
  show "owned (p\<lparr>px_key := Some a\<rparr>) st'"
    using put [of "[px_username p, px_auth p, px_sess p, px_path p, px_pubkey p, px_enc_method p, px_symkey p]"] o
    by (simp add: owned_def pointers_def)
qed

lemma owned_other_fields [simp]:
  "owned (p\<lparr>px_enc_type := t\<rparr>) st = owned p st" "owned (p\<lparr>px_rsa := r\<rparr>) st = owned p st"
  "owned p (lib_log c st) = owned p st"
  by (simp_all add: owned_def pointers_def)

lemma owned_drop_sess: "owned p st \<Longrightarrow> owned (p\<lparr>px_sess := None\<rparr>) st"
  using owned_drop [of "[px_username p, px_auth p]"] by (simp add: owned_def pointers_def)

lemma owned_next: "owned p st \<Longrightarrow> lb_next st \<notin> set (lb_live st)"
  by (auto simp: owned_def owned_list_def)

lemma owned_pointer:
  assumes "owned p st" and "Some a \<in> set (pointers p)" shows "a \<in> set (lb_live st)"
proof -
  have "a \<in> set (somes (pointers p))" using assms(2) by (simp only: set_somes)
  with assms(1) show ?thesis unfolding owned_def owned_list_def by blast
qed

lemma pointers_mem [simp]:
  "px_path p = Some a \<Longrightarrow> Some a \<in> set (pointers p)" "px_sess p = Some a \<Longrightarrow> Some a \<in> set (pointers p)"
  "px_auth p = Some a \<Longrightarrow> Some a \<in> set (pointers p)" "px_username p = Some a \<Longrightarrow> Some a \<in> set (pointers p)"
  "px_symkey p = Some a \<Longrightarrow> Some a \<in> set (pointers p)"
  by (simp_all add: pointers_def)

subsection \<open>Opening\<close>

lemma fail_pathD:
  assumes "fail_path a e p st = Inr (r, err, p', st')"
  shows "r = - 1 \<and> err = Some e \<and> p' = p \<and> lb_live st' = removeAll a (lb_live st) \<and> lb_next st' = lb_next st
    \<and> a \<in> set (lb_live st)"
  using assms by (auto simp: fail_path_def lib_free_def split: if_splits)

lemma send_symmetric_key_owned:
  assumes "send_symmetric_key D a p st = Inr (r, err, p', st')" and "owned p st"
  shows "px_path p' = px_path p \<and> px_sess p' = px_sess p \<and> (r = 0 \<longrightarrow> owned p' st') \<and> (r \<noteq> 0 \<longrightarrow> r = - 1 \<and> err \<noteq> None \<and> a \<notin> set (lb_live st'))"
proof -
  obtain sym where s: "create_symmetric_key (de_rand D (lb_calls st)) = Inr sym"
    using assms(1) by (auto simp: send_symmetric_key_def elim!: cbind_InrE)
  obtain b st1 where b: "lib_alloc sym st = (b, st1)" by (cases "lib_alloc sym st")
  have o: "owned (p\<lparr>px_symkey := Some b\<rparr>) st1" by (rule owned_put_field [OF assms(2) b])
  show ?thesis
    using assms(1) o by (auto simp: send_symmetric_key_def s b Let_def elim!: cbind_InrE dest!: fail_pathD
        split: option.splits)
qed

lemma exchange_keys_owned:
  assumes "exchange_keys D a p st = Inr (r, err, p', st')" and "owned p st"
  shows "px_path p' = px_path p \<and> px_sess p' = px_sess p \<and> (r = 0 \<longrightarrow> owned p' st') \<and> (r \<noteq> 0 \<longrightarrow> r = - 1 \<and> err \<noteq> None \<and> a \<notin> set (lb_live st'))"
proof (cases "db_key (de_bus D) (lb_calls st) (L_EncryptKey 0 [])")
  case (Inl e)
  with assms(1) show ?thesis by (auto simp: exchange_keys_def Let_def dest!: fail_pathD)
next
  case (Inr tk)
  obtain ty pk where tk: "tk = (ty, pk)" by (cases tk)
  obtain b st1 where b: "lib_alloc pk (lib_log (L_EncryptKey 0 []) st) = (b, st1)" by (cases "lib_alloc pk (lib_log (L_EncryptKey 0 []) st)")
  obtain m st2 where m: "lib_alloc [] st1 = (m, st2)" by (cases "lib_alloc [] st1")
  obtain k st3 where k: "lib_alloc [] st2 = (k, st3)" by (cases "lib_alloc [] st2")
  obtain ret rsa where g: "gen_rsa_pubkey (de_ssl D) None pk = (ret, rsa)" by (cases "gen_rsa_pubkey (de_ssl D) None pk")
  let ?p = "p\<lparr>px_enc_type := ty, px_pubkey := Some b, px_enc_method := Some m, px_key := Some k, px_rsa := rsa\<rparr>"
  have "owned (p\<lparr>px_enc_type := ty\<rparr>) (lib_log (L_EncryptKey 0 []) st)" using assms(2) by simp
  from owned_put_field(7) [OF owned_put_field(5) [OF owned_put_field(4) [OF this b] m] k]
  have o: "owned ?p st3" by simp
  have e: "exchange_keys D a p st =
      (if ret \<noteq> 0 then fail_path a (error_new ''gen rsa error'') ?p st3 else send_symmetric_key D a ?p st3)"
    by (simp add: exchange_keys_def Inr tk b m k g Let_def)
  show ?thesis
  proof (cases "ret = 0")
    case True
    with assms(1) have "send_symmetric_key D a ?p st3 = Inr (r, err, p', st')" by (simp add: e)
    from send_symmetric_key_owned [OF this o] show ?thesis by simp
  next
    case False
    with assms(1) have "fail_path a (error_new ''gen rsa error'') ?p st3 = Inr (r, err, p', st')" by (simp add: e)
    from fail_pathD [OF this] show ?thesis by simp
  qed
qed

lemma dangling_path:
  assumes "px_path p = Some a" and "a \<notin> set (lb_live st)"
  shows "\<not> defined (da_dbus_proxy_free (Some p) st)"
proof -
  have "a \<in> set (somes (pointers p))" using assms(1) by (simp add: pointers_def set_somes)
  then show ?thesis
    using assms(2) lib_free_all_defined [of "pointers p" st] by (auto simp: da_dbus_proxy_free_def pointers_def)
qed

lemma owned_free_defined: "owned p st \<Longrightarrow> defined (da_dbus_proxy_free (Some p) st)"
  using lib_free_all_defined [of "pointers p" st]
  by (simp add: da_dbus_proxy_free_def pointers_def owned_def owned_list_def)

lemma open_proxy_owned:
  assumes "open_proxy D p u f t st = Inr (r, err, p', st')" and "owned p st"
  shows "r = 0 \<and> owned p' st' \<and> px_sess p' \<noteq> None
    \<or> r = - 1 \<and> err \<noteq> None \<and> owned p' st' \<and> px_path p' = px_path p
    \<or> r = - 1 \<and> err \<noteq> None \<and> (\<exists>a. px_path p' = Some a \<and> a \<notin> set (lb_live st')) \<and> px_path p' \<noteq> px_path p"
proof -
  let ?c = "L_Authenticate u f t"
  let ?st = "lib_log ?c st"
  consider e where "db_str (de_bus D) (lb_calls st) ?c = Inl e" | "db_str (de_bus D) (lb_calls st) ?c = Inr None"
    | path where "db_str (de_bus D) (lb_calls st) ?c = Inr (Some path)"
    by (metis not_None_eq sum.exhaust)
  then show ?thesis
  proof cases
    case 3
    obtain a st1 where a: "lib_alloc path ?st = (a, st1)" by (cases "lib_alloc path ?st")
    let ?d = "New_Session_Proxy path"
    let ?st1 = "lib_log ?d st1"
    have new: "a \<notin> set (lb_live ?st)" using owned_next [OF assms(2)] lib_alloc_fields(1) [OF a] by simp
    have path: "px_path p \<noteq> Some a"
      using new owned_pointer [OF assms(2) pointers_mem(1)] by (metis lib_log_fields(1))
    have live1: "lb_live st1 = a # lb_live ?st" by (rule lib_alloc_fields(2) [OF a])
    have undo: "owned (p\<lparr>px_sess := None\<rparr>) st2" if "lb_live st2 = removeAll a (lb_live st1)" "lb_next st2 = lb_next st1" for st2
    proof -
      have "owned_list (pointers (p\<lparr>px_sess := None\<rparr>)) st"
        using owned_drop_sess [OF assms(2)] by (simp add: owned_def)
      moreover have "lb_live st2 = lb_live st" using that(1) live1 new by simp
      moreover have "lb_next st2 = Suc (lb_next st)" using that(2) lib_alloc_fields(1,3) [OF a] by simp
      ultimately show ?thesis by (auto simp: owned_def owned_list_def)
    qed
    have fp: ?thesis if "fail_path a e (p\<lparr>px_sess := None\<rparr>) ?st1 = Inr (r, err, p', st')" for e
      using fail_pathD [OF that] undo [of st'] by auto
    show ?thesis
    proof (cases "db_proxy (de_bus D) (lb_calls st1) ?d = Inr True")
      case True
      obtain s st2 where s: "lib_alloc [] ?st1 = (s, st2)" by (cases "lib_alloc [] ?st1")
      obtain n st3 where n: "lib_alloc u st2 = (n, st3)" by (cases "lib_alloc u st2")
      let ?p = "p\<lparr>px_sess := Some s, px_path := Some a, px_username := Some n\<rparr>"
      have "owned (p\<lparr>px_path := Some a\<rparr>) ?st1" using owned_put_field(2) [OF _ a] assms(2) by simp
      from owned_put_field(3) [OF owned_put_field(1) [OF this s] n] have o: "owned ?p st3" by (simp add: owned_def pointers_def)
      have "exchange_keys D a ?p st3 = Inr (r, err, p', st')"
        using assms(1) by (simp add: open_proxy_def 3 a s n True Let_def)
      from exchange_keys_owned [OF this o] path show ?thesis by auto
    next
      case False
      then have "\<exists>e. fail_path a e (p\<lparr>px_sess := None\<rparr>) ?st1 = Inr (r, err, p', st')"
        using assms(1) by (auto simp: open_proxy_def 3 a Let_def split: sum.splits if_splits bool.splits)
      then show ?thesis using fp by blast
    qed
  qed (use assms in \<open>auto simp: open_proxy_def Let_def\<close>)
qed

end
