(* ===== verification/Auth_Calls.thy ===== *)
theory Auth_Calls
  imports Auth_Ownership
begin

text \<open>
  The calls of the client library (\<open>lib/src/auth/auth.c\<close>): limits and their signal, the methods and
  properties of the manager, the methods and properties of a session. A returned array of limits is
  a list whose elements may be unwritten; an out parameter the caller may leave null is a flag.
\<close>

subsection \<open>Limits\<close>

definition limit_keys :: "string list" where
  "limit_keys = [''type'', ''flag'', ''unlockSecs'', ''maxTries'', ''numFailures'', ''locked'', ''unlockTime'']"

definition limit_entry :: "'j jsonc \<Rightarrow> 'j \<Rightarrow> da_limit_info option" where
  \<comment> \<open>one element of the array; none: a key is missing\<close>
  "limit_entry J ele =
     (case map (get_ex J (Some ele)) limit_keys of
        [Some json_type, Some json_flag, Some json_unlock_secs, Some json_max_tries,
         Some json_num_failures, Some json_locked, Some json_unlockT_time] \<Rightarrow>
          Some \<lparr>li_type = map_option (\<lambda>s. g_strlcpy s 64) (get_string J json_type),
                li_locked = get_boolean J json_locked, li_max_tries = get_int J json_max_tries,
                li_fail_num = get_int J json_num_failures,
                li_unlock_time = map_option (\<lambda>s. g_strlcpy s 64) (get_string J json_unlockT_time),
                li_flag = get_int J json_flag, li_unlock_secs = get_int J json_unlock_secs\<rparr>
      | _ \<Rightarrow> None)"

fun limit_fill :: "'j jsonc \<Rightarrow> 'j option list \<Rightarrow> da_limit_info option list \<times> int" where
  \<comment> \<open>the loop; a null element is left unwritten, a missing key ends it\<close>
  "limit_fill J [] = ([], 0)"
| "limit_fill J (None # es) = (case limit_fill J es of (ls, r) \<Rightarrow> (None # ls, r))"
| "limit_fill J (Some ele # es) =
     (case limit_entry J ele of
        None \<Rightarrow> (None # replicate (length es) None, - 1)
      | Some l \<Rightarrow> (case limit_fill J es of (ls, r) \<Rightarrow> (Some l # ls, r)))"

definition json_tokener_parse :: "'j jsonc \<Rightarrow> string \<Rightarrow> 'j option" where
  "json_tokener_parse J s = (case parse_ex J s of (ok, j) \<Rightarrow> if ok then j else None)"

definition limit_json_deal ::
  "'j jsonc \<Rightarrow> string option \<Rightarrow> bool \<Rightarrow> (int \<times> da_limit_info option list option) cres" where
  \<comment> \<open>the result and what is stored through \<open>limits\<close>; its length goes through \<open>limit_len\<close>\<close>
  "limit_json_deal J text limits =
     (case text of
        None \<Rightarrow> Inr (- 1, None)
      | Some s \<Rightarrow>
          if \<not> limits then Inr (- 1, None)
          else
            let pobj = json_tokener_parse J s in
            case array_length J pobj of
              None \<Rightarrow> Inl Assert_Fail
            | Some ele_num \<Rightarrow>
                (case limit_fill J (map (array_get_idx J pobj) [0..<ele_num]) of (ls, ret) \<Rightarrow> Inr (ret, Some ls)))"

definition da_get_limits ::
  "('j, 'k) da_env \<Rightarrow> 'k da_proxy option \<Rightarrow> string \<Rightarrow> bool \<Rightarrow> lib \<Rightarrow>
    (da_limit_info option list da_res \<times> lib) cres" where
  "da_get_limits D p username limits st =
     on_manager p st
       (case value_call (db_str (de_bus D)) (L_GetLimits username) st of
          ((_, None, e), st) \<Rightarrow> Inr ((- 1, None, e), st)
        | ((_, Some None, _), st) \<Rightarrow> Inr ((- 1, None, Some (error_new ''call GetLimit failed.'')), st)
        | ((_, Some (Some out_limits), _), st) \<Rightarrow>
            cbind (limit_json_deal (de_json D) (Some out_limits) limits) (\<lambda>(ret, ls). Inr ((ret, ls, None), st)))"

definition signal_limit_updated_handler ::
  "('j, 'k) da_env \<Rightarrow> 'k da_proxy \<Rightarrow> string \<Rightarrow> lib \<Rightarrow> (int \<times> lib) cres" where
  "signal_limit_updated_handler D p name st =
     cbind (case px_username p of None \<Rightarrow> Inr None | Some _ \<Rightarrow> cbind (lib_deref (px_username p) st) (\<lambda>u. Inr (Some u)))
       (\<lambda>u.
         if u \<noteq> Some name then Inr (0, st)
         else
           let st = LOG_CB p (''signal_limit_updated_handler invoked! '' @ name) st in
           case px_limit_cb p of
             None \<Rightarrow> Inr (1, st)
           | Some cb \<Rightarrow>
               (case value_call (db_str (de_bus D)) (L_GetLimits name) st of
                  ((_, None, _), st) \<Rightarrow> Inr (- 1, st)
                | ((_, Some None, _), st) \<Rightarrow> Inr (- 1, st)
                | ((_, Some (Some out_limits), _), st) \<Rightarrow>
                    cbind (limit_json_deal (de_json D) (Some out_limits) True) (\<lambda>(_, ls).
                      let ls = (case ls of None \<Rightarrow> [] | Some ls \<Rightarrow> ls) in
                      Inr (1, st\<lparr>lb_user := lb_user st @ [Ev_Limit_Cb cb ls (length ls)]\<rparr>))))"

definition is_valid_auth_flag :: "int \<Rightarrow> bool" where
  "is_valid_auth_flag auth_flag \<longleftrightarrow>
     auth_flag = flag_value AUTH_FLAG_PASSWORD \<or> auth_flag = flag_value AUTH_FLAG_FINGERPRINT
     \<or> auth_flag = flag_value AUTH_FLAG_AD \<or> auth_flag = flag_value AUTH_FLAG_FACE
     \<or> auth_flag = flag_value AUTH_FLAG_FINGERVEIN \<or> auth_flag = flag_value AUTH_FLAG_IRIS
     \<or> auth_flag = flag_value AUTH_FLAG_UKEY"

fun find_limit :: "nat \<Rightarrow> da_limit_info option list \<Rightarrow> int \<Rightarrow> da_limit_info option cres" where
  "find_limit 0 ls flag = Inr None"
| "find_limit (Suc n) [] flag = Inl Out_Of_Bounds"
| "find_limit (Suc n) (None # ls) flag = Inl Uninit_Read"
| "find_limit (Suc n) (Some l # ls) flag = (if li_flag l = flag then Inr (Some l) else find_limit n ls flag)"

definition da_get_auth_limit_info ::
  "da_limit_info option list option \<Rightarrow> nat \<Rightarrow> int \<Rightarrow> da_limit_info option cres" where
  "da_get_auth_limit_info dli dli_num auth_flag =
     (case dli of
        None \<Rightarrow> Inr None
      | Some ls \<Rightarrow>
          if \<not> is_valid_auth_flag auth_flag \<or> auth_flag = flag_value AUTH_FLAG_ALL then Inr None
          else find_limit dli_num ls auth_flag)"

subsection \<open>Methods and properties of the manager\<close>

definition copy_out :: "string option \<Rightarrow> nat \<Rightarrow> string option" where
  \<comment> \<open>\<open>g_strlcpy\<close> into the caller's buffer, which a null source leaves as it is\<close>
  "copy_out s n = map_option (\<lambda>s. g_strlcpy s n) s"

definition da_pre_one_key_login ::
  "('j, 'k) da_env \<Rightarrow> 'k da_proxy option \<Rightarrow> int \<Rightarrow> bool \<Rightarrow> int \<Rightarrow> lib \<Rightarrow> (string da_res \<times> lib) cres" where
  \<comment> \<open>\<open>res\<close>: the buffer is not null\<close>
  "da_pre_one_key_login D p flag res result_len st =
     on_manager p st
       (if \<not> res \<or> result_len \<le> 0 then Inr ((- 1, None, Some (error_new ''parameter error.'')), st)
        else
          case value_call (db_str (de_bus D)) (L_PreOneKeyLogin flag) st of
            ((_, None, e), st) \<Rightarrow> Inr ((- 1, None, e), st)
          | ((_, Some None, _), st) \<Rightarrow> Inr ((- 1, None, Some (error_new ''call pre_one_key_login failed.'')), st)
          | ((_, Some (Some out_result), _), st) \<Rightarrow> Inr ((0, copy_out (Some out_result) (nat result_len), None), st))"

definition prop_get :: "(lcall list \<Rightarrow> lcall \<Rightarrow> gerror + 'a) \<Rightarrow> string \<Rightarrow> string \<Rightarrow> lib \<Rightarrow> int \<times> 'a option \<times> lib" where
  \<comment> \<open>the functions \<open>da_dbus_prop_get_string\<close>, \<open>_gvariant\<close>, \<open>_int\<close> and \<open>_bool\<close> on non-null arguments\<close>
  "prop_get f iface name st = (case value_call f (L_Get iface name) st of ((r, v, _), st) \<Rightarrow> (r, v, st))"

abbreviation (input) AUTH_IFACE :: string where "AUTH_IFACE \<equiv> ''com.deepin.daemon.Authenticate''"
abbreviation (input) SESSION_IFACE :: string where "SESSION_IFACE \<equiv> ''com.deepin.daemon.Authenticate.Session''"

definition text_prop :: "('j, 'k) da_env \<Rightarrow> string \<Rightarrow> string \<Rightarrow> bool \<Rightarrow> int \<Rightarrow> lib \<Rightarrow> (string da_res \<times> lib) cres" where
  \<comment> \<open>the common body of the getters of a text\<close>
  "text_prop D iface name res result_len st =
     (if \<not> res \<or> result_len \<le> 0 then Inr ((- 1, None, None), st)
      else
        case prop_get (db_str (de_bus D)) iface name st of
          (_, None, st) \<Rightarrow> Inr ((- 1, None, None), st)
        | (_, Some v, st) \<Rightarrow> Inr ((0, copy_out v (nat result_len), None), st))"

definition plain_prop ::
  "(lcall list \<Rightarrow> lcall \<Rightarrow> gerror + 'a) \<Rightarrow> string \<Rightarrow> string \<Rightarrow> bool \<Rightarrow> lib \<Rightarrow> ('a da_res \<times> lib) cres" where
  \<comment> \<open>the common body of the getters of a number or a truth value\<close>
  "plain_prop f iface name res st =
     (if \<not> res then Inr ((- 1, None, None), st)
      else
        case prop_get f iface name st of
          (_, None, st) \<Rightarrow> Inr ((- 1, None, None), st)
        | (_, Some v, st) \<Rightarrow> Inr ((0, Some v, None), st))"

definition da_prop_get_support_encrypts ::
  "('j, 'k) da_env \<Rightarrow> 'k da_proxy option \<Rightarrow> bool \<Rightarrow> int \<Rightarrow> lib \<Rightarrow> (string da_res \<times> lib) cres" where
  "da_prop_get_support_encrypts D p res result_len st =
     on_manager p st (text_prop D AUTH_IFACE ''SupportEncrypts'' res result_len st)"

definition da_prop_get_framework_state ::
  "('j, 'k) da_env \<Rightarrow> 'k da_proxy option \<Rightarrow> bool \<Rightarrow> lib \<Rightarrow> (int da_res \<times> lib) cres" where
  "da_prop_get_framework_state D p res st =
     on_manager p st (plain_prop (db_int (de_bus D)) AUTH_IFACE ''FrameworkState'' res st)"

definition da_prop_get_supported_flags ::
  "('j, 'k) da_env \<Rightarrow> 'k da_proxy option \<Rightarrow> bool \<Rightarrow> lib \<Rightarrow> (int da_res \<times> lib) cres" where
  "da_prop_get_supported_flags D p res st =
     on_manager p st (plain_prop (db_int (de_bus D)) AUTH_IFACE ''SupportedFlags'' res st)"

subsection \<open>Methods of a session\<close>

definition da_session_set_token ::
  "('j, 'k) da_env \<Rightarrow> int \<Rightarrow> string option \<Rightarrow> 'k da_proxy option \<Rightarrow> lib \<Rightarrow> (unit da_res \<times> lib) cres" where
  \<comment> \<open>\<open>encrypt_password\<close> is not set when the key is refused\<close>
  "da_session_set_token D auth_type password p st =
     on_session p st
       (case password of
          None \<Rightarrow> Inr ((- 1, None, Some (error_new ''parameter error.'')), st)
        | Some pw \<Rightarrow>
            cbind (lib_deref (Option.bind p px_symkey) st) (\<lambda>key.
              case aes_cbc_encrypt (de_ssl D) pw key of
                (_, None, _) \<Rightarrow> Inl Uninit_Read
              | (_, Some c, n) \<Rightarrow>
                  if length c < n then Inl Out_Of_Bounds
                  else Inr (unit_call D (L_SetToken auth_type (take n c)) st)))"

definition da_session_end ::
  "('j, 'k) da_env \<Rightarrow> int \<Rightarrow> bool \<Rightarrow> 'k da_proxy option \<Rightarrow> lib \<Rightarrow> (int da_res \<times> lib) cres" where
  "da_session_end D flag out_failNum p st =
     on_session p st
       (if \<not> out_failNum then Inr ((- 1, None, Some (error_new ''parameter error.'')), st)
        else Inr (value_call (db_int (de_bus D)) (L_End flag) st))"

definition da_session_get_result ::
  "('j, 'k) da_env \<Rightarrow> bool \<Rightarrow> 'k da_proxy option \<Rightarrow> lib \<Rightarrow> (int da_res \<times> lib) cres" where
  "da_session_get_result D res p st =
     on_session p st
       (if \<not> res then Inr ((- 1, None, Some (error_new ''parameter error.'')), st)
        else Inr (value_call (db_int (de_bus D)) L_GetResult st))"

definition da_session_privileges_disable ::
  "('j, 'k) da_env \<Rightarrow> 'k da_proxy option \<Rightarrow> lib \<Rightarrow> (unit da_res \<times> lib) cres" where
  "da_session_privileges_disable D p st = on_session p st (Inr (unit_call D L_PrivilegesDisable st))"

definition da_session_privileges_enable ::
  "('j, 'k) da_env \<Rightarrow> string option \<Rightarrow> nat option \<Rightarrow> 'k da_proxy option \<Rightarrow> lib \<Rightarrow> (bool da_res \<times> lib) cres" where
  \<comment> \<open>\<open>enabled\<close>: how many bytes the pointer leads to (one, for a \<open>bool\<close>); the stub stores a \<open>gboolean\<close>
     of four bytes through it\<close>
  "da_session_privileges_enable D master_path enabled p st =
     on_session p st
       (case (enabled, master_path) of
          (Some room, Some path) \<Rightarrow>
            (case value_call (db_bool (de_bus D)) (L_PrivilegesEnable path) st of
               ((r, v, e), st) \<Rightarrow> if r = 0 \<and> room < 4 then Inl Buffer_Overflow else Inr ((r, v, e), st))
        | _ \<Rightarrow> Inr ((- 1, None, Some (error_new ''parameter error.'')), st))"

definition da_session_set_quit_flag ::
  "('j, 'k) da_env \<Rightarrow> int \<Rightarrow> 'k da_proxy option \<Rightarrow> lib \<Rightarrow> (unit da_res \<times> lib) cres" where
  "da_session_set_quit_flag D meth p st = on_session p st (Inr (unit_call D (L_SetQuitFlag meth) st))"

definition da_session_start ::
  "('j, 'k) da_env \<Rightarrow> int \<Rightarrow> int \<Rightarrow> bool \<Rightarrow> 'k da_proxy option \<Rightarrow> lib \<Rightarrow> (int da_res \<times> lib) cres" where
  "da_session_start D flag timeout failNum p st =
     on_session p st
       (if \<not> failNum then Inr ((- 1, None, Some (error_new ''parameter error.'')), st)
        else Inr (value_call (db_int (de_bus D)) (L_Start flag timeout) st))"

subsection \<open>Properties of a session\<close>

definition da_prop_get_is_MFA ::
  "('j, 'k) da_env \<Rightarrow> bool \<Rightarrow> 'k da_proxy option \<Rightarrow> lib \<Rightarrow> (bool da_res \<times> lib) cres" where
  "da_prop_get_is_MFA D res p st = on_session p st (plain_prop (db_bool (de_bus D)) SESSION_IFACE ''IsMFA'' res st)"

definition da_prop_get_prompt ::
  "('j, 'k) da_env \<Rightarrow> bool \<Rightarrow> int \<Rightarrow> 'k da_proxy option \<Rightarrow> lib \<Rightarrow> (string da_res \<times> lib) cres" where
  "da_prop_get_prompt D res n p st = on_session p st (text_prop D SESSION_IFACE ''Prompt'' res n st)"

definition da_prop_get_username ::
  "('j, 'k) da_env \<Rightarrow> bool \<Rightarrow> int \<Rightarrow> 'k da_proxy option \<Rightarrow> lib \<Rightarrow> (string da_res \<times> lib) cres" where
  "da_prop_get_username D res n p st = on_session p st (text_prop D SESSION_IFACE ''Username'' res n st)"

definition da_prop_get_prg_path ::
  "('j, 'k) da_env \<Rightarrow> bool \<Rightarrow> int \<Rightarrow> 'k da_proxy option \<Rightarrow> lib \<Rightarrow> (string da_res \<times> lib) cres" where
  "da_prop_get_prg_path D res n p st = on_session p st (text_prop D SESSION_IFACE ''PrgPath'' res n st)"

definition da_prop_get_PIN_len ::
  "('j, 'k) da_env \<Rightarrow> bool \<Rightarrow> 'k da_proxy option \<Rightarrow> lib \<Rightarrow> (int da_res \<times> lib) cres" where
  "da_prop_get_PIN_len D res p st = on_session p st (plain_prop (db_int (de_bus D)) SESSION_IFACE ''PINLen'' res st)"

definition da_prop_get_factors_info ::
  "('j, 'k) da_env \<Rightarrow> bool \<Rightarrow> 'k da_proxy option \<Rightarrow> lib \<Rightarrow> (da_factor_info list da_res \<times> lib) cres" where
  \<comment> \<open>the reply's iterator gives its number of children first; no children is an error\<close>
  "da_prop_get_factors_info D res p st =
     on_session p st
       (if \<not> res then Inr ((- 1, None, None), st)
        else
          case prop_get (db_factors (de_bus D)) SESSION_IFACE ''FactorsInfo'' st of
            (_, Some (Some fs), st) \<Rightarrow> Inr (if fs = [] then (- 1, None, None) else (0, Some fs, None), st)
          | (_, _, st) \<Rightarrow> Inr ((- 1, None, None), st))"

end
