(* ===== verification/Auth_Text.thy ===== *)
theory Auth_Text
  imports Auth_Calls C_Time Env_File
begin

text \<open>
  The texts of the client library (\<open>lib/src/auth/text.c\<close>): the prompts after a failure or for a lock,
  and the user's locale. Definitions that repeat a function of the PAM module carry the prefix
  \<open>lib_\<close>. A prompt the caller gets is its text; \<open>setlocale\<close> and \<open>textdomain\<close> only choose what
  \<open>gettext\<close> answers.
\<close>

abbreviation (input) MAX_BUFF_SIZE :: nat where "MAX_BUFF_SIZE \<equiv> 512"
abbreviation (input) LIB_PATH_MAX :: nat where "LIB_PATH_MAX \<equiv> 4096"

subsection \<open>The type of an authentication\<close>

definition lib_type_to_tr :: "(string \<Rightarrow> string) \<Rightarrow> int \<Rightarrow> string" where
  "lib_type_to_tr tr auth_flag =
     (if auth_flag = flag_value AUTH_FLAG_FINGERPRINT then tr ''Fingerprint''
      else if auth_flag = flag_value AUTH_FLAG_FACE then tr ''Face recognition''
      else if auth_flag = flag_value AUTH_FLAG_AD then tr ''ActiveDirectory''
      else if auth_flag = flag_value AUTH_FLAG_UKEY then tr ''PIN''
      else tr ''Unknown'')"

definition lib_is_input_type :: "int \<Rightarrow> bool" where
  "lib_is_input_type authType \<longleftrightarrow>
     authType = flag_value AUTH_FLAG_PASSWORD \<or> authType = flag_value AUTH_FLAG_UKEY
     \<or> authType = flag_value AUTH_FLAG_AD"

subsection \<open>One limit\<close>

definition get_limit_info_priv ::
  "('j, 'k) da_env \<Rightarrow> 'k da_proxy option \<Rightarrow> string \<Rightarrow> int \<Rightarrow> lib \<Rightarrow> (da_limit_info option \<times> lib) cres" where
  \<comment> \<open>the result of \<open>da_get_limits\<close> is not looked at, only its error; the length starts as 0\<close>
  "get_limit_info_priv D p username auth_flag st =
     cbind (da_get_limits D p username True st) (\<lambda>((_, dli, error), st).
       if error \<noteq> None then Inr (None, st)
       else cbind (da_get_auth_limit_info dli (case dli of None \<Rightarrow> 0 | Some ls \<Rightarrow> length ls) auth_flag) (\<lambda>l.
         Inr (l, st)))"

definition lib_resolve_limit_time :: "('j, 'k) da_env \<Rightarrow> lib \<Rightarrow> da_limit_info \<Rightarrow> int cres" where
  "lib_resolve_limit_time D st limit =
     (case li_unlock_time limit of
        None \<Rightarrow> Inl Uninit_Read
      | Some t \<Rightarrow>
          let get_time = strptime format_FTZ t tm_zero;
              diff_of_time = mktime (gmtoff (de_sys D)) get_time - de_now D (lb_calls st)
          in Inr (wait_minutes diff_of_time))"

definition lib_get_limit_prompt :: "('j, 'k) da_env \<Rightarrow> lib \<Rightarrow> da_limit_info \<Rightarrow> string option cres" where
  \<comment> \<open>the text left in the buffer, if the type is locked\<close>
  "lib_get_limit_prompt D st limit =
     (if li_locked limit then
        cbind (lib_resolve_limit_time D st limit) (\<lambda>minutes.
        cbind (cformat (gettext (de_sys D)
                 (if minutes > 1 then ''Please try again %d minutes later'' else ''Please try again %d minute later''))
                 [PD minutes]) (\<lambda>t.
        cbind (sprintf_into MAX_BUFF_SIZE t) (\<lambda>t. Inr (Some t))))
      else Inr None)"

definition da_get_lock_info ::
  "('j, 'k) da_env \<Rightarrow> 'k da_proxy option \<Rightarrow> string \<Rightarrow> int \<Rightarrow> lib \<Rightarrow> (int \<times> string option \<times> lib) cres" where
  \<comment> \<open>with the result 0 the prompt is stored, and true through \<open>is_lock\<close> where it is not null\<close>
  "da_get_lock_info D p username auth_type st =
     cbind (get_limit_info_priv D p username auth_type st) (\<lambda>(spec_limit, st).
       case spec_limit of
         None \<Rightarrow> Inr (- 1, None, st)
       | Some l \<Rightarrow>
           cbind (lib_get_limit_prompt D st l) (\<lambda>prompt.
             Inr (if prompt = None then (- 1, None, st) else (0, prompt, st))))"

subsection \<open>The prompt after a failure\<close>

definition put_text :: "string \<Rightarrow> string \<Rightarrow> parg list \<Rightarrow> string cres" where
  \<comment> \<open>\<open>snprintf(out_prompt + offset, MAX_BUFF_SIZE, fmt, ...)\<close> behind what is already in the buffer\<close>
  "put_text pre fmt args = cbind (cformat fmt args) (snprintf_into MAX_BUFF_SIZE pre MAX_BUFF_SIZE)"

definition plain_failure :: "(string \<Rightarrow> string) \<Rightarrow> string \<Rightarrow> int \<Rightarrow> string cres" where
  "plain_failure tr pre auth_flag =
     (if auth_flag = flag_value AUTH_FLAG_PASSWORD then put_text pre (tr ''Password verification failed'') []
      else put_text pre (tr ''%s verification failed'') [PS (lib_type_to_tr tr auth_flag)])"

definition retry_failure :: "(string \<Rightarrow> string) \<Rightarrow> string \<Rightarrow> int \<Rightarrow> int \<Rightarrow> string cres" where
  "retry_failure tr pre auth_flag retry_cnt =
     (if retry_cnt > 1 then
        (if auth_flag = flag_value AUTH_FLAG_PASSWORD then
           put_text pre (tr ''Password verification failed, %d chances left'') [PD retry_cnt]
         else put_text pre (tr ''%s verification failed, %d chances left'')
                [PS (lib_type_to_tr tr auth_flag), PD retry_cnt])
      else
        (if auth_flag = flag_value AUTH_FLAG_PASSWORD then
           put_text pre (tr ''Password verification failed, only one chance left'') []
         else put_text pre (tr ''%s verification failed, only one chance left'') [PS (lib_type_to_tr tr auth_flag)]))"

definition locked_failure ::
  "('j, 'k) da_env \<Rightarrow> 'k da_proxy \<Rightarrow> string \<Rightarrow> int \<Rightarrow> lib \<Rightarrow> (int \<times> string option \<times> lib) cres" where
  \<comment> \<open>for the password the lock is asked for once more\<close>
  "locked_failure D p pre auth_flag st =
     (let tr = gettext (de_sys D) in
      if auth_flag = flag_value AUTH_FLAG_PASSWORD then
        cbind (lib_deref (px_username p) st) (\<lambda>u.
        cbind (da_get_lock_info D (Some p) u auth_flag st) (\<lambda>(r, limit_buff, st).
          case (r = 0, limit_buff) of
            (True, Some b) \<Rightarrow> cbind (put_text pre (tr ''Password locked, %s'') [PS b]) (\<lambda>t. Inr (0, Some t, st))
          | _ \<Rightarrow> Inr (- 1, None, st)))
      else cbind (put_text pre (tr ''%s locked, use password please'') [PS (lib_type_to_tr tr auth_flag)]) (\<lambda>t.
             Inr (0, Some t, st)))"

definition da_get_fail_prompt ::
  "('j, 'k) da_env \<Rightarrow> 'k da_proxy option \<Rightarrow> int \<Rightarrow> bool \<Rightarrow> lib \<Rightarrow> (int \<times> string option \<times> lib) cres" where
  "da_get_fail_prompt D p auth_flag with_retry_info st =
     (case p of
        None \<Rightarrow> Inr (- 1, None, st)
      | Some p \<Rightarrow>
          if \<not> is_valid_auth_flag auth_flag then Inr (- 1, None, st)
          else
            let tr = gettext (de_sys D);
                pre = (if stdin_tty (de_sys D) \<and> lib_is_input_type auth_flag then [newline] else [])
            in
            if \<not> with_retry_info then cbind (plain_failure tr pre auth_flag) (\<lambda>t. Inr (0, Some t, st))
            else
              cbind (lib_deref (px_username p) st) (\<lambda>u.
              cbind (get_limit_info_priv D (Some p) u auth_flag st) (\<lambda>(spec_limit, st).
                case spec_limit of
                  None \<Rightarrow> Inr (- 1, None, st)
                | Some l \<Rightarrow>
                    cbind (c_sub (li_max_tries l) (li_fail_num l)) (\<lambda>retry_cnt.
                      if li_max_tries l = 0 then cbind (plain_failure tr pre auth_flag) (\<lambda>t. Inr (0, Some t, st))
                      else if li_locked l then locked_failure D p pre auth_flag st
                      else cbind (retry_failure tr pre auth_flag retry_cnt) (\<lambda>t. Inr (0, Some t, st))))))"

definition da_success_prompt :: "('j, 'k) da_env \<Rightarrow> string" where
  "da_success_prompt D = gettext (de_sys D) ''Verification successful''"

subsection \<open>The user's locale\<close>

abbreviation (input) lib_locale_path :: string where "lib_locale_path \<equiv> ''.config/locale.conf''"

definition da_load_user_locale :: "sysenv \<Rightarrow> string \<Rightarrow> (string \<times> string) list cres" where
  \<comment> \<open>the calls of \<open>setenv\<close>, in order; the path goes into a buffer of 512 bytes\<close>
  "da_load_user_locale S username =
     (case pw_dir S username of
        None \<Rightarrow> Inr []
      | Some dir \<Rightarrow>
          let path_len = length dir + length lib_locale_path + 2 in
          if LIB_PATH_MAX < path_len then Inr []
          else cbind (sprintf_into MAX_BUFF_SIZE (dir @ ''/'' @ lib_locale_path)) (\<lambda>file.
            if \<not> is_regular S file then Inr []
            else (case read_file S file of
                    None \<Rightarrow> Inr []
                  | Some content \<Rightarrow>
                      Inr (List.map_filter parse_env_line (fgets_lines (MAX_BUFF_SIZE - 1) content)))))"

fun str_trim :: "string \<Rightarrow> char \<Rightarrow> string" where
  \<comment> \<open>the character is removed everywhere\<close>
  "str_trim [] c = []"
| "str_trim (x # xs) c = (if x \<noteq> c then x # str_trim xs c else str_trim xs c)"

fun lang_loop :: "string list \<Rightarrow> int \<times> string option" where
  "lang_loop [] = (- 2, None)"
| "lang_loop (l # ls) =
     (case split_assignment (str_trim (chop_newline (cstr l)) (CHR '' '')) of
        None \<Rightarrow> lang_loop ls
      | Some (k, v) \<Rightarrow> if k = ''LANG'' then (0, Some v) else lang_loop ls)"

definition da_get_user_lang :: "sysenv \<Rightarrow> string option \<Rightarrow> int \<times> string option" where
  "da_get_user_lang S username =
     (case username of
        None \<Rightarrow> (- 1, None)
      | Some u \<Rightarrow>
          (case pw_dir S u of
             None \<Rightarrow> (- 1, None)
           | Some dir \<Rightarrow>
               (case read_file S (take (MAX_BUFF_SIZE - 1) (dir @ ''/.config/locale.conf'')) of
                  None \<Rightarrow> (- 1, None)
                | Some content \<Rightarrow> lang_loop (fgets_lines (MAX_BUFF_SIZE - 1) content))))"

end
