(* ===== verification/Auth_Props.thy ===== *)
theory Auth_Props
  imports Auth_Text Sample_Env
begin

text \<open>
  Properties of the client library: what every call on a session has in common (a locale, with an
  interpretation for each call), who owns what over the life of a proxy, the token under the agreed
  key, limits and the locale file.
\<close>

subsection \<open>The contract of the calls on a session\<close>

locale session_operation =
  fixes op :: "'k da_proxy option \<Rightarrow> lib \<Rightarrow> ('a da_res \<times> lib) cres"
  assumes guarded: "\<exists>m. op p st = on_session p st m"
begin

lemma refused:
  assumes "case p of None \<Rightarrow> True | Some p \<Rightarrow> px_sess p = None"
  shows "op p st = Inr ((- 1, None, None), st)"
  using guarded [of p st] assms by (auto simp: on_session_def has_valid_session_proxy_def split: option.splits)

lemma stale:
  assumes "px_sess p = Some s" and "s \<notin> set (lb_live st)"
  shows "op (Some p) st = Inl Use_After_Free"
  using guarded [of "Some p" st] assms by (auto simp: on_session_def has_valid_session_proxy_def)

end

interpretation quit: session_operation "da_quit_authenticate D" for D
  by unfold_locales (auto simp: da_quit_authenticate_def)
interpretation token: session_operation "da_session_set_token D t w" for D t w
  by unfold_locales (auto simp: da_session_set_token_def)
interpretation stop: session_operation "da_session_end D f b" for D f b
  by unfold_locales (auto simp: da_session_end_def)
interpretation outcome: session_operation "da_session_get_result D b" for D b
  by unfold_locales (auto simp: da_session_get_result_def)
interpretation disable: session_operation "da_session_privileges_disable D" for D
  by unfold_locales (auto simp: da_session_privileges_disable_def)
interpretation enable: session_operation "da_session_privileges_enable D m r" for D m r
  by unfold_locales (auto simp: da_session_privileges_enable_def)
interpretation quit_flag: session_operation "da_session_set_quit_flag D n" for D n
  by unfold_locales (auto simp: da_session_set_quit_flag_def)
interpretation start: session_operation "da_session_start D f t b" for D f t b
  by unfold_locales (auto simp: da_session_start_def)
interpretation is_mfa: session_operation "da_prop_get_is_MFA D b" for D b
  by unfold_locales (auto simp: da_prop_get_is_MFA_def)
interpretation prompt: session_operation "da_prop_get_prompt D b n" for D b n
  by unfold_locales (auto simp: da_prop_get_prompt_def)
interpretation factors: session_operation "da_prop_get_factors_info D b" for D b
  by unfold_locales (auto simp: da_prop_get_factors_info_def)
interpretation user: session_operation "da_prop_get_username D b n" for D b n
  by unfold_locales (auto simp: da_prop_get_username_def)
interpretation pin: session_operation "da_prop_get_PIN_len D b" for D b
  by unfold_locales (auto simp: da_prop_get_PIN_len_def)
interpretation prg: session_operation "da_prop_get_prg_path D b n" for D b n
  by unfold_locales (auto simp: da_prop_get_prg_path_def)

text \<open>The calls that leave what is live alone.\<close>

datatype api_call =
    C_Set_Token int "string option" | C_End int bool | C_Result bool | C_Disable
  | C_Enable "string option" "nat option" | C_Quit_Flag int | C_Start int int bool
  | C_Factors bool | C_Prompt bool int | C_Limits string bool

definition keep_state :: "('a \<times> lib) cres \<Rightarrow> lib cres" where
  "keep_state m = cbind m (\<lambda>(_, st). Inr st)"

definition run_call :: "('j, 'k) da_env \<Rightarrow> 'k da_proxy option \<Rightarrow> api_call \<Rightarrow> lib \<Rightarrow> lib cres" where
  "run_call D p c st =
     (case c of
        C_Set_Token t w \<Rightarrow> keep_state (da_session_set_token D t w p st)
      | C_End f b \<Rightarrow> keep_state (da_session_end D f b p st)
      | C_Result b \<Rightarrow> keep_state (da_session_get_result D b p st)
      | C_Disable \<Rightarrow> keep_state (da_session_privileges_disable D p st)
      | C_Enable m r \<Rightarrow> keep_state (da_session_privileges_enable D m r p st)
      | C_Quit_Flag n \<Rightarrow> keep_state (da_session_set_quit_flag D n p st)
      | C_Start f t b \<Rightarrow> keep_state (da_session_start D f t b p st)
      | C_Factors b \<Rightarrow> keep_state (da_prop_get_factors_info D b p st)
      | C_Prompt b n \<Rightarrow> keep_state (da_prop_get_prompt D b n p st)
      | C_Limits u b \<Rightarrow> keep_state (da_get_limits D p u b st))"

definition same_heap :: "lib \<Rightarrow> lib \<Rightarrow> bool" where
  "same_heap st st' \<longleftrightarrow> lb_live st' = lb_live st \<and> lb_next st' = lb_next st"

lemma same_heap_simps [simp]: "same_heap st st" "same_heap st (lib_log c st)"
  by (simp_all add: same_heap_def)

lemma same_heap_owned: "same_heap st st' \<Longrightarrow> owned p st' = owned p st"
  by (simp add: same_heap_def owned_def owned_list_def)

lemma unit_call_heap: "unit_call D c st = (r, st') \<Longrightarrow> same_heap st st'"
  by (auto simp: unit_call_def split: option.splits)

lemma value_call_heap: "value_call f c st = (r, st') \<Longrightarrow> same_heap st st'"
  by (auto simp: value_call_def split: sum.splits)

lemma on_session_heap:
  assumes "on_session p st m = Inr (r, st')" and "\<And>r st'. m = Inr (r, st') \<Longrightarrow> same_heap st st'"
  shows "same_heap st st'"
proof -
  obtain ok where "(if ok then m else Inr ((- 1, None, None), st)) = Inr (r, st')"
    using assms(1) unfolding on_session_def by (rule cbind_InrE)
  then show ?thesis using assms(2) [of r st'] by (cases ok) auto
qed

lemma on_manager_heap:
  assumes "on_manager p st m = Inr (r, st')" and "\<And>r st'. m = Inr (r, st') \<Longrightarrow> same_heap st st'"
  shows "same_heap st st'"
proof -
  obtain ok where "(if ok then m else Inr ((- 1, None, None), st)) = Inr (r, st')"
    using assms(1) unfolding on_manager_def by (rule cbind_InrE)
  then show ?thesis using assms(2) [of r st'] by (cases ok) auto
qed

lemma keep_stateD: "keep_state m = Inr st' \<Longrightarrow> \<exists>r. m = Inr (r, st')"
  by (auto simp: keep_state_def elim!: cbind_InrE)

lemma run_call_heap: "run_call D p c st = Inr st' \<Longrightarrow> same_heap st st'"
  unfolding run_call_def
  by (cases c)
    (auto simp: da_session_set_token_def da_session_end_def da_session_get_result_def
      da_session_privileges_disable_def da_session_privileges_enable_def da_session_set_quit_flag_def
      da_session_start_def da_prop_get_factors_info_def da_prop_get_prompt_def da_get_limits_def
      text_prop_def prop_get_def
      split: option.splits prod.splits if_splits
      dest!: keep_stateD elim!: on_session_heap on_manager_heap cbind_InrE
      dest: unit_call_heap value_call_heap)

subsection \<open>Who owns what\<close>

inductive api_state :: "('j, 'k) da_env \<Rightarrow> 'k da_proxy \<Rightarrow> lib \<Rightarrow> bool" for D where
  \<comment> \<open>what a program holds that creates a proxy, opens sessions successfully, makes calls and sets
     callbacks\<close>
  api_new: "da_dbus_proxy_new D st = Inr (Some p, st') \<Longrightarrow> \<forall>x\<in>set (lb_live st). x < lb_next st \<Longrightarrow>
    api_state D p st'"
| api_open: "api_state D p st \<Longrightarrow> da_create_authenticate D (Some p) u f t st = Inr (0, err, Some p', st') \<Longrightarrow>
    api_state D p' st'"
| api_call: "api_state D p st \<Longrightarrow> run_call D (Some p) c st = Inr st' \<Longrightarrow> api_state D p st'"
| api_limit_cb: "api_state D p st \<Longrightarrow> da_signal_connect_limit_updated (Some p) cb = (r, Some p') \<Longrightarrow>
    api_state D p' st"
| api_status_cb: "api_state D p st \<Longrightarrow> da_session_signal_connect_status (Some p) cb = (r, Some p') \<Longrightarrow>
    api_state D p' st"

lemma da_dbus_proxy_new_owned:
  assumes "da_dbus_proxy_new D st = Inr (Some p, st')" and "\<forall>x\<in>set (lb_live st). x < lb_next st"
  shows "owned p st'"
proof -
  let ?st1 = "snd (lib_alloc [] st)" and ?self = "fst (lib_alloc [] st)"
  have o: "owned (new_proxy ?self) ?st1"
    using assms(2) by (auto simp: owned_def owned_list_def pointers_def new_proxy_def lib_alloc_def)
  obtain a st2 where a: "lib_alloc [] (lib_log New_Manager_Proxy ?st1) = (a, st2)"
    by (cases "lib_alloc [] (lib_log New_Manager_Proxy ?st1)")
  have "p = (new_proxy ?self)\<lparr>px_auth := Some a\<rparr> \<and> st' = st2"
    using assms(1) a by (auto simp: da_dbus_proxy_new_def Let_def elim!: cbind_InrE
        split: prod.splits if_splits sum.splits bool.splits)
  moreover have "owned ((new_proxy ?self)\<lparr>px_auth := Some a\<rparr>) st2"
    using owned_put [of "[None]" None "[None, None, None, None, None, None, Some ?self]"
        "lib_log New_Manager_Proxy ?st1" "[]" a st2] o a
    by (simp add: owned_def pointers_def new_proxy_def)
  ultimately show ?thesis by simp
qed

lemma da_create_authenticateD:
  assumes "da_create_authenticate D (Some p) u f t st = Inr (r, err, Some p', st')" and "px_auth p = Some a"
  shows "open_proxy D p u f t st = Inr (r, err, p', st')"
  using assms by (cases "a \<in> set (lb_live st)")
    (auto simp: da_create_authenticate_def has_valid_authenticate_proxy_def elim!: cbind_InrE)

lemma da_create_authenticate_owned:
  assumes "da_create_authenticate D (Some p) u f t st = Inr (0, err, Some p', st')" and "owned p st"
  shows "owned p' st'"
proof (cases "px_auth p")
  case None
  with assms(1) show ?thesis by (simp add: da_create_authenticate_def has_valid_authenticate_proxy_def)
next
  case (Some a)
  from open_proxy_owned [OF da_create_authenticateD [OF assms(1) Some] assms(2)] show ?thesis by simp
qed

lemma api_state_owned: "api_state D p st \<Longrightarrow> owned p st"
proof (induction rule: api_state.induct)
  case (api_new st p st')
  then show ?case by (rule da_dbus_proxy_new_owned)
next
  case (api_open p st u f t err p' st')
  then show ?case by (blast intro: da_create_authenticate_owned)
next
  case (api_call p st c st')
  with run_call_heap same_heap_owned show ?case by blast
next
  case (api_limit_cb p st cb r p')
  then show ?case
    by (auto simp: da_signal_connect_limit_updated_def owned_def pointers_def split: if_splits)
next
  case (api_status_cb p st cb r p')
  then show ?case
    by (auto simp: da_session_signal_connect_status_def owned_def pointers_def split: if_splits)
qed

lemma da_dbus_proxy_free_eq: "da_dbus_proxy_free (Some p) st = lib_free_all (pointers p) st"
  by (simp add: da_dbus_proxy_free_def pointers_def)

lemma lib_free_all_error: "lib_free_all as st = Inl e \<Longrightarrow> e = Double_Free"
  by (induction as arbitrary: st) (auto simp: lib_free_def cbind_eq_Inl split: option.splits if_splits)

lemma not_defined_free: "\<not> defined (da_dbus_proxy_free (Some p) st) \<Longrightarrow> da_dbus_proxy_free (Some p) st = Inl Double_Free"
  using lib_free_all_error [of "pointers p" st]
  by (cases "lib_free_all (pointers p) st") (auto simp: da_dbus_proxy_free_eq)


text \<open>
  C25: what a failed \<open>da_create_authenticate\<close> leaves behind. On an owned proxy with a manager, it
  returns 0 with a session, or -1 with an error; the proxy can be released afterwards exactly when
  it returned 0 or failed before it stored the session's path. A failure later, in the exchange of
  keys, has freed the path and kept the pointer: \<open>da_dbus_proxy_free\<close> then frees it twice.
\<close>
theorem failed_open_dangles:
  assumes "owned p st" and "px_auth p = Some a"
    and "da_create_authenticate D (Some p) u f t st = Inr (r, err, Some p', st')"
  shows "(r = 0 \<and> px_sess p' \<noteq> None \<or> r = - 1 \<and> err \<noteq> None)
    \<and> (if r = 0 \<or> px_path p' = px_path p then defined (da_dbus_proxy_free (Some p') st')
       else da_dbus_proxy_free (Some p') st' = Inl Double_Free)"
  using open_proxy_owned [OF da_create_authenticateD [OF assms(3,2)] assms(1)]
    owned_free_defined [of p' st'] dangling_path [of p' _ st'] not_defined_free [of p' st']
  by auto

text \<open>
  After \<open>da_quit_authenticate\<close> the proxy cannot be used for a session nor released: it keeps the
  pointers to the session and its path, which were freed. Any further call on the session uses an
  object after its release, and \<open>da_dbus_proxy_free\<close> is a double free.
\<close>
theorem quit_dangles:
  assumes "owned p st" and "px_sess p \<noteq> None" and "da_quit_authenticate D (Some p) st = Inr ((0, v, e), st')"
  shows "da_dbus_proxy_free (Some p) st' = Inl Double_Free
    \<and> da_quit_authenticate D' (Some p) st' = Inl Use_After_Free
    \<and> da_session_start D' f t b (Some p) st' = Inl Use_After_Free
    \<and> da_session_set_token D' t w (Some p) st' = Inl Use_After_Free
    \<and> da_session_get_result D' b (Some p) st' = Inl Use_After_Free
    \<and> da_session_end D' f b (Some p) st' = Inl Use_After_Free"
proof -
  obtain s where s: "px_sess p = Some s" using assms(2) by blast
  have live: "s \<in> set (lb_live st)" by (rule owned_pointer [OF assms(1) pointers_mem(2) [OF s]])
  have gone: "s \<notin> set (lb_live st')"
    using assms(3) s live
    by (auto simp: da_quit_authenticate_def on_session_def has_valid_session_proxy_def Let_def lib_free_def
        elim!: cbind_InrE split: sum.splits option.splits if_splits)
  have "s \<in> set (somes (pointers p))" using s by (simp add: pointers_def set_somes)
  with gone have "\<not> defined (da_dbus_proxy_free (Some p) st')"
    using lib_free_all_defined [of "pointers p" st'] by (auto simp: da_dbus_proxy_free_eq)
  with not_defined_free quit.stale [OF s gone] start.stale [OF s gone] token.stale [OF s gone]
    outcome.stale [OF s gone] stop.stale [OF s gone]
  show ?thesis by blast
qed

subsection \<open>A concrete service\<close>

definition sample_da_bus :: da_bus where
  "sample_da_bus =
     \<lparr>db_connect = True, db_proxy = \<lambda>_ _. Inr True, db_unit = \<lambda>_ _. None, db_int = \<lambda>_ _. Inr 0,
      db_bool = \<lambda>_ _. Inr True,
      db_str = (\<lambda>_ c. case c of L_Authenticate _ _ _ \<Rightarrow> Inr (Some ''/s'') | _ \<Rightarrow> Inr (Some ''limits'')),
      db_key = \<lambda>_ _. Inr (0, PKCS8_HEADER), db_factors = \<lambda>_ _. Inr None\<rparr>"

definition sample_da_env :: "da_bus \<Rightarrow> json option list \<Rightarrow> (json, nat) da_env" where
  "sample_da_env bus entries =
     \<lparr>de_bus = bus, de_json = json_view (\<lambda>t. if t = ''limits'' then Some (J_Arr entries) else None),
      de_ssl = sample_ssl, de_sys = sample_sys [] [], de_rand = \<lambda>_. 42, de_now = \<lambda>_. 0\<rparr>"

definition empty_lib :: lib where
  "empty_lib = \<lparr>lb_next = 1, lb_live = [], lb_str = \<lambda>_. [], lb_calls = [], lb_user = []\<rparr>"

definition opened :: "(json, nat) da_env \<Rightarrow> (int \<times> nat da_proxy \<times> lib) option" where
  \<comment> \<open>a proxy was made and a session opened; the result of the second\<close>
  "opened D =
     (case da_dbus_proxy_new D empty_lib of
        Inr (Some p, st) \<Rightarrow>
          (case da_create_authenticate D (Some p) ''uos'' 1 4 st of
             Inr (r, _, Some p', st') \<Rightarrow> Some (r, p', st')
           | _ \<Rightarrow> None)
      | _ \<Rightarrow> None)"

lemma sample_symmetric_key: "create_symmetric_key 42 = Inr ''1000004210000042''"
  by code_simp

lemma sample_header: "has_prefix PKCS8_HEADER PKCS8_HEADER"
  by (simp add: has_prefix_def)

lemmas sample_run =
  opened_def da_dbus_proxy_new_def da_create_authenticate_def open_proxy_def exchange_keys_def
  send_symmetric_key_def fail_path_def lib_alloc_def lib_free_def lib_log_def has_valid_authenticate_proxy_def
  valid_object_def new_proxy_def gen_rsa_pubkey_def rsa_encrypt_data_def g_bytes_of_def sample_symmetric_key
  sample_header sample_da_env_def sample_da_bus_def sample_ssl_def empty_lib_def Let_def

lemma openedD:
  assumes "opened D = Some (r, p', st')"
  obtains p st err where "da_dbus_proxy_new D empty_lib = Inr (Some p, st)"
    and "da_create_authenticate D (Some p) ''uos'' 1 4 st = Inr (r, err, Some p', st')"
    and "api_state D p st"
proof -
  obtain p st where n: "da_dbus_proxy_new D empty_lib = Inr (Some p, st)"
    using assms by (auto simp: opened_def split: sum.splits prod.splits option.splits)
  then obtain err where "da_create_authenticate D (Some p) ''uos'' 1 4 st = Inr (r, err, Some p', st')"
    using assms by (auto simp: opened_def split: sum.splits prod.splits option.splits)
  moreover have "api_state D p st" by (rule api_new [OF n]) (simp add: empty_lib_def)
  ultimately show ?thesis using n that by blast
qed

lemma opened_api: "opened D = Some (0, p, st) \<Longrightarrow> api_state D p st"
  by (erule openedD) (rule api_open)

lemma sample_opened:
  "\<exists>p st. opened (sample_da_env sample_da_bus []) = Some (0, p, st) \<and> px_sess p \<noteq> None"
  by (simp add: sample_run)


lemma failed_open_dangles_witness:
  "\<exists>p st. opened (sample_da_env (sample_da_bus\<lparr>db_key := \<lambda>_ _. Inl (1, ''no key'')\<rparr>) []) = Some (- 1, p, st)
     \<and> da_dbus_proxy_free (Some p) st = Inl Double_Free"
proof -
  let ?D = "sample_da_env (sample_da_bus\<lparr>db_key := \<lambda>_ _. Inl (1, ''no key'')\<rparr>) []"
  obtain p' st' where o: "opened ?D = Some (- 1, p', st')" "px_path p' \<noteq> None" by (simp add: sample_run)
  then obtain p st err where n: "da_dbus_proxy_new ?D empty_lib = Inr (Some p, st)"
    "da_create_authenticate ?D (Some p) ''uos'' 1 4 st = Inr (- 1, err, Some p', st')" "api_state ?D p st"
    by (auto elim: openedD)
  have "case da_dbus_proxy_new ?D empty_lib of Inr (Some p, st) \<Rightarrow> px_path p = None \<and> px_auth p = Some 2 | _ \<Rightarrow> False"
    by code_simp
  with n(1) have "px_path p = None" "px_auth p = Some 2" by simp_all
  with failed_open_dangles [OF api_state_owned [OF n(3)] _ n(2)] o show ?thesis by auto
qed

lemma quit_dangles_witness:
  "\<exists>p st st'. opened (sample_da_env sample_da_bus []) = Some (0, p, st)
     \<and> da_quit_authenticate (sample_da_env sample_da_bus []) (Some p) st = Inr ((0, None, None), st')
     \<and> da_dbus_proxy_free (Some p) st' = Inl Double_Free"
proof -
  let ?D = "sample_da_env sample_da_bus []"
  obtain p st where o: "opened ?D = Some (0, p, st)" "px_sess p \<noteq> None" using sample_opened by blast
  obtain st' where q: "da_quit_authenticate ?D (Some p) st = Inr ((0, None, None), st')"
    using o(1) by (auto simp: sample_run da_quit_authenticate_def on_session_def has_valid_session_proxy_def)
  from quit_dangles [OF api_state_owned [OF opened_api [OF o(1)]] o(2) q] o(1) q show ?thesis by blast
qed

end
