(* ===== verification/Auth_Results.thy ===== *)
theory Auth_Results
  imports Auth_Props Pam_Utils
begin

text \<open>
  What the client library computes: the token it sends under the key it agreed on, the limit it looks
  up in a reply, and the user's language from the locale file.
\<close>

subsection \<open>The token\<close>

definition encrypts_key :: "('j, 'k) da_env \<Rightarrow> string \<Rightarrow> char list \<Rightarrow> bool" where
  \<comment> \<open>the bytes are an RSA encryption of a key the library generates\<close>
  "encrypts_key D key bytes \<longleftrightarrow>
     (\<exists>rnd rsa n c. create_symmetric_key rnd = Inr key \<and> rsa_public_encrypt (de_ssl D) rsa key = (n, c)
        \<and> 0 \<le> n \<and> bytes = take (nat n) c)"

lemma send_symmetric_key_result:
  assumes "send_symmetric_key D a p st = Inr (0, err, p', st')"
  shows "\<exists>key bytes. encrypts_key D key bytes \<and> lb_calls st' = lb_calls st @ [L_SetSymmetricKey bytes]
    \<and> lib_deref (px_symkey p') st' = Inr key \<and> px_sess p' = px_sess p"
proof -
  obtain key where k: "create_symmetric_key (de_rand D (lb_calls st)) = Inr key"
    using assms by (auto simp: send_symmetric_key_def elim!: cbind_InrE)
  obtain b st1 where b: "lib_alloc key st = (b, st1)" by (cases "lib_alloc key st")
  obtain bytes where bs: "g_bytes_of (rsa_encrypt_data (de_ssl D) (px_rsa p) key) = Inr bytes"
    using assms by (auto simp: send_symmetric_key_def k b Let_def elim!: cbind_InrE)
  then obtain rsa n c where r: "px_rsa p = Some rsa" "rsa_public_encrypt (de_ssl D) rsa key = (n, c)" "0 \<le> n"
      "bytes = take (nat n) c"
    by (auto simp: g_bytes_of_def rsa_encrypt_data_def split: option.splits prod.splits if_splits)
  have "p' = p\<lparr>px_symkey := Some b\<rparr> \<and> st' = lib_log (L_SetSymmetricKey bytes) st1"
    using assms by (auto simp: send_symmetric_key_def k b bs Let_def dest: fail_pathD split: option.splits)
  moreover have "encrypts_key D key bytes" using k r by (auto simp: encrypts_key_def)
  ultimately show ?thesis
    using lib_alloc_fields [OF b] by (intro exI [of _ key] exI [of _ bytes]) (simp add: lib_deref_def)
qed

lemma exchange_keys_result:
  assumes "exchange_keys D a p st = Inr (0, err, p', st')"
  shows "\<exists>key bytes. encrypts_key D key bytes
    \<and> lb_calls st' = lb_calls st @ [L_EncryptKey 0 [], L_SetSymmetricKey bytes]
    \<and> lib_deref (px_symkey p') st' = Inr key \<and> px_sess p' = px_sess p"
proof -
  obtain ty pk where k: "db_key (de_bus D) (lb_calls st) (L_EncryptKey 0 []) = Inr (ty, pk)"
    using assms by (auto simp: exchange_keys_def Let_def dest: fail_pathD split: sum.splits)
  obtain b st1 where b: "lib_alloc pk (lib_log (L_EncryptKey 0 []) st) = (b, st1)"
    by (cases "lib_alloc pk (lib_log (L_EncryptKey 0 []) st)")
  obtain m st2 where m: "lib_alloc [] st1 = (m, st2)" by (cases "lib_alloc [] st1")
  obtain q st3 where q: "lib_alloc [] st2 = (q, st3)" by (cases "lib_alloc [] st2")
  obtain ret rsa where g: "gen_rsa_pubkey (de_ssl D) None pk = (ret, rsa)" by (cases "gen_rsa_pubkey (de_ssl D) None pk")
  let ?p = "p\<lparr>px_enc_type := ty, px_pubkey := Some b, px_enc_method := Some m, px_key := Some q, px_rsa := rsa\<rparr>"
  have "send_symmetric_key D a ?p st3 = Inr (0, err, p', st')"
    using assms by (auto simp: exchange_keys_def k b m q g Let_def dest: fail_pathD split: if_splits)
  from send_symmetric_key_result [OF this] lib_alloc_fields(6) [OF b] lib_alloc_fields(6) [OF m] lib_alloc_fields(6) [OF q]
  show ?thesis by auto
qed

lemma open_proxy_result:
  assumes "open_proxy D p u f t st = Inr (0, err, p', st')"
  shows "\<exists>key bytes path. encrypts_key D key bytes
    \<and> lb_calls st' = lb_calls st @ [L_Authenticate u f t, New_Session_Proxy path, L_EncryptKey 0 [],
         L_SetSymmetricKey bytes]
    \<and> lib_deref (px_symkey p') st' = Inr key"
proof -
  let ?c = "L_Authenticate u f t"
  obtain path where path: "db_str (de_bus D) (lb_calls st) ?c = Inr (Some path)"
    using assms by (auto simp: open_proxy_def Let_def split: sum.splits option.splits)
  obtain a st1 where a: "lib_alloc path (lib_log ?c st) = (a, st1)" by (cases "lib_alloc path (lib_log ?c st)")
  let ?d = "New_Session_Proxy path"
  have ok: "db_proxy (de_bus D) (lb_calls st1) ?d = Inr True"
    using assms by (auto simp: open_proxy_def path a Let_def dest: fail_pathD split: sum.splits bool.splits if_splits)
  obtain s st2 where s: "lib_alloc [] (lib_log ?d st1) = (s, st2)" by (cases "lib_alloc [] (lib_log ?d st1)")
  obtain n st3 where n: "lib_alloc u st2 = (n, st3)" by (cases "lib_alloc u st2")
  have "exchange_keys D a (p\<lparr>px_sess := Some s, px_path := Some a, px_username := Some n\<rparr>) st3 = Inr (0, err, p', st')"
    using assms by (simp add: open_proxy_def path a ok s n Let_def)
  from exchange_keys_result [OF this] lib_alloc_fields(6) [OF a] lib_alloc_fields(6) [OF s] lib_alloc_fields(6) [OF n]
  show ?thesis by auto
qed



subsection \<open>Limits\<close>

lemma limit_fill_length: "length (fst (limit_fill J es)) = length es"
  by (induction J es rule: limit_fill.induct) (auto split: option.splits prod.splits)

lemma limit_fill_result: "snd (limit_fill J (map Some es)) = (if list_all (\<lambda>e. limit_entry J e \<noteq> None) es then 0 else - 1)"
  by (induction es) (auto split: option.splits prod.splits)

definition other_entry :: "'j jsonc \<Rightarrow> int \<Rightarrow> 'j \<Rightarrow> bool" where
  "other_entry J flag e = (case limit_entry J e of None \<Rightarrow> False | Some l \<Rightarrow> li_flag l \<noteq> flag)"

lemma cbind_case_list:
  "cbind (case xs of [] \<Rightarrow> a | e # _ \<Rightarrow> g e) f = (case xs of [] \<Rightarrow> cbind a f | e # _ \<Rightarrow> cbind (g e) f)"
  by (cases xs) simp_all

lemma cbind_case_option:
  "cbind (case x of None \<Rightarrow> a | Some l \<Rightarrow> g l) f = (case x of None \<Rightarrow> cbind a f | Some l \<Rightarrow> cbind (g l) f)"
  by (cases x) simp_all

lemma find_limit_fill:
  "find_limit (length es) (fst (limit_fill J (map Some es))) flag =
     (case dropWhile (other_entry J flag) es of
        [] \<Rightarrow> Inr None
      | e # _ \<Rightarrow> (case limit_entry J e of None \<Rightarrow> Inl Uninit_Read | Some l \<Rightarrow> Inr (Some l)))"
proof (induction es)
  case (Cons e es)
  obtain ls ret where "limit_fill J (map Some es) = (ls, ret)" by (cases "limit_fill J (map Some es)")
  with Cons show ?case by (cases "limit_entry J e") (auto simp: other_entry_def)
qed simp

text \<open>
  C26: the limit of one type. On a reply that is an array of values, the library finds the first entry
  with the type's flag when every entry before it is complete. An entry with a missing key makes
  \<open>da_get_limits\<close> return -1 and leave the rest of the array unwritten, and \<open>get_limit_info_priv\<close>,
  which looks only at the error object, then reads unwritten memory unless it has found its entry
  before.
\<close>
theorem limit_lookup:
  assumes "owned p st" and "px_auth p \<noteq> None" and "is_valid_auth_flag flag"
    and "db_str (de_bus D) (lb_calls st) (L_GetLimits u) = Inr (Some text)"
    and "json_tokener_parse (de_json D) text = pobj" and "array_length (de_json D) pobj = Some (length es)"
    and "map (array_get_idx (de_json D) pobj) [0..<length es] = map Some es"
  shows "get_limit_info_priv D (Some p) u flag st =
      (case dropWhile (other_entry (de_json D) flag) es of
         [] \<Rightarrow> Inr (None, lib_log (L_GetLimits u) st)
       | e # _ \<Rightarrow> (case limit_entry (de_json D) e of
                     None \<Rightarrow> Inl Uninit_Read
                   | Some l \<Rightarrow> Inr (Some l, lib_log (L_GetLimits u) st)))
    \<and> (\<exists>ls. da_get_limits D (Some p) u True st =
         Inr ((if list_all (\<lambda>e. limit_entry (de_json D) e \<noteq> None) es then 0 else - 1, Some ls, None),
              lib_log (L_GetLimits u) st) \<and> length ls = length es)"
proof -
  let ?J = "de_json D"
  let ?ls = "fst (limit_fill ?J (map Some es))" and ?r = "snd (limit_fill ?J (map Some es))"
  obtain a where a: "px_auth p = Some a" using assms(2) by blast
  have live: "a \<in> set (lb_live st)" by (rule owned_pointer [OF assms(1) pointers_mem(3) [OF a]])
  have deal: "limit_json_deal ?J (Some text) True = Inr (?r, Some ?ls)"
    using assms(5,6) by (simp add: limit_json_deal_def Let_def assms(7) split: prod.split)
  have get: "da_get_limits D (Some p) u True st = Inr ((?r, Some ?ls, None), lib_log (L_GetLimits u) st)"
    using a live assms(4)
    by (simp add: da_get_limits_def on_manager_def has_valid_authenticate_proxy_def value_call_def deal)
  have l: "length ?ls = length es" by (simp add: limit_fill_length)
  have flag: "flag \<noteq> flag_value AUTH_FLAG_ALL" using assms(3) by (auto simp: is_valid_auth_flag_def flag_value_def)
  have "get_limit_info_priv D (Some p) u flag st =
      cbind (find_limit (length es) ?ls flag) (\<lambda>l. Inr (l, lib_log (L_GetLimits u) st))"
    using assms(3) flag by (simp add: get_limit_info_priv_def get da_get_auth_limit_info_def l)
  then have "get_limit_info_priv D (Some p) u flag st =
      (case dropWhile (other_entry ?J flag) es of
         [] \<Rightarrow> Inr (None, lib_log (L_GetLimits u) st)
       | e # _ \<Rightarrow> (case limit_entry ?J e of
                     None \<Rightarrow> Inl Uninit_Read
                   | Some l \<Rightarrow> Inr (Some l, lib_log (L_GetLimits u) st)))"
    by (simp add: find_limit_fill cbind_case_list cbind_case_option cong: list.case_cong option.case_cong)
  moreover have "\<exists>ls. da_get_limits D (Some p) u True st =
         Inr ((if list_all (\<lambda>e. limit_entry ?J e \<noteq> None) es then 0 else - 1, Some ls, None),
              lib_log (L_GetLimits u) st) \<and> length ls = length es"
    using get l by (auto simp: limit_fill_result)
  ultimately show ?thesis ..
qed

definition full_limit :: "int \<Rightarrow> int \<Rightarrow> int \<Rightarrow> bool \<Rightarrow> string \<Rightarrow> json" where
  "full_limit flag tries failures lock unlock =
     J_Obj [(''type'', Some (J_Str [])), (''flag'', Some (J_Int flag)), (''unlockSecs'', Some (J_Int 0)),
       (''maxTries'', Some (J_Int tries)), (''numFailures'', Some (J_Int failures)),
       (''locked'', Some (J_Bool lock)), (''unlockTime'', Some (J_Str unlock))]"

definition manager_only :: "nat da_proxy \<times> lib" where
  "manager_only = ((new_proxy 1)\<lparr>px_auth := Some 2\<rparr>, empty_lib\<lparr>lb_live := [1, 2], lb_next := 3\<rparr>)"

lemma manager_only_owned: "owned (fst manager_only) (snd manager_only)"
  by (simp add: manager_only_def owned_def owned_list_def pointers_def new_proxy_def empty_lib_def)

lemma limit_lookup_witness:
  "get_limit_info_priv (sample_da_env sample_da_bus [Some (full_limit 2 5 1 False []), Some (J_Obj [])])
     (Some (fst manager_only)) ''uos'' 1 (snd manager_only) = Inl Uninit_Read"
proof -
  let ?D = "sample_da_env sample_da_bus [Some (full_limit 2 5 1 False []), Some (J_Obj [])]"
  let ?es = "[full_limit 2 5 1 False [], J_Obj []]"
  have p: "px_auth (fst manager_only) \<noteq> None" by (simp add: manager_only_def)
  have f: "is_valid_auth_flag 1" by (simp add: is_valid_auth_flag_def flag_value_def)
  have b: "db_str (de_bus ?D) (lb_calls (snd manager_only)) (L_GetLimits ''uos'') = Inr (Some ''limits'')"
    by (simp add: sample_da_env_def sample_da_bus_def)
  have j: "json_tokener_parse (de_json ?D) ''limits'' = Some (J_Arr (map Some ?es))"
    by (simp add: sample_da_env_def json_view_def json_tokener_parse_def)
  have n: "array_length (de_json ?D) (Some (J_Arr (map Some ?es))) = Some (length ?es)"
    by (simp add: sample_da_env_def json_view_def)
  have i: "map (array_get_idx (de_json ?D) (Some (J_Arr (map Some ?es)))) [0..<length ?es] = map Some ?es"
    by (simp add: sample_da_env_def json_view_def upt_rec)
  have d: "other_entry (de_json ?D) 1 (full_limit 2 5 1 False [])"
    by (simp add: other_entry_def limit_entry_def limit_keys_def sample_da_env_def json_view_def full_limit_def)
  have m: "limit_entry (de_json ?D) (J_Obj []) = None"
    by (simp add: limit_entry_def limit_keys_def sample_da_env_def json_view_def)
  from limit_lookup [OF manager_only_owned p f b j n i] show ?thesis
    by (simp add: d m other_entry_def [of _ _ "J_Obj []"])
qed

subsection \<open>The locale file\<close>

definition strip :: "string \<Rightarrow> string" where
  "strip s = filter (\<lambda>c. c \<noteq> CHR '' '') s"

lemma str_trim_eq: "str_trim s c = filter (\<lambda>x. x \<noteq> c) s"
  by (induction s) simp_all

lemma lang_loop_assignment:
  assumes "env_ok n (k, v)"
  shows "lang_loop (env_line k v # ls) = (if strip k = ''LANG'' then (0, Some (strip v)) else lang_loop ls)"
proof -
  have ok: "CHR ''='' \<notin> set k" "newline \<notin> set (k @ CHR ''='' # v)" "nul_free (env_line k v)"
    using assms by (auto simp: env_ok_def env_line_def)
  have "chop_newline (cstr (env_line k v)) = k @ CHR ''='' # v"
    using ok(2) chop_newline_append [of "k @ CHR ''='' # v" "[]"] unfolding cstr_nul_free [OF ok(3)]
    by (simp add: env_line_def)
  then have t: "str_trim (chop_newline (cstr (env_line k v))) (CHR '' '') = strip k @ CHR ''='' # strip v"
    by (simp add: str_trim_eq strip_def)
  show ?thesis
  proof (cases "strip k = []")
    case True
    then show ?thesis by (simp add: t split_assignment_def)
  next
    case False
    moreover have "CHR ''='' \<notin> set (strip k)" using ok(1) by (simp add: strip_def)
    ultimately show ?thesis by (simp add: t split_assignment_eq)
  qed
qed

lemma lang_loop_file:
  "list_all (env_ok n) kvs \<Longrightarrow> lang_loop (map (\<lambda>(k, v). env_line k v) kvs) =
     (case find (\<lambda>(k, v). strip k = ''LANG'') kvs of None \<Rightarrow> (- 2, None) | Some (k, v) \<Rightarrow> (0, Some (strip v)))"
proof (induction kvs)
  case (Cons kv kvs)
  obtain k v where kv: "kv = (k, v)" by (cases kv)
  with Cons lang_loop_assignment [of n k v] show ?case by simp
qed simp

lemma map_filter_lines:
  "list_all (env_ok n) kvs \<Longrightarrow> List.map_filter parse_env_line (map (\<lambda>(k, v). env_line k v) kvs) = kvs"
proof (induction kvs)
  case (Cons kv kvs)
  obtain k v where kv: "kv = (k, v)" by (cases kv)
  with Cons have "parse_env_line (env_line k v) = Some (k, v)"
    by (auto simp: env_ok_def intro: parse_env_line_roundtrip)
  with Cons kv show ?case by (simp add: List.map_filter_simps)
qed (simp add: List.map_filter_simps)

text \<open>
  C33: the two readers of the locale file. For a file of assignments, each within 511 characters, and a
  home directory whose file name fits 512 bytes, \<open>da_load_user_locale\<close> sets every variable as
  written, in order, and \<open>da_get_user_lang\<close> answers the first \<open>LANG\<close>; but it removes every space
  first, also those inside the value, so it can answer a name and value the other did not set.
\<close>
theorem locale_readers:
  assumes "pw_dir S u = Some dir" and "length dir < 490" and "is_regular S (dir @ ''/.config/locale.conf'')"
    and "read_file S (dir @ ''/.config/locale.conf'') = Some (env_file kvs)" and "list_all (env_ok 511) kvs"
  shows "da_load_user_locale S u = Inr kvs
    \<and> da_get_user_lang S (Some u) =
        (case find (\<lambda>(k, v). strip k = ''LANG'') kvs of None \<Rightarrow> (- 2, None) | Some (k, v) \<Rightarrow> (0, Some (strip v)))"
proof -
  have lines: "fgets_lines 511 (env_file kvs) = map (\<lambda>(k, v). env_line k v) kvs"
    using env_file_lines [OF assms(5), of 510] by simp
  have "da_get_user_lang S (Some u) = lang_loop (fgets_lines 511 (env_file kvs))"
    using assms(1,2,4) by (simp add: da_get_user_lang_def)
  moreover have "da_load_user_locale S u = Inr (List.map_filter parse_env_line (fgets_lines 511 (env_file kvs)))"
    using assms(1-4) by (simp add: da_load_user_locale_def sprintf_into_def)
  ultimately show ?thesis
    using map_filter_lines [OF assms(5)] lang_loop_file [OF assms(5)] by (simp add: lines)
qed

lemma locale_readers_witness:
  "da_get_user_lang ((sample_sys [] [])\<lparr>pw_dir := \<lambda>_. Some ''/root'', is_regular := \<lambda>_. True,
       read_file := \<lambda>_. Some (env_file [(''LC'', ''x''), (''LANG '', ''zh CN'')])\<rparr>) (Some ''root'') = (0, Some ''zhCN'')"
proof -
  let ?S = "(sample_sys [] [])\<lparr>pw_dir := \<lambda>_. Some ''/root'', is_regular := \<lambda>_. True,
       read_file := \<lambda>_. Some (env_file [(''LC'', ''x''), (''LANG '', ''zh CN'')])\<rparr>"
  have "list_all (env_ok 511) [(''LC'', ''x''), (''LANG '', ''zh CN'')]"
    by (simp add: env_ok_def env_line_def)
  from locale_readers [of ?S "''root''" "''/root''", OF _ _ _ _ this] show ?thesis
    by (simp add: strip_def)
qed

text \<open>
  the path of the locale file in the library. \<open>da_load_user_locale\<close> is defined exactly when the user
  is unknown, the path is longer than \<open>PATH_MAX\<close>, or it fits the 512 bytes allocated for it: a home
  directory between the two limits runs past them.
\<close>
lemma locale_path_overflow:
  "defined (da_load_user_locale S u) \<longleftrightarrow>
     (case pw_dir S u of
        None \<Rightarrow> True
      | Some dir \<Rightarrow> 4096 < length dir + 21 \<or> length (dir @ ''/.config/locale.conf'') < 512)"
  by (simp add: da_load_user_locale_def sprintf_into_def split: option.split)

end
