(* ===== verification/Gdbus_Service.thy ===== *)
theory Gdbus_Service
  imports Gdbus_Props
begin

text \<open>
  Stub and skeleton together. \<open>served\<close> is the path of one call on the service's side: GDBus finds the
  method in the interface's table and compares the type of the parameters before it hands the call to
  the skeleton. A \<open>service\<close> is what an implementation does for each method; its handlers answer with
  the generated \<open>_complete\<close> functions.
\<close>

subsection \<open>One call on the service's side\<close>

definition served ::
  "gio \<Rightarrow> gdbus_interface \<Rightarrow> handler \<Rightarrow> string \<times> gvariant \<Rightarrow> (gerror + gvariant) cres" where
  "served G I H call =
     (case lookup_method I (fst call) of
        None \<Rightarrow> Inr (Inl (G_DBUS_ERROR_UNKNOWN_METHOD, ''No such method''))
      | Some m \<Rightarrow>
          if type_string (snd call) \<noteq> tuple_sig (gm_in m)
          then Inr (Inl (G_DBUS_ERROR_INVALID_ARGS, ''Type of message does not match''))
          else skeleton_handle_method_call G I m H (snd call))"

definition gobject_signals :: "gdbus_interface \<Rightarrow> (string \<times> gtype list) list" where
  "gobject_signals I = (if I = manager_interface_info then manager_gobject_signals else session_gobject_signals)"

lemma gio_contractD:
  assumes "gio_contract G"
  shows "to_gvalue G (G_String s) = GV_String (Some s)" "to_gvalue G (G_Int i) = GV_Int i"
    "to_gvalue G (G_Bool b) = GV_Boolean b" "to_gvalue G (G_Array T_Int vs) = GV_Variant (Some (G_Array T_Int vs))"
  using assms by (simp_all add: gio_contract_def)

lemma methods_cases:
  assumes "lookup_method I name = Some m" and "I = manager_interface_info \<or> I = session_interface_info"
  shows "I = manager_interface_info \<and> m \<in> set manager_methods \<or> I = session_interface_info \<and> m \<in> set session_methods"
  using assms by (auto simp: lookup_method_def find_Some_iff manager_interface_info_def session_interface_info_def)

lemma interfaces_differ: "session_interface_info \<noteq> manager_interface_info"
  by (simp add: manager_interface_info_def session_interface_info_def)

text \<open>The parameters of a message that has the type of the method.\<close>

definition arg_gtypes :: "gdbus_arg list \<Rightarrow> gtype list" where
  "arg_gtypes args =
     map (\<lambda>a. if ga_use_gvariant a then GT_Variant else if ga_sig a = ''s'' then GT_String
              else if ga_sig a = ''i'' then GT_Int else if ga_sig a = ''b'' then GT_Boolean
              else if ga_sig a = ''ai'' then GT_Variant else GT_Other) args"

definition arg_ok :: "gdbus_arg \<Rightarrow> gty \<Rightarrow> bool" where
  "arg_ok a t \<longleftrightarrow>
     ga_use_gvariant a \<or> ga_sig a = ''s'' \<and> t = T_String \<or> ga_sig a = ''i'' \<and> t = T_Int
     \<or> ga_sig a = ''b'' \<and> t = T_Bool \<or> ga_sig a = ''ai'' \<and> t = T_Array T_Int"

lemma param_values_typed:
  "gio_contract G \<Longrightarrow> list_all2 arg_ok args (map gv_type cs) \<Longrightarrow>
    \<exists>vs. param_values G args cs = Inr vs \<and> map gtype_of vs = arg_gtypes args"
proof (induction args arbitrary: cs)
  case (Cons a args)
  then obtain c cs' vs where "cs = c # cs'" "arg_ok a (gv_type c)" "param_values G args cs' = Inr vs" "map gtype_of vs = arg_gtypes args"
    by (fastforce simp: list_all2_Cons1 map_eq_Cons_conv)
  then show ?case by (auto simp: arg_ok_def arg_gtypes_def gio_contractD [OF Cons.prems(1)])
qed (simp add: arg_gtypes_def)

lemma method_args:
  "m \<in> set manager_methods \<union> set session_methods \<Longrightarrow>
    \<exists>ts. tuple_sig (gm_in m) = gty_string (T_Tuple ts) \<and> list_all2 arg_ok (gm_in m) ts"
  unfolding manager_methods_def session_methods_def set_simps Un_iff
  by (elim disjE insertE emptyE; clarsimp;
      simp add: arg_ok_def manager_method_info_authenticate_def manager_method_info_get_limits_def
        manager_method_info_pre_one_key_login_def session_method_info_encrypt_key_def session_method_info_end_def
        session_method_info_get_result_def session_method_info_privileges_disable_def
        session_method_info_privileges_enable_def session_method_info_quit_def session_method_info_set_quit_flag_def
        session_method_info_set_token_def session_method_info_start_def session_method_info_set_symmetric_key_def)

lemma method_signal:
  "m \<in> set manager_methods \<Longrightarrow> map_of manager_gobject_signals (gm_signal m) = Some (arg_gtypes (gm_in m))"
  "m \<in> set session_methods \<Longrightarrow> map_of session_gobject_signals (gm_signal m) = Some (arg_gtypes (gm_in m))"
  by (auto simp: table_defs manager_gobject_signals_def session_gobject_signals_def arg_gtypes_def)

subsection \<open>Incoming calls and signals\<close>

text \<open>A conversion as GLib documents it, for the examples.\<close>

definition sample_gio :: gio where
  "sample_gio =
     \<lparr>to_gvalue = (\<lambda>v. case v of G_String s \<Rightarrow> GV_String (Some s) | G_Int i \<Rightarrow> GV_Int i | G_Bool b \<Rightarrow> GV_Boolean b
                     | _ \<Rightarrow> GV_Variant (Some v)),
      to_gvariant = (\<lambda>v sig. case v of GV_String (Some s) \<Rightarrow> G_String s | GV_Int i \<Rightarrow> G_Int i | GV_Boolean b \<Rightarrow> G_Bool b
                     | GV_Variant (Some v) \<Rightarrow> v | _ \<Rightarrow> G_String [])\<rparr>"

lemma sample_gio_contract: "gio_contract sample_gio"
  by (simp add: gio_contract_def sample_gio_def)

text \<open>
  C14: a call that has the type of its description reaches the handler. For every method of the two
  interfaces, whatever handlers are connected, the skeleton turns the parameters into values of exactly
  the types the interface registers for the method's signal, emits it, and answers with what the handler
  says, or with "not implemented" when none takes the call. A call of another type, or to an unknown
  method, is refused before it gets there.
\<close>
theorem incoming_calls_typed:
  assumes "gio_contract G" and "I = manager_interface_info \<or> I = session_interface_info"
  shows "case lookup_method I name of
      None \<Rightarrow> \<exists>msg. served G I H (name, v) = Inr (Inl (19, msg))
    | Some m \<Rightarrow>
        if type_string v = tuple_sig (gm_in m)
        then \<exists>vs. map_of (gobject_signals I) (gm_signal m) = Some (map gtype_of vs)
          \<and> served G I H (name, v) = Inr (case H (gm_signal m) vs of Some answer \<Rightarrow> answer
              | None \<Rightarrow> Inl (19, ''Method '' @ gm_name m @ '' is not implemented on interface '' @ gi_name I))
        else \<exists>msg. served G I H (name, v) = Inr (Inl (16, msg))"
proof (cases "lookup_method I name")
  case (Some m)
  note cases = methods_cases [OF Some assms(2)]
  then obtain ts where ts: "tuple_sig (gm_in m) = gty_string (T_Tuple ts)" "list_all2 arg_ok (gm_in m) ts"
    using method_args by blast
  have sig: "map_of (gobject_signals I) (gm_signal m) = Some (arg_gtypes (gm_in m))"
    using cases method_signal by (auto simp: gobject_signals_def interfaces_differ)
  show ?thesis
  proof (cases "type_string v = tuple_sig (gm_in m)")
    case True
    then obtain cs where "v = G_Tuple cs" "map gv_type cs = ts" using ts by (auto simp: type_string_eq)
    moreover from this ts obtain vs where "param_values G (gm_in m) cs = Inr vs" "map gtype_of vs = arg_gtypes (gm_in m)"
      using param_values_typed [OF assms(1)] by blast
    ultimately show ?thesis using Some True sig
      by (auto simp: served_def skeleton_handle_method_call_def g_children_def intro: exI [of _ vs])
  qed (simp add: Some served_def)
qed (simp add: served_def)

theorem incoming_calls_typed_witness:
  "gio_contract sample_gio \<and> lookup_method manager_interface_info ''GetLimits'' = Some manager_method_info_get_limits
    \<and> type_string (G_Tuple [G_String ''uos'']) = tuple_sig (gm_in manager_method_info_get_limits)
    \<and> (\<exists>vs. map_of (gobject_signals manager_interface_info) (gm_signal manager_method_info_get_limits) = Some (map gtype_of vs)
        \<and> served sample_gio manager_interface_info (\<lambda>_ _. Some (Inr (G_Tuple [G_String ''[]'']))) (''GetLimits'', G_Tuple [G_String ''uos''])
            = Inr (Inr (G_Tuple [G_String ''[]''])))"
  using incoming_calls_typed [where G = sample_gio and I = manager_interface_info and name = "''GetLimits''"
      and H = "\<lambda>_ _. Some (Inr (G_Tuple [G_String ''[]'']))" and v = "G_Tuple [G_String ''uos'']"]
  by (simp add: sample_gio_contract lookups type_string_def del: gv_type_basic)

subsection \<open>A service and its handlers\<close>

record service =
  sv_authenticate :: "string \<Rightarrow> int \<Rightarrow> int \<Rightarrow> gerror + string"
  sv_get_limits :: "string \<Rightarrow> gerror + string"
  sv_pre_one_key_login :: "int \<Rightarrow> gerror + string"
  sv_encrypt_key :: "int \<Rightarrow> gvariant \<Rightarrow> gerror + int \<times> int list \<times> string"
  sv_end :: "int \<Rightarrow> gerror + int"
  sv_get_result :: "gerror + int"
  sv_privileges_disable :: "gerror + unit"
  sv_privileges_enable :: "string \<Rightarrow> gerror + bool"
  sv_quit :: "gerror + unit"
  sv_set_quit_flag :: "int \<Rightarrow> gerror + unit"
  sv_set_token :: "int \<Rightarrow> gvariant \<Rightarrow> gerror + unit"
  sv_start :: "int \<Rightarrow> int \<Rightarrow> gerror + int"
  sv_set_symmetric_key :: "gvariant \<Rightarrow> gerror + unit"

definition answer :: "('a \<Rightarrow> gvariant) \<Rightarrow> gerror + 'a \<Rightarrow> (gerror + gvariant) option" where
  \<comment> \<open>an error, or the reply made by \<open>complete\<close>\<close>
  "answer complete r = Some (map_sum id complete r)"

definition manager_handler :: "service \<Rightarrow> handler" where
  "manager_handler S sig vs =
     (if sig = ''handle-authenticate'' then
        (case vs of [GV_String (Some u), GV_Int f, GV_Int t] \<Rightarrow> answer manager_complete_authenticate (sv_authenticate S u f t)
         | _ \<Rightarrow> None)
      else if sig = ''handle-get-limits'' then
        (case vs of [GV_String (Some u)] \<Rightarrow> answer manager_complete_get_limits (sv_get_limits S u) | _ \<Rightarrow> None)
      else if sig = ''handle-pre-one-key-login'' then
        (case vs of [GV_Int f] \<Rightarrow> answer manager_complete_pre_one_key_login (sv_pre_one_key_login S f) | _ \<Rightarrow> None)
      else None)"

definition session_handler :: "service \<Rightarrow> handler" where
  "session_handler S sig vs =
     (if sig = ''handle-encrypt-key'' then
        (case vs of [GV_Int t, GV_Variant (Some m)] \<Rightarrow>
           answer (\<lambda>(t, m, k). session_complete_encrypt_key t (int_array m) k) (sv_encrypt_key S t m) | _ \<Rightarrow> None)
      else if sig = ''handle-end'' then
        (case vs of [GV_Int f] \<Rightarrow> answer session_complete_end (sv_end S f) | _ \<Rightarrow> None)
      else if sig = ''handle-get-result'' then
        (case vs of [] \<Rightarrow> answer session_complete_get_result (sv_get_result S) | _ \<Rightarrow> None)
      else if sig = ''handle-privileges-disable'' then
        (case vs of [] \<Rightarrow> answer (\<lambda>_. session_complete_privileges_disable) (sv_privileges_disable S) | _ \<Rightarrow> None)
      else if sig = ''handle-privileges-enable'' then
        (case vs of [GV_String (Some p)] \<Rightarrow> answer session_complete_privileges_enable (sv_privileges_enable S p) | _ \<Rightarrow> None)
      else if sig = ''handle-quit'' then
        (case vs of [] \<Rightarrow> answer (\<lambda>_. session_complete_quit) (sv_quit S) | _ \<Rightarrow> None)
      else if sig = ''handle-set-quit-flag'' then
        (case vs of [GV_Int n] \<Rightarrow> answer (\<lambda>_. session_complete_set_quit_flag) (sv_set_quit_flag S n) | _ \<Rightarrow> None)
      else if sig = ''handle-set-token'' then
        (case vs of [GV_Int f, GV_Variant (Some t)] \<Rightarrow> answer (\<lambda>_. session_complete_set_token) (sv_set_token S f t)
         | _ \<Rightarrow> None)
      else if sig = ''handle-start'' then
        (case vs of [GV_Int f, GV_Int t] \<Rightarrow> answer session_complete_start (sv_start S f t) | _ \<Rightarrow> None)
      else if sig = ''handle-set-symmetric-key'' then
        (case vs of [GV_Variant (Some k)] \<Rightarrow> answer (\<lambda>_. session_complete_set_symmetric_key) (sv_set_symmetric_key S k)
         | _ \<Rightarrow> None)
      else None)"

definition over_manager :: "gio \<Rightarrow> service \<Rightarrow> string \<times> gvariant \<Rightarrow> (gerror + gvariant) cres" where
  "over_manager G S = served G manager_interface_info (manager_handler S)"

definition over_session :: "gio \<Rightarrow> service \<Rightarrow> string \<times> gvariant \<Rightarrow> (gerror + gvariant) cres" where
  "over_session G S = served G session_interface_info (session_handler S)"

subsection \<open>There and back\<close>

lemmas method_infos =
  manager_method_info_authenticate_def manager_method_info_get_limits_def manager_method_info_pre_one_key_login_def
  session_method_info_encrypt_key_def session_method_info_end_def session_method_info_get_result_def
  session_method_info_privileges_disable_def session_method_info_privileges_enable_def
  session_method_info_quit_def session_method_info_set_quit_flag_def session_method_info_set_token_def
  session_method_info_start_def session_method_info_set_symmetric_key_def

lemma finish_answer: "(\<And>x. get (c x) = Some x) \<Longrightarrow> call_finish get (map_sum id c r) = Inr r"
  by (cases r) (simp_all add: call_finish_def)

lemma finish_key:
  "call_finish get_iais (map_sum id (\<lambda>(t, m, k). G_Tuple [G_Int t, int_array m, G_String k]) r)
    = Inr (map_sum id (\<lambda>(t, m, k). (t, int_array m, k)) r)"
  by (cases r) (auto simp: call_finish_def)

lemma read_answers:
  "manager_call_authenticate_finish (map_sum id manager_complete_authenticate r) = Inr r"
  "manager_call_get_limits_finish (map_sum id manager_complete_get_limits r) = Inr r"
  "manager_call_pre_one_key_login_finish (map_sum id manager_complete_pre_one_key_login r) = Inr r"
  "session_call_encrypt_key_finish (map_sum id (\<lambda>(t, m, k). session_complete_encrypt_key t (int_array m) k) r3)
    = Inr (map_sum id (\<lambda>(t, m, k). (t, int_array m, k)) r3)"
  "session_call_end_finish (map_sum id session_complete_end ri) = Inr ri"
  "session_call_get_result_finish (map_sum id session_complete_get_result ri) = Inr ri"
  "session_call_privileges_disable_finish (map_sum id (\<lambda>_. session_complete_privileges_disable) ru) = Inr ru"
  "session_call_privileges_enable_finish (map_sum id session_complete_privileges_enable rb) = Inr rb"
  "session_call_quit_finish (map_sum id (\<lambda>_. session_complete_quit) ru) = Inr ru"
  "session_call_set_quit_flag_finish (map_sum id (\<lambda>_. session_complete_set_quit_flag) ru) = Inr ru"
  "session_call_set_token_finish (map_sum id (\<lambda>_. session_complete_set_token) ru) = Inr ru"
  "session_call_start_finish (map_sum id session_complete_start ri) = Inr ri"
  "session_call_set_symmetric_key_finish (map_sum id (\<lambda>_. session_complete_set_symmetric_key) ru) = Inr ru"
  by (simp_all add: manager_complete_authenticate_def manager_complete_get_limits_def
      manager_complete_pre_one_key_login_def session_complete_encrypt_key_def session_complete_end_def
      session_complete_get_result_def session_complete_privileges_disable_def
      session_complete_privileges_enable_def session_complete_quit_def session_complete_set_quit_flag_def
      session_complete_set_token_def session_complete_start_def session_complete_set_symmetric_key_def
      manager_call_authenticate_finish_def manager_call_get_limits_finish_def
      manager_call_pre_one_key_login_finish_def session_call_encrypt_key_finish_def
      session_call_end_finish_def session_call_get_result_finish_def
      session_call_privileges_disable_finish_def session_call_privileges_enable_finish_def
      session_call_quit_finish_def session_call_set_quit_flag_finish_def session_call_set_token_finish_def
      session_call_start_finish_def session_call_set_symmetric_key_finish_def finish_answer finish_key)

lemma served_calls:
  "served G manager_interface_info H (manager_call_authenticate u f t)
    = skeleton_handle_method_call G manager_interface_info manager_method_info_authenticate H (G_Tuple [G_String u, G_Int f, G_Int t])"
  "served G manager_interface_info H (manager_call_get_limits u)
    = skeleton_handle_method_call G manager_interface_info manager_method_info_get_limits H (G_Tuple [G_String u])"
  "served G manager_interface_info H (manager_call_pre_one_key_login f)
    = skeleton_handle_method_call G manager_interface_info manager_method_info_pre_one_key_login H (G_Tuple [G_Int f])"
  "served G session_interface_info H (session_call_encrypt_key t (int_array ms))
    = skeleton_handle_method_call G session_interface_info session_method_info_encrypt_key H (G_Tuple [G_Int t, int_array ms])"
  "served G session_interface_info H (session_call_end f)
    = skeleton_handle_method_call G session_interface_info session_method_info_end H (G_Tuple [G_Int f])"
  "served G session_interface_info H session_call_get_result
    = skeleton_handle_method_call G session_interface_info session_method_info_get_result H (G_Tuple [])"
  "served G session_interface_info H session_call_privileges_disable
    = skeleton_handle_method_call G session_interface_info session_method_info_privileges_disable H (G_Tuple [])"
  "served G session_interface_info H (session_call_privileges_enable u)
    = skeleton_handle_method_call G session_interface_info session_method_info_privileges_enable H (G_Tuple [G_String u])"
  "served G session_interface_info H session_call_quit
    = skeleton_handle_method_call G session_interface_info session_method_info_quit H (G_Tuple [])"
  "served G session_interface_info H (session_call_set_quit_flag f)
    = skeleton_handle_method_call G session_interface_info session_method_info_set_quit_flag H (G_Tuple [G_Int f])"
  "served G session_interface_info H (session_call_set_token f (bytestring b))
    = skeleton_handle_method_call G session_interface_info session_method_info_set_token H (G_Tuple [G_Int f, bytestring b])"
  "served G session_interface_info H (session_call_start f t)
    = skeleton_handle_method_call G session_interface_info session_method_info_start H (G_Tuple [G_Int f, G_Int t])"
  "served G session_interface_info H (session_call_set_symmetric_key (bytestring b))
    = skeleton_handle_method_call G session_interface_info session_method_info_set_symmetric_key H (G_Tuple [bytestring b])"
  by (simp_all add: served_def manager_stubs session_stubs lookups type_string_def del: gv_type_basic)

lemma session_served:
  assumes "gio_contract G"
  shows "skeleton_handle_method_call G I session_method_info_encrypt_key (session_handler S) (G_Tuple [G_Int t, int_array ms])
      = Inr (map_sum id (\<lambda>(t, m, k). session_complete_encrypt_key t (int_array m) k) (sv_encrypt_key S t (int_array ms)))"
    "skeleton_handle_method_call G I session_method_info_end (session_handler S) (G_Tuple [G_Int f])
      = Inr (map_sum id session_complete_end (sv_end S f))"
    "skeleton_handle_method_call G I session_method_info_get_result (session_handler S) (G_Tuple [])
      = Inr (map_sum id session_complete_get_result (sv_get_result S))"
    "skeleton_handle_method_call G I session_method_info_privileges_disable (session_handler S) (G_Tuple [])
      = Inr (map_sum id (\<lambda>_. session_complete_privileges_disable) (sv_privileges_disable S))"
    "skeleton_handle_method_call G I session_method_info_privileges_enable (session_handler S) (G_Tuple [G_String u])
      = Inr (map_sum id session_complete_privileges_enable (sv_privileges_enable S u))"
    "skeleton_handle_method_call G I session_method_info_quit (session_handler S) (G_Tuple [])
      = Inr (map_sum id (\<lambda>_. session_complete_quit) (sv_quit S))"
    "skeleton_handle_method_call G I session_method_info_set_quit_flag (session_handler S) (G_Tuple [G_Int f])
      = Inr (map_sum id (\<lambda>_. session_complete_set_quit_flag) (sv_set_quit_flag S f))"
    "skeleton_handle_method_call G I session_method_info_set_token (session_handler S) (G_Tuple [G_Int f, bytestring b])
      = Inr (map_sum id (\<lambda>_. session_complete_set_token) (sv_set_token S f (bytestring b)))"
    "skeleton_handle_method_call G I session_method_info_start (session_handler S) (G_Tuple [G_Int f, G_Int n])
      = Inr (map_sum id session_complete_start (sv_start S f n))"
    "skeleton_handle_method_call G I session_method_info_set_symmetric_key (session_handler S) (G_Tuple [bytestring b])
      = Inr (map_sum id (\<lambda>_. session_complete_set_symmetric_key) (sv_set_symmetric_key S (bytestring b)))"
  by (simp_all add: skeleton_handle_method_call_def g_children_def method_infos gio_contractD [OF assms]
      session_handler_def answer_def int_array_def)

lemma manager_served:
  assumes "gio_contract G"
  shows "skeleton_handle_method_call G I manager_method_info_authenticate (manager_handler S) (G_Tuple [G_String u, G_Int f, G_Int t])
      = Inr (map_sum id manager_complete_authenticate (sv_authenticate S u f t))"
    "skeleton_handle_method_call G I manager_method_info_get_limits (manager_handler S) (G_Tuple [G_String u])
      = Inr (map_sum id manager_complete_get_limits (sv_get_limits S u))"
    "skeleton_handle_method_call G I manager_method_info_pre_one_key_login (manager_handler S) (G_Tuple [G_Int f])
      = Inr (map_sum id manager_complete_pre_one_key_login (sv_pre_one_key_login S f))"
  by (simp_all add: skeleton_handle_method_call_def g_children_def method_infos gio_contractD [OF assms]
      manager_handler_def answer_def)

lemma sent_signals:
  "sk_out (manager_on_signal_limit_updated u sk)
    = sk_out sk @ map (\<lambda>c. (c, gi_name manager_interface_info, ''LimitUpdated'', G_Tuple [G_String u])) (sk_connections sk)"
  "sk_out (session_on_signal_status f t u sk)
    = sk_out sk @ map (\<lambda>c. (c, gi_name session_interface_info, ''Status'', G_Tuple [G_Int f, G_Int t, G_String u])) (sk_connections sk)"
  by (simp_all add: manager_on_signal_limit_updated_def session_on_signal_status_def emit_to_all_def
      manager_interface_info_def session_interface_info_def)

lemma received_signals:
  assumes "gio_contract G"
  shows "proxy_g_signal G manager_interface_info ''LimitUpdated'' (G_Tuple [G_String u])
      = Inr (Some (''limit-updated'', [GV_String (Some u)]))"
    "session_proxy_g_signal G ''Status'' (G_Tuple [G_Int f, G_Int t, G_String u])
      = Inr (Some (''status'', [GV_Int f, GV_Int t, GV_String (Some u)]))"
  by (simp_all add: session_proxy_g_signal_def proxy_g_signal_def lookup_signal_def manager_interface_info_def
      session_interface_info_def manager_signal_info_limit_updated_def session_signal_info_status_def
      g_children_def gio_contractD [OF assms])


definition sample_service :: service where
  \<comment> \<open>one that refuses an unknown user and keeps one session\<close>
  "sample_service =
     \<lparr>sv_authenticate = (\<lambda>u f t. if u = ''uos'' then Inr ''/s'' else Inl (1, ''no such user'')),
      sv_get_limits = (\<lambda>u. Inr ''[]''), sv_pre_one_key_login = (\<lambda>f. Inr []),
      sv_encrypt_key = (\<lambda>t m. Inr (t, [1], ''key'')), sv_end = (\<lambda>f. Inr 0), sv_get_result = Inr 0,
      sv_privileges_disable = Inr (), sv_privileges_enable = (\<lambda>p. Inr True), sv_quit = Inr (),
      sv_set_quit_flag = (\<lambda>n. Inr ()), sv_set_token = (\<lambda>f t. Inr ()), sv_start = (\<lambda>f t. Inr f),
      sv_set_symmetric_key = (\<lambda>k. Inr ())\<rparr>"


end
