(* ===== verification/Gdbus_Cache.thy ===== *)
theory Gdbus_Cache
  imports Gdbus_Service
begin

text \<open>
  A service's properties and a client's cache of them. The skeleton announces changes later, from an
  idle source or when it is flushed, so cache and properties differ in between. A transition system of
  threads that set properties and flush, of the idle sources and of other signals, with the lock released
  where the code releases it, states by how much they differ, and that an announcement is always due. What
  GDBusProxy does with the announcement is the parameter \<open>upd\<close>.
\<close>

subsection \<open>Sets, announcements and the cache\<close>

definition prop_types :: "gdbus_interface \<Rightarrow> gtype list" where
  "prop_types I = map snd (if I = manager_interface_info then manager_gobject_properties else session_gobject_properties)"

definition changed_message :: "string \<Rightarrow> (string \<times> gvariant) list \<Rightarrow> gvariant" where
  "changed_message iface kvs =
     G_Tuple [G_String iface, G_Array (T_Entry T_String T_Variant) (map (\<lambda>(k, v). G_Entry (G_String k) (G_Variant v)) kvs),
       G_Array T_String []]"

definition cache_contract :: "(gvariant \<Rightarrow> property_cache \<Rightarrow> property_cache) \<Rightarrow> bool" where
  \<comment> \<open>GDBusProxy's documentation: the announced values replace the cached ones, the others stay\<close>
  "cache_contract upd \<longleftrightarrow>
     (\<forall>iface kvs ca. distinct (map fst kvs) \<longrightarrow> upd (changed_message iface kvs) ca = ca ++ map_of kvs)"

definition announced :: "nat \<Rightarrow> skeleton \<Rightarrow> skeleton \<Rightarrow> gvariant list" where
  \<comment> \<open>the announcements of a step, as the connection \<open>c\<close> gets them\<close>
  "announced c sk sk' =
     map (\<lambda>(_, _, _, v). v)
       (filter (\<lambda>(d, iface, member, _). d = c \<and> iface = ''org.freedesktop.DBus.Properties'' \<and> member = ''PropertiesChanged'')
         (drop (length (sk_out sk)) (sk_out sk')))"

definition agrees :: "gio \<Rightarrow> gdbus_interface \<Rightarrow> gvalue list \<Rightarrow> property_cache \<Rightarrow> bool" where
  \<comment> \<open>the cache holds these values\<close>
  "agrees G I vals ca \<longleftrightarrow>
     (\<forall>i<length (gi_properties I).
        ca (gp_name (gi_properties I ! i)) = Some (to_gvariant G (vals ! i) (gp_sig (gi_properties I ! i))))"

record sync_state =
  ss_sk :: skeleton
  ss_cache :: property_cache
  ss_notifies :: nat    \<comment> \<open>threads between a store and its notification\<close>
  ss_emits :: nat       \<comment> \<open>threads between the two parts of a flush\<close>
  ss_sources :: nat     \<comment> \<open>idle sources attached to the main context\<close>

definition told_to :: "(gvariant \<Rightarrow> property_cache \<Rightarrow> property_cache) \<Rightarrow> nat \<Rightarrow> skeleton \<Rightarrow> sync_state \<Rightarrow> sync_state" where
  \<comment> \<open>the object becomes \<open>sk\<close>, and the client gets what was announced\<close>
  "told_to upd c sk s = s\<lparr>ss_sk := sk, ss_cache := fold upd (announced c (ss_sk s) sk) (ss_cache s)\<rparr>"

inductive sync ::
  "gio \<Rightarrow> gdbus_interface \<Rightarrow> nat \<Rightarrow> (gvariant \<Rightarrow> property_cache \<Rightarrow> property_cache) \<Rightarrow> sync_state \<Rightarrow> bool"
  for G I c upd where
  sync_start: "map gtype_of (sk_properties sk) = prop_types I \<Longrightarrow> sk_changed sk = [] \<Longrightarrow> \<not> sk_idle sk \<Longrightarrow>
    c \<in> set (sk_connections sk) \<Longrightarrow> distinct (sk_connections sk) \<Longrightarrow> agrees G I (sk_properties sk) ca \<Longrightarrow>
    sync G I c upd \<lparr>ss_sk = sk, ss_cache = ca, ss_notifies = 0, ss_emits = 0, ss_sources = 0\<rparr>"
| sync_store: "sync G I c upd s \<Longrightarrow> i < length (gi_properties I) \<Longrightarrow> gtype_of val = prop_types I ! i \<Longrightarrow>
    skeleton_store_property I (Suc i) val (ss_sk s) = Inr (changed, sk') \<Longrightarrow>
    sync G I c upd ((told_to upd c sk' s)\<lparr>ss_notifies := ss_notifies s + of_bool changed\<rparr>)"
| sync_notify: "sync G I c upd s \<Longrightarrow> ss_notifies s = Suc n \<Longrightarrow> sk' = skeleton_notify (ss_sk s) \<Longrightarrow>
    sync G I c upd ((told_to upd c sk' s)\<lparr>ss_notifies := n,
      ss_sources := ss_sources s + of_bool (sk_idle sk' \<and> \<not> sk_idle (ss_sk s))\<rparr>)"
| sync_take: "sync G I c upd s \<Longrightarrow> skeleton_take_idle (ss_sk s) = (waiting, sk') \<Longrightarrow>
    sync G I c upd ((told_to upd c sk' s)\<lparr>ss_emits := ss_emits s + of_bool waiting,
      ss_sources := ss_sources s - of_bool waiting\<rparr>)"
| sync_emit: "sync G I c upd s \<Longrightarrow> ss_emits s = Suc n \<Longrightarrow> emit_changed G I (ss_sk s) = Inr sk' \<Longrightarrow>
    sync G I c upd ((told_to upd c sk' s)\<lparr>ss_emits := n\<rparr>)"
| sync_idle: "sync G I c upd s \<Longrightarrow> ss_sources s = Suc n \<Longrightarrow> emit_changed G I (ss_sk s) = Inr sk' \<Longrightarrow>
    sync G I c upd ((told_to upd c sk' s)\<lparr>ss_sources := n\<rparr>)"
| sync_signal: "sync G I c upd s \<Longrightarrow> iface \<noteq> ''org.freedesktop.DBus.Properties'' \<Longrightarrow>
    sk' = emit_to_all iface member v (ss_sk s) \<Longrightarrow> sync G I c upd (told_to upd c sk' s)"

definition cached_value :: "skeleton \<Rightarrow> nat \<Rightarrow> gvalue" where
  \<comment> \<open>what the client still sees of a property: the original value of a pending change\<close>
  "cached_value sk i =
     (case find (\<lambda>cp. cp_prop_id cp = Suc i) (sk_changed sk) of
        None \<Rightarrow> sk_properties sk ! i
      | Some cp \<Rightarrow> cp_orig_value cp)"

definition pending_ok :: "gdbus_interface \<Rightarrow> changed_property \<Rightarrow> bool" where
  \<comment> \<open>an entry of the interface's table, under its number\<close>
  "pending_ok I cp \<longleftrightarrow> (\<exists>i<length (gi_properties I). cp_prop_id cp = Suc i \<and> cp_info cp = gi_properties I ! i
     \<and> gtype_of (cp_orig_value cp) = prop_types I ! i)"

definition entries :: "gio \<Rightarrow> gvalue list \<Rightarrow> changed_property list \<Rightarrow> (string \<times> gvariant) list" where
  \<comment> \<open>what is announced: the pending properties whose value is another one now\<close>
  "entries G vals cps =
     map (\<lambda>cp. (gp_name (cp_info cp), to_gvariant G (vals ! (cp_prop_id cp - 1)) (gp_sig (cp_info cp))))
       (filter (\<lambda>cp. vals ! (cp_prop_id cp - 1) \<noteq> cp_orig_value cp) cps)"

definition sync_inv :: "gio \<Rightarrow> gdbus_interface \<Rightarrow> nat \<Rightarrow> skeleton \<Rightarrow> property_cache \<Rightarrow> bool" where
  "sync_inv G I c sk ca \<longleftrightarrow>
     map gtype_of (sk_properties sk) = prop_types I
     \<and> list_all (pending_ok I) (sk_changed sk)
     \<and> distinct (map cp_prop_id (sk_changed sk))
     \<and> c \<in> set (sk_connections sk) \<and> distinct (sk_connections sk)
     \<and> agrees G I (map (cached_value sk) [0..<length (gi_properties I)]) ca"

subsection \<open>Announcements\<close>

lemma announced_same [simp]: "sk_out sk' = sk_out sk \<Longrightarrow> announced c sk sk' = []"
  by (simp add: announced_def)

lemma distinct_filter_eq: "distinct xs \<Longrightarrow> filter (\<lambda>d. d = c) xs = (if c \<in> set xs then [c] else [])"
  by (induction xs) auto

lemma announced_emit:
  assumes "sk_out sk' = sk_out (emit_to_all iface member v sk)" and "distinct (sk_connections sk)" "c \<in> set (sk_connections sk)"
  shows "announced c sk sk' =
    (if iface = ''org.freedesktop.DBus.Properties'' \<and> member = ''PropertiesChanged'' then [v] else [])"
  using assms
  by (auto simp: announced_def emit_to_all_def filter_map comp_def distinct_filter_eq)

subsection \<open>What an interface's properties have to satisfy\<close>

locale property_table =
  fixes I :: gdbus_interface
  assumes names: "distinct (map gp_name (gi_properties I))"
    and typed: "length (prop_types I) = length (gi_properties I)"
    and comparable: "GT_Other \<notin> set (prop_types I)"
begin

lemma check_prop_Suc [simp]: "i < length (gi_properties I) \<Longrightarrow> check_prop I (Suc i) = Inr (gi_properties I ! i)"
  by (simp add: check_prop_def)

lemma infos_inject:
  "i < length (gi_properties I) \<Longrightarrow> j < length (gi_properties I) \<Longrightarrow> gi_properties I ! i = gi_properties I ! j \<longleftrightarrow> i = j"
  using names by (auto simp: distinct_map nth_eq_iff_index_eq)

lemma names_inject:
  "i < length (gi_properties I) \<Longrightarrow> j < length (gi_properties I) \<Longrightarrow>
    gp_name (gi_properties I ! i) = gp_name (gi_properties I ! j) \<longleftrightarrow> i = j"
  using nth_eq_iff_index_eq [OF names, of i j] by simp

lemma props_typed:
  assumes "map gtype_of vals = prop_types I" and "i < length (gi_properties I)"
  shows "gtype_of (vals ! i) = prop_types I ! i" "i < length vals"
proof -
  have "length vals = length (gi_properties I)" using arg_cong [OF assms(1), of length] typed by simp
  with assms show "i < length vals" by simp
  then show "gtype_of (vals ! i) = prop_types I ! i" using assms(1) nth_map [of i vals gtype_of] by simp
qed

lemma value_compare:
  assumes "map gtype_of vals = prop_types I" and "i < length (gi_properties I)" and "gtype_of v = prop_types I ! i"
  shows "g_value_equal v (vals ! i) = Inr (v = vals ! i)" "g_value_equal (vals ! i) v = Inr (vals ! i = v)"
proof -
  have "prop_types I ! i \<noteq> GT_Other" using comparable typed assms(2) by (metis nth_mem)
  then show "g_value_equal v (vals ! i) = Inr (v = vals ! i)" "g_value_equal (vals ! i) v = Inr (vals ! i = v)"
    using g_value_equal_eq props_typed [OF assms(1,2)] assms(3) by simp_all
qed

text \<open>Setting a property.\<close>

lemma store_property_eq:
  assumes "map gtype_of (sk_properties sk) = prop_types I" and "i < length (gi_properties I)"
    and "gtype_of val = prop_types I ! i"
  shows "skeleton_store_property I (Suc i) val sk =
    Inr (if val = sk_properties sk ! i then (False, sk)
         else (True, (if sk_connections sk \<noteq> [] then schedule_emit_changed (gi_properties I ! i) (Suc i) (sk_properties sk ! i) sk
           else sk)\<lparr>sk_properties := (sk_properties sk)[i := val]\<rparr>))"
  using assms value_compare(1) [OF assms]
  by (simp add: skeleton_store_property_def schedule_emit_changed_def Let_def split: option.splits)

lemma pending_info:
  assumes "list_all (pending_ok I) cps" and "i < length (gi_properties I)"
  shows "find (\<lambda>cp. cp_info cp = gi_properties I ! i) cps = find (\<lambda>cp. cp_prop_id cp = Suc i) cps"
  using assms by (induction cps) (auto simp: infos_inject pending_ok_def)

lemma store_property_inv:
  assumes inv: "sync_inv G I c sk ca" and i: "i < length (gi_properties I)" and ty: "gtype_of val = prop_types I ! i"
    and set: "skeleton_store_property I (Suc i) val sk = Inr (changed, sk')"
  shows "sync_inv G I c sk' ca \<and> sk_out sk' = sk_out sk \<and> sk_idle sk' = sk_idle sk \<and> (\<not> changed \<longrightarrow> sk' = sk)"
proof (cases "val = sk_properties sk ! i")
  case True
  have "map gtype_of (sk_properties sk) = prop_types I" using inv by (simp add: sync_inv_def)
  from store_property_eq [OF this i ty] True set have "sk' = sk" by simp
  with inv show ?thesis by simp
next
  case False
  have T: "map gtype_of (sk_properties sk) = prop_types I" and con: "sk_connections sk \<noteq> []"
    and P: "list_all (pending_ok I) (sk_changed sk)"
    using inv by (auto simp: sync_inv_def)
  note props = props_typed [OF T i]
  have T': "map gtype_of ((sk_properties sk)[i := val]) = prop_types I"
    using T ty props by (simp add: map_update list_update_same_conv)
  define old where "old = find (\<lambda>cp. cp_prop_id cp = Suc i) (sk_changed sk)"
  define new where "new = (case old of Some cp \<Rightarrow> sk_changed sk
    | None \<Rightarrow> \<lparr>cp_info = gi_properties I ! i, cp_prop_id = Suc i, cp_orig_value = sk_properties sk ! i\<rparr> # sk_changed sk)"
  have "schedule_emit_changed (gi_properties I ! i) (Suc i) (sk_properties sk ! i) sk = sk\<lparr>sk_changed := new\<rparr>"
    using pending_info [OF P i] by (auto simp: schedule_emit_changed_def new_def old_def split: option.splits)
  then have sk': "sk' = sk\<lparr>sk_changed := new, sk_properties := (sk_properties sk)[i := val]\<rparr>" and "changed"
    using set False con by (simp_all add: store_property_eq [OF T i ty])
  have seen: "cached_value sk' j = cached_value sk j" if "j < length (gi_properties I)" for j
    using that by (auto simp: cached_value_def sk' new_def old_def nth_list_update split: option.splits)
  have "distinct (map cp_prop_id new)"
    using inv by (auto simp: new_def old_def sync_inv_def find_None_iff split: option.splits)
  with T' seen inv P i props \<open>changed\<close> show ?thesis
    by (auto simp: sync_inv_def sk' new_def agrees_def pending_ok_def split: option.splits)
qed

text \<open>Announcing the changes.\<close>

lemma changed_entries_eq:
  assumes "map gtype_of vals = prop_types I" and "list_all (pending_ok I) cps"
  shows "changed_entries G vals cps = Inr (map (\<lambda>(k, v). G_Entry (G_String k) (G_Variant v)) (entries G vals cps))"
  using assms(2)
proof (induction cps)
  case (Cons cp cps)
  then obtain i where "i < length (gi_properties I)" "cp_prop_id cp = Suc i" "gtype_of (cp_orig_value cp) = prop_types I ! i"
    by (auto simp: pending_ok_def)
  with Cons value_compare(2) [OF assms(1)] show ?case by (simp add: entries_def Let_def)
qed (simp add: entries_def)

lemma pending_names:
  assumes "list_all (pending_ok I) cps" and "distinct (map cp_prop_id cps)"
  shows "distinct (map (\<lambda>cp. gp_name (cp_info cp)) cps)"
  using assms
proof (induction cps)
  case (Cons cp cps)
  then obtain i where i: "i < length (gi_properties I)" "cp_prop_id cp = Suc i" "cp_info cp = gi_properties I ! i"
    by (auto simp: pending_ok_def)
  have "gp_name (cp_info cq) \<noteq> gp_name (cp_info cp)" if q: "cq \<in> set cps" for cq
  proof -
    obtain j where j: "j < length (gi_properties I)" "cp_prop_id cq = Suc j" "cp_info cq = gi_properties I ! j"
      using Cons.prems(1) q by (auto simp: pending_ok_def list_all_iff)
    moreover have "cp_prop_id cq \<noteq> cp_prop_id cp" using Cons.prems(2) q by (auto simp: image_iff)
    ultimately show ?thesis using i names_inject by auto
  qed
  then have "gp_name (cp_info cp) \<notin> (\<lambda>cp. gp_name (cp_info cp)) ` set cps" by (metis imageE)
  with Cons show ?case by simp
qed simp

lemma entries_distinct:
  assumes "list_all (pending_ok I) cps" and "distinct (map cp_prop_id cps)"
  shows "distinct (map fst (entries G vals cps))"
  using distinct_map_filter [OF pending_names [OF assms]] by (simp add: entries_def comp_def)

lemma entries_lookup:
  assumes "list_all (pending_ok I) cps" and "distinct (map cp_prop_id cps)" and "i < length (gi_properties I)"
  shows "map_of (entries G vals cps) (gp_name (gi_properties I ! i)) =
    (case find (\<lambda>cp. cp_prop_id cp = Suc i) cps of
       None \<Rightarrow> None
     | Some cp \<Rightarrow> if vals ! i \<noteq> cp_orig_value cp then Some (to_gvariant G (vals ! i) (gp_sig (gi_properties I ! i))) else None)"
  using assms(1,2)
proof (induction cps)
  case (Cons cp cps)
  then obtain j where j: "j < length (gi_properties I)" "cp_prop_id cp = Suc j" "cp_info cp = gi_properties I ! j"
    by (auto simp: pending_ok_def)
  show ?case
  proof (cases "i = j")
    case True
    have "find (\<lambda>cp. cp_prop_id cp = Suc i) cps = None"
      using Cons.prems(2) j True by (force simp: find_None_iff)
    with Cons j True show ?thesis by (auto simp: entries_def)
  next
    case False
    with Cons j names_inject [OF j(1) assms(3)] show ?thesis by (auto simp: entries_def)
  qed
qed (simp add: entries_def)

lemma emit_changed_eq:
  assumes "sync_inv G I c sk ca"
  defines "kvs \<equiv> entries G (sk_properties sk) (sk_changed sk)"
  obtains sk' where "emit_changed G I sk = Inr sk'" "sk_properties sk' = sk_properties sk" "sk_changed sk' = []"
    "\<not> sk_idle sk'" "sk_connections sk' = sk_connections sk"
    "announced c sk sk' = (if kvs = [] then [] else [changed_message (gi_name I) kvs])"
proof -
  define es where "es = map (\<lambda>(k, v). G_Entry (G_String k) (G_Variant v)) kvs"
  define v where "v = changed_message (gi_name I) kvs"
  define mid where "mid = (if es \<noteq> [] then emit_to_all ''org.freedesktop.DBus.Properties'' ''PropertiesChanged'' v sk else sk)"
  let ?sk' = "mid\<lparr>sk_changed := [], sk_idle := False\<rparr>"
  have "changed_entries G (sk_properties sk) (sk_changed sk) = Inr es"
    using assms(1) changed_entries_eq by (simp add: sync_inv_def es_def kvs_def)
  then have "emit_changed G I sk = Inr ?sk'"
    by (simp add: emit_changed_def mid_def v_def changed_message_def es_def Let_def)
  moreover have "announced c sk ?sk' = (if kvs = [] then [] else [v])"
    using assms(1) announced_emit [of ?sk' "''org.freedesktop.DBus.Properties''" "''PropertiesChanged''" v sk c]
    by (cases "kvs = []") (simp_all add: sync_inv_def mid_def es_def)
  ultimately show ?thesis using that [of ?sk'] by (simp add: mid_def emit_to_all_def v_def)
qed

lemma emit_changed_sync:
  assumes inv: "sync_inv G I c sk ca" and upd: "cache_contract upd" and emit: "emit_changed G I sk = Inr sk'"
  shows "sync_inv G I c sk' (fold upd (announced c sk sk') ca) \<and> sk_properties sk' = sk_properties sk \<and> sk_changed sk' = []
    \<and> agrees G I (sk_properties sk') (fold upd (announced c sk sk') ca)"
proof -
  let ?kvs = "entries G (sk_properties sk) (sk_changed sk)"
  from emit_changed_eq [OF inv] emit have out: "sk_properties sk' = sk_properties sk" "sk_changed sk' = []" "\<not> sk_idle sk'"
    "sk_connections sk' = sk_connections sk"
    "announced c sk sk' = (if ?kvs = [] then [] else [changed_message (gi_name I) ?kvs])"
    by force+
  have P: "list_all (pending_ok I) (sk_changed sk)" "distinct (map cp_prop_id (sk_changed sk))"
    using inv by (simp_all add: sync_inv_def)
  have cache: "fold upd (announced c sk sk') ca = ca ++ map_of ?kvs"
    using upd entries_distinct [OF P] by (simp add: out cache_contract_def)
  have agrees: "agrees G I (sk_properties sk') (fold upd (announced c sk sk') ca)"
    using inv entries_lookup [OF P] unfolding cache
    by (auto simp: out(1) agrees_def map_add_def sync_inv_def cached_value_def split: option.splits)
  moreover have "cached_value sk' = (\<lambda>i. sk_properties sk' ! i)"
    by (simp add: cached_value_def out(1,2) fun_eq_iff)
  ultimately show ?thesis using inv by (simp add: sync_inv_def out(1-4) agrees_def)
qed

lemma sync_inv_same:
  assumes "sync_inv G I c sk ca" and "sk_properties sk' = sk_properties sk" "sk_changed sk' = sk_changed sk"
    "sk_connections sk' = sk_connections sk"
  shows "sync_inv G I c sk' ca"
proof -
  have "cached_value sk' = cached_value sk" using assms by (simp add: cached_value_def fun_eq_iff split: option.splits)
  with assms show ?thesis by (simp add: sync_inv_def)
qed

lemma sync_told:
  assumes "sync_inv G I c (ss_sk s) (ss_cache s)" and "cache_contract upd" and "emit_changed G I (ss_sk s) = Inr sk'"
  shows "sync_inv G I c sk' (fold upd (announced c (ss_sk s) sk') (ss_cache s)) \<and> sk_changed sk' = [] \<and> \<not> sk_idle sk'"
proof -
  have "\<not> sk_idle sk'" by (rule emit_changed_eq [OF assms(1)]) (use assms(3) in simp)
  with emit_changed_sync [OF assms] show ?thesis by simp
qed

text \<open>The invariant, with the announcements due.\<close>

lemma sync_invariant:
  "sync G I c upd s \<Longrightarrow> cache_contract upd \<Longrightarrow>
    sync_inv G I c (ss_sk s) (ss_cache s)
    \<and> (sk_changed (ss_sk s) \<noteq> [] \<longrightarrow> 0 < ss_notifies s \<or> 0 < ss_emits s \<or> sk_idle (ss_sk s))
    \<and> (sk_idle (ss_sk s) \<longrightarrow> 0 < ss_sources s)"
proof (induction rule: sync.induct)
  case (sync_start sk ca)
  then show ?case by (simp add: sync_inv_def cached_value_def agrees_def)
next
  case (sync_store s i val changed sk')
  then have inv: "sync_inv G I c (ss_sk s) (ss_cache s)" by simp
  from store_property_inv [OF inv sync_store.hyps(2-4)] sync_store show ?case by (cases changed) (auto simp: told_to_def)
next
  case (sync_notify s n sk')
  have sk': "sk_properties sk' = sk_properties (ss_sk s)" "sk_changed sk' = sk_changed (ss_sk s)"
    "sk_connections sk' = sk_connections (ss_sk s)" "sk_out sk' = sk_out (ss_sk s)"
    "sk_idle sk' \<longleftrightarrow> sk_idle (ss_sk s) \<or> sk_changed (ss_sk s) \<noteq> []"
    by (simp_all add: sync_notify.hyps(3) skeleton_notify_def)
  have "sync_inv G I c sk' (ss_cache s)" by (rule sync_inv_same [of G c "ss_sk s"]) (simp_all only: sk' sync_notify.IH sync_notify.prems)
  with sk' sync_notify.IH sync_notify.prems show ?case
    by (cases "sk_idle (ss_sk s)"; cases "sk_changed (ss_sk s) = []") (simp_all add: told_to_def)
next
  case (sync_take s waiting sk')
  have sk': "sk_properties sk' = sk_properties (ss_sk s)" "sk_changed sk' = sk_changed (ss_sk s)"
    "sk_connections sk' = sk_connections (ss_sk s)" "sk_out sk' = sk_out (ss_sk s)" "\<not> sk_idle sk'"
    "waiting \<longleftrightarrow> sk_idle (ss_sk s)"
    using sync_take.hyps(2) by (auto simp: skeleton_take_idle_def)
  have "sync_inv G I c sk' (ss_cache s)" by (rule sync_inv_same [of G c "ss_sk s"]) (simp_all only: sk' sync_take.IH sync_take.prems)
  with sk' sync_take.IH sync_take.prems show ?case by (auto simp: told_to_def)
next
  case (sync_emit s n sk')
  then show ?case using sync_told [of G c s upd sk'] by (simp add: told_to_def)
next
  case (sync_idle s n sk')
  then show ?case using sync_told [of G c s upd sk'] by (simp add: told_to_def)
next
  case (sync_signal s iface sk' member v)
  then have inv: "sync_inv G I c (ss_sk s) (ss_cache s)" by simp
  have "announced c (ss_sk s) sk' = []"
    using announced_emit [of sk' iface member v "ss_sk s" c] inv sync_signal.hyps by (simp add: sync_inv_def)
  moreover have "sync_inv G I c sk' (ss_cache s)"
    by (rule sync_inv_same [OF inv]) (simp_all add: sync_signal.hyps emit_to_all_def)
  ultimately show ?case using sync_signal by (simp add: told_to_def emit_to_all_def)
qed

lemma emit_agrees:
  assumes "sync_inv G I c sk ca" and "cache_contract upd"
  shows "\<exists>sk'. emit_changed G I sk = Inr sk' \<and> sk_changed sk' = [] \<and> sk_properties sk' = sk_properties sk
    \<and> length (announced c sk sk') \<le> 1 \<and> agrees G I (sk_properties sk') (fold upd (announced c sk sk') ca)"
proof -
  obtain sk' where sk': "emit_changed G I sk = Inr sk'" "length (announced c sk sk') \<le> 1"
    by (rule emit_changed_eq [OF assms(1)]) auto
  from emit_changed_sync [OF assms sk'(1)] sk' show ?thesis by auto
qed

lemma quiet_agrees:
  assumes "sync_inv G I c sk ca" and "sk_changed sk = []"
  shows "agrees G I (sk_properties sk) ca"
proof -
  have "cached_value sk = (\<lambda>i. sk_properties sk ! i)" using assms(2) by (simp add: cached_value_def fun_eq_iff)
  with assms(1) show ?thesis by (simp add: sync_inv_def agrees_def)
qed

lemma storable:
  "sync_inv G I c sk ca \<Longrightarrow> i < length (gi_properties I) \<Longrightarrow> gtype_of val = prop_types I ! i \<Longrightarrow>
    defined (skeleton_store_property I (Suc i) val sk)"
  by (simp add: store_property_eq sync_inv_def)

end

interpretation manager_table: property_table manager_interface_info
  by unfold_locales (simp_all add: manager_interface_info_def manager_property_info_def prop_types_def
      manager_gobject_properties_def)

interpretation session_table: property_table session_interface_info
  by unfold_locales (simp_all add: interfaces_differ prop_types_def session_gobject_properties_def,
      simp_all add: session_interface_info_def session_property_info_def)

text \<open>
  C9: a change of a property reaches the client. For an object of either interface, a client with the
  properties loaded, and any interleaving of threads that set properties or flush with the idle sources and
  other signals: while a change is pending, a notification, the second half of a flush or an attached idle
  source is still to come (no wake-up is lost); the client's cache holds each property's value, or for
  a pending change its value before the change; no set of a value of the registered type trips an assertion;
  an announcement is one message at most, after which nothing is pending and the cache holds every value;
  and when nothing is to come any more, the cache holds every value.
\<close>
theorem property_changes_reach_client:
  assumes "sync G I c upd s" and "cache_contract upd"
    and "I = manager_interface_info \<or> I = session_interface_info"
  shows "(sk_changed (ss_sk s) = [] \<or> 0 < ss_notifies s + ss_emits s + ss_sources s)
    \<and> agrees G I (map (cached_value (ss_sk s)) [0..<length (gi_properties I)]) (ss_cache s)
    \<and> (\<forall>i<length (gi_properties I). \<forall>val. gtype_of val = prop_types I ! i \<longrightarrow>
         defined (skeleton_store_property I (Suc i) val (ss_sk s)))
    \<and> (\<exists>sk'. emit_changed G I (ss_sk s) = Inr sk' \<and> sk_changed sk' = [] \<and> sk_properties sk' = sk_properties (ss_sk s)
         \<and> length (announced c (ss_sk s) sk') \<le> 1
         \<and> agrees G I (sk_properties sk') (fold upd (announced c (ss_sk s) sk') (ss_cache s)))
    \<and> (ss_notifies s + ss_emits s + ss_sources s = 0 \<longrightarrow> agrees G I (sk_properties (ss_sk s)) (ss_cache s))"
proof -
  have T: "property_table I" using assms(3) manager_table.property_table_axioms session_table.property_table_axioms by blast
  from property_table.sync_invariant [OF T assms(1,2)]
  have inv: "sync_inv G I c (ss_sk s) (ss_cache s)"
    and due: "sk_changed (ss_sk s) = [] \<or> 0 < ss_notifies s + ss_emits s + ss_sources s" by auto
  from inv have "agrees G I (map (cached_value (ss_sk s)) [0..<length (gi_properties I)]) (ss_cache s)"
    by (simp add: sync_inv_def)
  with due property_table.storable [OF T inv] property_table.emit_agrees [OF T inv assms(2)]
    property_table.quiet_agrees [OF T inv]
  show ?thesis by auto
qed

subsection \<open>A concrete client\<close>

fun entry_values :: "gvariant list \<Rightarrow> (string \<times> gvariant) list" where
  "entry_values (G_Entry (G_String k) (G_Variant v) # es) = (k, v) # entry_values es"
| "entry_values _ = []"

definition sample_upd :: "gvariant \<Rightarrow> property_cache \<Rightarrow> property_cache" where
  "sample_upd msg ca = (case msg of G_Tuple [_, G_Array _ es, _] \<Rightarrow> ca ++ map_of (entry_values es) | _ \<Rightarrow> ca)"

lemma sample_upd_contract: "cache_contract sample_upd"
proof -
  have "entry_values (map (\<lambda>(k, v). G_Entry (G_String k) (G_Variant v)) kvs) = kvs" for kvs
    by (induction kvs) auto
  then show ?thesis by (simp add: cache_contract_def sample_upd_def changed_message_def)
qed

definition exported_manager :: skeleton where
  "exported_manager = manager_skeleton_init\<lparr>sk_connections := [7]\<rparr>"

definition sample_cache :: property_cache where
  "sample_cache =
     [''SupportEncrypts'' \<mapsto> G_String [], ''FrameworkState'' \<mapsto> G_Int 0, ''SupportedFlags'' \<mapsto> G_Int 0]"

definition flagged_manager :: skeleton where
  \<comment> \<open>after a store of 3 to \<open>SupportedFlags\<close>\<close>
  "flagged_manager =
     exported_manager\<lparr>sk_properties := [GV_String None, GV_Int 0, GV_Int 3],
       sk_changed := [\<lparr>cp_info = readable_property ''SupportedFlags'' ''i'' ''supported-flags'', cp_prop_id = 3,
         cp_orig_value = GV_Int 0\<rparr>]\<rparr>"

lemmas manager_table_run =
  exported_manager_def manager_skeleton_init_def manager_interface_info_def manager_property_info_def

lemma flagged_manager_store:
  "skeleton_store_property manager_interface_info (Suc 2) (GV_Int 3) exported_manager = Inr (True, flagged_manager)"
  by (simp add: flagged_manager_def skeleton_store_property_def check_prop_def g_value_equal_def
      schedule_emit_changed_def manager_table_run numeral_2_eq_2)

definition flagged_state :: sync_state where
  "flagged_state =
     \<lparr>ss_sk = flagged_manager, ss_cache = sample_cache, ss_notifies = 1, ss_emits = 0, ss_sources = 0\<rparr>"

lemma flagged_state_sync: "sync sample_gio manager_interface_info 7 sample_upd flagged_state"
proof -
  have start: "sync sample_gio manager_interface_info 7 sample_upd
      \<lparr>ss_sk = exported_manager, ss_cache = sample_cache, ss_notifies = 0, ss_emits = 0, ss_sources = 0\<rparr>"
    by (rule sync_start) (auto simp: prop_types_def manager_gobject_properties_def agrees_def sample_cache_def
        sample_gio_def manager_table_run nth_Cons split: nat.splits)
  have out: "sk_out flagged_manager = sk_out exported_manager" by (simp add: flagged_manager_def)
  have "2 < length (gi_properties manager_interface_info)" "gtype_of (GV_Int 3) = prop_types manager_interface_info ! 2"
    by (simp_all add: manager_interface_info_def manager_property_info_def prop_types_def manager_gobject_properties_def)
  from sync_store [OF start this, of True flagged_manager] flagged_manager_store out
  show ?thesis by (simp add: told_to_def flagged_state_def)
qed

theorem property_changes_reach_client_witness:
  "cache_contract sample_upd \<and> sync sample_gio manager_interface_info 7 sample_upd flagged_state
    \<and> cached_value (ss_sk flagged_state) 2 = GV_Int 0
    \<and> (\<exists>sk'. emit_changed sample_gio manager_interface_info flagged_manager = Inr sk'
         \<and> fold sample_upd (announced 7 flagged_manager sk') sample_cache ''SupportedFlags'' = Some (G_Int 3))"
proof -
  from property_changes_reach_client [OF flagged_state_sync sample_upd_contract disjI1 [OF refl]]
  obtain sk' where "emit_changed sample_gio manager_interface_info flagged_manager = Inr sk'"
    "sk_properties sk' = sk_properties flagged_manager"
    "agrees sample_gio manager_interface_info (sk_properties sk') (fold sample_upd (announced 7 flagged_manager sk') sample_cache)"
    by (auto simp: flagged_state_def)
  then show ?thesis using sample_upd_contract flagged_state_sync
    by (auto simp: cached_value_def agrees_def manager_interface_info_def manager_property_info_def sample_gio_def
        flagged_state_def flagged_manager_def dest!: spec [of _ 2])
qed

end
