(* ===== verification/Gdbus_Library.thy ===== *)
theory Gdbus_Library
  imports Gdbus_Cache Auth_Results
begin

text \<open>
  The client library over the generated code. \<open>stub_bus\<close> says that the answers the library's model
  takes from its record \<open>da_bus\<close> are those of the generated stubs, run against a service behind the
  generated skeleton; the service may answer differently at every call. The calls of the library then
  give its caller what the service decided.
\<close>

subsection \<open>The bus as the stubs make it\<close>

definition of_unit :: "gerror option \<Rightarrow> gerror + unit" where
  "of_unit e = (case e of None \<Rightarrow> Inr () | Some e \<Rightarrow> Inl e)"

definition manager_stub_bus :: "gio \<Rightarrow> (lcall list \<Rightarrow> service) \<Rightarrow> da_bus \<Rightarrow> bool" where
  "manager_stub_bus G Sv B \<longleftrightarrow>
     (\<forall>h u f t. Inr (db_str B h (L_Authenticate u f t))
        = cbind (cbind (over_manager G (Sv h) (manager_call_authenticate u f t)) manager_call_authenticate_finish)
            (\<lambda>r. Inr (map_sum id Some r)))
     \<and> (\<forall>h u. Inr (db_str B h (L_GetLimits u))
        = cbind (cbind (over_manager G (Sv h) (manager_call_get_limits u)) manager_call_get_limits_finish)
            (\<lambda>r. Inr (map_sum id Some r)))
     \<and> (\<forall>h f. Inr (db_str B h (L_PreOneKeyLogin f))
        = cbind (cbind (over_manager G (Sv h) (manager_call_pre_one_key_login f)) manager_call_pre_one_key_login_finish)
            (\<lambda>r. Inr (map_sum id Some r)))"

definition session_stub_bus :: "gio \<Rightarrow> (lcall list \<Rightarrow> service) \<Rightarrow> da_bus \<Rightarrow> bool" where
  "session_stub_bus G Sv B \<longleftrightarrow>
     (\<forall>h t ms. Inr (db_key B h (L_EncryptKey t ms))
        = cbind (cbind (over_session G (Sv h) (session_call_encrypt_key t (int_array ms))) session_call_encrypt_key_finish)
            (\<lambda>r. Inr (map_sum id (\<lambda>(t, m, k). (t, k)) r)))
     \<and> (\<forall>h k. Inr (of_unit (db_unit B h (L_SetSymmetricKey k)))
        = cbind (over_session G (Sv h) (session_call_set_symmetric_key (bytestring k))) session_call_set_symmetric_key_finish)
     \<and> (\<forall>h t k. Inr (of_unit (db_unit B h (L_SetToken t k)))
        = cbind (over_session G (Sv h) (session_call_set_token t (bytestring k))) session_call_set_token_finish)
     \<and> (\<forall>h f. Inr (db_int B h (L_End f)) = cbind (over_session G (Sv h) (session_call_end f)) session_call_end_finish)
     \<and> (\<forall>h. Inr (db_int B h L_GetResult) = cbind (over_session G (Sv h) session_call_get_result) session_call_get_result_finish)
     \<and> (\<forall>h. Inr (of_unit (db_unit B h L_PrivilegesDisable))
        = cbind (over_session G (Sv h) session_call_privileges_disable) session_call_privileges_disable_finish)
     \<and> (\<forall>h m. Inr (db_bool B h (L_PrivilegesEnable m))
        = cbind (over_session G (Sv h) (session_call_privileges_enable m)) session_call_privileges_enable_finish)
     \<and> (\<forall>h n. Inr (of_unit (db_unit B h (L_SetQuitFlag n)))
        = cbind (over_session G (Sv h) (session_call_set_quit_flag n)) session_call_set_quit_flag_finish)
     \<and> (\<forall>h f t. Inr (db_int B h (L_Start f t))
        = cbind (over_session G (Sv h) (session_call_start f t)) session_call_start_finish)"

lemma of_unit_eq: "of_unit e = r \<longleftrightarrow> e = (case r of Inl e \<Rightarrow> Some e | Inr _ \<Rightarrow> None)"
  by (cases e; cases r) (auto simp: of_unit_def)

lemma manager_stub_answers:
  assumes "gio_contract G" and "manager_stub_bus G Sv B"
  shows "db_str B h (L_Authenticate u f t) = map_sum id Some (sv_authenticate (Sv h) u f t)"
    "db_str B h (L_GetLimits u) = map_sum id Some (sv_get_limits (Sv h) u)"
    "db_str B h (L_PreOneKeyLogin f) = map_sum id Some (sv_pre_one_key_login (Sv h) f)"
  using assms(2)
  by (simp_all add: manager_stub_bus_def over_manager_def served_calls manager_served [OF assms(1)] read_answers)

definition unit_error :: "gerror + unit \<Rightarrow> gerror option" where
  "unit_error r = (case r of Inl e \<Rightarrow> Some e | Inr _ \<Rightarrow> None)"

lemma key_part:
  "map_sum id (\<lambda>(t, m, k). (t, k)) (map_sum id (\<lambda>(t, m, k). (t, int_array m, k)) r) = map_sum id (\<lambda>(t, m, k). (t, k)) r"
  by (cases r) auto

lemma session_stub_answers:
  assumes "gio_contract G" and "session_stub_bus G Sv B"
  shows "db_key B h (L_EncryptKey n ms) = map_sum id (\<lambda>(t, m, k). (t, k)) (sv_encrypt_key (Sv h) n (int_array ms))"
    "db_unit B h (L_SetSymmetricKey k) = unit_error (sv_set_symmetric_key (Sv h) (bytestring k))"
    "db_unit B h (L_SetToken n k) = unit_error (sv_set_token (Sv h) n (bytestring k))"
    "db_int B h (L_End f) = sv_end (Sv h) f" "db_int B h L_GetResult = sv_get_result (Sv h)"
    "db_unit B h L_PrivilegesDisable = unit_error (sv_privileges_disable (Sv h))"
    "db_bool B h (L_PrivilegesEnable w) = sv_privileges_enable (Sv h) w"
    "db_unit B h (L_SetQuitFlag n) = unit_error (sv_set_quit_flag (Sv h) n)"
    "db_int B h (L_Start f n) = sv_start (Sv h) f n"
  using assms(2)
  by (simp_all add: session_stub_bus_def over_session_def served_calls session_served [OF assms(1)] read_answers
      of_unit_eq unit_error_def key_part)

subsection \<open>What the caller gets\<close>

definition told :: "gerror + 'a \<Rightarrow> 'a da_res" where
  \<comment> \<open>the service's error with its code and text and the result -1, or 0 with the value\<close>
  "told r = (case r of Inl e \<Rightarrow> (- 1, None, Some (error_dup e)) | Inr v \<Rightarrow> (0, Some v, None))"

definition told_unit :: "gerror + unit \<Rightarrow> 'a da_res" where
  "told_unit r = (case r of Inl e \<Rightarrow> (- 1, None, Some (error_dup e)) | Inr _ \<Rightarrow> (0, None, None))"

lemma value_call_told: "value_call f c st = (told (f (lb_calls st) c), lib_log c st)"
  by (simp add: value_call_def told_def split: sum.splits)

lemma unit_call_told: "unit_call D c st = (told_unit (of_unit (db_unit (de_bus D) (lb_calls st) c)), lib_log c st)"
  by (simp add: unit_call_def told_unit_def of_unit_def split: option.splits)

lemma of_unit_error [simp]: "of_unit (unit_error r) = r"
  by (cases r) (simp_all add: of_unit_def unit_error_def)

lemma on_session_live: "px_sess p = Some s \<Longrightarrow> s \<in> set (lb_live st) \<Longrightarrow> on_session (Some p) st m = m"
  by (simp add: on_session_def has_valid_session_proxy_def)

lemma on_manager_live: "px_auth p = Some s \<Longrightarrow> s \<in> set (lb_live st) \<Longrightarrow> on_manager (Some p) st m = m"
  by (simp add: on_manager_def has_valid_authenticate_proxy_def)


subsection \<open>A concrete service\<close>

definition service_bus :: "(lcall list \<Rightarrow> service) \<Rightarrow> da_bus" where
  "service_bus Sv =
     \<lparr>db_connect = True, db_proxy = \<lambda>_ _. Inr True,
      db_unit = (\<lambda>h c. unit_error (case c of
          L_SetSymmetricKey k \<Rightarrow> sv_set_symmetric_key (Sv h) (bytestring k)
        | L_SetToken f t \<Rightarrow> sv_set_token (Sv h) f (bytestring t)
        | L_PrivilegesDisable \<Rightarrow> sv_privileges_disable (Sv h)
        | L_SetQuitFlag n \<Rightarrow> sv_set_quit_flag (Sv h) n | _ \<Rightarrow> Inr ())),
      db_int = (\<lambda>h c. case c of L_End f \<Rightarrow> sv_end (Sv h) f | L_GetResult \<Rightarrow> sv_get_result (Sv h)
        | L_Start f t \<Rightarrow> sv_start (Sv h) f t | _ \<Rightarrow> Inr 0),
      db_bool = (\<lambda>h c. case c of L_PrivilegesEnable m \<Rightarrow> sv_privileges_enable (Sv h) m | _ \<Rightarrow> Inr False),
      db_str = (\<lambda>h c. map_sum id Some (case c of
          L_Authenticate u f t \<Rightarrow> sv_authenticate (Sv h) u f t | L_GetLimits u \<Rightarrow> sv_get_limits (Sv h) u
        | L_PreOneKeyLogin f \<Rightarrow> sv_pre_one_key_login (Sv h) f | _ \<Rightarrow> Inr [])),
      db_key = (\<lambda>h c. case c of
          L_EncryptKey t m \<Rightarrow> map_sum id (\<lambda>(t, m, k). (t, k)) (sv_encrypt_key (Sv h) t (int_array m)) | _ \<Rightarrow> Inr (0, [])),
      db_factors = \<lambda>_ _. Inr None\<rparr>"

lemma service_bus_stubs:
  assumes "gio_contract G"
  shows "manager_stub_bus G Sv (service_bus Sv)" "session_stub_bus G Sv (service_bus Sv)"
  by (simp_all add: manager_stub_bus_def session_stub_bus_def over_manager_def over_session_def served_calls
      manager_served [OF assms] session_served [OF assms] read_answers key_part service_bus_def)

definition working_lib :: "lib \<times> nat da_proxy" where
  \<comment> \<open>a manager, a session and a key\<close>
  "working_lib =
     (empty_lib\<lparr>lb_next := 4, lb_live := [1, 2, 3], lb_str := (\<lambda>_. [])(3 := ''1000004210000042'')\<rparr>,
      (new_proxy 0)\<lparr>px_auth := Some 1, px_sess := Some 2, px_symkey := Some 3\<rparr>)"


end
