(* ===== verification/Gdbus_Class.thy ===== *)
theory Gdbus_Class
  imports Gdbus_Cache
begin

text \<open>
  The objects of the generated code as GObject sees them: an object is a proxy or a skeleton, and what an
  accessor does is found through two tables, the interface's (\<open>manager_iface\<close>, \<open>session_iface\<close>, filled in by the
  two \<open>iface_init\<close> functions) and the class's (\<open>object_class\<close>, filled in by \<open>class_init\<close>). Also the constructors.
  \<open>g_object_get\<close>, \<open>g_object_set\<close> and the emission of a signal are modelled as far as they go through the tables.
\<close>

subsection \<open>Objects\<close>

datatype gobject =
    Proxy property_cache
  | Skeleton skeleton

definition as_proxy :: "gobject \<Rightarrow> property_cache cres" where
  \<comment> \<open>the cast macro: on an object of the other class it logs and hands the pointer on\<close>
  "as_proxy obj = (case obj of Proxy ca \<Rightarrow> Inr ca | Skeleton sk \<Rightarrow> Inl Out_Of_Bounds)"

definition as_skeleton :: "gobject \<Rightarrow> skeleton cres" where
  "as_skeleton obj = (case obj of Skeleton sk \<Rightarrow> Inr sk | Proxy ca \<Rightarrow> Inl Out_Of_Bounds)"

lemma as_simps [simp]:
  "as_proxy (Proxy ca) = Inr ca" "as_proxy (Skeleton sk) = Inl Out_Of_Bounds"
  "as_skeleton (Skeleton sk) = Inr sk" "as_skeleton (Proxy ca) = Inl Out_Of_Bounds"
  by (simp_all add: as_proxy_def as_skeleton_def)

type_synonym slot = "gvalue list \<Rightarrow> (gerror + gvariant) option"
  \<comment> \<open>a class's own handler of an incoming call; none: it does not handle this call\<close>

subsection \<open>The class table\<close>

record object_class =
  cl_get_property :: "gio \<Rightarrow> nat \<Rightarrow> gvalue \<Rightarrow> gobject \<Rightarrow> gvalue cres"
  cl_set_property :: "gio \<Rightarrow> nat \<Rightarrow> gvalue \<Rightarrow> gobject \<Rightarrow> (bool \<times> gobject \<times> (string \<times> gvariant) list) cres"
    \<comment> \<open>whether the property is to be notified, the object, the D-Bus calls made\<close>
  cl_notify :: "gobject \<Rightarrow> gobject cres"
  cl_g_signal :: "(gio \<Rightarrow> string \<Rightarrow> gvariant \<Rightarrow> (string \<times> gvalue list) option cres) option"
  cl_g_properties_changed ::
    "((string \<times> gvariant) list \<Rightarrow> string list \<Rightarrow> string list \<Rightarrow> string list \<times> string list) option"
  cl_get_properties :: "(gio \<Rightarrow> skeleton \<Rightarrow> gvariant cres) option"
  cl_flush :: "(gio \<Rightarrow> skeleton \<Rightarrow> skeleton cres) option"
  cl_properties :: "(string \<times> nat) list"

definition manager_proxy_class_init :: object_class where
  "manager_proxy_class_init =
     \<lparr>cl_get_property = (\<lambda>G i v obj. cbind (as_proxy obj) (\<lambda>ca. proxy_get_property G manager_interface_info ca i v)),
      cl_set_property = (\<lambda>G i v obj. cbind (as_proxy obj) (\<lambda>ca.
        cbind (proxy_set_property G manager_interface_info i v) (\<lambda>c. Inr (False, obj, [c])))),
      cl_notify = Inr,
      cl_g_signal = Some (\<lambda>G. proxy_g_signal G manager_interface_info),
      cl_g_properties_changed = Some (proxy_g_properties_changed manager_interface_info),
      cl_get_properties = None, cl_flush = None, cl_properties = manager_override_properties 1\<rparr>"

definition session_proxy_class_init :: object_class where
  "session_proxy_class_init =
     \<lparr>cl_get_property = (\<lambda>G i v obj. cbind (as_proxy obj) (\<lambda>ca. session_proxy_get_property G ca i v)),
      cl_set_property = (\<lambda>G i v obj. cbind (as_proxy obj) (\<lambda>ca.
        cbind (session_proxy_set_property G i v) (\<lambda>c. Inr (False, obj, [c])))),
      cl_notify = Inr,
      cl_g_signal = Some session_proxy_g_signal,
      cl_g_properties_changed = Some session_proxy_g_properties_changed,
      cl_get_properties = None, cl_flush = None, cl_properties = session_override_properties 1\<rparr>"

definition manager_skeleton_class_init :: object_class where
  "manager_skeleton_class_init =
     \<lparr>cl_get_property = (\<lambda>G i v obj. cbind (as_skeleton obj) (skeleton_get_property manager_interface_info i)),
      cl_set_property = (\<lambda>G i v obj. cbind (as_skeleton obj) (\<lambda>sk.
        cbind (skeleton_store_property manager_interface_info i v sk) (\<lambda>(changed, sk). Inr (changed, Skeleton sk, [])))),
      cl_notify = (\<lambda>obj. cbind (as_skeleton obj) (\<lambda>sk. Inr (Skeleton (skeleton_notify sk)))),
      cl_g_signal = None, cl_g_properties_changed = None,
      cl_get_properties = Some (\<lambda>G. skeleton_get_properties G manager_interface_info (manager_override_properties 1)),
      cl_flush = Some (\<lambda>G. skeleton_flush G manager_interface_info),
      cl_properties = manager_override_properties 1\<rparr>"

definition session_skeleton_class_init :: object_class where
  "session_skeleton_class_init =
     \<lparr>cl_get_property = (\<lambda>G i v obj. cbind (as_skeleton obj) (session_skeleton_get_property i)),
      cl_set_property = (\<lambda>G i v obj. cbind (as_skeleton obj) (\<lambda>sk.
        cbind (skeleton_store_property session_interface_info i v sk) (\<lambda>(changed, sk). Inr (changed, Skeleton sk, [])))),
      cl_notify = (\<lambda>obj. cbind (as_skeleton obj) (\<lambda>sk. Inr (Skeleton (session_skeleton_notify sk)))),
      cl_g_signal = None, cl_g_properties_changed = None,
      cl_get_properties = Some session_skeleton_get_properties, cl_flush = Some session_skeleton_flush,
      cl_properties = session_override_properties 1\<rparr>"

definition manager_class :: "gobject \<Rightarrow> object_class" where
  \<comment> \<open>the class an object of the manager's interface belongs to\<close>
  "manager_class obj = (case obj of Proxy ca \<Rightarrow> manager_proxy_class_init | Skeleton sk \<Rightarrow> manager_skeleton_class_init)"

definition session_class :: "gobject \<Rightarrow> object_class" where
  "session_class obj = (case obj of Proxy ca \<Rightarrow> session_proxy_class_init | Skeleton sk \<Rightarrow> session_skeleton_class_init)"

definition g_object_get :: "object_class \<Rightarrow> gio \<Rightarrow> string \<Rightarrow> gvalue \<Rightarrow> gobject \<Rightarrow> gvalue cres" where
  \<comment> \<open>GObject: the property's number, and the class's function on a value of the property's type\<close>
  "g_object_get C G name init obj =
     (case map_of (cl_properties C) name of None \<Rightarrow> Inr init | Some i \<Rightarrow> cl_get_property C G i init obj)"

definition g_object_set ::
  "object_class \<Rightarrow> gio \<Rightarrow> string \<Rightarrow> gvalue \<Rightarrow> gobject \<Rightarrow> (gobject \<times> (string \<times> gvariant) list) cres" where
  \<comment> \<open>GObject: notifications are held back until the property is set\<close>
  "g_object_set C G name val obj =
     (case map_of (cl_properties C) name of
        None \<Rightarrow> Inr (obj, [])
      | Some i \<Rightarrow>
          cbind (cl_set_property C G i val obj) (\<lambda>(changed, obj, calls).
          cbind (if changed then cl_notify C obj else Inr obj) (\<lambda>obj. Inr (obj, calls))))"

subsection \<open>The interface tables\<close>

record manager_iface =
  mi_handle_authenticate :: "slot option"
  mi_handle_get_limits :: "slot option"
  mi_handle_pre_one_key_login :: "slot option"
  mi_get_framework_state :: "(gobject \<Rightarrow> int cres) option"
  mi_get_support_encrypts :: "(gobject \<Rightarrow> string option cres) option"
  mi_get_supported_flags :: "(gobject \<Rightarrow> int cres) option"
  mi_limit_updated :: "(string \<Rightarrow> gobject \<Rightarrow> gobject cres) option"

definition manager_iface_empty :: manager_iface where
  \<comment> \<open>as GObject allocates it\<close>
  "manager_iface_empty =
     \<lparr>mi_handle_authenticate = None, mi_handle_get_limits = None, mi_handle_pre_one_key_login = None,
      mi_get_framework_state = None, mi_get_support_encrypts = None, mi_get_supported_flags = None, mi_limit_updated = None\<rparr>"

definition manager_proxy_iface_init :: "manager_iface \<Rightarrow> manager_iface" where
  "manager_proxy_iface_init iface = iface
     \<lparr>mi_get_support_encrypts := Some (\<lambda>obj. cbind (as_proxy obj) manager_proxy_get_support_encrypts),
      mi_get_framework_state := Some (\<lambda>obj. cbind (as_proxy obj) manager_proxy_get_framework_state),
      mi_get_supported_flags := Some (\<lambda>obj. cbind (as_proxy obj) manager_proxy_get_supported_flags)\<rparr>"

definition manager_skeleton_iface_init :: "manager_iface \<Rightarrow> manager_iface" where
  "manager_skeleton_iface_init iface = iface
     \<lparr>mi_limit_updated := Some (\<lambda>u obj. cbind (as_skeleton obj) (\<lambda>sk. Inr (Skeleton (manager_on_signal_limit_updated u sk)))),
      mi_get_support_encrypts := Some (\<lambda>obj. cbind (as_skeleton obj) (\<lambda>sk. Inr (manager_skeleton_get_support_encrypts sk))),
      mi_get_framework_state := Some (\<lambda>obj. cbind (as_skeleton obj) (\<lambda>sk. Inr (manager_skeleton_get_framework_state sk))),
      mi_get_supported_flags := Some (\<lambda>obj. cbind (as_skeleton obj) (\<lambda>sk. Inr (manager_skeleton_get_supported_flags sk)))\<rparr>"

definition manager_get_iface :: "gobject \<Rightarrow> manager_iface" where
  \<comment> \<open>\<open>COM_DEEPIN_DAEMON_AUTHENTICATE_GET_IFACE\<close>\<close>
  "manager_get_iface obj =
     (case obj of Proxy ca \<Rightarrow> manager_proxy_iface_init manager_iface_empty
      | Skeleton sk \<Rightarrow> manager_skeleton_iface_init manager_iface_empty)"

record session_iface =
  si_handle_encrypt_key :: "slot option"
  si_handle_end :: "slot option"
  si_handle_get_result :: "slot option"
  si_handle_privileges_disable :: "slot option"
  si_handle_privileges_enable :: "slot option"
  si_handle_quit :: "slot option"
  si_handle_set_quit_flag :: "slot option"
  si_handle_set_symmetric_key :: "slot option"
  si_handle_set_token :: "slot option"
  si_handle_start :: "slot option"
  si_get_factors_info :: "(gobject \<Rightarrow> gvariant option cres) option"
  si_get_is_mfa :: "(gobject \<Rightarrow> bool cres) option"
  si_get_pinlen :: "(gobject \<Rightarrow> int cres) option"
  si_get_prg_path :: "(gobject \<Rightarrow> string option cres) option"
  si_get_prompt :: "(gobject \<Rightarrow> string option cres) option"
  si_get_username :: "(gobject \<Rightarrow> string option cres) option"
  si_status :: "(int \<Rightarrow> int \<Rightarrow> string \<Rightarrow> gobject \<Rightarrow> gobject cres) option"

definition session_iface_empty :: session_iface where
  "session_iface_empty =
     \<lparr>si_handle_encrypt_key = None, si_handle_end = None, si_handle_get_result = None,
      si_handle_privileges_disable = None, si_handle_privileges_enable = None, si_handle_quit = None,
      si_handle_set_quit_flag = None, si_handle_set_symmetric_key = None, si_handle_set_token = None, si_handle_start = None,
      si_get_factors_info = None, si_get_is_mfa = None, si_get_pinlen = None, si_get_prg_path = None,
      si_get_prompt = None, si_get_username = None, si_status = None\<rparr>"

definition session_proxy_iface_init :: "session_iface \<Rightarrow> session_iface" where
  "session_proxy_iface_init iface = iface
     \<lparr>si_get_is_mfa := Some (\<lambda>obj. cbind (as_proxy obj) session_proxy_get_is_mfa),
      si_get_prompt := Some (\<lambda>obj. cbind (as_proxy obj) session_proxy_get_prompt),
      si_get_factors_info := Some (\<lambda>obj. cbind (as_proxy obj) (\<lambda>ca. Inr (session_proxy_get_factors_info ca))),
      si_get_username := Some (\<lambda>obj. cbind (as_proxy obj) session_proxy_get_username),
      si_get_pinlen := Some (\<lambda>obj. cbind (as_proxy obj) session_proxy_get_pinlen),
      si_get_prg_path := Some (\<lambda>obj. cbind (as_proxy obj) session_proxy_get_prg_path)\<rparr>"

definition session_skeleton_iface_init :: "session_iface \<Rightarrow> session_iface" where
  "session_skeleton_iface_init iface = iface
     \<lparr>si_status := Some (\<lambda>f s m obj. cbind (as_skeleton obj) (\<lambda>sk. Inr (Skeleton (session_on_signal_status f s m sk)))),
      si_get_is_mfa := Some (\<lambda>obj. cbind (as_skeleton obj) (\<lambda>sk. Inr (session_skeleton_get_is_mfa sk))),
      si_get_prompt := Some (\<lambda>obj. cbind (as_skeleton obj) (\<lambda>sk. Inr (session_skeleton_get_prompt sk))),
      si_get_factors_info := Some (\<lambda>obj. cbind (as_skeleton obj) (\<lambda>sk. Inr (session_skeleton_get_factors_info sk))),
      si_get_username := Some (\<lambda>obj. cbind (as_skeleton obj) (\<lambda>sk. Inr (session_skeleton_get_username sk))),
      si_get_pinlen := Some (\<lambda>obj. cbind (as_skeleton obj) (\<lambda>sk. Inr (session_skeleton_get_pinlen sk))),
      si_get_prg_path := Some (\<lambda>obj. cbind (as_skeleton obj) (\<lambda>sk. Inr (session_skeleton_get_prg_path sk)))\<rparr>"

definition session_get_iface :: "gobject \<Rightarrow> session_iface" where
  "session_get_iface obj =
     (case obj of Proxy ca \<Rightarrow> session_proxy_iface_init session_iface_empty
      | Skeleton sk \<Rightarrow> session_skeleton_iface_init session_iface_empty)"

definition through :: "'a option \<Rightarrow> ('a \<Rightarrow> 'b cres) \<Rightarrow> 'b cres" where
  \<comment> \<open>a call through a slot\<close>
  "through s k = (case s of None \<Rightarrow> Inl Null_Deref | Some f \<Rightarrow> k f)"

subsection \<open>The accessors\<close>

definition manager_get_support_encrypts :: "gobject \<Rightarrow> string option cres" where
  "manager_get_support_encrypts obj = through (mi_get_support_encrypts (manager_get_iface obj)) (\<lambda>f. f obj)"

definition manager_dup_support_encrypts :: "gio \<Rightarrow> gobject \<Rightarrow> string option cres" where
  "manager_dup_support_encrypts G obj =
     cbind (g_object_get (manager_class obj) G ''support-encrypts'' (GV_String None) obj) (\<lambda>v. Inr (value_string v))"

definition manager_get_framework_state :: "gobject \<Rightarrow> int cres" where
  "manager_get_framework_state obj = through (mi_get_framework_state (manager_get_iface obj)) (\<lambda>f. f obj)"

definition manager_get_supported_flags :: "gobject \<Rightarrow> int cres" where
  "manager_get_supported_flags obj = through (mi_get_supported_flags (manager_get_iface obj)) (\<lambda>f. f obj)"

definition session_get_is_mfa :: "gobject \<Rightarrow> bool cres" where
  "session_get_is_mfa obj = through (si_get_is_mfa (session_get_iface obj)) (\<lambda>f. f obj)"

definition session_get_prompt :: "gobject \<Rightarrow> string option cres" where
  "session_get_prompt obj = through (si_get_prompt (session_get_iface obj)) (\<lambda>f. f obj)"

definition session_dup_prompt :: "gio \<Rightarrow> gobject \<Rightarrow> string option cres" where
  "session_dup_prompt G obj =
     cbind (g_object_get (session_class obj) G ''prompt'' (GV_String None) obj) (\<lambda>v. Inr (value_string v))"

definition session_get_factors_info :: "gobject \<Rightarrow> gvariant option cres" where
  "session_get_factors_info obj = through (si_get_factors_info (session_get_iface obj)) (\<lambda>f. f obj)"

definition session_dup_factors_info :: "gio \<Rightarrow> gobject \<Rightarrow> gvariant option cres" where
  "session_dup_factors_info G obj =
     cbind (g_object_get (session_class obj) G ''factors-info'' (GV_Variant None) obj)
       (\<lambda>v. Inr (case v of GV_Variant w \<Rightarrow> w | _ \<Rightarrow> None))"

definition session_get_username :: "gobject \<Rightarrow> string option cres" where
  "session_get_username obj = through (si_get_username (session_get_iface obj)) (\<lambda>f. f obj)"

definition session_dup_username :: "gio \<Rightarrow> gobject \<Rightarrow> string option cres" where
  "session_dup_username G obj =
     cbind (g_object_get (session_class obj) G ''username'' (GV_String None) obj) (\<lambda>v. Inr (value_string v))"

definition session_get_pinlen :: "gobject \<Rightarrow> int cres" where
  "session_get_pinlen obj = through (si_get_pinlen (session_get_iface obj)) (\<lambda>f. f obj)"

definition session_get_prg_path :: "gobject \<Rightarrow> string option cres" where
  "session_get_prg_path obj = through (si_get_prg_path (session_get_iface obj)) (\<lambda>f. f obj)"

definition session_dup_prg_path :: "gio \<Rightarrow> gobject \<Rightarrow> string option cres" where
  "session_dup_prg_path G obj =
     cbind (g_object_get (session_class obj) G ''prg-path'' (GV_String None) obj) (\<lambda>v. Inr (value_string v))"

definition manager_emit_limit_updated :: "string \<Rightarrow> gobject \<Rightarrow> gobject cres" where
  \<comment> \<open>the class's own handler of the signal; a slot that is null is not run\<close>
  "manager_emit_limit_updated u obj =
     (case mi_limit_updated (manager_get_iface obj) of None \<Rightarrow> Inr obj | Some f \<Rightarrow> f u obj)"

definition session_emit_status :: "int \<Rightarrow> int \<Rightarrow> string \<Rightarrow> gobject \<Rightarrow> gobject cres" where
  "session_emit_status f s m obj = (case si_status (session_get_iface obj) of None \<Rightarrow> Inr obj | Some h \<Rightarrow> h f s m obj)"

subsection \<open>What a skeleton offers to GDBus\<close>

record dbus_vtable =
  vt_method_call :: "gio \<Rightarrow> gdbus_method \<Rightarrow> handler \<Rightarrow> gvariant \<Rightarrow> (gerror + gvariant) cres"
  vt_get_property :: "gio \<Rightarrow> string \<Rightarrow> skeleton \<Rightarrow> (gerror + gvariant) cres"
  vt_set_property :: "gio \<Rightarrow> string \<Rightarrow> gvariant \<Rightarrow> skeleton \<Rightarrow> (gerror + skeleton) cres"

definition manager_skeleton_vtable :: dbus_vtable where
  "manager_skeleton_vtable =
     \<lparr>vt_method_call = (\<lambda>G. skeleton_handle_method_call G manager_interface_info),
      vt_get_property = (\<lambda>G. skeleton_handle_get_property G manager_interface_info (manager_override_properties 1)),
      vt_set_property = (\<lambda>G. skeleton_handle_set_property G manager_interface_info (manager_override_properties 1))\<rparr>"

definition session_skeleton_vtable :: dbus_vtable where
  "session_skeleton_vtable =
     \<lparr>vt_method_call = session_skeleton_handle_method_call, vt_get_property = session_skeleton_handle_get_property,
      vt_set_property = session_skeleton_handle_set_property\<rparr>"

definition manager_skeleton_get_info :: gdbus_interface where
  "manager_skeleton_get_info = manager_interface_info"

definition session_skeleton_get_info :: gdbus_interface where
  "session_skeleton_get_info = session_interface_info"

definition manager_skeleton_get_vtable :: dbus_vtable where
  "manager_skeleton_get_vtable = manager_skeleton_vtable"

definition session_skeleton_get_vtable :: dbus_vtable where
  "session_skeleton_get_vtable = session_skeleton_vtable"

subsection \<open>The session's copies of the comparisons\<close>

definition session_g_strv_equal0 :: "string list option \<Rightarrow> string list option \<Rightarrow> bool" where
  "session_g_strv_equal0 = g_strv_equal0"

definition session_g_variant_equal0 :: "gvariant option \<Rightarrow> gvariant option \<Rightarrow> bool" where
  "session_g_variant_equal0 = g_variant_equal0"

definition session_g_value_equal :: "gvalue \<Rightarrow> gvalue \<Rightarrow> bool cres" where
  "session_g_value_equal = g_value_equal"

subsection \<open>Constructors\<close>

datatype proxy_place =
    On_Connection nat
  | On_Bus int

record proxy_request =
  \<comment> \<open>the construction properties handed to GLib\<close>
  rq_flags :: int
  rq_name :: "string option"
  rq_place :: proxy_place
  rq_object_path :: string
  rq_interface_name :: string

type_synonym initable = "proxy_request \<Rightarrow> gerror + property_cache"
  \<comment> \<open>GLib: \<open>g_initable_new\<close>, and what an asynchronous construction ends with\<close>

definition manager_proxy_new :: "nat \<Rightarrow> int \<Rightarrow> string option \<Rightarrow> string \<Rightarrow> proxy_request" where
  \<comment> \<open>the request it starts\<close>
  "manager_proxy_new connection flags name object_path =
     \<lparr>rq_flags = flags, rq_name = name, rq_place = On_Connection connection, rq_object_path = object_path,
      rq_interface_name = ''com.deepin.daemon.Authenticate''\<rparr>"

definition manager_proxy_new_finish :: "gerror + property_cache \<Rightarrow> gerror + gobject" where
  "manager_proxy_new_finish res = (case res of Inl err \<Rightarrow> Inl err | Inr ret \<Rightarrow> Inr (Proxy ret))"

definition manager_proxy_new_sync :: "initable \<Rightarrow> nat \<Rightarrow> int \<Rightarrow> string option \<Rightarrow> string \<Rightarrow> gerror + gobject" where
  "manager_proxy_new_sync new connection flags name object_path =
     (case new \<lparr>rq_flags = flags, rq_name = name, rq_place = On_Connection connection, rq_object_path = object_path,
          rq_interface_name = ''com.deepin.daemon.Authenticate''\<rparr> of
        Inl err \<Rightarrow> Inl err | Inr ret \<Rightarrow> Inr (Proxy ret))"

definition manager_proxy_new_for_bus :: "int \<Rightarrow> int \<Rightarrow> string option \<Rightarrow> string \<Rightarrow> proxy_request" where
  "manager_proxy_new_for_bus bus_type flags name object_path =
     \<lparr>rq_flags = flags, rq_name = name, rq_place = On_Bus bus_type, rq_object_path = object_path,
      rq_interface_name = ''com.deepin.daemon.Authenticate''\<rparr>"

definition manager_proxy_new_for_bus_finish :: "gerror + property_cache \<Rightarrow> gerror + gobject" where
  "manager_proxy_new_for_bus_finish res = (case res of Inl err \<Rightarrow> Inl err | Inr ret \<Rightarrow> Inr (Proxy ret))"

definition manager_proxy_new_for_bus_sync :: "initable \<Rightarrow> int \<Rightarrow> int \<Rightarrow> string option \<Rightarrow> string \<Rightarrow> gerror + gobject" where
  "manager_proxy_new_for_bus_sync new bus_type flags name object_path =
     (case new \<lparr>rq_flags = flags, rq_name = name, rq_place = On_Bus bus_type, rq_object_path = object_path,
          rq_interface_name = ''com.deepin.daemon.Authenticate''\<rparr> of
        Inl err \<Rightarrow> Inl err | Inr ret \<Rightarrow> Inr (Proxy ret))"

definition session_proxy_new :: "nat \<Rightarrow> int \<Rightarrow> string option \<Rightarrow> string \<Rightarrow> proxy_request" where
  "session_proxy_new connection flags name object_path =
     \<lparr>rq_flags = flags, rq_name = name, rq_place = On_Connection connection, rq_object_path = object_path,
      rq_interface_name = ''com.deepin.daemon.Authenticate.Session''\<rparr>"

definition session_proxy_new_finish :: "gerror + property_cache \<Rightarrow> gerror + gobject" where
  "session_proxy_new_finish res = (case res of Inl err \<Rightarrow> Inl err | Inr ret \<Rightarrow> Inr (Proxy ret))"

definition session_proxy_new_sync :: "initable \<Rightarrow> nat \<Rightarrow> int \<Rightarrow> string option \<Rightarrow> string \<Rightarrow> gerror + gobject" where
  "session_proxy_new_sync new connection flags name object_path =
     (case new \<lparr>rq_flags = flags, rq_name = name, rq_place = On_Connection connection, rq_object_path = object_path,
          rq_interface_name = ''com.deepin.daemon.Authenticate.Session''\<rparr> of
        Inl err \<Rightarrow> Inl err | Inr ret \<Rightarrow> Inr (Proxy ret))"

definition session_proxy_new_for_bus :: "int \<Rightarrow> int \<Rightarrow> string option \<Rightarrow> string \<Rightarrow> proxy_request" where
  "session_proxy_new_for_bus bus_type flags name object_path =
     \<lparr>rq_flags = flags, rq_name = name, rq_place = On_Bus bus_type, rq_object_path = object_path,
      rq_interface_name = ''com.deepin.daemon.Authenticate.Session''\<rparr>"

definition session_proxy_new_for_bus_finish :: "gerror + property_cache \<Rightarrow> gerror + gobject" where
  "session_proxy_new_for_bus_finish res = (case res of Inl err \<Rightarrow> Inl err | Inr ret \<Rightarrow> Inr (Proxy ret))"

definition session_proxy_new_for_bus_sync :: "initable \<Rightarrow> int \<Rightarrow> int \<Rightarrow> string option \<Rightarrow> string \<Rightarrow> gerror + gobject" where
  "session_proxy_new_for_bus_sync new bus_type flags name object_path =
     (case new \<lparr>rq_flags = flags, rq_name = name, rq_place = On_Bus bus_type, rq_object_path = object_path,
          rq_interface_name = ''com.deepin.daemon.Authenticate.Session''\<rparr> of
        Inl err \<Rightarrow> Inl err | Inr ret \<Rightarrow> Inr (Proxy ret))"

definition manager_proxy_init :: gdbus_interface where
  \<comment> \<open>the description given to GDBusProxy, against which it checks what it receives\<close>
  "manager_proxy_init = manager_interface_info"

definition session_proxy_init :: gdbus_interface where
  "session_proxy_init = session_interface_info"

definition manager_skeleton_new :: gobject where
  "manager_skeleton_new = Skeleton manager_skeleton_init"

definition session_skeleton_new :: gobject where
  "session_skeleton_new = Skeleton session_skeleton_init"

definition manager_proxy_set_property_cb :: "gdbus_property \<Rightarrow> gerror + gvariant \<Rightarrow> (string \<times> gerror) option" where
  \<comment> \<open>the reply to a set: an error is logged with the name of the property\<close>
  "manager_proxy_set_property_cb info res = (case res of Inl error \<Rightarrow> Some (gp_name info, error) | Inr ret \<Rightarrow> None)"

definition session_proxy_set_property_cb :: "gdbus_property \<Rightarrow> gerror + gvariant \<Rightarrow> (string \<times> gerror) option" where
  "session_proxy_set_property_cb info res = (case res of Inl error \<Rightarrow> Some (gp_name info, error) | Inr ret \<Rightarrow> None)"

text \<open>The four ways to construct a proxy ask GLib for the same object.\<close>

lemma proxy_construction:
  "manager_proxy_new_finish (new (manager_proxy_new c f n p)) = manager_proxy_new_sync new c f n p"
  "manager_proxy_new_for_bus_finish (new (manager_proxy_new_for_bus b f n p)) = manager_proxy_new_for_bus_sync new b f n p"
  "session_proxy_new_finish (new (session_proxy_new c f n p)) = session_proxy_new_sync new c f n p"
  "session_proxy_new_for_bus_finish (new (session_proxy_new_for_bus b f n p)) = session_proxy_new_for_bus_sync new b f n p"
  "rq_interface_name (manager_proxy_new c f n p) = gi_name manager_proxy_init"
  "rq_interface_name (manager_proxy_new_for_bus b f n p) = gi_name manager_proxy_init"
  "rq_interface_name (session_proxy_new c f n p) = gi_name session_proxy_init"
  "rq_interface_name (session_proxy_new_for_bus b f n p) = gi_name session_proxy_init"
  by (simp_all add: manager_proxy_new_finish_def manager_proxy_new_def manager_proxy_new_sync_def
      manager_proxy_new_for_bus_finish_def manager_proxy_new_for_bus_def manager_proxy_new_for_bus_sync_def
      session_proxy_new_finish_def session_proxy_new_def session_proxy_new_sync_def
      session_proxy_new_for_bus_finish_def session_proxy_new_for_bus_def session_proxy_new_for_bus_sync_def
      manager_proxy_init_def session_proxy_init_def manager_interface_info_def session_interface_info_def)

subsection \<open>Both tables lead to the same value\<close>

definition object_typed :: "gdbus_interface \<Rightarrow> gobject \<Rightarrow> bool" where
  \<comment> \<open>the values have the types of the interface's description\<close>
  "object_typed I obj =
     (case obj of
        Proxy ca \<Rightarrow> list_all (\<lambda>p. case ca (gp_name p) of None \<Rightarrow> True | Some v \<Rightarrow> type_string v = gp_sig p) (gi_properties I)
      | Skeleton sk \<Rightarrow> map gtype_of (sk_properties sk) = prop_types I)"

lemma type_string_simps:
  "type_string v = ''s'' \<longleftrightarrow> gv_type v = T_String" "type_string v = ''i'' \<longleftrightarrow> gv_type v = T_Int"
  "type_string v = ''b'' \<longleftrightarrow> gv_type v = T_Bool"
  "type_string v = ''a(iiib)'' \<longleftrightarrow> gv_type v = T_Array (T_Tuple [T_Int, T_Int, T_Int, T_Bool])"
proof -
  have "''s'' = gty_string T_String" "''i'' = gty_string T_Int" "''b'' = gty_string T_Bool"
    "''a(iiib)'' = gty_string (T_Array (T_Tuple [T_Int, T_Int, T_Int, T_Bool]))" by (simp_all add: gty_string.simps)
  then show "type_string v = ''s'' \<longleftrightarrow> gv_type v = T_String" "type_string v = ''i'' \<longleftrightarrow> gv_type v = T_Int"
    "type_string v = ''b'' \<longleftrightarrow> gv_type v = T_Bool"
    "type_string v = ''a(iiib)'' \<longleftrightarrow> gv_type v = T_Array (T_Tuple [T_Int, T_Int, T_Int, T_Bool])"
    unfolding type_string_def by (simp_all only: gty_string_inject)
qed

lemma session_proxy_typed:
  "object_typed session_interface_info (Proxy ca) \<longleftrightarrow>
     (\<forall>v. ca ''IsMFA'' = Some v \<longrightarrow> (\<exists>b. v = G_Bool b)) \<and> (\<forall>v. ca ''Prompt'' = Some v \<longrightarrow> (\<exists>s. v = G_String s))
     \<and> (\<forall>v. ca ''FactorsInfo'' = Some v \<longrightarrow> (\<exists>vs. v = G_Array (T_Tuple [T_Int, T_Int, T_Int, T_Bool]) vs))
     \<and> (\<forall>v. ca ''Username'' = Some v \<longrightarrow> (\<exists>s. v = G_String s)) \<and> (\<forall>v. ca ''PINLen'' = Some v \<longrightarrow> (\<exists>i. v = G_Int i))
     \<and> (\<forall>v. ca ''PrgPath'' = Some v \<longrightarrow> (\<exists>s. v = G_String s))"
  by (auto simp: object_typed_def session_interface_info_def session_property_info_def type_string_simps split: option.splits)

lemma session_skeleton_typed:
  "object_typed session_interface_info (Skeleton sk) \<longleftrightarrow>
     (\<exists>b p f u n g. sk_properties sk = [GV_Boolean b, GV_String p, GV_Variant f, GV_String u, GV_Int n, GV_String g])"
proof -
  have g: "gtype_of v = GT_Boolean \<longleftrightarrow> (\<exists>b. v = GV_Boolean b)" "gtype_of v = GT_String \<longleftrightarrow> (\<exists>s. v = GV_String s)"
    "gtype_of v = GT_Variant \<longleftrightarrow> (\<exists>w. v = GV_Variant w)" "gtype_of v = GT_Int \<longleftrightarrow> (\<exists>i. v = GV_Int i)" for v
    by (cases v; simp)+
  show ?thesis
    by (auto simp: object_typed_def prop_types_def interfaces_differ session_gobject_properties_def map_eq_Cons_conv g)
qed

lemmas session_tables =
  session_get_iface_def session_proxy_iface_init_def session_skeleton_iface_init_def session_iface_empty_def
  session_class_def session_proxy_class_init_def session_skeleton_class_init_def session_override_properties_def
  g_object_get_def g_object_set_def through_def

lemmas session_getters =
  session_proxy_get_is_mfa_def session_proxy_get_prompt_def session_proxy_get_factors_info_def
  session_proxy_get_username_def session_proxy_get_pinlen_def session_proxy_get_prg_path_def
  session_skeleton_get_is_mfa_def session_skeleton_get_prompt_def session_skeleton_get_factors_info_def
  session_skeleton_get_username_def session_skeleton_get_pinlen_def session_skeleton_get_prg_path_def
  cached_def the_string_def the_int32_def the_boolean_def value_string_def value_int_def

lemma session_check_prop [simp]:
  "check_prop session_interface_info (Suc 0) = Inr (session_property_info ! 0)"
  "check_prop session_interface_info 2 = Inr (session_property_info ! 1)"
  "check_prop session_interface_info (Suc (Suc 0)) = Inr (session_property_info ! 1)"
  "check_prop session_interface_info 3 = Inr (session_property_info ! 2)"
  "check_prop session_interface_info (Suc (Suc (Suc 0))) = Inr (session_property_info ! 2)"
  "check_prop session_interface_info 4 = Inr (session_property_info ! 3)"
  "check_prop session_interface_info 5 = Inr (session_property_info ! 4)"
  "check_prop session_interface_info 6 = Inr (session_property_info ! 5)"
  by (simp_all add: check_prop_def session_interface_info_def session_property_info_def)

lemma session_dups:
  assumes "gio_contract G" and "object_typed session_interface_info obj"
  shows "session_get_prompt obj = session_dup_prompt G obj" "session_get_username obj = session_dup_username G obj"
    "session_get_prg_path obj = session_dup_prg_path G obj" "session_get_factors_info obj = session_dup_factors_info G obj"
proof -
  have "session_get_prompt obj = session_dup_prompt G obj \<and> session_get_username obj = session_dup_username G obj
    \<and> session_get_prg_path obj = session_dup_prg_path G obj \<and> session_get_factors_info obj = session_dup_factors_info G obj"
  proof (cases obj)
    case (Proxy ca)
    note ty = assms(2) [unfolded Proxy session_proxy_typed]
    have ps: "ca ''Prompt'' = None \<or> (\<exists>s. ca ''Prompt'' = Some (G_String s))"
        "ca ''Username'' = None \<or> (\<exists>s. ca ''Username'' = Some (G_String s))"
        "ca ''PrgPath'' = None \<or> (\<exists>s. ca ''PrgPath'' = Some (G_String s))"
        "ca ''FactorsInfo'' = None \<or> (\<exists>vs. ca ''FactorsInfo'' = Some (G_Array (T_Tuple [T_Int, T_Int, T_Int, T_Bool]) vs))"
      using ty by (metis not_None_eq)+
    have arr: "to_gvalue G (G_Array (T_Tuple ts) vs) = GV_Variant (Some (G_Array (T_Tuple ts) vs))" for ts vs
      using assms(1) by (simp add: gio_contract_def)
    note defs = Proxy session_tables session_getters session_proxy_get_property_def proxy_get_property_def
      session_property_info_def gio_contractD [OF assms(1)] arr
    have "session_get_prompt obj = session_dup_prompt G obj"
      using ps(1) by (elim disjE exE) (simp_all add: session_get_prompt_def session_dup_prompt_def defs)
    moreover have "session_get_username obj = session_dup_username G obj"
      using ps(2) by (elim disjE exE) (simp_all add: session_get_username_def session_dup_username_def defs)
    moreover have "session_get_prg_path obj = session_dup_prg_path G obj"
      using ps(3) by (elim disjE exE) (simp_all add: session_get_prg_path_def session_dup_prg_path_def defs)
    moreover have "session_get_factors_info obj = session_dup_factors_info G obj"
      using ps(4) by (elim disjE exE) (simp_all add: session_get_factors_info_def session_dup_factors_info_def defs)
    ultimately show ?thesis by blast
  next
    case (Skeleton sk)
    with assms(2) session_skeleton_typed obtain b p f u n g
      where sk: "sk_properties sk = [GV_Boolean b, GV_String p, GV_Variant f, GV_String u, GV_Int n, GV_String g]" by blast
    show ?thesis
      by (simp add: Skeleton sk session_get_prompt_def session_dup_prompt_def session_get_username_def session_dup_username_def
          session_get_prg_path_def session_dup_prg_path_def session_get_factors_info_def session_dup_factors_info_def
          session_tables session_getters session_skeleton_get_property_def skeleton_get_property_def)
  qed
  then show "session_get_prompt obj = session_dup_prompt G obj" "session_get_username obj = session_dup_username G obj"
    "session_get_prg_path obj = session_dup_prg_path G obj" "session_get_factors_info obj = session_dup_factors_info G obj" by blast+
qed

lemma session_gets:
  assumes "sk_properties sk = [GV_Boolean b, GV_String p, GV_Variant f, GV_String u, GV_Int n, GV_String g]"
  shows "session_get_is_mfa (Skeleton sk) = Inr b" "session_get_prompt (Skeleton sk) = Inr p"
    "session_get_factors_info (Skeleton sk) = Inr f" "session_get_username (Skeleton sk) = Inr u"
    "session_get_pinlen (Skeleton sk) = Inr n" "session_get_prg_path (Skeleton sk) = Inr g"
  by (simp_all add: assms session_get_is_mfa_def session_get_prompt_def session_get_factors_info_def
      session_get_username_def session_get_pinlen_def session_get_prg_path_def session_tables session_getters)

lemma session_proxy_gets:
  "session_get_is_mfa (Proxy ca) = session_proxy_get_is_mfa ca" "session_get_pinlen (Proxy ca) = session_proxy_get_pinlen ca"
  "session_get_prompt (Proxy ca) = session_proxy_get_prompt ca"
  "session_get_factors_info (Proxy ca) = Inr (session_proxy_get_factors_info ca)"
  "session_get_username (Proxy ca) = session_proxy_get_username ca" "session_get_prg_path (Proxy ca) = session_proxy_get_prg_path ca"
  by (simp_all add: session_get_is_mfa_def session_get_pinlen_def session_get_prompt_def session_get_factors_info_def
      session_get_username_def session_get_prg_path_def session_tables)

text \<open>Setting through the class table.\<close>

lemma skeleton_set_through_table:
  assumes "map_of (session_override_properties 1) name = Some i"
  shows "g_object_set (session_class (Skeleton sk)) G name val (Skeleton sk)
    = cbind (session_skeleton_set_property i val sk) (\<lambda>sk. Inr (Skeleton sk, []))"
  using assms
  by (cases "skeleton_store_property session_interface_info i val sk")
    (auto simp: g_object_set_def session_class_def session_skeleton_class_init_def session_skeleton_set_property_def
      skeleton_set_property_def session_skeleton_notify_def)

lemma proxy_set_through_table:
  assumes "map_of (session_override_properties 1) name = Some i"
  shows "g_object_set (session_class (Proxy ca)) G name val (Proxy ca)
    = cbind (session_proxy_set_property G i val) (\<lambda>c. Inr (Proxy ca, [c]))"
  using assms
  by (cases "session_proxy_set_property G i val")
    (auto simp: g_object_set_def session_class_def session_proxy_class_init_def)

lemma session_override_table:
  "map_of (session_override_properties 1) ''is-mfa'' = Some 1" "map_of (session_override_properties 1) ''prompt'' = Some 2"
  "map_of (session_override_properties 1) ''factors-info'' = Some 3" "map_of (session_override_properties 1) ''username'' = Some 4"
  "map_of (session_override_properties 1) ''pinlen'' = Some 5" "map_of (session_override_properties 1) ''prg-path'' = Some 6"
  by (simp_all add: session_override_properties_def)

lemma store_keeps:
  assumes "map gtype_of (sk_properties sk) = prop_types session_interface_info" and "i < 6"
    and "gtype_of val = prop_types session_interface_info ! i"
  obtains sk' where "session_skeleton_set_property (Suc i) val sk = Inr sk'"
    "sk_properties sk' = (sk_properties sk)[i := val]" "sk_out sk' = sk_out sk" "sk_connections sk' = sk_connections sk"
proof -
  have i: "i < length (gi_properties session_interface_info)"
    using assms(2) by (simp add: session_interface_info_def session_property_info_def)
  note st = session_table.store_property_eq [OF assms(1) i assms(3)]
  have "\<exists>sk'. session_skeleton_set_property (Suc i) val sk = Inr sk' \<and> sk_properties sk' = (sk_properties sk)[i := val]
      \<and> sk_out sk' = sk_out sk \<and> sk_connections sk' = sk_connections sk"
    by (auto simp: session_skeleton_set_property_def skeleton_set_property_def st skeleton_notify_def schedule_emit_changed_def
        split: option.splits)
  with that show ?thesis by blast
qed



end
