(* ===== verification/Gdbus_Life.thy ===== *)
theory Gdbus_Life
  imports Gdbus_Class "HOL-Library.Multiset"
begin

text \<open>
  The life of a skeleton: its reference count, the idle sources that hold references to it, and its release.
  A transition system of threads that own references, set properties and flush, and of a main loop that
  dispatches the sources, with the lock released where the code releases it. A source is known by a number,
  so that a source replaced while it is being dispatched is told from the one that replaced it.
\<close>

subsection \<open>What an object acquires and releases\<close>

datatype resource =
    R_Lock | R_Context | R_Array
  | R_Value nat          \<comment> \<open>a value of the array\<close>
  | R_Changed nat        \<comment> \<open>an entry of the list of changes\<close>
  | R_Source nat

record object_life =
  lf_sk :: skeleton
  lf_refs :: nat               \<comment> \<open>GObject's count\<close>
  lf_users :: nat              \<comment> \<open>the references threads own\<close>
  lf_storing :: nat            \<comment> \<open>threads between a store and its notification\<close>
  lf_flushing :: nat           \<comment> \<open>threads between the two parts of a flush\<close>
  lf_idle :: "nat option"      \<comment> \<open>\<open>changed_properties_idle_source\<close>\<close>
  lf_attached :: "nat set"     \<comment> \<open>sources attached to the context\<close>
  lf_running :: "nat set"      \<comment> \<open>sources dispatched, their callback not yet run\<close>
  lf_ending :: "nat set"       \<comment> \<open>sources whose callback has run\<close>
  lf_next :: nat
  lf_released :: "resource list"
  lf_gone :: bool              \<comment> \<open>the object was finalized\<close>

definition skeleton_acquired :: "gdbus_interface \<Rightarrow> resource list" where
  \<comment> \<open>what the instance's initialisation sets up\<close>
  "skeleton_acquired I = [R_Lock, R_Context, R_Array] @ map R_Value [0..<length (gi_properties I)]"

definition skeleton_finalize :: "gdbus_interface \<Rightarrow> object_life \<Rightarrow> object_life" where
  "skeleton_finalize I l = l
     \<lparr>lf_refs := 0, lf_gone := True,
      lf_released := lf_released l @ map R_Value [0..<length (gi_properties I)] @ [R_Array]
        @ map (\<lambda>cp. R_Changed (cp_prop_id cp)) (sk_changed (lf_sk l))
        @ (case lf_idle l of None \<Rightarrow> [] | Some s \<Rightarrow> [R_Source s]) @ [R_Context, R_Lock]\<rparr>"

definition session_skeleton_finalize :: "object_life \<Rightarrow> object_life" where
  "session_skeleton_finalize = skeleton_finalize session_interface_info"

definition manager_proxy_finalize :: "string list \<Rightarrow> string list" where
  \<comment> \<open>the keys left in \<open>qdata\<close>\<close>
  "manager_proxy_finalize qdata = []"

definition session_proxy_finalize :: "string list \<Rightarrow> string list" where
  "session_proxy_finalize qdata = []"

definition g_object_unref :: "gdbus_interface \<Rightarrow> object_life \<Rightarrow> object_life" where
  "g_object_unref I l = (if lf_refs l \<le> 1 then skeleton_finalize I l else l\<lparr>lf_refs := lf_refs l - 1\<rparr>)"

definition holders :: "object_life \<Rightarrow> nat set" where
  \<comment> \<open>sources whose callback data are not released: a destroyed source keeps them while it is dispatched\<close>
  "holders l = lf_attached l \<union> lf_running l \<union> lf_ending l"

subsection \<open>The operations with their references\<close>

definition life_notify :: "object_life \<Rightarrow> object_life" where
  \<comment> \<open>the idle source made by \<open>notify\<close> owns a reference\<close>
  "life_notify l =
     (let sk = skeleton_notify (lf_sk l) in
      if sk_idle sk \<and> \<not> sk_idle (lf_sk l)
      then l\<lparr>lf_sk := sk, lf_storing := lf_storing l - 1, lf_idle := Some (lf_next l),
             lf_attached := insert (lf_next l) (lf_attached l), lf_next := Suc (lf_next l), lf_refs := Suc (lf_refs l)\<rparr>
      else l\<lparr>lf_sk := sk, lf_storing := lf_storing l - 1\<rparr>)"

definition life_take :: "gdbus_interface \<Rightarrow> object_life \<Rightarrow> object_life" where
  \<comment> \<open>the first part of \<open>flush\<close>: destroying a source drops its reference, under the object's own lock\<close>
  "life_take I l =
     (case lf_idle l of
        None \<Rightarrow> l
      | Some s \<Rightarrow>
          let l' = l\<lparr>lf_sk := snd (skeleton_take_idle (lf_sk l)), lf_idle := None, lf_attached := lf_attached l - {s},
                    lf_flushing := Suc (lf_flushing l)\<rparr>
          in if s \<in> holders l' then l' else g_object_unref I l')"

inductive life :: "gio \<Rightarrow> gdbus_interface \<Rightarrow> object_life \<Rightarrow> bool" for G I where
  life_new: "map gtype_of (sk_properties sk) = prop_types I \<Longrightarrow> sk_changed sk = [] \<Longrightarrow> \<not> sk_idle sk \<Longrightarrow>
    life G I \<lparr>lf_sk = sk, lf_refs = 1, lf_users = 1, lf_storing = 0, lf_flushing = 0, lf_idle = None, lf_attached = {},
      lf_running = {}, lf_ending = {}, lf_next = 0, lf_released = [], lf_gone = False\<rparr>"
| life_ref: "life G I l \<Longrightarrow> 0 < lf_users l \<Longrightarrow> life G I (l\<lparr>lf_refs := Suc (lf_refs l), lf_users := Suc (lf_users l)\<rparr>)"
| life_export: "life G I l \<Longrightarrow> 0 < lf_users l \<Longrightarrow> life G I (l\<lparr>lf_sk := (lf_sk l)\<lparr>sk_connections := cs\<rparr>\<rparr>)"
| life_unref: "life G I l \<Longrightarrow> lf_storing l + lf_flushing l < lf_users l \<Longrightarrow>
    life G I (g_object_unref I (l\<lparr>lf_users := lf_users l - 1\<rparr>))"
| life_store: "life G I l \<Longrightarrow> lf_storing l + lf_flushing l < lf_users l \<Longrightarrow> i < length (gi_properties I) \<Longrightarrow>
    gtype_of val = prop_types I ! i \<Longrightarrow> skeleton_store_property I (Suc i) val (lf_sk l) = Inr (changed, sk') \<Longrightarrow>
    life G I (l\<lparr>lf_sk := sk', lf_storing := lf_storing l + of_bool changed\<rparr>)"
| life_notified: "life G I l \<Longrightarrow> 0 < lf_storing l \<Longrightarrow> life G I (life_notify l)"
| life_taken: "life G I l \<Longrightarrow> lf_storing l + lf_flushing l < lf_users l \<Longrightarrow> life G I (life_take I l)"
| life_flushed: "life G I l \<Longrightarrow> 0 < lf_flushing l \<Longrightarrow> emit_changed G I (lf_sk l) = Inr sk' \<Longrightarrow>
    life G I (l\<lparr>lf_sk := sk', lf_idle := None, lf_flushing := lf_flushing l - 1\<rparr>)"
| life_dispatch: "life G I l \<Longrightarrow> s \<in> lf_attached l \<Longrightarrow> s \<notin> lf_running l \<union> lf_ending l \<Longrightarrow>
    life G I (l\<lparr>lf_running := insert s (lf_running l)\<rparr>)"
| life_announce: "life G I l \<Longrightarrow> s \<in> lf_running l \<Longrightarrow> emit_changed G I (lf_sk l) = Inr sk' \<Longrightarrow>
    life G I (l\<lparr>lf_sk := sk', lf_idle := None, lf_running := lf_running l - {s}, lf_ending := insert s (lf_ending l)\<rparr>)"
| life_finish: "life G I l \<Longrightarrow> s \<in> lf_ending l \<Longrightarrow>
    life G I (g_object_unref I (l\<lparr>lf_ending := lf_ending l - {s}, lf_attached := lf_attached l - {s}\<rparr>))"

subsection \<open>The invariant\<close>

definition sk_ok :: "gdbus_interface \<Rightarrow> skeleton \<Rightarrow> bool" where
  "sk_ok I sk \<longleftrightarrow> map gtype_of (sk_properties sk) = prop_types I \<and> list_all (pending_ok I) (sk_changed sk)"

definition due :: "object_life \<Rightarrow> bool" where
  \<comment> \<open>someone will still announce\<close>
  "due l \<longleftrightarrow> 0 < lf_storing l \<or> 0 < lf_flushing l \<or> lf_running l \<noteq> {} \<or> lf_idle l \<noteq> None"

definition refs_ok :: "gdbus_interface \<Rightarrow> object_life \<Rightarrow> bool" where
  "refs_ok I l \<longleftrightarrow>
     (if lf_gone l
      then lf_refs l = 0 \<and> lf_users l = 0 \<and> holders l = {} \<and> mset (lf_released l) = mset (skeleton_acquired I)
      else lf_refs l = lf_users l + card (holders l) \<and> 0 < lf_refs l \<and> lf_released l = [])"

definition life_inv :: "gdbus_interface \<Rightarrow> object_life \<Rightarrow> bool" where
  "life_inv I l \<longleftrightarrow>
     sk_ok I (lf_sk l) \<and> (sk_idle (lf_sk l) \<longleftrightarrow> lf_idle l \<noteq> None)
     \<and> (\<forall>s. lf_idle l = Some s \<longrightarrow> s \<in> lf_attached l \<and> s \<notin> lf_ending l)
     \<and> (\<forall>s\<in>holders l. s < lf_next l) \<and> lf_running l \<inter> lf_ending l = {}
     \<and> lf_storing l + lf_flushing l \<le> lf_users l
     \<and> (sk_changed (lf_sk l) \<noteq> [] \<longrightarrow> due l) \<and> refs_ok I l"

lemma holders_finite: "\<forall>s\<in>holders l. s < lf_next l \<Longrightarrow> finite (holders l)"
  by (rule finite_subset [of _ "{..<lf_next l}"]) auto

lemma life_invD:
  assumes "life_inv I l"
  shows "sk_ok I (lf_sk l)" "sk_idle (lf_sk l) \<longleftrightarrow> lf_idle l \<noteq> None"
    "lf_idle l = Some s \<Longrightarrow> s \<in> lf_attached l" "lf_idle l = Some s \<Longrightarrow> s \<notin> lf_ending l"
    "t \<in> holders l \<Longrightarrow> t < lf_next l" "lf_running l \<inter> lf_ending l = {}" "lf_storing l + lf_flushing l \<le> lf_users l"
    "sk_changed (lf_sk l) \<noteq> [] \<Longrightarrow> due l" "refs_ok I l" "finite (holders l)"
  using assms holders_finite by (auto simp: life_inv_def)

lemma alive:
  assumes "life_inv I l" and "0 < lf_users l \<or> holders l \<noteq> {}"
  shows "\<not> lf_gone l" "lf_refs l = lf_users l + card (holders l)" "0 < lf_refs l" "lf_released l = []"
  using life_invD(9) [OF assms(1)] assms(2) by (auto simp: refs_ok_def split: if_splits)

text \<open>Giving up a reference.\<close>

lemma unref_ok:
  assumes "\<not> lf_gone l" and "lf_released l = []" and "lf_refs l = Suc (lf_users l + card (holders l))" and "finite (holders l)"
    and "lf_users l = 0 \<Longrightarrow> holders l = {} \<Longrightarrow> sk_changed (lf_sk l) = [] \<and> lf_idle l = None"
  shows "refs_ok I (g_object_unref I l)"
proof (cases "lf_users l = 0 \<and> holders l = {}")
  case True
  with assms show ?thesis
    by (simp add: g_object_unref_def refs_ok_def skeleton_finalize_def skeleton_acquired_def holders_def)
next
  case False
  with assms(3,4) have "1 < lf_refs l" by (auto simp: card_gt_0_iff)
  with assms show ?thesis by (auto simp: g_object_unref_def refs_ok_def holders_def)
qed

lemma unref_fields [simp]:
  "lf_sk (g_object_unref I l) = lf_sk l" "lf_users (g_object_unref I l) = lf_users l"
  "lf_storing (g_object_unref I l) = lf_storing l" "lf_flushing (g_object_unref I l) = lf_flushing l"
  "lf_idle (g_object_unref I l) = lf_idle l" "lf_attached (g_object_unref I l) = lf_attached l"
  "lf_running (g_object_unref I l) = lf_running l" "lf_ending (g_object_unref I l) = lf_ending l"
  "lf_next (g_object_unref I l) = lf_next l" "holders (g_object_unref I l) = holders l"
  by (simp_all add: g_object_unref_def skeleton_finalize_def holders_def)

lemma holders_upd [simp]:
  "holders (l\<lparr>lf_users := u\<rparr>) = holders l" "holders (l\<lparr>lf_refs := u\<rparr>) = holders l" "holders (l\<lparr>lf_sk := sk\<rparr>) = holders l"
  "holders (l\<lparr>lf_storing := u\<rparr>) = holders l" "holders (l\<lparr>lf_flushing := u\<rparr>) = holders l" "holders (l\<lparr>lf_idle := i\<rparr>) = holders l"
  "holders (l\<lparr>lf_next := u\<rparr>) = holders l"
  by (simp_all add: holders_def)

lemma due_unref [simp]: "due (g_object_unref I l) = due l"
  by (simp add: due_def)

text \<open>The data.\<close>

context property_table
begin

lemma store_ok:
  assumes "sk_ok I sk" and "i < length (gi_properties I)" and "gtype_of val = prop_types I ! i"
    and "skeleton_store_property I (Suc i) val sk = Inr (changed, sk')"
  shows "sk_ok I sk'" "sk_idle sk' = sk_idle sk" "changed \<or> sk' = sk"
proof -
  have T: "map gtype_of (sk_properties sk) = prop_types I" and P: "list_all (pending_ok I) (sk_changed sk)"
    using assms(1) by (simp_all add: sk_ok_def)
  note eq = assms(4) [unfolded store_property_eq [OF T assms(2,3)]]
  have T': "map gtype_of ((sk_properties sk)[i := val]) = prop_types I"
    using T assms(3) props_typed [OF T assms(2)] by (simp add: map_update list_update_same_conv)
  have "pending_ok I \<lparr>cp_info = gi_properties I ! i, cp_prop_id = Suc i, cp_orig_value = sk_properties sk ! i\<rparr>"
    using assms(2) props_typed [OF T assms(2)] by (auto simp: pending_ok_def)
  with eq T' P assms(1) show "sk_ok I sk'" "sk_idle sk' = sk_idle sk" "changed \<or> sk' = sk"
    by (auto simp: sk_ok_def schedule_emit_changed_def split: if_splits option.splits)
qed

lemma emit_ok:
  assumes "sk_ok I sk"
  shows "defined (emit_changed G I sk)"
    and "emit_changed G I sk = Inr sk' \<Longrightarrow> sk_ok I sk' \<and> sk_changed sk' = [] \<and> \<not> sk_idle sk'"
  using assms changed_entries_eq [of "sk_properties sk" "sk_changed sk" G]
  by (auto simp: emit_changed_def sk_ok_def emit_to_all_def Let_def)

lemma inv_user:
  \<comment> \<open>a step of a thread that changes neither the sources nor the counts\<close>
  assumes "life_inv I l" and "sk_ok I sk'" "sk_idle sk' = sk_idle (lf_sk l)"
    and "sk_changed sk' \<noteq> [] \<Longrightarrow> due l \<or> lf_storing l < k" and "k + lf_flushing l \<le> lf_users l" "lf_storing l \<le> k"
  shows "life_inv I (l\<lparr>lf_sk := sk', lf_storing := k\<rparr>)"
  using assms by (auto simp: life_inv_def due_def refs_ok_def holders_def)

lemma inv_ref:
  assumes "life_inv I l" and "0 < lf_users l"
  shows "life_inv I (l\<lparr>lf_refs := Suc (lf_refs l), lf_users := Suc (lf_users l)\<rparr>)"
  using assms by (auto simp: life_inv_def due_def refs_ok_def holders_def)

lemma inv_unref:
  assumes "life_inv I l" and "lf_storing l + lf_flushing l < lf_users l"
  shows "life_inv I (g_object_unref I (l\<lparr>lf_users := lf_users l - 1\<rparr>))"
proof -
  let ?l = "l\<lparr>lf_users := lf_users l - 1\<rparr>"
  note D = life_invD [OF assms(1)] and A = alive [OF assms(1)]
  have "refs_ok I (g_object_unref I ?l)"
  proof (rule unref_ok)
    show "sk_changed (lf_sk ?l) = [] \<and> lf_idle ?l = None" if "lf_users ?l = 0" "holders ?l = {}"
    proof -
      have "lf_idle l = None" using D(3) that(2) by (cases "lf_idle l") (auto simp: holders_def)
      moreover have "\<not> due l" using assms(2) that calculation by (simp add: due_def holders_def)
      ultimately show ?thesis using D(8) by auto
    qed
  qed (use A assms(2) D(10) in auto)
  moreover have "due ?l = due l" by (simp add: due_def)
  ultimately show ?thesis using D assms(2) unfolding life_inv_def by auto
qed

lemma inv_notify:
  assumes "life_inv I l" and "0 < lf_storing l"
  shows "life_inv I (life_notify l)"
proof -
  note D = life_invD [OF assms(1)]
  have u: "0 < lf_users l" using assms(2) D(7) by simp
  note A = alive [OF assms(1) disjI1 [OF u]]
  show ?thesis
  proof (cases "sk_changed (lf_sk l) \<noteq> [] \<and> \<not> sk_idle (lf_sk l)")
    case True
    let ?l = "l\<lparr>lf_sk := (lf_sk l)\<lparr>sk_idle := True\<rparr>, lf_storing := lf_storing l - 1, lf_idle := Some (lf_next l),
      lf_attached := insert (lf_next l) (lf_attached l), lf_next := Suc (lf_next l), lf_refs := Suc (lf_refs l)\<rparr>"
    have eq: "life_notify l = ?l" using True by (simp add: life_notify_def skeleton_notify_def)
    have n: "lf_next l \<notin> holders l" using D(5) by blast
    have h: "holders ?l = insert (lf_next l) (holders l)" by (auto simp: holders_def)
    have "card (holders ?l) = Suc (card (holders l))" unfolding h using D(10) n by simp
    then have "refs_ok I ?l" unfolding refs_ok_def using A by simp
    moreover have "\<forall>s\<in>holders ?l. s < Suc (lf_next l)" unfolding h using D(5) by (auto simp: less_Suc_eq)
    moreover have "lf_next l \<notin> lf_ending l" using n by (simp add: holders_def)
    moreover have "sk_ok I ((lf_sk l)\<lparr>sk_idle := True\<rparr>)" using D(1) by (simp add: sk_ok_def)
    ultimately show ?thesis using D(6,7) unfolding life_inv_def eq by (simp add: due_def)
  next
    case False
    let ?l = "l\<lparr>lf_storing := lf_storing l - 1\<rparr>"
    have "skeleton_notify (lf_sk l) = lf_sk l" using False by (auto simp: skeleton_notify_def)
    then have eq: "life_notify l = ?l" by (simp add: life_notify_def)
    have "sk_changed (lf_sk l) \<noteq> [] \<Longrightarrow> due ?l" using False D(2) by (simp add: due_def)
    moreover have "refs_ok I ?l" using A by (simp add: refs_ok_def)
    ultimately show ?thesis using D(1-7) unfolding life_inv_def eq by simp
  qed
qed

lemma inv_take:
  assumes "life_inv I l" and "lf_storing l + lf_flushing l < lf_users l"
  shows "life_inv I (life_take I l)" "\<not> lf_gone (life_take I l)"
proof -
  note D = life_invD [OF assms(1)] and A = alive [OF assms(1)]
  have "life_inv I (life_take I l) \<and> \<not> lf_gone (life_take I l)"
  proof (cases "lf_idle l")
    case None
    with assms(1) A assms(2) show ?thesis by (simp add: life_take_def)
  next
    case (Some s)
    let ?l = "l\<lparr>lf_sk := snd (skeleton_take_idle (lf_sk l)), lf_idle := None, lf_attached := lf_attached l - {s},
                    lf_flushing := Suc (lf_flushing l)\<rparr>"
    have s: "s \<in> lf_attached l" "s \<notin> lf_ending l" using D(3,4) Some by auto
    have u: "0 < lf_users l" using assms(2) by simp
    have ok: "sk_ok I (lf_sk ?l)" using D(1) by (simp add: skeleton_take_idle_def sk_ok_def)
    show ?thesis
    proof (cases "s \<in> holders ?l")
      case True
      with s have "holders ?l = holders l" by (auto simp: holders_def)
      with Some True ok D A u assms(2) show ?thesis
        by (auto simp: life_take_def life_inv_def due_def refs_ok_def skeleton_take_idle_def)
    next
      case False
      have h: "holders ?l = holders l - {s}" using False by (auto simp: holders_def)
      moreover have "s \<in> holders l" using s by (simp add: holders_def)
      ultimately have c: "card (holders l) = Suc (card (holders ?l))" unfolding h by (intro card.remove [OF D(10)])
      have "life_take I l = g_object_unref I ?l" using Some False by (simp add: life_take_def)
      moreover have "refs_ok I (g_object_unref I ?l)" by (rule unref_ok) (use A u c D(10) h in auto)
      moreover have "\<not> lf_gone (g_object_unref I ?l)" using A u c by (simp add: g_object_unref_def)
      moreover have "due ?l" by (simp add: due_def)
      ultimately show ?thesis using ok D assms(2) h unfolding life_inv_def by (auto simp: skeleton_take_idle_def)
    qed
  qed
  then show "life_inv I (life_take I l)" "\<not> lf_gone (life_take I l)" by blast+
qed

lemma inv_finish:
  assumes "life_inv I l" and "s \<in> lf_ending l"
  shows "life_inv I (g_object_unref I (l\<lparr>lf_ending := lf_ending l - {s}, lf_attached := lf_attached l - {s}\<rparr>))"
proof -
  let ?l = "l\<lparr>lf_ending := lf_ending l - {s}, lf_attached := lf_attached l - {s}\<rparr>"
  note D = life_invD [OF assms(1)]
  have s: "s \<in> holders l" "s \<notin> lf_running l" using assms(2) D(6) by (auto simp: holders_def)
  have ne: "holders l \<noteq> {}" using s(1) by auto
  note A = alive [OF assms(1) disjI2 [OF ne]]
  have h: "holders ?l = holders l - {s}" using s(2) by (auto simp: holders_def)
  have c: "card (holders l) = Suc (card (holders ?l))" unfolding h by (rule card.remove [OF D(10) s(1)])
  have idle: "lf_idle l = Some t \<Longrightarrow> t \<noteq> s" for t using D(4) assms(2) by auto
  have "refs_ok I (g_object_unref I ?l)"
  proof (rule unref_ok)
    show "sk_changed (lf_sk ?l) = [] \<and> lf_idle ?l = None" if "lf_users ?l = 0" "holders ?l = {}"
    proof -
      have "lf_idle l = None" using D(3) idle that(2) by (cases "lf_idle l") (auto simp: h holders_def)
      moreover have "lf_running l = {}" using that(2) s(2) by (auto simp: h holders_def)
      ultimately have "\<not> due l" using that(1) D(7) by (simp add: due_def)
      with D(8) \<open>lf_idle l = None\<close> show ?thesis by auto
    qed
  qed (use A c D(10) h in simp_all)
  moreover have "due ?l = due l" by (simp add: due_def)
  ultimately show ?thesis using D idle h unfolding life_inv_def by auto
qed

lemma life_invariant: "life G I l \<Longrightarrow> life_inv I l"
proof (induction rule: life.induct)
  case (life_new sk)
  then show ?case by (simp add: life_inv_def sk_ok_def due_def refs_ok_def holders_def)
next
  case (life_ref l)
  show ?case by (rule inv_ref [OF life_ref.IH life_ref.hyps(2)])
next
  case (life_export l cs)
  then show ?case by (auto simp: life_inv_def sk_ok_def due_def refs_ok_def holders_def)
next
  case (life_unref l)
  show ?case by (rule inv_unref [OF life_unref.IH life_unref.hyps(2)])
next
  case (life_store l i val changed sk')
  note st = store_ok [OF life_invD(1) [OF life_store.IH] life_store.hyps(3-5)]
  show ?case
    by (rule inv_user [OF life_store.IH st(1,2)]) (use st(3) life_invD(8) [OF life_store.IH] life_store.hyps(2) in \<open>cases changed; auto\<close>)+
next
  case (life_notified l)
  show ?case by (rule inv_notify [OF life_notified.IH life_notified.hyps(2)])
next
  case (life_taken l)
  show ?case by (rule inv_take(1) [OF life_taken.IH life_taken.hyps(2)])
next
  case (life_flushed l sk')
  from emit_ok(2) [OF life_invD(1) [OF life_flushed.IH] life_flushed.hyps(3)] life_flushed show ?case
    by (auto simp: life_inv_def due_def refs_ok_def holders_def)
next
  case (life_dispatch l s)
  then have "holders (l\<lparr>lf_running := insert s (lf_running l)\<rparr>) = holders l" by (auto simp: holders_def)
  with life_dispatch show ?case by (auto simp: life_inv_def due_def refs_ok_def)
next
  case (life_announce l s sk')
  then have "holders (l\<lparr>lf_sk := sk', lf_idle := None, lf_running := lf_running l - {s}, lf_ending := insert s (lf_ending l)\<rparr>) = holders l"
    by (auto simp: holders_def)
  with emit_ok(2) [OF life_invD(1) [OF life_announce.IH] life_announce.hyps(3)] life_announce show ?case
    by (auto simp: life_inv_def due_def refs_ok_def)
next
  case (life_finish l s)
  show ?case by (rule inv_finish [OF life_finish.IH life_finish.hyps(2)])
qed

end

text \<open>
  C10: the life of a skeleton. For either interface, however threads that own references set properties,
  flush, export and give their references up, and however the main loop runs the idle sources in between: the
  object lives exactly as long as a thread or an idle source refers to it, and its count is the number of
  these; \<open>changed_properties_idle_source\<close> never points to a source that is gone; a flush, which drops a
  source's reference under the object's own lock, never drops the last one; a pending change is always
  going to be announced, and the announcement is defined. When the object is finalized nothing is pending, no
  source is left, and everything its initialisation acquired is released exactly once.
\<close>
theorem skeleton_lifecycle:
  assumes "life G I l" and "I = manager_interface_info \<or> I = session_interface_info"
  shows "if lf_gone l
    then lf_users l = 0 \<and> holders l = {} \<and> lf_idle l = None \<and> sk_changed (lf_sk l) = []
      \<and> mset (lf_released l) = mset (skeleton_acquired I)
    else lf_refs l = lf_users l + card (holders l) \<and> 0 < lf_refs l \<and> lf_released l = []
      \<and> (\<forall>s. lf_idle l = Some s \<longrightarrow> s \<in> lf_attached l)
      \<and> (lf_storing l + lf_flushing l < lf_users l \<longrightarrow> \<not> lf_gone (life_take I l))
      \<and> (sk_changed (lf_sk l) \<noteq> [] \<longrightarrow> due l) \<and> defined (emit_changed G I (lf_sk l))"
proof -
  have T: "property_table I" using assms(2) manager_table.property_table_axioms session_table.property_table_axioms by blast
  have inv: "life_inv I l" by (rule property_table.life_invariant [OF T assms(1)])
  note D = life_invD [OF inv]
  show ?thesis
  proof (cases "lf_gone l")
    case True
    with D(9) have r: "lf_users l = 0" "holders l = {}" "mset (lf_released l) = mset (skeleton_acquired I)"
      by (simp_all add: refs_ok_def)
    then have "lf_idle l = None" using D(3) by (cases "lf_idle l") (auto simp: holders_def)
    moreover have "\<not> due l" using r D(7) calculation by (simp add: due_def holders_def)
    ultimately show ?thesis using True r D(8) by auto
  next
    case False
    have "lf_refs l = lf_users l + card (holders l)" "0 < lf_refs l" "lf_released l = []"
      using D(9) unfolding refs_ok_def if_not_P [OF False] by blast+
    with D(3,8) property_table.inv_take(2) [OF T inv] property_table.emit_ok(1) [OF T D(1)] show ?thesis
      unfolding if_not_P [OF False] by blast
  qed
qed

text \<open>A run: a property is set, its owner gives the object up, and the idle source releases it.\<close>

definition new_life :: "skeleton \<Rightarrow> object_life" where
  "new_life sk =
     \<lparr>lf_sk = sk, lf_refs = 1, lf_users = 1, lf_storing = 0, lf_flushing = 0, lf_idle = None, lf_attached = {},
      lf_running = {}, lf_ending = {}, lf_next = 0, lf_released = [], lf_gone = False\<rparr>"

lemma sample_life:
  "\<exists>l. life sample_gio manager_interface_info l \<and> lf_gone l \<and> length (sk_out (lf_sk l)) = 1"
proof -
  let ?I = manager_interface_info and ?G = sample_gio
  have 1: "life ?G ?I (new_life exported_manager)"
    unfolding new_life_def
    by (rule life_new) (simp_all add: exported_manager_def manager_skeleton_init_def prop_types_def manager_gobject_properties_def)
  have "2 < length (gi_properties ?I)" "gtype_of (GV_Int 3) = prop_types ?I ! 2"
    by (simp_all add: manager_interface_info_def manager_property_info_def prop_types_def manager_gobject_properties_def)
  from life_store [OF 1 _ this, of True flagged_manager] flagged_manager_store
  have 2: "life ?G ?I ((new_life exported_manager)\<lparr>lf_sk := flagged_manager, lf_storing := 1\<rparr>)" by (simp add: new_life_def)
  let ?n = "(new_life (flagged_manager\<lparr>sk_idle := True\<rparr>))\<lparr>lf_refs := 2, lf_idle := Some 0, lf_attached := {0}, lf_next := 1\<rparr>"
  have 3: "life ?G ?I ?n"
    using life_notified [OF 2]
    by (simp add: new_life_def life_notify_def skeleton_notify_def flagged_manager_def exported_manager_def
        manager_skeleton_init_def numeral_2_eq_2)
  let ?u = "?n\<lparr>lf_refs := 1, lf_users := 0\<rparr>"
  have 4: "life ?G ?I ?u" using life_unref [OF 3] by (simp add: new_life_def g_object_unref_def)
  have 5: "life ?G ?I (?u\<lparr>lf_running := {0}\<rparr>)" using life_dispatch [OF 4, of 0] by (simp add: new_life_def)
  obtain sk' where e: "emit_changed ?G ?I (flagged_manager\<lparr>sk_idle := True\<rparr>) = Inr sk'" "length (sk_out sk') = 1"
    by (auto simp: emit_changed_def flagged_manager_def exported_manager_def manager_skeleton_init_def emit_to_all_def
        g_value_equal_def Let_def)
  have 6: "life ?G ?I (?u\<lparr>lf_sk := sk', lf_idle := None, lf_running := {}, lf_ending := {0}\<rparr>)"
    using life_announce [OF 5, of 0 sk'] e(1) by (simp add: new_life_def)
  let ?f = "?u\<lparr>lf_sk := sk', lf_idle := None, lf_attached := {}, lf_running := {}, lf_ending := {}\<rparr>"
  have "life ?G ?I (g_object_unref ?I ?f)" using life_finish [OF 6, of 0] by (simp add: new_life_def)
  moreover have "lf_gone (g_object_unref ?I ?f)" by (simp add: new_life_def g_object_unref_def skeleton_finalize_def)
  ultimately show ?thesis using e(2) by (intro exI [of _ "g_object_unref ?I ?f"]) simp
qed

theorem skeleton_lifecycle_witness:
  "\<exists>l. life sample_gio manager_interface_info l \<and> lf_gone l \<and> length (sk_out (lf_sk l)) = 1
    \<and> sk_changed (lf_sk l) = [] \<and> mset (lf_released l) = mset (skeleton_acquired manager_interface_info)"
proof -
  obtain l where l: "life sample_gio manager_interface_info l" "lf_gone l" "length (sk_out (lf_sk l)) = 1"
    using sample_life by blast
  with skeleton_lifecycle [OF l(1) disjI1 [OF refl]] show ?thesis by auto
qed

end
