(* ===== verification/Spec2Isabelle.thy ===== *)
theory Spec2Isabelle
  imports Pam_Races Pam_Progress Pam_Entry Pam_Handlers Pam_Calls Pam_Spec Pam_Interface Shm_Image Shm_Net Auth_Results Gdbus_Library Gdbus_Life
begin

text \<open>
  A model of the C code of lingmo-authenticate and the theorems that make it correct.

  \<^bold>\<open>The program.\<close> lingmo-authenticate identifies the users of a desktop. A D-Bus service written in Go
  does the work; two C programs use it. The PAM module (\<open>misc/pam-module\<close>) is what login, lock screen
  and authorization dialogs run: \<open>pam_sm_authenticate\<close> opens a session of the service, starts its
  factors, and waits in a loop for the session's Status signals, while a second thread asks the user
  for a token. The client library (\<open>lib/src\<close>) gives programs with a dialog of their own the same
  service: a proxy with a session and an exchange of keys (\<open>auth/auth.c\<close>), texts for failures and
  locks (\<open>auth/text.c\<close>), encryption (\<open>encrypt\<close>), and a notifier over shared memory with a layer for
  camera images (\<open>shm-comm\<close>). The module carries copies of several functions of the library.

  \<^bold>\<open>How C becomes HOL.\<close> Structs are records with the fields of the code, enumerations datatypes. A C
  function whose execution can leave the language (a write past an array, a null pointer read, a
  second release, a shift by the width) returns \<open>ub + 'a\<close> with \<open>Inl\<close> naming what went wrong; return
  codes stay integers, out parameters become components of the result. Fixed buffers are written by
  models of the C string routines that know the size of the buffer (Prelude). Integers are \<open>int\<close> with
  the range tested where an operation can overflow, 32-bit words where the code works on bits.
  What is not under \<open>src/\<close> is an argument: sd-bus, json-c, OpenSSL, PAM, gettext, GLib's values and
  dispatch, the kernel. What such a library answers may depend on the effects so far.

  \<^bold>\<open>The theories.\<close>
    \<^item> Prelude: undefined behaviour and its sequencing, C strings, numbers, formats.
    \<^item> C_Time: \<open>strptime\<close> and \<open>mktime\<close> for the format of the unlock times. Env_File: the lines of a
      locale file. Both serve the module and the library.
    \<^item> Crypto: \<open>encrypt/aes.c\<close>, \<open>encrypt/rsa.c\<close> and the module's copies (prefix \<open>pam_\<close>).
    \<^item> Pam_Base: the structs and constants of \<open>common.h\<close> and the parameters of the module.
    \<^item> Pam_Type, Pam_Limit, Pam_Factors, Pam_Utils: \<open>type.c\<close>, \<open>limit.c\<close>, \<open>utils.c\<close>. Pam_Dbus:
      \<open>dbus.c\<close>, one definition per call and callback.
    \<^item> Pam_Conv, Pam_Sfa, Pam_Mfa: the conversation and the two signal handlers, \<open>sfa.c\<close> and \<open>mfa.c\<close>.
      The locale \<open>signal_handler\<close> states what the loop relies on of a handler; both handlers are
      interpretations of it.
    \<^item> Pam_Thread, Pam_Session, Pam_Loop: \<open>pam.c\<close>. The part up to the loop is a function
      (\<open>pam_sm_authenticate_start\<close>, composed of the stages of the code); the loop, the token thread
      (\<open>run_request_pw\<close>, cut where the other thread's writes can fall) and the epilogue form the step
      relation \<open>pam_step\<close>, whose executable form \<open>pam_exec\<close> evaluates examples.
    \<^item> Pam_Safety: the invariant \<open>pam_inv\<close> of the reachable states. Pam_Spec: the promise of the module
      as an abstract machine. Pam_Races, Pam_Entry, Pam_Handlers, Pam_Calls: the module's properties.
      Pam_Progress: how many steps are left once a result is decided, and the codes that are returned.
      Pam_Interface: the messages the module writes by hand against the descriptions of the interfaces.
    \<^item> Auth_Base: the types of the library and its heap. An object the library allocates or holds a
      reference to is an address of \<open>lib\<close>; releasing or using one that is not live is an error value.
      Auth_Session, Auth_Calls: \<open>auth.c\<close>, every function with the C name. Auth_Text: \<open>text.c\<close>
      (functions the module also has carry the prefix \<open>lib_\<close>).
    \<^item> Auth_Ownership: \<open>owned\<close>, the invariant of a proxy, equivalent to its release being defined.
      Auth_Props, Auth_Results: the library's properties; the locale \<open>session_operation\<close> is the contract
      of a call on a session, with one interpretation for each of the fourteen calls.
    \<^item> Gdbus_Base, Gdbus_Tables, Gdbus_Client, Gdbus_Objects: the files
      \<open>com.deepin.daemon.Authenticate.c\<close> and \<open>...Session.c\<close>, which gdbus-codegen made: the descriptions of
      the interfaces, the stubs, the proxy and skeleton classes (prefix \<open>manager_\<close> for the first file,
      \<open>session_\<close> for the second; what both files share has neither and takes the interface as an
      argument). Gdbus_Props, Gdbus_Service: stubs against descriptions and skeletons. Gdbus_Cache: a
      service's properties and a client's cache, with the locale \<open>property_table\<close> for what an interface's
      properties satisfy. Gdbus_Library: the library over the generated code. Gdbus_Class: the objects
      behind the tables GObject finds their functions in (\<open>class_init\<close>, \<open>iface_init\<close>), the accessors that
      go through these tables, the constructors. Gdbus_Life: the references of a skeleton, the idle
      sources that hold one, and what \<open>finalize\<close> releases, as a transition system (\<open>life\<close>).
    \<^item> Shm, Shm_Props: \<open>shm_notifier.c\<close>. The locale \<open>frame_transport\<close> is what a client of the notifier
      may rely on. Shm_Image: \<open>shmn_image.c\<close>, whose round trip rests on that interface.
      Shm_Net: a writer with any number of readers as a transition system (\<open>net_step\<close>), bisimilar to
      a mailbox with one memory and a queue of lengths for each reader (\<open>mail_step\<close>).
    \<^item> Sample_Env: a concrete surrounding for examples, with a JSON type and a cipher.

  \<^bold>\<open>What the properties show.\<close>
    \<^item> Safety of the login (Pam_Safety, Pam_Spec, Pam_Handlers): success is returned only after the
      service confirmed the user, for every bus, user and interleaving; the module refines its promise;
      the tables keep their shape; one token thread; the epilogue always releases and returns.
    \<^item> Progress (Pam_Progress): a result once decided is returned after at most five steps of the main
      thread, which are always possible; every returned code is one of PAM's where the bus can be opened.
    \<^item> Functional behaviour of the module (Pam_Handlers, Pam_Factors, Pam_Calls, Pam_Entry, Pam_Limit):
      the walk of the factors by priority, the selection sort, limits, the outcomes of the handlers, the
      allow list, the announced waiting times.
    \<^item> Secrecy of the token (Crypto, Auth_Results): the padding round trip, the token leaves encrypted
      under the key the service was given.
    \<^item> Ownership in the library (Auth_Props): pointers live and distinct as long as opening succeeds,
      and the two ways to lose this.
    \<^item> The generated code (Gdbus_Service, Gdbus_Cache, Gdbus_Library): calls, results and signals arrive
      as they were sent and with the registered types; no change of a property is lost on its way to a
      client's cache, whatever the threads do; the two ways to read a property agree on either side; a
      skeleton lives while anyone holds a reference, is released once with all it acquired, and is not
      released with changes unannounced (Gdbus_Class, Gdbus_Life); the library over stubs, skeleton and a service tells its
      caller what the service decided.
    \<^item> The module speaks the interfaces of the service but for one call (Pam_Interface).
    \<^item> The notifier (Shm_Props, Shm_Image, Shm_Net): frames and images arrive as sent, and the whole is a
      mailbox whose lengths arrive in order while a late reader sees the bytes of a later frame; the
      lock, the length messages of readers and the release do not do what they mean to.
    \<^item> Both programs together (this theory): where the copies agree and where they differ.
    \<^item> Races and lost results (Pam_Races) and what goes wrong at the edges, each an exact statement of
      when the code behaves.

  \<^bold>\<open>Loops.\<close> Loops over lists and counters are structural or have a termination proof. Two loops may
  not end: reading an array from a D-Bus message (\<open>read_factors\<close>, which ends when the reader reports
  the end) and the wait for the channel lock (\<open>lock_spin\<close>); both are \<open>partial_function\<close>s, so not
  returning is the value \<open>None\<close>, and the theorems say when they return. The endless loops of the
  notifier's threads are one round each, run by the count of rounds a theorem names. The main loop of
  the module is the step relation, so its length is not bounded. No fuel is used.

  \<^bold>\<open>Not modelled.\<close> Logging; the release of D-Bus messages and error structs; stale reads between the
  threads beyond the order of their steps; in the generated code the registration of types and the
  casts of the headers, which are calls of GObject only (the main context an asynchronous
  construction runs in is GLib's: the two halves of such a call are a request and the reading of its
  result); \<open>setlocale\<close> and \<open>textdomain\<close>, which choose what
  gettext answers; the Go service with its tools, and the policies, translations and packaging, which
  hold no C.
\<close>

subsection \<open>The module and the library\<close>

definition same_limit :: "Limit \<Rightarrow> da_limit_info \<Rightarrow> bool" where
  \<comment> \<open>what both sides keep of one entry of the service's reply\<close>
  "same_limit l dl \<longleftrightarrow>
     li_locked dl = locked l \<and> li_max_tries dl = maxTries l \<and> li_fail_num dl = numFailures l
     \<and> li_unlock_time dl = Some (unlockTime l)"

text \<open>
  The functions the PAM module copied from the library do the same: encrypting a token, reading a
  public key, making a symmetric key, telling which types take typed input, and the minutes until an
  unlock at the same time. The names of the types differ in one place: the module knows iris, for
  which the library says unknown.
\<close>
theorem module_copies_agree:
  "pam_aes_cbc_encrypt S src key = aes_cbc_encrypt S src key
   \<and> pam_gen_rsa_pubkey S rsa pem = gen_rsa_pubkey S rsa pem
   \<and> gen_symmetric_key r = create_symmetric_key r
   \<and> is_input_type t = lib_is_input_type t
   \<and> type_to_tr tr t = (if t = flag_value AUTH_FLAG_IRIS then tr ''Iris'' else lib_type_to_tr tr t)
   \<and> lib_resolve_limit_time (D\<lparr>de_sys := sys, de_now := \<lambda>_. now sys h\<rparr>) st (dl\<lparr>li_unlock_time := Some (unlockTime l)\<rparr>)
       = Inr (resolve_limit_time sys h l)"
proof (intro conjI)
  show "pam_aes_cbc_encrypt S src key = aes_cbc_encrypt S src key"
    by (simp add: pam_aes_cbc_encrypt_def aes_cbc_encrypt_def Let_def)
  show "pam_gen_rsa_pubkey S rsa pem = gen_rsa_pubkey S rsa pem"
    by (simp add: pam_gen_rsa_pubkey_def gen_rsa_pubkey_def)
  show "gen_symmetric_key r = create_symmetric_key r" by (simp add: create_symmetric_key_eq)
  show "is_input_type t = lib_is_input_type t"
    by (simp add: is_input_type_def lib_is_input_type_def flag_value_def)
  show "type_to_tr tr t = (if t = flag_value AUTH_FLAG_IRIS then tr ''Iris'' else lib_type_to_tr tr t)"
    by (simp add: type_to_tr_def lib_type_to_tr_def flag_value_def)
  show "lib_resolve_limit_time (D\<lparr>de_sys := sys, de_now := \<lambda>_. now sys h\<rparr>) st (dl\<lparr>li_unlock_time := Some (unlockTime l)\<rparr>)
       = Inr (resolve_limit_time sys h l)"
    by (simp add: lib_resolve_limit_time_def resolve_limit_time_def Let_def)
qed

lemma type_to_tr_short: "length (type_to_tr (\<lambda>s. s) t) \<le> 16"
  by (simp add: type_to_tr_def)

lemma show_int_length: "int_range n \<Longrightarrow> 1 < n \<Longrightarrow> length (show_int n) \<le> 10"
  using show_int_short [of 10 n] by (simp add: int_range_def)

lemma retry_texts:
  assumes "int_range n" and "t \<noteq> flag_value AUTH_FLAG_IRIS"
  shows "\<exists>text. retry_failure (\<lambda>s. s) [] t n = Inr text
    \<and> (if n > 1 then
         (if t = at_flag AT_Password then print_at [] ''Password verification failed, %d chances left'' [PD n]
          else print_at [] ''%s verification failed, %d chances left'' [PS (type_to_tr (\<lambda>s. s) t), PD n])
       else
         (if t = at_flag AT_Password then print_at [] ''Password verification failed, only one chance left'' []
          else print_at [] ''%s verification failed, only one chance left'' [PS (type_to_tr (\<lambda>s. s) t)]))
       = Inr text"
proof -
  have tr: "lib_type_to_tr (\<lambda>s. s) t = type_to_tr (\<lambda>s. s) t"
    using assms(2) by (simp add: type_to_tr_def lib_type_to_tr_def flag_value_def)
  note texts = retry_failure_def put_text_def print_at_def flag_value_def tr
  show ?thesis
  proof (cases "n > 1")
    case True
    with show_int_length [OF assms(1)] type_to_tr_short [of t] show ?thesis
      by (simp add: texts snprintf_into_def)
  next
    case False
    with type_to_tr_short [of t] show ?thesis by (simp add: texts snprintf_into_def)
  qed
qed

text \<open>
  C27: the prompts of the module and the library after a failure. On untranslated texts, away from a
  terminal, for an unlocked type other than iris, they are the same, with one exception: a limit of 0
  tries, which the library takes for a type that is never locked and announces as a plain failure, is
  announced by the module as the last chance.
\<close>
theorem fail_prompts:
  assumes "gettext (de_sys D) = (\<lambda>s. s)" and "\<not> stdin_tty (de_sys D)" and "\<not> ud_term ud"
    and "is_valid_auth_flag t" and "t \<noteq> flag_value AUTH_FLAG_IRIS"
    and "int_range (maxTries l - numFailures l)" and "0 \<le> numFailures l" and "\<not> locked l"
    and "lib_deref (px_username p) st = Inr u"
    and "get_limit_info_priv D (Some p) u t st = Inr (Some dl, st')" and "same_limit l dl"
  shows "\<exists>text. sfa_fail_msg (de_sys D) ud t l = Inr text
    \<and> da_get_fail_prompt D (Some p) t True st =
        Inr (0, Some (if maxTries l = 0 then take (length text - length '', only one chance left'') text else text), st')"
proof -
  let ?n = "maxTries l - numFailures l"
  have tr: "lib_type_to_tr (\<lambda>s. s) t = type_to_tr (\<lambda>s. s) t"
    using assms(5) by (simp add: type_to_tr_def lib_type_to_tr_def flag_value_def)
  have c: "c_sub (maxTries l) (numFailures l) = Inr ?n" using assms(6) by (simp add: c_sub_def)
  obtain msg where msg: "retry_failure (\<lambda>s. s) [] t ?n = Inr msg"
    and pam: "sfa_fail_msg (de_sys D) ud t l = Inr msg"
    using retry_texts [OF assms(6,5)] assms(1,3,8) c
    by (auto simp: sfa_fail_msg_def newline_first_def Let_def split: if_splits)
  have lib: "da_get_fail_prompt D (Some p) t True st =
      (if maxTries l = 0 then cbind (plain_failure (\<lambda>s. s) [] t) (\<lambda>x. Inr (0, Some x, st'))
       else Inr (0, Some msg, st'))"
    using assms(1,2,4,8-11) c msg by (simp add: da_get_fail_prompt_def same_limit_def Let_def)
  show ?thesis
  proof (cases "maxTries l = 0")
    case False
    with lib pam show ?thesis by auto
  next
    case True
    then have last: "\<not> ?n > 1" using assms(7) by simp
    have "plain_failure (\<lambda>s. s) [] t = Inr (take (length msg - length '', only one chance left'') msg)"
      using msg last type_to_tr_short [of t]
      by (auto simp: retry_failure_def plain_failure_def put_text_def tr snprintf_into_def split: if_splits)
    with True lib pam show ?thesis by auto
  qed
qed

text \<open>A proxy with a user name, and a service that reports a fingerprint limit of 0 tries.\<close>

definition named_proxy :: "nat da_proxy" where
  "named_proxy = (fst manager_only)\<lparr>px_username := Some 2\<rparr>"

definition unlimited_env :: "(json, nat) da_env" where
  "unlimited_env = sample_da_env sample_da_bus [Some (full_limit 2 0 1 False [])]"

lemma unlimited_limit:
  "get_limit_info_priv unlimited_env (Some named_proxy) [] 2 (snd manager_only) =
     Inr (Some \<lparr>li_type = Some [], li_locked = False, li_max_tries = 0, li_fail_num = 1,
                li_unlock_time = Some [], li_flag = 2, li_unlock_secs = 0\<rparr>,
          lib_log (L_GetLimits []) (snd manager_only))"
  by (simp add: get_limit_info_priv_def da_get_limits_def on_manager_def has_valid_authenticate_proxy_def
      value_call_def limit_json_deal_def json_tokener_parse_def limit_entry_def limit_keys_def g_strlcpy_def
      da_get_auth_limit_info_def is_valid_auth_flag_def flag_value_def unlimited_env_def sample_da_env_def
      sample_da_bus_def json_view_def full_limit_def named_proxy_def manager_only_def new_proxy_def)

lemma fail_prompts_witness:
  "\<exists>st'. sfa_fail_msg (sample_sys [] []) init_user_data 2
      \<lparr>maxTries = 0, numFailures = 1, locked = False, unlockTime = []\<rparr>
      = Inr ''Fingerprint verification failed, only one chance left''
    \<and> da_get_fail_prompt unlimited_env (Some named_proxy) 2 True (snd manager_only)
      = Inr (0, Some ''Fingerprint verification failed'', st')"
proof -
  let ?l = "\<lparr>maxTries = 0, numFailures = 1, locked = False, unlockTime = []\<rparr>"
  have sys: "de_sys unlimited_env = sample_sys [] []" by (simp add: unlimited_env_def sample_da_env_def)
  have u: "lib_deref (px_username named_proxy) (snd manager_only) = Inr []"
    by (simp add: lib_deref_def named_proxy_def manager_only_def empty_lib_def)
  have m: "sfa_fail_msg (sample_sys [] []) init_user_data 2 ?l
      = Inr ''Fingerprint verification failed, only one chance left''"
    by code_simp
  have "\<exists>text. sfa_fail_msg (de_sys unlimited_env) init_user_data 2 ?l = Inr text
      \<and> da_get_fail_prompt unlimited_env (Some named_proxy) 2 True (snd manager_only)
        = Inr (0, Some (if maxTries ?l = 0 then take (length text - length '', only one chance left'') text else text),
               lib_log (L_GetLimits []) (snd manager_only))"
    by (rule fail_prompts [OF _ _ _ _ _ _ _ _ u unlimited_limit])
      (simp_all add: sys sample_sys_def init_user_data_def is_valid_auth_flag_def flag_value_def same_limit_def
        int_range_def)
  then show ?thesis unfolding sys m by simp
qed

subsection \<open>Examples for the properties of the module's loop\<close>

lemma busy_run:
  "run_ends (sample_env 0 ''secret'') ask_password (\<lambda>p. token_thread_busy (pm_ud p))"
  "run_ends (sample_env 0 ''secret'') (ask_password @ [Ev_Bus_Error]) (\<lambda>p. True)"
  by code_simp+

lemma single_token_thread_witness:
  "\<exists>p q. pam_step (sample_env 0 ''secret'') Ev_Bus_Error p q \<and> token_thread_busy (pm_ud p)
     \<and> ud_thr (pm_ud q) = ud_thr (pm_ud p) \<and> ud_pid (pm_ud q)"
proof -
  obtain p q where s: "pam_step (sample_env 0 ''secret'') Ev_Bus_Error p q" and b: "token_thread_busy (pm_ud p)"
    using run_ends_stepD [OF busy_run(2,1)] by blast
  from single_token_thread [OF s b] s b show ?thesis by blast
qed



end
